(* ===== verification/Remedy_Prelude.thy ===== *)
theory Remedy_Prelude
  imports Main "HOL-Library.Word" "HOL-Library.Sublist" "HOL-Library.Multiset"
begin

text \<open>
  Shared ground of the development: the lemma collections, Go's 64-bit integers and
  durations with their wrap-around, the functions of Go's \<open>strings\<close> package the
  repository uses, and Go's string-keyed maps with their nil value.
\<close>

named_theorems run_simps \<open>equations that run an operation of the model by one step\<close>
named_theorems trace_rules \<open>what each effectful operation appends to the history\<close>

section \<open>Machine integers and durations\<close>

text \<open>
  \<open>int\<close> and \<open>time.Duration\<close> are 64-bit two's complement integers on the platforms the
  program is built for. A duration counts nanoseconds; an instant is an unbounded integer
  number of nanoseconds.
\<close>

type_synonym go_int = "64 word"
type_synonym duration = "64 word"
type_synonym instant = int

abbreviation second :: duration where
  "second \<equiv> 1000000000"

abbreviation minute :: duration where
  "minute \<equiv> 60000000000"

abbreviation hour :: duration where
  "hour \<equiv> 3600000000000"

definition go_less :: "go_int \<Rightarrow> go_int \<Rightarrow> bool" where
  "go_less a b \<longleftrightarrow> sint a < sint b"

text \<open>
  Go's \<open>1 << k\<close> at type \<open>int64\<close>: a negative count panics (\<open>None\<close>), a count of 64 or more
  shifts every bit out.
\<close>

definition shift_one :: "go_int \<Rightarrow> duration option" where
  "shift_one k = (if sint k < 0 then None else Some (push_bit (nat (sint k)) 1))"

lemma sint_of_int_small:
  "- (2 ^ 63) \<le> k \<Longrightarrow> k < 2 ^ 63 \<Longrightarrow> sint (of_int k :: 64 word) = k"
  by (simp add: sint_sbintrunc' signed_take_bit_int_eq_self)

lemma sint_mult_pow2:
  fixes i :: duration
  assumes "0 \<le> sint i" "sint i * 2 ^ n < 2 ^ 63"
  shows "sint (i * push_bit n 1) = sint i * 2 ^ n"
proof -
  have "i * push_bit n 1 = of_int (sint i * 2 ^ n)"
    by (simp add: push_bit_eq_mult)
  moreover have "- (2 ^ 63) \<le> sint i * 2 ^ n"
    using assms(1) by (smt (verit) zero_le_mult_iff zero_le_power)
  ultimately show ?thesis using assms(2) sint_of_int_small by metis
qed

text \<open>\<open>a + 1\<close> on an \<open>int\<close> that has not reached its maximum.\<close>

lemma sint_plus_one: "sint (a :: go_int) < 2 ^ 63 - 1 \<Longrightarrow> sint (a + 1) = sint a + 1"
  using sint_greater_eq [of a]
  by (simp add: sint_word_add signed_take_bit_int_eq_self)

lemma sint_minus_one: "- (2 ^ 63) < sint (a :: go_int) \<Longrightarrow> sint (a - 1) = sint a - 1"
  using sint_less [of a]
  by (simp add: sint_word_diff signed_take_bit_int_eq_self)

section \<open>Strings\<close>

text \<open>
  \<open>strings.Split(s, sep)\<close>: the pieces between the non-overlapping occurrences of \<open>sep\<close>,
  found from left to right. An empty separator explodes the string into its characters
  (bytes here: the names and labels it is applied to are ASCII).
\<close>

function split_from :: "string \<Rightarrow> string \<Rightarrow> string \<Rightarrow> string list" where
  "split_from sep piece [] = [rev piece]"
| "split_from sep piece (c # cs) =
     (if prefix sep (c # cs)
      then rev piece # split_from sep [] (drop (length sep - 1) cs)
      else split_from sep (c # piece) cs)"
  by pat_completeness auto
termination
  by (relation "measure (\<lambda>(sep, piece, s). length s)") auto

definition str_split :: "string \<Rightarrow> string \<Rightarrow> string list" where
  "str_split s sep = (if sep = [] then map (\<lambda>c. [c]) s else split_from sep [] s)"

definition str_indices :: "string \<Rightarrow> string \<Rightarrow> nat list" where
  "str_indices s sub = filter (\<lambda>i. prefix sub (drop i s)) [0 ..< Suc (length s)]"

text \<open>\<open>strings.LastIndex(s, sub)\<close>: the last position of \<open>sub\<close> in \<open>s\<close>, -1 if there is none.\<close>

definition str_last_index :: "string \<Rightarrow> string \<Rightarrow> int" where
  "str_last_index s sub =
     (let ps = str_indices s sub in if ps = [] then -1 else int (last ps))"

text \<open>\<open>strings.Contains(s, sub)\<close>.\<close>

definition str_contains :: "string \<Rightarrow> string \<Rightarrow> bool" where
  "str_contains s sub \<longleftrightarrow> str_indices s sub \<noteq> []"

lemma prefix_drop_single:
  "prefix [c] (drop i s) \<longleftrightarrow> i < length s \<and> s ! i = c"
  by (cases "i < length s") (auto simp: Cons_nth_drop_Suc [symmetric])

lemma set_str_indices:
  "i \<in> set (str_indices s sub) \<longleftrightarrow> i \<le> length s \<and> prefix sub (drop i s)"
  by (auto simp: str_indices_def simp del: upt_Suc)

lemma str_contains_iff: "str_contains s sub \<longleftrightarrow> (\<exists>u v. s = u @ sub @ v)"
proof
  assume "str_contains s sub"
  then obtain i where "i \<in> set (str_indices s sub)"
    unfolding str_contains_def by (meson last_in_set)
  then obtain v where "drop i s = sub @ v" by (auto simp: set_str_indices prefix_def)
  then have "s = take i s @ sub @ v" by (metis append_take_drop_id)
  then show "\<exists>u v. s = u @ sub @ v" by blast
next
  assume "\<exists>u v. s = u @ sub @ v"
  then obtain u v where "s = u @ sub @ v" by blast
  then have "length u \<in> set (str_indices s sub)" by (simp add: set_str_indices)
  then show "str_contains s sub" by (auto simp: str_contains_def)
qed

lemma split_from_no_sep:
  "c \<notin> set s \<Longrightarrow> split_from [c] piece s = [rev piece @ s]"
  by (induction s arbitrary: piece) auto

lemma split_from_one_sep:
  "c \<notin> set u \<Longrightarrow> split_from [c] piece (u @ c # v) = (rev piece @ u) # split_from [c] [] v"
  by (induction u arbitrary: piece) auto

text \<open>The last position of a character in a string that ends with a piece free of it.\<close>

lemma str_last_index_single:
  assumes "c \<notin> set v"
  shows "str_last_index (u @ c # v) [c] = int (length u)"
proof -
  let ?s = "u @ c # v" and ?P = "\<lambda>i. prefix [c] (drop i (u @ c # v))"
  have split: "[0 ..< Suc (length ?s)] =
      [0 ..< length u] @ length u # [Suc (length u) ..< Suc (length ?s)]"
    using upt_add_eq_append [of 0 "length u" "Suc (Suc (length v))"]
    by (simp add: upt_conv_Cons del: upt_Suc)
  have "filter ?P [Suc (length u) ..< Suc (length ?s)] = []"
    using assms by (auto simp: filter_empty_conv prefix_drop_single nth_append nth_Cons'
        simp del: upt_Suc dest: nth_mem)
  then have "str_indices ?s [c] = filter ?P [0 ..< length u] @ [length u]"
    unfolding str_indices_def split by (simp add: prefix_drop_single del: upt_Suc drop_append)
  then show ?thesis by (simp add: str_last_index_def Let_def)
qed

lemma str_last_index_none:
  assumes "c \<notin> set s"
  shows "str_last_index s [c] = -1"
proof -
  have "str_indices s [c] = []"
    using assms by (auto simp: str_indices_def filter_empty_conv prefix_drop_single
        simp del: upt_Suc dest: nth_mem)
  then show ?thesis by (simp add: str_last_index_def)
qed

section \<open>String maps\<close>

text \<open>
  \<open>map[string]string\<close>: \<open>None\<close> is Go's nil map, which reads as empty and panics when
  written. Reading an absent key gives the empty string.
\<close>

type_synonym strmap = "(string \<rightharpoonup> string) option"

definition map_get :: "strmap \<Rightarrow> string \<Rightarrow> string" where
  "map_get m k = (case m of None \<Rightarrow> '''' | Some f \<Rightarrow> (case f k of None \<Rightarrow> '''' | Some v \<Rightarrow> v))"

text \<open>\<open>delete(m, k)\<close>: no effect on a nil map.\<close>

definition map_delete :: "strmap \<Rightarrow> string \<Rightarrow> strmap" where
  "map_delete m k = map_option (\<lambda>f. f(k := None)) m"

lemma map_get_delete [simp]:
  "map_get (map_delete m k) k' = (if k' = k then '''' else map_get m k')"
  by (cases m) (auto simp: map_get_def map_delete_def)

text \<open>\<open>strconv.FormatBool\<close>.\<close>

definition format_bool :: "bool \<Rightarrow> string" where
  "format_bool b = (if b then ''true'' else ''false'')"

section \<open>Iteration over a Go map\<close>

text \<open>
  A \<open>range\<close> over a map visits every key once, in an order the runtime chooses. \<open>choice\<close>
  stands for the runtime; a choice that is not a reordering of the keys is read as the
  insertion order, so every order is covered and nothing has to be assumed.
\<close>

definition range_keys :: "(string list \<Rightarrow> string list) \<Rightarrow> string list \<Rightarrow> string list" where
  "range_keys choice ks = (if mset (choice ks) = mset ks then choice ks else ks)"

lemma mset_range_keys [simp]: "mset (range_keys choice ks) = mset ks"
  by (simp add: range_keys_def)

lemma set_range_keys [simp]: "set (range_keys choice ks) = set ks"
  by (metis mset_range_keys set_mset_mset)

lemma length_range_keys [simp]: "length (range_keys choice ks) = length ks"
  by (metis mset_range_keys size_mset)

end
