(* ===== verification/Api_Types.thy ===== *)
theory Api_Types
  imports Remedy_Prelude
begin

text \<open>
  The data the program works on: its own custom resources and configuration
  (\<open>pkg/apis/azure/v1alpha1\<close>, \<open>pkg/apis/config\<close>), the fields it reads and writes of the
  Kubernetes core objects, and the fields it reads and writes of the Azure SDK's objects.
  A pointer field is an \<open>option\<close>; a field no operation looks at is left out, or kept as
  one opaque value where the operation hands the object on.
\<close>

section \<open>Errors\<close>

text \<open>
  Go error values by how they were made. \<open>DetailedError\<close> is the Azure SDK's error; its status
  is an interface value, \<open>None\<close> when it does not hold an \<open>int\<close>. \<open>Errorf\<close> is \<open>fmt.Errorf\<close> with
  \<open>%w\<close>, which \<open>errors.Cause\<close> does not see through. \<open>ApiError\<close> is any error of the Kubernetes
  client, \<open>ExternalError\<close> any other error of a library.
\<close>

datatype goerr =
    NewError string
  | Wrap string goerr
  | DetailedError "int option" string
  | RequeueAfterError goerr duration
  | Errorf string goerr
  | ApiError string
  | ExternalError string

section \<open>Object metadata\<close>

text \<open>
  \<open>*metav1.Time\<close>: the address matters as well as the instant, because parts of the code
  compare the pointers.
\<close>

datatype time_ptr = TimePtr (ptr_address: nat) (ptr_time: instant)

record object_meta =
  meta_name :: string
  meta_namespace :: string
  meta_labels :: strmap
  meta_annotations :: strmap
  meta_finalizers :: "string list"
  meta_deletion_timestamp :: "time_ptr option"
  meta_resource_version :: string

definition empty_meta :: object_meta where
  "empty_meta = \<lparr>meta_name = '''', meta_namespace = '''', meta_labels = None,
     meta_annotations = None, meta_finalizers = [], meta_deletion_timestamp = None,
     meta_resource_version = ''''\<rparr>"

record object_key =
  key_namespace :: string
  key_name :: string

section \<open>Custom resources\<close>

datatype operation_type =
    OperationTypeGetPublicIPAddress
  | OperationTypeCleanPublicIPAddress
  | OperationTypeGetVirtualMachine
  | OperationTypeReapplyVirtualMachine

record failed_operation =
  fo_type :: operation_type
  fo_attempts :: go_int
  fo_error_message :: string
  fo_timestamp :: instant

text \<open>
  The provisioning state of an Azure resource, by the constants the code compares with;
  any other text, the empty one included, is \<open>OtherState\<close>.
\<close>

datatype provisioning_state = Succeeded | Failed | OtherState string

record pip_spec =
  ps_ip_address :: string

record pip_status =
  ps_exists :: bool
  ps_id :: "string option"
  ps_name :: "string option"
  ps_provisioning_state :: "provisioning_state option"
  ps_failed_operations :: "failed_operation list"

record public_ip_address =
  pip_meta :: object_meta
  pip_spec :: pip_spec
  pip_status :: pip_status

record vm_spec =
  vs_hostname :: string
  vs_provider_id :: string
  vs_not_ready_or_unreachable :: bool

record vm_status =
  vs_exists :: bool
  vs_id :: "string option"
  vs_name :: "string option"
  vs_provisioning_state :: "provisioning_state option"
  vs_failed_operations :: "failed_operation list"

record virtual_machine =
  vm_meta :: object_meta
  vm_spec :: vm_spec
  vm_status :: vm_status

definition empty_pip_status :: pip_status where
  "empty_pip_status = \<lparr>ps_exists = False, ps_id = None, ps_name = None,
     ps_provisioning_state = None, ps_failed_operations = []\<rparr>"

definition empty_vm_status :: vm_status where
  "empty_vm_status = \<lparr>vs_exists = False, vs_id = None, vs_name = None,
     vs_provisioning_state = None, vs_failed_operations = []\<rparr>"

section \<open>Kubernetes core objects\<close>

datatype service_type = ServiceTypeLoadBalancer | OtherServiceType string

record ingress =
  ingress_ip :: string

record service =
  svc_meta :: object_meta
  svc_type :: service_type
  svc_ingress :: "ingress list"

datatype condition_type = NodeReady | OtherCondition string
datatype condition_status = ConditionTrue | ConditionFalse | ConditionUnknown

record node_condition =
  cond_type :: condition_type
  cond_status :: condition_status

record taint =
  taint_key :: string

record node =
  node_meta :: object_meta
  node_provider_id :: string
  node_taints :: "taint list"
  node_conditions :: "node_condition list"

section \<open>client.Object\<close>

text \<open>The objects the controllers reconcile; \<open>client.Object\<close> is an interface over them.\<close>

datatype k8s_object =
    Service service
  | Node node
  | PublicIPAddress public_ip_address
  | VirtualMachine virtual_machine

datatype kind = ServiceKind | NodeKind | PublicIPAddressKind | VirtualMachineKind

fun obj_meta :: "k8s_object \<Rightarrow> object_meta" where
  "obj_meta (Service s) = svc_meta s"
| "obj_meta (Node n) = node_meta n"
| "obj_meta (PublicIPAddress p) = pip_meta p"
| "obj_meta (VirtualMachine v) = vm_meta v"

fun obj_kind :: "k8s_object \<Rightarrow> kind" where
  "obj_kind (Service s) = ServiceKind"
| "obj_kind (Node n) = NodeKind"
| "obj_kind (PublicIPAddress p) = PublicIPAddressKind"
| "obj_kind (VirtualMachine v) = VirtualMachineKind"

definition obj_key :: "k8s_object \<Rightarrow> object_key" where
  "obj_key ob =
     \<lparr>key_namespace = meta_namespace (obj_meta ob), key_name = meta_name (obj_meta ob)\<rparr>"

definition new_pip :: "string \<Rightarrow> string \<Rightarrow> public_ip_address" where
  "new_pip ns n = \<lparr>pip_meta = empty_meta\<lparr>meta_name := n, meta_namespace := ns\<rparr>,
     pip_spec = \<lparr>ps_ip_address = ''''\<rparr>, pip_status = empty_pip_status\<rparr>"

definition new_vm :: "string \<Rightarrow> string \<Rightarrow> virtual_machine" where
  "new_vm ns n = \<lparr>vm_meta = empty_meta\<lparr>meta_name := n, meta_namespace := ns\<rparr>,
     vm_spec = \<lparr>vs_hostname = '''', vs_provider_id = '''', vs_not_ready_or_unreachable = False\<rparr>,
     vm_status = empty_vm_status\<rparr>"

text \<open>The zero object of a kind with the given name and namespace.\<close>

fun zero_object :: "kind \<Rightarrow> object_key \<Rightarrow> k8s_object" where
  "zero_object ServiceKind k =
     Service \<lparr>svc_meta = empty_meta\<lparr>meta_name := key_name k, meta_namespace := key_namespace k\<rparr>,
       svc_type = OtherServiceType '''', svc_ingress = []\<rparr>"
| "zero_object NodeKind k =
     Node \<lparr>node_meta = empty_meta\<lparr>meta_name := key_name k, meta_namespace := key_namespace k\<rparr>,
       node_provider_id = '''', node_taints = [], node_conditions = []\<rparr>"
| "zero_object PublicIPAddressKind k = PublicIPAddress (new_pip (key_namespace k) (key_name k))"
| "zero_object VirtualMachineKind k = VirtualMachine (new_vm (key_namespace k) (key_name k))"

lemma zero_object_kind [simp]: "obj_kind (zero_object k key) = k"
  by (cases k) simp_all

lemma zero_object_key [simp]: "obj_key (zero_object k key) = key"
  by (cases k) (simp_all add: obj_key_def new_pip_def new_vm_def)

section \<open>Azure objects\<close>

record az_public_ip =
  az_ip_id :: "string option"
  az_ip_name :: "string option"
  az_ip_address :: "string option"
  az_ip_provisioning_state :: "provisioning_state option"
  az_ip_tags :: "string \<rightharpoonup> string option"

record az_vm =
  az_vm_id :: "string option"
  az_vm_name :: "string option"
  az_vm_provisioning_state :: "provisioning_state option"

record sub_resource =
  sr_id :: "string option"

record frontend_ip_configuration =
  fc_id :: "string option"
  fc_public_ip :: "az_public_ip option"
  fc_rest :: string

record load_balancing_rule =
  lr_id :: "string option"
  lr_frontend :: "sub_resource option"
  lr_rest :: string

record probe =
  pr_rules :: "sub_resource list option"
  pr_rest :: string

record load_balancer =
  lb_frontend_ip_configurations :: "frontend_ip_configuration list option"
  lb_rules :: "load_balancing_rule list option"
  lb_probes :: "probe list option"
  lb_rest :: string

text \<open>A page of a public IP listing: what its methods \<open>NotDone\<close> and \<open>Values\<close> return.\<close>

record pip_page =
  page_not_done :: bool
  page_values :: "az_public_ip list"

section \<open>Configuration\<close>

record pip_config =
  pc_requeue_interval :: duration
  pc_sync_period :: duration
  pc_service_sync_period :: duration
  pc_deletion_grace_period :: duration
  pc_max_get_attempts :: go_int
  pc_max_clean_attempts :: go_int

record vm_config =
  vc_requeue_interval :: duration
  vc_sync_period :: duration
  vc_node_sync_period :: duration
  vc_max_get_attempts :: go_int
  vc_max_reapply_attempts :: go_int

text \<open>\<open>pkg/controller/azure/constants.go\<close>.\<close>

definition IgnoreAnnotation :: string where
  "IgnoreAnnotation = ''azure.remedy.gardener.cloud/ignore''"

definition DoNotCleanAnnotation :: string where
  "DoNotCleanAnnotation = ''azure.remedy.gardener.cloud/do-not-clean''"

definition ServiceLabel :: string where
  "ServiceLabel = ''azure.remedy.gardener.cloud/service''"

definition NodeLabel :: string where
  "NodeLabel = ''azure.remedy.gardener.cloud/node''"

end
