(* ===== verification/Effects.thy ===== *)
theory Effects
  imports Api_Types
begin

text \<open>
  The effects of the program. Everything that is not code of the repository (the Azure SDK,
  the Kubernetes client and its helpers, the error library, the clock, the metrics registry)
  is a field of the record \<open>env\<close>: an arbitrary function, for the effectful ones of the
  whole history of calls made so far, so nothing is assumed of it. An operation of the
  program runs in an environment, from a history to an outcome and a longer history; each
  external call appends one event holding its arguments and its response. What an operation
  does is then a statement about the events it appends (\<open>yields\<close>).
\<close>

section \<open>Events\<close>

datatype metric = ReadRequests | WriteRequests | CleanedIPs | ReappliedVMs

text \<open>The values of the VM states gauge.\<close>

datatype vm_gauge = VMStateOK | VMStateFailedWillReapply | VMStateFailed

datatype event =
    ClockNow instant
  | CounterInc metric
  | GaugeSet string vm_gauge
  | GaugeDelete string
  | Sleep duration
  | AzPipGet string string "goerr + az_public_ip"
  | AzPipList string "goerr + pip_page"
  | AzPipNext pip_page "goerr + pip_page"
  | AzPipDelete string string "goerr option"
  | AzPipDeleteWait "goerr option"
  | AzLbGet string string "goerr + load_balancer"
  | AzLbUpdate string string load_balancer "goerr option"
  | AzLbUpdateWait "goerr option"
  | AzVmGet string string "goerr + az_vm"
  | AzVmReapply string string "goerr option"
  | AzVmReapplyWait "goerr option"
  | KGet kind object_key "goerr + k8s_object"
  | KListPips string strmap "goerr + public_ip_address list"
  | KListServices "goerr + service list"
  | KDelete k8s_object "goerr option"
  | KUpdatePip public_ip_address "goerr option" public_ip_address
  | KCreateOrUpdatePip public_ip_address "goerr option" public_ip_address
  | KCreateOrUpdateVm virtual_machine "goerr option" virtual_machine
  | KPatchPip public_ip_address "goerr option" public_ip_address
  | KPatchVm virtual_machine "goerr option" virtual_machine
  | KAddFinalizer k8s_object string "goerr option"
  | KRemoveFinalizer k8s_object string "goerr option"

type_synonym trace = "event list"

datatype 'a outcome = Returned 'a | Panicked string | OutOfFuel

section \<open>The environment\<close>

text \<open>
  The fields from \<open>isNotFound\<close> to \<open>isConflict\<close> are library functions of the Kubernetes
  packages and of \<open>pkg/errors\<close>; \<open>retrySteps\<close> is how often client-go's default backoff tries
  again, \<open>pageFuel\<close> bounds the pages a listing is followed for. The
  client fields are named after the methods of \<open>pkg/client/azure/client.go\<close> and of
  controller-runtime's \<open>client.Client\<close>.
\<close>

record env =
  isNotFound :: "goerr \<Rightarrow> bool"
  ignoreNotFound :: "goerr option \<Rightarrow> goerr option"
  errorsCause :: "goerr \<Rightarrow> goerr"
  errorText :: "goerr \<Rightarrow> string"
  containsFinalizer :: "k8s_object \<Rightarrow> string \<Rightarrow> bool"
  namespacedNameString :: "object_key \<Rightarrow> string"
  isConflict :: "goerr \<Rightarrow> bool"
  retrySteps :: nat
  pageFuel :: nat
  clockNow :: "trace \<Rightarrow> instant"
  ctxDone :: "trace \<Rightarrow> bool"
  rangeOrder :: "trace \<Rightarrow> string list \<Rightarrow> string list"
  azPipGet :: "trace \<Rightarrow> string \<Rightarrow> string \<Rightarrow> goerr + az_public_ip"
  azPipList :: "trace \<Rightarrow> string \<Rightarrow> goerr + pip_page"
  azPipNext :: "trace \<Rightarrow> pip_page \<Rightarrow> goerr + pip_page"
  azPipDelete :: "trace \<Rightarrow> string \<Rightarrow> string \<Rightarrow> goerr option"
  azPipDeleteWait :: "trace \<Rightarrow> goerr option"
  azLbGet :: "trace \<Rightarrow> string \<Rightarrow> string \<Rightarrow> goerr + load_balancer"
  azLbUpdate :: "trace \<Rightarrow> string \<Rightarrow> string \<Rightarrow> load_balancer \<Rightarrow> goerr option"
  azLbUpdateWait :: "trace \<Rightarrow> goerr option"
  azVmGet :: "trace \<Rightarrow> string \<Rightarrow> string \<Rightarrow> goerr + az_vm"
  azVmReapply :: "trace \<Rightarrow> string \<Rightarrow> string \<Rightarrow> goerr option"
  azVmReapplyWait :: "trace \<Rightarrow> goerr option"
  kGet :: "trace \<Rightarrow> kind \<Rightarrow> object_key \<Rightarrow> goerr + k8s_object"
  kListPips :: "trace \<Rightarrow> string \<Rightarrow> strmap \<Rightarrow> goerr + public_ip_address list"
  kListServices :: "trace \<Rightarrow> goerr + service list"
  kDelete :: "trace \<Rightarrow> k8s_object \<Rightarrow> goerr option"
  kUpdatePip :: "trace \<Rightarrow> public_ip_address \<Rightarrow> goerr option \<times> public_ip_address"
  kCreateOrUpdatePip :: "trace \<Rightarrow> public_ip_address \<Rightarrow>
     (public_ip_address \<Rightarrow> public_ip_address) \<Rightarrow> goerr option \<times> public_ip_address"
  kCreateOrUpdateVm :: "trace \<Rightarrow> virtual_machine \<Rightarrow>
     (virtual_machine \<Rightarrow> virtual_machine) \<Rightarrow> goerr option \<times> virtual_machine"
  kPatchPip :: "trace \<Rightarrow> public_ip_address \<Rightarrow>
     (public_ip_address \<Rightarrow> public_ip_address) \<Rightarrow> goerr option \<times> public_ip_address"
  kPatchVm :: "trace \<Rightarrow> virtual_machine \<Rightarrow>
     (virtual_machine \<Rightarrow> virtual_machine) \<Rightarrow> goerr option \<times> virtual_machine"
  kAddFinalizer :: "trace \<Rightarrow> k8s_object \<Rightarrow> string \<Rightarrow> goerr option \<times> k8s_object"
  kRemoveFinalizer :: "trace \<Rightarrow> k8s_object \<Rightarrow> string \<Rightarrow> goerr option"

section \<open>Operations with effects\<close>

text \<open>
  The combinators work over any environment \<open>'e\<close> and any kind of events \<open>'v\<close>; the
  controllers use \<open>env\<close> and \<open>event\<close>.
\<close>

type_synonym ('e, 'v, 'a) effect = "'e \<Rightarrow> 'v list \<Rightarrow> 'a outcome \<times> 'v list"

type_synonym 'a io = "(env, event, 'a) effect"

definition ret :: "'a \<Rightarrow> ('e, 'v, 'a) effect" where
  "ret a = (\<lambda>e t. (Returned a, t))"

definition panic :: "string \<Rightarrow> ('e, 'v, 'a) effect" where
  "panic msg = (\<lambda>e t. (Panicked msg, t))"

definition out_of_fuel :: "('e, 'v, 'a) effect" where
  "out_of_fuel = (\<lambda>e t. (OutOfFuel, t))"

definition seq :: "('e, 'v, 'a) effect \<Rightarrow> ('a \<Rightarrow> ('e, 'v, 'b) effect) \<Rightarrow> ('e, 'v, 'b) effect" where
  "seq m f = (\<lambda>e t. case m e t of
      (Returned a, t') \<Rightarrow> f a e t'
    | (Panicked msg, t') \<Rightarrow> (Panicked msg, t')
    | (OutOfFuel, t') \<Rightarrow> (OutOfFuel, t'))"

text \<open>A library function without effects.\<close>

definition ask :: "('e \<Rightarrow> 'a) \<Rightarrow> ('e, 'v, 'a) effect" where
  "ask q = (\<lambda>e t. (Returned (q e), t))"

text \<open>A choice of the Go runtime, which may be a different one every time.\<close>

definition ask_at :: "('e \<Rightarrow> 'v list \<Rightarrow> 'a) \<Rightarrow> ('e, 'v, 'a) effect" where
  "ask_at q = (\<lambda>e t. (Returned (q e t), t))"

text \<open>An external call: the environment answers from the history, and the event is recorded.\<close>

definition ecall :: "('e \<Rightarrow> 'v list \<Rightarrow> 'a) \<Rightarrow> ('a \<Rightarrow> 'v) \<Rightarrow> ('e, 'v, 'a) effect" where
  "ecall q ev = (\<lambda>e t. let r = q e t in (Returned r, t @ [ev r]))"

definition emit :: "'v \<Rightarrow> ('e, 'v, unit) effect" where
  "emit ev = ecall (\<lambda>_ _. ()) (\<lambda>_. ev)"

text \<open>\<open>*p\<close> for a pointer \<open>p\<close>: a nil pointer panics.\<close>

definition deref :: "'a option \<Rightarrow> ('e, 'v, 'a) effect" where
  "deref p = (case p of None \<Rightarrow> panic ''nil pointer dereference'' | Some a \<Rightarrow> ret a)"

text \<open>A loop over a slice that returns at the first error.\<close>

fun for_each :: "'a list \<Rightarrow> ('a \<Rightarrow> ('e, 'v, goerr option) effect) \<Rightarrow> ('e, 'v, goerr option) effect" where
  "for_each [] f = ret None"
| "for_each (x # xs) f =
     seq (f x) (\<lambda>r. case r of Some err \<Rightarrow> ret (Some err) | None \<Rightarrow> for_each xs f)"

text \<open>
  \<open>retry.RetryOnConflict(retry.DefaultBackoff, f)\<close>: \<open>f\<close> is called again while it returns a
  conflict and the backoff has steps left. The closure works on a variable of its caller, which
  is passed along: each try starts from what the previous one left in it.
\<close>

fun retry_conflicts :: "nat \<Rightarrow> ('s \<Rightarrow> (goerr option \<times> 's) io) \<Rightarrow> 's \<Rightarrow> (goerr option \<times> 's) io" where
  "retry_conflicts 0 f s = f s"
| "retry_conflicts (Suc n) f s =
     seq (f s) (\<lambda>(r, s').
     case r of
       None \<Rightarrow> ret (None, s')
     | Some err \<Rightarrow>
         seq (ask (\<lambda>e. isConflict e err)) (\<lambda>conflict.
         if conflict then retry_conflicts n f s' else ret (Some err, s')))"

definition RetryOnConflict :: "('s \<Rightarrow> (goerr option \<times> 's) io) \<Rightarrow> 's \<Rightarrow> (goerr option \<times> 's) io" where
  "RetryOnConflict f s = seq (ask retrySteps) (\<lambda>n. retry_conflicts n f s)"

text \<open>The metrics and the clock.\<close>

abbreviation counter_inc :: "metric \<Rightarrow> unit io" where
  "counter_inc m \<equiv> emit (CounterInc m)"

definition now :: "instant io" where
  "now = ecall clockNow ClockNow"

section \<open>What an operation appends to the history\<close>

definition yields :: "'e \<Rightarrow> ('e, 'v, 'a) effect \<Rightarrow> ('a outcome \<Rightarrow> 'v list \<Rightarrow> bool) \<Rightarrow> bool" where
  "yields e m Q \<longleftrightarrow> (\<forall>t. \<exists>es. snd (m e t) = t @ es \<and> Q (fst (m e t)) es)"

lemma yieldsI: "(\<And>t. \<exists>es. snd (m e t) = t @ es \<and> Q (fst (m e t)) es) \<Longrightarrow> yields e m Q"
  by (simp add: yields_def)

lemma yieldsE:
  assumes "yields e m Q"
  obtains es where "snd (m e t) = t @ es" "Q (fst (m e t)) es"
  using assms by (auto simp: yields_def)

lemma yields_run:
  assumes "yields e m Q" "m e t = (r, t')"
  shows "\<exists>es. t' = t @ es \<and> Q r es"
  using assms by (auto simp: yields_def dest: spec [of _ t])

lemma yields_mono:
  "yields e m P \<Longrightarrow> (\<And>r es. P r es \<Longrightarrow> Q r es) \<Longrightarrow> yields e m Q"
  unfolding yields_def by blast

lemma yields_conj: "yields e m P \<Longrightarrow> yields e m Q \<Longrightarrow> yields e m (\<lambda>r es. P r es \<and> Q r es)"
  unfolding yields_def by (metis same_append_eq)

text \<open>Running an operation one step.\<close>

lemma seq_ret [simp, run_simps]: "seq (ret a) f = f a"
  by (rule ext)+ (simp add: seq_def ret_def)

lemma seq_ask [run_simps]: "seq (ask q) f e t = f (q e) e t"
  by (simp add: seq_def ask_def)

lemma seq_ask_at [run_simps]: "seq (ask_at q) f e t = f (q e t) e t"
  by (simp add: seq_def ask_at_def)

lemma seq_panic [simp, run_simps]: "seq (panic msg) f = panic msg"
  by (rule ext)+ (simp add: seq_def panic_def)

lemma seq_fuel [simp, run_simps]: "seq out_of_fuel f = out_of_fuel"
  by (rule ext)+ (simp add: seq_def out_of_fuel_def)

lemma seq_ecall [run_simps]: "seq (ecall q ev) f e t = f (q e t) e (t @ [ev (q e t)])"
  by (simp add: seq_def ecall_def Let_def)

lemma seq_emit [run_simps]: "seq (emit ev) f e t = f () e (t @ [ev])"
  by (simp add: emit_def seq_ecall)

lemma seq_assoc [simp, run_simps]: "seq (seq m f) g = seq m (\<lambda>a. seq (f a) g)"
  by (rule ext)+ (auto simp: seq_def split: prod.splits outcome.splits)

lemma run_ret [run_simps]: "ret a e t = (Returned a, t)"
  by (simp add: ret_def)

lemma run_ask [run_simps]: "ask q e t = (Returned (q e), t)"
  by (simp add: ask_def)

lemma run_panic [run_simps]: "panic msg e t = (Panicked msg, t)"
  by (simp add: panic_def)

lemma run_fuel [run_simps]: "out_of_fuel e t = (OutOfFuel, t)"
  by (simp add: out_of_fuel_def)

lemma run_ecall [run_simps]: "ecall q ev e t = (Returned (q e t), t @ [ev (q e t)])"
  by (simp add: ecall_def Let_def)

lemma run_emit [run_simps]: "emit ev e t = (Returned (), t @ [ev])"
  by (simp add: emit_def run_ecall)

lemma deref_simps [simp, run_simps]:
  "deref None = panic ''nil pointer dereference''"
  "deref (Some a) = ret a"
  by (simp_all add: deref_def)

text \<open>Continuing after a step whose result is known.\<close>

lemma seq_run_Returned: "m e t = (Returned a, t') \<Longrightarrow> seq m f e t = f a e t'"
  by (simp add: seq_def)

text \<open>The rules of \<open>yields\<close>, one per way of building an operation.\<close>

lemma yields_ret: "Q (Returned a) [] \<Longrightarrow> yields e (ret a) Q"
  by (simp add: yields_def ret_def)

lemma yields_panic: "Q (Panicked msg) [] \<Longrightarrow> yields e (panic msg) Q"
  by (simp add: yields_def panic_def)

lemma yields_fuel: "Q OutOfFuel [] \<Longrightarrow> yields e out_of_fuel Q"
  by (simp add: yields_def out_of_fuel_def)

lemma yields_ask: "Q (Returned (q e)) [] \<Longrightarrow> yields e (ask q) Q"
  by (simp add: yields_def ask_def)

lemma yields_ecall: "(\<And>t. Q (Returned (q e t)) [ev (q e t)]) \<Longrightarrow> yields e (ecall q ev) Q"
  by (simp add: yields_def ecall_def Let_def)

lemma yields_emit: "Q (Returned ()) [ev] \<Longrightarrow> yields e (emit ev) Q"
  by (simp add: yields_def run_emit)

lemma yields_seq_ask: "yields e (f (q e)) Q \<Longrightarrow> yields e (seq (ask q) f) Q"
  by (simp add: yields_def seq_ask)

lemma yields_seq_ask_at: "(\<And>t. yields e (f (q e t)) Q) \<Longrightarrow> yields e (seq (ask_at q) f) Q"
  unfolding yields_def by (simp add: seq_ask_at)

lemma yields_seq_ecall:
  assumes "\<And>t. yields e (f (q e t)) (\<lambda>r es. Q r (ev (q e t) # es))"
  shows "yields e (seq (ecall q ev) f) Q"
proof (rule yieldsI)
  fix t
  obtain es where "snd (f (q e t) e (t @ [ev (q e t)])) = (t @ [ev (q e t)]) @ es"
      "Q (fst (f (q e t) e (t @ [ev (q e t)]))) (ev (q e t) # es)"
    using assms [of t] by (rule yieldsE)
  then show "\<exists>es. snd (seq (ecall q ev) f e t) = t @ es \<and> Q (fst (seq (ecall q ev) f e t)) es"
    by (intro exI [of _ "ev (q e t) # es"]) (simp add: seq_ecall)
qed

lemma yields_seq_emit:
  "yields e (f ()) (\<lambda>r es. Q r (ev # es)) \<Longrightarrow> yields e (seq (emit ev) f) Q"
  unfolding emit_def by (rule yields_seq_ecall)

text \<open>Sequencing with a called operation that has its own specification \<open>P\<close>.\<close>

lemma yields_seq:
  assumes "yields e m P"
    and "\<And>a es. P (Returned a) es \<Longrightarrow> yields e (f a) (\<lambda>r es'. Q r (es @ es'))"
    and "\<And>msg es. P (Panicked msg) es \<Longrightarrow> Q (Panicked msg) es"
    and "\<And>es. P OutOfFuel es \<Longrightarrow> Q OutOfFuel es"
  shows "yields e (seq m f) Q"
proof (rule yieldsI)
  fix t
  obtain r t' where m: "m e t = (r, t')" by fastforce
  with assms(1) obtain es where es: "t' = t @ es" "P r es"
    by (auto dest: yields_run)
  show "\<exists>es. snd (seq m f e t) = t @ es \<and> Q (fst (seq m f e t)) es"
  proof (cases r)
    case (Returned a)
    with es assms(2) have "yields e (f a) (\<lambda>r es'. Q r (es @ es'))" by simp
    then obtain es' where "snd (f a e t') = t' @ es'" "Q (fst (f a e t')) (es @ es')"
      by (rule yieldsE)
    with m es Returned show ?thesis
      by (intro exI [of _ "es @ es'"]) (simp add: seq_run_Returned)
  qed (use m es assms(3,4) in \<open>auto simp: seq_def\<close>)
qed

lemmas yields_intros =
  yields_ret yields_panic yields_fuel yields_seq_emit yields_seq_ecall yields_seq_ask yields_seq_ask_at
  yields_emit yields_ecall yields_ask

text \<open>
  A class of events every step stays within. \<open>stays\<close> is the frame property of an
  operation: what kinds of events it can append.
\<close>

definition stays :: "('v \<Rightarrow> bool) \<Rightarrow> ('e, 'v, 'a) effect \<Rightarrow> bool" where
  "stays P m \<longleftrightarrow> (\<forall>e. yields e m (\<lambda>r es. list_all P es))"

lemma staysD: "stays P m \<Longrightarrow> yields e m (\<lambda>r es. list_all P es)"
  by (simp add: stays_def)

lemma stays_mono: "stays P m \<Longrightarrow> (\<And>ev. P ev \<Longrightarrow> R ev) \<Longrightarrow> stays R m"
  unfolding stays_def by (blast intro: yields_mono list.pred_mono_strong)

lemma stays_ret [trace_rules]: "stays P (ret a)"
  by (simp add: stays_def yields_ret)

lemma stays_panic [trace_rules]: "stays P (panic msg)"
  by (simp add: stays_def yields_panic)

lemma stays_fuel [trace_rules]: "stays P out_of_fuel"
  by (simp add: stays_def yields_fuel)

lemma stays_ask [trace_rules]: "stays P (ask q)"
  by (simp add: stays_def yields_ask)

lemma stays_ask_at [trace_rules]: "stays P (ask_at q)"
  by (simp add: stays_def yields_def ask_at_def)

lemma stays_ecall [trace_rules]: "(\<And>r. P (ev r)) \<Longrightarrow> stays P (ecall q ev)"
  by (simp add: stays_def yields_ecall)

lemma stays_emit [trace_rules]: "P ev \<Longrightarrow> stays P (emit ev)"
  by (simp add: stays_def yields_emit)

lemma stays_deref [trace_rules]: "stays P (deref p)"
  by (cases p) (simp_all add: trace_rules)

lemma stays_seq [trace_rules]:
  assumes "stays P m" "\<And>a. stays P (f a)"
  shows "stays P (seq m f)"
  unfolding stays_def
proof
  fix e
  show "yields e (seq m f) (\<lambda>r es. list_all P es)"
    by (rule yields_seq [OF staysD [OF assms(1)]])
      (auto intro: yields_mono [OF staysD [OF assms(2)]])
qed

lemma stays_for_each [trace_rules]: "(\<And>x. stays P (f x)) \<Longrightarrow> stays P (for_each xs f)"
  by (induction xs) (auto intro!: trace_rules split: option.split)

lemma stays_retry_conflicts: "(\<And>s. stays P (f s)) \<Longrightarrow> stays P (retry_conflicts n f s)"
  by (induction n arbitrary: s) (auto intro!: trace_rules split: option.split prod.split)

lemma stays_RetryOnConflict [trace_rules]: "(\<And>s. stays P (f s)) \<Longrightarrow> stays P (RetryOnConflict f s)"
  unfolding RetryOnConflict_def by (auto intro!: trace_rules stays_retry_conflicts)

text \<open>
  Loops keep an invariant \<open>I\<close> of the events so far; \<open>done\<close> is what a finished step leaves behind
  and no later event takes away.
\<close>

lemma yields_for_each:
  assumes step: "\<And>x pre. x \<in> set xs \<Longrightarrow> I pre \<Longrightarrow> yields e (f x) (\<lambda>r es. I (pre @ es) \<and>
      (r = Returned None \<longrightarrow> D x es) \<and> r \<noteq> OutOfFuel)"
    and keep: "\<And>x es xs ys. D x es \<Longrightarrow> D x (xs @ es @ ys)"
    and start: "I pre"
  shows "yields e (for_each xs f) (\<lambda>r es. I (pre @ es) \<and>
      (r = Returned None \<longrightarrow> (\<forall>x \<in> set xs. D x es)) \<and> r \<noteq> OutOfFuel)"
  using step start
proof (induction xs arbitrary: pre)
  case Nil
  then show ?case by (simp add: yields_ret)
next
  case (Cons x xs)
  have here: "yields e (f x) (\<lambda>r es. I (pre @ es) \<and> (r = Returned None \<longrightarrow> D x es) \<and>
      r \<noteq> OutOfFuel)"
    using Cons.prems by simp
  show ?case
    unfolding for_each.simps
  proof (rule yields_seq [OF here], goal_cases)
    case (1 r es)
    show ?case
    proof (cases r)
      case None
      with 1 have "I (pre @ es)" "D x es" by auto
      note rest = Cons.IH [OF Cons.prems(1) this(1)]
      show ?thesis
        unfolding None option.case
        by (rule yields_mono [OF rest])
          (use \<open>D x es\<close> keep [of x es "[]"] keep [of _ _ es "[]"] in \<open>auto simp: Ball_def\<close>)
    qed (use 1 in \<open>auto intro!: yields_ret\<close>)
  qed auto
qed

lemma yields_retry_conflicts:
  assumes step: "\<And>s. J s \<Longrightarrow> yields e (f s) (\<lambda>r es. list_all P es \<and>
      (\<forall>s'. r = Returned (None, s') \<longrightarrow> D s' es) \<and>
      (\<forall>err s'. r = Returned (Some err, s') \<longrightarrow> J s') \<and> r \<noteq> OutOfFuel)"
    and keep: "\<And>s es xs. D s es \<Longrightarrow> D s (xs @ es)"
    and start: "J s"
  shows "yields e (retry_conflicts n f s) (\<lambda>r es. list_all P es \<and>
      (\<forall>s'. r = Returned (None, s') \<longrightarrow> D s' es) \<and> r \<noteq> OutOfFuel)"
  using start
proof (induction n arbitrary: s)
  case 0
  then show ?case by (auto intro: yields_mono [OF step])
next
  case (Suc n)
  show ?case
    unfolding retry_conflicts.simps
  proof (rule yields_seq [OF step [OF Suc.prems]], goal_cases)
    case (1 r es)
    show ?case
    proof (cases "fst r")
      case (Some err)
      then have "J (snd r)" using 1 by (cases r) auto
      from yields_mono [OF Suc.IH [OF this]] show ?thesis
        using 1 Some keep by (cases r) (auto intro!: yields_intros)
    qed (use 1 in \<open>cases r, auto intro!: yields_intros\<close>)
  qed auto
qed

lemma yields_RetryOnConflict:
  assumes "\<And>s. J s \<Longrightarrow> yields e (f s) (\<lambda>r es. list_all P es \<and>
      (\<forall>s'. r = Returned (None, s') \<longrightarrow> D s' es) \<and>
      (\<forall>err s'. r = Returned (Some err, s') \<longrightarrow> J s') \<and> r \<noteq> OutOfFuel)"
    and "\<And>s es xs. D s es \<Longrightarrow> D s (xs @ es)" "J s"
  shows "yields e (RetryOnConflict f s) (\<lambda>r es. list_all P es \<and>
      (\<forall>s'. r = Returned (None, s') \<longrightarrow> D s' es) \<and> r \<noteq> OutOfFuel)"
  unfolding RetryOnConflict_def
  by (rule yields_seq_ask) (rule yields_retry_conflicts [OF assms])

section \<open>Guarded histories\<close>

text \<open>
  Every event of a history is allowed by what came before it: \<open>G pre ev\<close> for each event
  \<open>ev\<close> and the events \<open>pre\<close> before it.
\<close>

definition guarded :: "('v list \<Rightarrow> 'v \<Rightarrow> bool) \<Rightarrow> 'v list \<Rightarrow> bool" where
  "guarded G es \<longleftrightarrow> (\<forall>i < length es. G (take i es) (es ! i))"

lemma guarded_Nil [simp]: "guarded G []"
  by (simp add: guarded_def)

lemma guarded_Cons [simp]:
  "guarded G (ev # es) \<longleftrightarrow> G [] ev \<and> guarded (\<lambda>pre. G (ev # pre)) es"
  by (auto simp: guarded_def less_Suc_eq_0_disj all_conj_distrib)

lemma guarded_append [simp]:
  "guarded G (xs @ ys) \<longleftrightarrow> guarded G xs \<and> guarded (\<lambda>pre. G (xs @ pre)) ys"
  by (induction xs arbitrary: G) auto

lemma guarded_all: "list_all P es \<Longrightarrow> (\<And>pre ev. P ev \<Longrightarrow> G pre ev) \<Longrightarrow> guarded G es"
  by (induction es arbitrary: G) auto

lemma guardedD: "guarded G (pre @ ev # post) \<Longrightarrow> G pre ev"
  by simp

text \<open>How often a kind of event occurs.\<close>

definition occurrences :: "('v \<Rightarrow> bool) \<Rightarrow> 'v list \<Rightarrow> nat" where
  "occurrences P es = length (filter P es)"

lemma occurrences_simps [simp]:
  "occurrences P [] = 0"
  "occurrences P (ev # es) = (if P ev then Suc (occurrences P es) else occurrences P es)"
  "occurrences P (xs @ ys) = occurrences P xs + occurrences P ys"
  by (simp_all add: occurrences_def)

lemma occurrences_none: "list_all (\<lambda>ev. \<not> P ev) es \<Longrightarrow> occurrences P es = 0"
  by (induction es) auto

end
