(* ===== verification/Failed_Operations.thy ===== *)
theory Failed_Operations
  imports Effects
begin

text \<open>
  The record of failed Azure operations kept in the status of the custom resources
  (\<open>pkg/apis/azure/v1alpha1/types_common.go\<close>) and the exponential backoff the actuators
  derive from it. The Go functions change the slice behind a pointer; the callers own that
  slice (\<open>getFailedOperations\<close> copies it out of the status, the status update copies it
  back), so the model returns the new list.
\<close>

section \<open>Operations\<close>

fun AddOrUpdateFailedOperation ::
  "failed_operation list \<Rightarrow> operation_type \<Rightarrow> string \<Rightarrow> instant \<Rightarrow>
   failed_operation list \<times> failed_operation" where
  "AddOrUpdateFailedOperation [] op_type msg ts =
     (let op = \<lparr>fo_type = op_type, fo_attempts = 1, fo_error_message = msg, fo_timestamp = ts\<rparr>
      in ([op], op))"
| "AddOrUpdateFailedOperation (x # xs) op_type msg ts =
     (if fo_type x = op_type
      then let op = \<lparr>fo_type = op_type, fo_attempts = fo_attempts x + 1,
                     fo_error_message = msg, fo_timestamp = ts\<rparr>
           in (op # xs, op)
      else let (xs', op) = AddOrUpdateFailedOperation xs op_type msg ts in (x # xs', op))"

fun DeleteFailedOperation ::
  "failed_operation list \<Rightarrow> operation_type \<Rightarrow> failed_operation list" where
  "DeleteFailedOperation [] op_type = []"
| "DeleteFailedOperation (x # xs) op_type =
     (if fo_type x = op_type then xs else x # DeleteFailedOperation xs op_type)"

text \<open>
  The requeue interval after the given number of attempts,
  \<open>RequeueInterval.Duration * (1 << (attempts - 1))\<close>; \<open>None\<close> is the panic of a negative
  shift count.
\<close>

definition requeue_backoff :: "duration \<Rightarrow> go_int \<Rightarrow> duration option" where
  "requeue_backoff interval attempts = map_option (\<lambda>s. interval * s) (shift_one (attempts - 1))"

section \<open>The log as a map from operation types\<close>

definition lookup_op :: "failed_operation list \<Rightarrow> operation_type \<Rightarrow> failed_operation option" where
  "lookup_op ops ty = find (\<lambda>op. fo_type op = ty) ops"

definition attempts_of :: "failed_operation list \<Rightarrow> operation_type \<Rightarrow> go_int" where
  "attempts_of ops ty = (case lookup_op ops ty of None \<Rightarrow> 0 | Some op \<Rightarrow> fo_attempts op)"

text \<open>Well-formed: at most one entry per type.\<close>

definition wf_ops :: "failed_operation list \<Rightarrow> bool" where
  "wf_ops ops \<longleftrightarrow> distinct (map fo_type ops)"

lemma lookup_op_simps [simp]:
  "lookup_op [] ty = None"
  "lookup_op (x # xs) ty = (if fo_type x = ty then Some x else lookup_op xs ty)"
  by (simp_all add: lookup_op_def)

lemma lookup_op_notin: "ty \<notin> fo_type ` set ops \<Longrightarrow> lookup_op ops ty = None"
  by (auto simp: lookup_op_def find_None_iff)

lemma lookup_add:
  "lookup_op (fst (AddOrUpdateFailedOperation ops ty msg ts)) ty' =
     (if ty' = ty
      then Some \<lparr>fo_type = ty, fo_attempts = attempts_of ops ty + 1,
                 fo_error_message = msg, fo_timestamp = ts\<rparr>
      else lookup_op ops ty')"
  by (induction ops ty msg ts rule: AddOrUpdateFailedOperation.induct)
    (auto simp: attempts_of_def Let_def split: prod.splits)

lemma snd_add:
  "snd (AddOrUpdateFailedOperation ops ty msg ts) =
     \<lparr>fo_type = ty, fo_attempts = attempts_of ops ty + 1,
      fo_error_message = msg, fo_timestamp = ts\<rparr>"
  by (induction ops ty msg ts rule: AddOrUpdateFailedOperation.induct)
    (auto simp: attempts_of_def Let_def split: prod.splits)

lemma types_add:
  "fo_type ` set (fst (AddOrUpdateFailedOperation ops ty msg ts)) = insert ty (fo_type ` set ops)"
proof (induction ops ty msg ts rule: AddOrUpdateFailedOperation.induct)
  case (2 x xs ty msg ts)
  then show ?case
    by (cases "fo_type x = ty") (simp_all add: Let_def insert_commute case_prod_beta)
qed (simp add: Let_def)

lemma wf_ops_add: "wf_ops ops \<Longrightarrow> wf_ops (fst (AddOrUpdateFailedOperation ops ty msg ts))"
proof (induction ops ty msg ts rule: AddOrUpdateFailedOperation.induct)
  case (2 x xs ty msg ts)
  then show ?case
    using types_add [of xs ty msg ts]
    by (auto simp: wf_ops_def Let_def split: prod.splits)
qed (simp add: wf_ops_def Let_def)

lemma lookup_delete:
  "wf_ops ops \<Longrightarrow>
   lookup_op (DeleteFailedOperation ops ty) ty' = (if ty' = ty then None else lookup_op ops ty')"
  by (induction ops ty rule: DeleteFailedOperation.induct)
    (auto simp: wf_ops_def lookup_op_notin)

lemma set_delete: "set (DeleteFailedOperation ops ty) \<subseteq> set ops"
  by (induction ops ty rule: DeleteFailedOperation.induct) auto

lemma wf_ops_delete: "wf_ops ops \<Longrightarrow> wf_ops (DeleteFailedOperation ops ty)"
proof (induction ops ty rule: DeleteFailedOperation.induct)
  case (2 x xs ty)
  then show ?case
    using set_delete [of xs ty] by (auto simp: wf_ops_def)
qed simp

lemma wf_ops_Nil [simp]: "wf_ops []"
  by (simp add: wf_ops_def)

section \<open>Attempt logs\<close>

text \<open>
  What the actuators rely on: recording a failure counts the attempts of that operation up
  by one and leaves the others alone, a success forgets them.
\<close>

locale attempt_log =
  fixes record_failure :: "'l \<Rightarrow> 'k \<Rightarrow> 'm \<Rightarrow> 'l"
    and clear :: "'l \<Rightarrow> 'k \<Rightarrow> 'l"
    and attempts :: "'l \<Rightarrow> 'k \<Rightarrow> go_int"
    and ok :: "'l \<Rightarrow> bool"
  assumes attempts_record: "ok l \<Longrightarrow>
      attempts (record_failure l k m) k' = (if k' = k then attempts l k + 1 else attempts l k')"
    and attempts_clear: "ok l \<Longrightarrow>
      attempts (clear l k) k' = (if k' = k then 0 else attempts l k')"
    and ok_record: "ok l \<Longrightarrow> ok (record_failure l k m)"
    and ok_clear: "ok l \<Longrightarrow> ok (clear l k)"
begin

lemma ok_records: "ok l \<Longrightarrow> ok (foldl (\<lambda>l m. record_failure l k m) l ms)"
  by (induction ms arbitrary: l) (auto intro: ok_record)

lemma attempts_records:
  "ok l \<Longrightarrow> attempts (foldl (\<lambda>l m. record_failure l k m) l ms) k = attempts l k + of_nat (length ms)"
  by (induction ms arbitrary: l) (auto simp: attempts_record ok_record algebra_simps)

lemma attempts_records_other:
  "ok l \<Longrightarrow> k' \<noteq> k \<Longrightarrow>
   attempts (foldl (\<lambda>l m. record_failure l k m) l ms) k' = attempts l k'"
  by (induction ms arbitrary: l) (auto simp: attempts_record ok_record)

text \<open>A success starts the count afresh.\<close>

lemma attempts_since_clear:
  "ok l \<Longrightarrow>
   attempts (foldl (\<lambda>l m. record_failure l k m) (clear l k) ms) k = of_nat (length ms)"
  by (simp add: attempts_records ok_clear attempts_clear)

end

interpretation failed_ops: attempt_log
  "\<lambda>ops ty (msg, ts). fst (AddOrUpdateFailedOperation ops ty msg ts)"
  DeleteFailedOperation attempts_of wf_ops
  by unfold_locales
    (auto simp: attempts_of_def lookup_add lookup_delete wf_ops_add wf_ops_delete
      split: prod.splits)

section \<open>Properties\<close>

lemma run_of_failures:
  assumes "wf_ops ops"
  shows "attempts_of
      (foldl (\<lambda>l (msg, ts). fst (AddOrUpdateFailedOperation l ty msg ts))
        (DeleteFailedOperation ops ty) fails) ty = of_nat (length fails)"
  using failed_ops.attempts_since_clear [OF assms, of ty fails] by (simp add: case_prod_unfold)

lemma backoff_value:
  assumes "1 \<le> sint n" "0 \<le> sint d" "sint d * 2 ^ nat (sint n - 1) < 2 ^ 63"
  shows "\<exists>w. requeue_backoff d n = Some w \<and> sint w = sint d * 2 ^ nat (sint n - 1)"
proof -
  have "sint (n - 1) = sint n - 1" using assms(1) by (intro sint_minus_one) simp
  then have "requeue_backoff d n = Some (d * push_bit (nat (sint n - 1)) 1)"
    using assms(1) by (simp add: requeue_backoff_def shift_one_def)
  then show ?thesis using sint_mult_pow2 [OF assms(2,3)] by simp
qed

lemma backoff_panics: "sint n < 1 \<Longrightarrow> - (2 ^ 63) < sint n \<Longrightarrow> requeue_backoff d n = None"
  by (simp add: requeue_backoff_def shift_one_def sint_minus_one)

end
