(* ===== verification/Load_Balancer.thy ===== *)
theory Load_Balancer
  imports Effects
begin

text \<open>
  How a load balancer is rewritten when public IP addresses are taken off it: the three
  \<open>update...\<close> functions of \<open>pkg/utils/azure/pubip.go\<close>. They write through the pointers of the
  load balancer they are given; the model returns the changed load balancer with the ids.
\<close>

section \<open>Frontend IP configurations\<close>

definition fc_uses :: "string list \<Rightarrow> frontend_ip_configuration \<Rightarrow> bool" where
  "fc_uses ids fc \<longleftrightarrow>
     (case (fc_id fc, fc_public_ip fc) of
        (Some _, Some ip) \<Rightarrow> (case az_ip_id ip of Some i \<Rightarrow> i \<in> set ids | None \<Rightarrow> False)
      | _ \<Rightarrow> False)"

fun split_fcs :: "string list \<Rightarrow> frontend_ip_configuration list \<Rightarrow>
    string list \<times> frontend_ip_configuration list" where
  "split_fcs ids [] = ([], [])"
| "split_fcs ids (fc # fcs) =
     (let (fc_ids, updated) = split_fcs ids fcs in
      case fc_id fc of
        Some i \<Rightarrow> if fc_uses ids fc then (i # fc_ids, updated) else (fc_ids, fc # updated)
      | None \<Rightarrow> (fc_ids, fc # updated))"

definition updateFrontendIPConfigurations ::
  "load_balancer \<Rightarrow> string list \<Rightarrow> load_balancer \<times> string list" where
  "updateFrontendIPConfigurations lb ids =
     (case lb_frontend_ip_configurations lb of
        None \<Rightarrow> (lb, [])
      | Some fcs \<Rightarrow>
          (let (fc_ids, updated) = split_fcs ids fcs
           in (lb\<lparr>lb_frontend_ip_configurations := Some updated\<rparr>, fc_ids)))"

section \<open>Load balancing rules\<close>

definition rule_uses :: "string list \<Rightarrow> load_balancing_rule \<Rightarrow> bool" where
  "rule_uses fc_ids rule \<longleftrightarrow>
     (case (lr_id rule, lr_frontend rule) of
        (Some _, Some sr) \<Rightarrow> (case sr_id sr of Some i \<Rightarrow> i \<in> set fc_ids | None \<Rightarrow> False)
      | _ \<Rightarrow> False)"

fun split_rules :: "string list \<Rightarrow> load_balancing_rule list \<Rightarrow>
    string list \<times> load_balancing_rule list" where
  "split_rules fc_ids [] = ([], [])"
| "split_rules fc_ids (rule # rules) =
     (let (rule_ids, updated) = split_rules fc_ids rules in
      case lr_id rule of
        Some i \<Rightarrow> if rule_uses fc_ids rule then (i # rule_ids, updated)
                   else (rule_ids, rule # updated)
      | None \<Rightarrow> (rule_ids, rule # updated))"

definition updateLoadBalancingRules ::
  "load_balancer \<Rightarrow> string list \<Rightarrow> load_balancer \<times> string list" where
  "updateLoadBalancingRules lb fc_ids =
     (case lb_rules lb of
        None \<Rightarrow> (lb, [])
      | Some rules \<Rightarrow>
          (let (rule_ids, updated) = split_rules fc_ids rules
           in (lb\<lparr>lb_rules := Some updated\<rparr>, rule_ids)))"

section \<open>Probes\<close>

text \<open>
  The inner loop appends the probe once for every rule of it that is not removed; a probe
  without rules is skipped by \<open>continue\<close>.
\<close>

definition rule_stays :: "string list \<Rightarrow> sub_resource \<Rightarrow> bool" where
  "rule_stays rule_ids sr \<longleftrightarrow> (case sr_id sr of None \<Rightarrow> True | Some i \<Rightarrow> i \<notin> set rule_ids)"

fun probe_copies :: "string list \<Rightarrow> probe \<Rightarrow> sub_resource list \<Rightarrow> probe list" where
  "probe_copies rule_ids p [] = []"
| "probe_copies rule_ids p (sr # srs) =
     (if rule_stays rule_ids sr then p # probe_copies rule_ids p srs
      else probe_copies rule_ids p srs)"

fun update_probe_list :: "string list \<Rightarrow> probe list \<Rightarrow> probe list" where
  "update_probe_list rule_ids [] = []"
| "update_probe_list rule_ids (p # ps) =
     (case pr_rules p of
        None \<Rightarrow> update_probe_list rule_ids ps
      | Some srs \<Rightarrow> probe_copies rule_ids p srs @ update_probe_list rule_ids ps)"

definition updateProbes :: "load_balancer \<Rightarrow> string list \<Rightarrow> load_balancer" where
  "updateProbes lb rule_ids =
     (case lb_probes lb of
        None \<Rightarrow> lb
      | Some ps \<Rightarrow> lb\<lparr>lb_probes := Some (update_probe_list rule_ids ps)\<rparr>)"

text \<open>The three in the order \<open>RemoveFromLoadBalancer\<close> calls them.\<close>

definition detach_public_ips :: "load_balancer \<Rightarrow> string list \<Rightarrow> load_balancer" where
  "detach_public_ips lb ids =
     (let (lb1, fc_ids) = updateFrontendIPConfigurations lb ids;
          (lb2, rule_ids) = updateLoadBalancingRules lb1 fc_ids
      in updateProbes lb2 rule_ids)"

section \<open>What they do\<close>

text \<open>No frontend configuration of \<open>lb\<close> uses one of the public IP ids.\<close>

definition detached :: "string list \<Rightarrow> load_balancer \<Rightarrow> bool" where
  "detached ids lb \<longleftrightarrow>
     (case lb_frontend_ip_configurations lb of
        None \<Rightarrow> True | Some fcs \<Rightarrow> list_all (\<lambda>fc. \<not> fc_uses ids fc) fcs)"

definition removed_fc_ids :: "string list \<Rightarrow> load_balancer \<Rightarrow> string list" where
  "removed_fc_ids ids lb =
     (case lb_frontend_ip_configurations lb of
        None \<Rightarrow> [] | Some fcs \<Rightarrow> List.map_filter fc_id (filter (fc_uses ids) fcs))"

definition removed_rule_ids :: "string list \<Rightarrow> load_balancer \<Rightarrow> string list" where
  "removed_rule_ids ids lb =
     (case lb_rules lb of
        None \<Rightarrow> []
      | Some rules \<Rightarrow> List.map_filter lr_id (filter (rule_uses (removed_fc_ids ids lb)) rules))"

lemma fc_uses_id: "fc_uses ids fc \<Longrightarrow> \<exists>i. fc_id fc = Some i"
  by (auto simp: fc_uses_def split: option.splits)

lemma rule_uses_id: "rule_uses ids r \<Longrightarrow> \<exists>i. lr_id r = Some i"
  by (auto simp: rule_uses_def split: option.splits)

lemma split_fcs_eq:
  "split_fcs ids fcs =
     (List.map_filter fc_id (filter (fc_uses ids) fcs), filter (\<lambda>fc. \<not> fc_uses ids fc) fcs)"
  by (induction fcs)
    (auto simp: map_filter_simps Let_def split: option.splits dest: fc_uses_id)

lemma split_rules_eq:
  "split_rules ids rules =
     (List.map_filter lr_id (filter (rule_uses ids) rules), filter (\<lambda>r. \<not> rule_uses ids r) rules)"
  by (induction rules)
    (auto simp: map_filter_simps Let_def split: option.splits dest: rule_uses_id)

lemma probe_copies_eq:
  "probe_copies rule_ids p srs = replicate (length (filter (rule_stays rule_ids) srs)) p"
  by (induction srs) simp_all

definition surviving_rules :: "string list \<Rightarrow> probe \<Rightarrow> nat" where
  "surviving_rules rule_ids p =
     (case pr_rules p of None \<Rightarrow> 0 | Some srs \<Rightarrow> length (filter (rule_stays rule_ids) srs))"

lemma update_probe_list_eq:
  "update_probe_list rule_ids ps =
     concat (map (\<lambda>p. replicate (surviving_rules rule_ids p) p) ps)"
  by (induction ps) (auto simp: surviving_rules_def probe_copies_eq split: option.splits)

lemma updateFrontendIPConfigurations_eq:
  "updateFrontendIPConfigurations lb ids =
     (lb\<lparr>lb_frontend_ip_configurations :=
          map_option (filter (\<lambda>fc. \<not> fc_uses ids fc)) (lb_frontend_ip_configurations lb)\<rparr>,
      removed_fc_ids ids lb)"
  by (auto simp: updateFrontendIPConfigurations_def removed_fc_ids_def split_fcs_eq
      split: option.splits)

lemma updateLoadBalancingRules_eq:
  "updateLoadBalancingRules lb fc_ids =
     (lb\<lparr>lb_rules := map_option (filter (\<lambda>r. \<not> rule_uses fc_ids r)) (lb_rules lb)\<rparr>,
      (case lb_rules lb of None \<Rightarrow> []
       | Some rules \<Rightarrow> List.map_filter lr_id (filter (rule_uses fc_ids) rules)))"
  by (auto simp: updateLoadBalancingRules_def split_rules_eq split: option.splits)

lemma updateProbes_eq:
  "updateProbes lb rule_ids =
     lb\<lparr>lb_probes := map_option (update_probe_list rule_ids) (lb_probes lb)\<rparr>"
  by (auto simp: updateProbes_def split: option.splits)

text \<open>Everything the rewriting does to a load balancer, in one equation.\<close>

lemma detach_public_ips_eq:
  "detach_public_ips lb ids =
     lb\<lparr>lb_frontend_ip_configurations :=
          map_option (filter (\<lambda>fc. \<not> fc_uses ids fc)) (lb_frontend_ip_configurations lb),
        lb_rules := map_option (filter (\<lambda>r. \<not> rule_uses (removed_fc_ids ids lb) r)) (lb_rules lb),
        lb_probes := map_option
          (\<lambda>ps. concat (map (\<lambda>p. replicate (surviving_rules (removed_rule_ids ids lb) p) p) ps))
          (lb_probes lb)\<rparr>"
  by (simp add: detach_public_ips_def updateFrontendIPConfigurations_eq
      updateLoadBalancingRules_eq updateProbes_eq removed_rule_ids_def update_probe_list_eq
      cong: option.case_cong map_option_cong)

lemma detach_detached: "detached ids (detach_public_ips lb ids)"
  by (auto simp: detached_def detach_public_ips_eq list_all_iff split: option.splits)

end
