(* ===== verification/Azure_Pip_Utils.thy ===== *)
theory Azure_Pip_Utils
  imports Load_Balancer
begin

text \<open>
  \<open>PublicIPAddressUtils\<close> of \<open>pkg/utils/azure/pubip.go\<close> and the client methods of
  \<open>pkg/client/azure/client.go\<close> it calls. The interface is the record \<open>pip_utils\<close>; its one
  implementation in the repository is \<open>NewPublicIPAddressUtils\<close>.
\<close>

section \<open>Azure clients\<close>

definition PublicIPAddressesClient_Get :: "string \<Rightarrow> string \<Rightarrow> (goerr + az_public_ip) io" where
  "PublicIPAddressesClient_Get rg name = ecall (\<lambda>e t. azPipGet e t rg name) (AzPipGet rg name)"

definition PublicIPAddressesClient_List :: "string \<Rightarrow> (goerr + pip_page) io" where
  "PublicIPAddressesClient_List rg = ecall (\<lambda>e t. azPipList e t rg) (AzPipList rg)"

definition NextWithContext :: "pip_page \<Rightarrow> (goerr + pip_page) io" where
  "NextWithContext page = ecall (\<lambda>e t. azPipNext e t page) (AzPipNext page)"

definition PublicIPAddressesClient_Delete :: "string \<Rightarrow> string \<Rightarrow> goerr option io" where
  "PublicIPAddressesClient_Delete rg name =
     ecall (\<lambda>e t. azPipDelete e t rg name) (AzPipDelete rg name)"

definition WaitForPipDelete :: "goerr option io" where
  "WaitForPipDelete = ecall azPipDeleteWait AzPipDeleteWait"

definition LoadBalancersClient_Get :: "string \<Rightarrow> string \<Rightarrow> (goerr + load_balancer) io" where
  "LoadBalancersClient_Get rg name = ecall (\<lambda>e t. azLbGet e t rg name) (AzLbGet rg name)"

definition LoadBalancersClient_CreateOrUpdate ::
  "string \<Rightarrow> string \<Rightarrow> load_balancer \<Rightarrow> goerr option io" where
  "LoadBalancersClient_CreateOrUpdate rg name lb =
     ecall (\<lambda>e t. azLbUpdate e t rg name lb) (AzLbUpdate rg name lb)"

definition WaitForLbUpdate :: "goerr option io" where
  "WaitForLbUpdate = ecall azLbUpdateWait AzLbUpdateWait"

lemmas pip_client_defs =
  PublicIPAddressesClient_Get_def PublicIPAddressesClient_List_def NextWithContext_def
  PublicIPAddressesClient_Delete_def WaitForPipDelete_def LoadBalancersClient_Get_def
  LoadBalancersClient_CreateOrUpdate_def WaitForLbUpdate_def

section \<open>The operations\<close>

text \<open>\<open>http.StatusNotFound\<close> is 404.\<close>

fun isAzureNotFoundError :: "goerr \<Rightarrow> bool" where
  "isAzureNotFoundError (DetailedError status msg) = (status = Some 404)"
| "isAzureNotFoundError _ = False"

definition GetByName_impl :: "string \<Rightarrow> string \<Rightarrow> (goerr + az_public_ip option) io" where
  "GetByName_impl rg name =
     seq (counter_inc ReadRequests) (\<lambda>_.
     seq (PublicIPAddressesClient_Get rg name) (\<lambda>r.
     case r of
       Inl err \<Rightarrow>
         if isAzureNotFoundError err then ret (Inr None)
         else ret (Inl (Wrap ''could not get Azure PublicIPAddress'' err))
     | Inr ip \<Rightarrow> ret (Inr (Some ip))))"

definition has_ip :: "string \<Rightarrow> az_public_ip \<Rightarrow> bool" where
  "has_ip ip azip \<longleftrightarrow> az_ip_address azip = Some ip"

text \<open>The loop over the pages; \<open>fuel\<close> bounds the pages followed.\<close>

fun GetByIP_pages :: "nat \<Rightarrow> string \<Rightarrow> pip_page \<Rightarrow> (goerr + az_public_ip option) io" where
  "GetByIP_pages 0 ip page = out_of_fuel"
| "GetByIP_pages (Suc fuel) ip page =
     (if \<not> page_not_done page then ret (Inr None)
      else case find (has_ip ip) (page_values page) of
        Some azip \<Rightarrow> ret (Inr (Some azip))
      | None \<Rightarrow>
          seq (counter_inc ReadRequests) (\<lambda>_.
          seq (NextWithContext page) (\<lambda>r.
          case r of
            Inl err \<Rightarrow>
              ret (Inl (Wrap ''could not advance to the next page of Azure PublicIPAddresses'' err))
          | Inr page' \<Rightarrow> GetByIP_pages fuel ip page')))"

definition GetByIP_impl :: "string \<Rightarrow> string \<Rightarrow> (goerr + az_public_ip option) io" where
  "GetByIP_impl rg ip =
     seq (counter_inc ReadRequests) (\<lambda>_.
     seq (PublicIPAddressesClient_List rg) (\<lambda>r.
     case r of
       Inl err \<Rightarrow> ret (Inl (Wrap ''could not list Azure PublicIPAddresses'' err))
     | Inr page \<Rightarrow> seq (ask pageFuel) (\<lambda>fuel. GetByIP_pages fuel ip page)))"

fun GetAll_pages :: "nat \<Rightarrow> az_public_ip list \<Rightarrow> pip_page \<Rightarrow> (goerr + az_public_ip list) io" where
  "GetAll_pages 0 acc page = out_of_fuel"
| "GetAll_pages (Suc fuel) acc page =
     (if \<not> page_not_done page then ret (Inr acc)
      else
        seq (counter_inc ReadRequests) (\<lambda>_.
        seq (NextWithContext page) (\<lambda>r.
        case r of
          Inl err \<Rightarrow>
            ret (Inl (Wrap ''could not advance to the next page of Azure PublicIPAddresses'' err))
        | Inr page' \<Rightarrow> GetAll_pages fuel (acc @ page_values page) page')))"

definition GetAll_impl :: "string \<Rightarrow> (goerr + az_public_ip list) io" where
  "GetAll_impl rg =
     seq (counter_inc ReadRequests) (\<lambda>_.
     seq (PublicIPAddressesClient_List rg) (\<lambda>r.
     case r of
       Inl err \<Rightarrow> ret (Inl (Wrap ''could not list Azure PublicIPAddresses'' err))
     | Inr page \<Rightarrow> seq (ask pageFuel) (\<lambda>fuel. GetAll_pages fuel [] page)))"

definition RemoveFromLoadBalancer_impl :: "string \<Rightarrow> string list \<Rightarrow> goerr option io" where
  "RemoveFromLoadBalancer_impl rg ids =
     (let lb_name = rg in
      seq (counter_inc ReadRequests) (\<lambda>_.
      seq (LoadBalancersClient_Get rg lb_name) (\<lambda>r.
      case r of
        Inl err \<Rightarrow> ret (Some (Wrap ''could not get Azure LoadBalancer'' err))
      | Inr lb \<Rightarrow>
          (let (lb1, fc_ids) = updateFrontendIPConfigurations lb ids;
               (lb2, rule_ids) = updateLoadBalancingRules lb1 fc_ids;
               lb3 = updateProbes lb2 rule_ids
           in
           seq (counter_inc WriteRequests) (\<lambda>_.
           seq (LoadBalancersClient_CreateOrUpdate rg lb_name lb3) (\<lambda>r.
           case r of
             Some err \<Rightarrow> ret (Some (Wrap ''could not update Azure LoadBalancer'' err))
           | None \<Rightarrow>
               seq (counter_inc ReadRequests) (\<lambda>_.
               seq WaitForLbUpdate (\<lambda>r.
               case r of
                 Some err \<Rightarrow>
                   ret (Some (Wrap ''could not wait for the Azure LoadBalancer update to complete'' err))
               | None \<Rightarrow> ret None))))))))"

definition Delete_impl :: "string \<Rightarrow> string \<Rightarrow> goerr option io" where
  "Delete_impl rg name =
     seq (counter_inc WriteRequests) (\<lambda>_.
     seq (PublicIPAddressesClient_Delete rg name) (\<lambda>r.
     case r of
       Some err \<Rightarrow>
         if isAzureNotFoundError err then ret None
         else ret (Some (Wrap ''could not delete Azure PublicIPAddress'' err))
     | None \<Rightarrow>
         seq (counter_inc ReadRequests) (\<lambda>_.
         seq WaitForPipDelete (\<lambda>r.
         case r of
           Some err \<Rightarrow>
             ret (Some (Wrap ''could not wait for the Azure PublicIPAddress deletion to complete'' err))
         | None \<Rightarrow> ret None))))"

section \<open>The interface\<close>

record pip_utils =
  GetByName :: "string \<Rightarrow> (goerr + az_public_ip option) io"
  GetByIP :: "string \<Rightarrow> (goerr + az_public_ip option) io"
  GetAll :: "(goerr + az_public_ip list) io"
  RemoveFromLoadBalancer :: "string list \<Rightarrow> goerr option io"
  DeletePip :: "string \<Rightarrow> goerr option io"

definition NewPublicIPAddressUtils :: "string \<Rightarrow> pip_utils" where
  "NewPublicIPAddressUtils rg =
     \<lparr>GetByName = GetByName_impl rg, GetByIP = GetByIP_impl rg, GetAll = GetAll_impl rg,
      RemoveFromLoadBalancer = RemoveFromLoadBalancer_impl rg, DeletePip = Delete_impl rg\<rparr>"

lemma NewPublicIPAddressUtils_simps [simp]:
  "GetByName (NewPublicIPAddressUtils rg) = GetByName_impl rg"
  "GetByIP (NewPublicIPAddressUtils rg) = GetByIP_impl rg"
  "GetAll (NewPublicIPAddressUtils rg) = GetAll_impl rg"
  "RemoveFromLoadBalancer (NewPublicIPAddressUtils rg) = RemoveFromLoadBalancer_impl rg"
  "DeletePip (NewPublicIPAddressUtils rg) = Delete_impl rg"
  by (simp_all add: NewPublicIPAddressUtils_def)

section \<open>Event classes\<close>

fun lookup_event :: "event \<Rightarrow> bool" where
  "lookup_event (CounterInc m) = (m = ReadRequests)"
| "lookup_event (AzPipGet _ _ _) = True"
| "lookup_event (AzPipList _ _) = True"
| "lookup_event (AzPipNext _ _) = True"
| "lookup_event _ = False"

text \<open>What taking public IPs off the load balancer may do: every write detaches them.\<close>

fun lb_event :: "string list \<Rightarrow> event \<Rightarrow> bool" where
  "lb_event ids (CounterInc m) = (m = ReadRequests \<or> m = WriteRequests)"
| "lb_event ids (AzLbGet _ _ _) = True"
| "lb_event ids (AzLbUpdate _ _ lb _) = detached ids lb"
| "lb_event ids (AzLbUpdateWait _) = True"
| "lb_event ids _ = False"

fun pip_delete_event :: "string \<Rightarrow> event \<Rightarrow> bool" where
  "pip_delete_event name (CounterInc m) = (m = ReadRequests \<or> m = WriteRequests)"
| "pip_delete_event name (AzPipDelete _ n _) = (n = name)"
| "pip_delete_event name (AzPipDeleteWait _) = True"
| "pip_delete_event name _ = False"

text \<open>A write request sent to Azure.\<close>

fun write_request :: "event \<Rightarrow> bool" where
  "write_request (AzPipDelete _ _ _) = True"
| "write_request (AzLbUpdate _ _ _ _) = True"
| "write_request (AzVmReapply _ _ _) = True"
| "write_request _ = False"

fun is_pip_delete :: "event \<Rightarrow> bool" where
  "is_pip_delete (AzPipDelete _ _ _) = True"
| "is_pip_delete _ = False"

text \<open>An accepted write of a load balancer that no longer uses the given public IPs.\<close>

fun detaches :: "string list \<Rightarrow> event \<Rightarrow> bool" where
  "detaches ids (AzLbUpdate _ _ lb None) = detached ids lb"
| "detaches ids _ = False"

text \<open>The public IP addresses that Azure answered with.\<close>

fun event_ips :: "event \<Rightarrow> az_public_ip list" where
  "event_ips (AzPipGet _ _ (Inr azip)) = [azip]"
| "event_ips (AzPipList _ (Inr page)) = page_values page"
| "event_ips (AzPipNext _ (Inr page)) = page_values page"
| "event_ips _ = []"

definition seen_ips :: "trace \<Rightarrow> az_public_ip list" where
  "seen_ips es = concat (map event_ips es)"

lemma seen_ips_simps [simp]:
  "seen_ips [] = []"
  "seen_ips (ev # es) = event_ips ev @ seen_ips es"
  "seen_ips (xs @ ys) = seen_ips xs @ seen_ips ys"
  by (simp_all add: seen_ips_def)

section \<open>The contract of the interface\<close>

locale pip_utils_contract =
  fixes u :: pip_utils
  assumes by_name_reads: "stays lookup_event (GetByName u name)"
    and by_ip_reads: "stays lookup_event (GetByIP u ip)"
    and by_name_seen: "yields e (GetByName u name)
      (\<lambda>r es. \<forall>azip. r = Returned (Inr (Some azip)) \<longrightarrow> azip \<in> set (seen_ips es))"
    and by_ip_ip: "yields e (GetByIP u ip)
      (\<lambda>r es. \<forall>azip. r = Returned (Inr (Some azip)) \<longrightarrow>
         has_ip ip azip \<and> azip \<in> set (seen_ips es))"
    and all_reads: "stays lookup_event (GetAll u)"
    and all_seen: "yields e (GetAll u)
      (\<lambda>r es. \<forall>azips. r = Returned (Inr azips) \<longrightarrow> set azips \<subseteq> set (seen_ips es))"
    and remove_only: "stays (lb_event ids) (RemoveFromLoadBalancer u ids)"
    and remove_ok: "yields e (RemoveFromLoadBalancer u ids)
      (\<lambda>r es. r = Returned None \<longrightarrow> list_ex (detaches ids) es)"
    and delete_only: "stays (pip_delete_event name) (DeletePip u name)"
    and delete_calls: "yields e (DeletePip u name)
      (\<lambda>r es. list_ex is_pip_delete es)"
    and remove_ends: "yields e (RemoveFromLoadBalancer u ids) (\<lambda>r es. r \<noteq> OutOfFuel)"
    and delete_ends: "yields e (DeletePip u name) (\<lambda>r es. r \<noteq> OutOfFuel)"
    and remove_writes: "yields e (RemoveFromLoadBalancer u ids)
      (\<lambda>r es. occurrences write_request es \<le> Suc 0)"
    and delete_writes: "yields e (DeletePip u name)
      (\<lambda>r es. occurrences write_request es \<le> Suc 0)"

lemma stays_GetByName: "stays lookup_event (GetByName_impl rg name)"
  unfolding GetByName_impl_def pip_client_defs
  by (auto intro!: trace_rules split: sum.split)

lemma stays_GetByIP_pages: "stays lookup_event (GetByIP_pages fuel ip page)"
  by (induction fuel arbitrary: page)
    (auto simp: pip_client_defs intro!: trace_rules split: sum.split option.split)

lemma stays_GetByIP: "stays lookup_event (GetByIP_impl rg ip)"
  unfolding GetByIP_impl_def pip_client_defs
  by (auto intro!: trace_rules stays_GetByIP_pages split: sum.split)

lemma GetByName_seen:
  "yields e (GetByName_impl rg name)
     (\<lambda>r es. \<forall>azip. r = Returned (Inr (Some azip)) \<longrightarrow> azip \<in> set (seen_ips es))"
  unfolding GetByName_impl_def pip_client_defs
  by (auto intro!: yields_intros split: sum.split)

lemma GetByIP_pages_ip:
  "yields e (GetByIP_pages fuel ip page)
     (\<lambda>r es. \<forall>azip. r = Returned (Inr (Some azip)) \<longrightarrow>
        has_ip ip azip \<and> azip \<in> set (page_values page @ seen_ips es))"
proof (induction fuel arbitrary: page)
  case 0
  show ?case by (simp add: yields_fuel)
next
  case (Suc fuel)
  then show ?case
    by (auto simp: pip_client_defs find_Some_iff
        intro!: yields_intros yields_mono [OF Suc.IH] split: sum.split option.split)
qed

lemma GetByIP_ip:
  "yields e (GetByIP_impl rg ip)
     (\<lambda>r es. \<forall>azip. r = Returned (Inr (Some azip)) \<longrightarrow>
        has_ip ip azip \<and> azip \<in> set (seen_ips es))"
  unfolding GetByIP_impl_def pip_client_defs
  by (auto intro!: yields_intros yields_mono [OF GetByIP_pages_ip] split: sum.split)

lemma stays_GetAll_pages: "stays lookup_event (GetAll_pages fuel acc page)"
  by (induction fuel arbitrary: acc page)
    (auto simp: pip_client_defs intro!: trace_rules split: sum.split)

lemma stays_GetAll: "stays lookup_event (GetAll_impl rg)"
  unfolding GetAll_impl_def pip_client_defs
  by (auto intro!: trace_rules stays_GetAll_pages split: sum.split)

lemma GetAll_pages_seen:
  "yields e (GetAll_pages fuel acc page) (\<lambda>r es. \<forall>azips. r = Returned (Inr azips) \<longrightarrow>
     set azips \<subseteq> set (acc @ page_values page @ seen_ips es))"
proof (induction fuel arbitrary: acc page)
  case 0
  show ?case by (simp add: yields_fuel)
next
  case (Suc fuel)
  then show ?case
    by (auto simp: pip_client_defs intro!: yields_intros yields_mono [OF Suc.IH] split: sum.split) blast
qed

lemma GetAll_seen:
  "yields e (GetAll_impl rg)
     (\<lambda>r es. \<forall>azips. r = Returned (Inr azips) \<longrightarrow> set azips \<subseteq> set (seen_ips es))"
  unfolding GetAll_impl_def pip_client_defs
  by (auto intro!: yields_intros yields_mono [OF GetAll_pages_seen] split: sum.split) blast

lemma RemoveFromLoadBalancer_detach:
  "RemoveFromLoadBalancer_impl rg ids =
     seq (counter_inc ReadRequests) (\<lambda>_.
     seq (LoadBalancersClient_Get rg rg) (\<lambda>r.
     case r of
       Inl err \<Rightarrow> ret (Some (Wrap ''could not get Azure LoadBalancer'' err))
     | Inr lb \<Rightarrow>
         seq (counter_inc WriteRequests) (\<lambda>_.
         seq (LoadBalancersClient_CreateOrUpdate rg rg (detach_public_ips lb ids)) (\<lambda>r.
         case r of
           Some err \<Rightarrow> ret (Some (Wrap ''could not update Azure LoadBalancer'' err))
         | None \<Rightarrow>
             seq (counter_inc ReadRequests) (\<lambda>_.
             seq WaitForLbUpdate (\<lambda>r.
             case r of
               Some err \<Rightarrow>
                 ret (Some (Wrap ''could not wait for the Azure LoadBalancer update to complete'' err))
             | None \<Rightarrow> ret None))))))"
  unfolding RemoveFromLoadBalancer_impl_def detach_public_ips_def Let_def case_prod_beta
  by (rule refl)

lemma stays_RemoveFromLoadBalancer: "stays (lb_event ids) (RemoveFromLoadBalancer_impl rg ids)"
  unfolding RemoveFromLoadBalancer_detach pip_client_defs
  by (auto intro!: trace_rules detach_detached split: sum.split option.split)

lemma RemoveFromLoadBalancer_ok:
  "yields e (RemoveFromLoadBalancer_impl rg ids)
     (\<lambda>r es. r = Returned None \<longrightarrow> list_ex (detaches ids) es)"
  unfolding RemoveFromLoadBalancer_detach pip_client_defs
  by (auto intro!: yields_intros detach_detached split: sum.split option.split)

lemma stays_Delete: "stays (pip_delete_event name) (Delete_impl rg name)"
  unfolding Delete_impl_def pip_client_defs
  by (auto intro!: trace_rules split: option.split)

lemma RemoveFromLoadBalancer_writes:
  "yields e (RemoveFromLoadBalancer_impl rg ids) (\<lambda>r es. occurrences write_request es \<le> Suc 0)"
  unfolding RemoveFromLoadBalancer_detach pip_client_defs
  by (auto intro!: yields_intros split: sum.split option.split)

lemma Delete_writes:
  "yields e (Delete_impl rg name) (\<lambda>r es. occurrences write_request es \<le> Suc 0)"
  unfolding Delete_impl_def pip_client_defs
  by (auto intro!: yields_intros split: option.split)

lemma RemoveFromLoadBalancer_ends:
  "yields e (RemoveFromLoadBalancer_impl rg ids) (\<lambda>r es. r \<noteq> OutOfFuel)"
  unfolding RemoveFromLoadBalancer_detach pip_client_defs
  by (auto intro!: yields_intros split: sum.split option.split)

lemma Delete_ends: "yields e (Delete_impl rg name) (\<lambda>r es. r \<noteq> OutOfFuel)"
  unfolding Delete_impl_def pip_client_defs
  by (auto intro!: yields_intros split: option.split)

lemma Delete_calls:
  "yields e (Delete_impl rg name) (\<lambda>r es. list_ex is_pip_delete es)"
  unfolding Delete_impl_def pip_client_defs
  by (auto intro!: yields_intros split: option.split)

interpretation azure_pips: pip_utils_contract "NewPublicIPAddressUtils rg" for rg
  by unfold_locales
    (simp_all add: stays_GetByName stays_GetByIP GetByName_seen GetByIP_ip stays_GetAll GetAll_seen stays_RemoveFromLoadBalancer
      RemoveFromLoadBalancer_ok stays_Delete RemoveFromLoadBalancer_ends Delete_ends
      RemoveFromLoadBalancer_writes Delete_writes Delete_calls)

section \<open>Listings that end\<close>

text \<open>
  The pages a listing goes through when every \<open>NextWithContext\<close> succeeds: each page but the
  last still has values, and its successor does not depend on when it is asked for.
\<close>

fun page_chain :: "env \<Rightarrow> pip_page list \<Rightarrow> bool" where
  "page_chain e [] = False"
| "page_chain e [p] = (\<not> page_not_done p)"
| "page_chain e (p # q # ps) =
     (page_not_done p \<and> (\<forall>t. azPipNext e t p = Inr q) \<and> page_chain e (q # ps))"

text \<open>The values the loop sees: those of every page before the one that is done.\<close>

definition chain_values :: "pip_page list \<Rightarrow> az_public_ip list" where
  "chain_values ps = concat (map page_values (butlast ps))"

lemma chain_values_Cons: "ps \<noteq> [] \<Longrightarrow> chain_values (p # ps) = page_values p @ chain_values ps"
  by (simp add: chain_values_def)

lemma find_append: "find P (xs @ ys) = (case find P xs of None \<Rightarrow> find P ys | Some x \<Rightarrow> Some x)"
  by (induction xs) auto

lemma GetByIP_pages_chain:
  "page_chain e (p # ps) \<Longrightarrow> length ps < fuel \<Longrightarrow>
   \<exists>es. GetByIP_pages fuel ip p e t =
     (Returned (Inr (find (has_ip ip) (chain_values (p # ps)))), t @ es)"
proof (induction fuel arbitrary: p ps t)
  case 0
  then show ?case by simp
next
  case (Suc fuel)
  show ?case
  proof (cases ps)
    case Nil
    with Suc.prems show ?thesis by (simp add: run_simps chain_values_def)
  next
    case (Cons q qs)
    with Suc.prems have chain: "page_not_done p" "azPipNext e t' p = Inr q" "page_chain e (q # qs)"
      for t' by auto
    let ?t = "t @ [CounterInc ReadRequests, AzPipNext p (Inr q)]"
    from Suc.IH [OF chain(3), of ?t] Suc.prems Cons obtain es where
      "GetByIP_pages fuel ip q e ?t =
        (Returned (Inr (find (has_ip ip) (chain_values (q # qs)))), ?t @ es)" by auto
    then show ?thesis
      using chain Cons
      by (cases "find (has_ip ip) (page_values p)")
        (auto simp: run_simps pip_client_defs chain_values_Cons find_append)
  qed
qed

lemma GetAll_pages_chain:
  "page_chain e (p # ps) \<Longrightarrow> length ps < fuel \<Longrightarrow>
   \<exists>es. GetAll_pages fuel acc p e t = (Returned (Inr (acc @ chain_values (p # ps))), t @ es)"
proof (induction fuel arbitrary: p ps t acc)
  case 0
  then show ?case by simp
next
  case (Suc fuel)
  show ?case
  proof (cases ps)
    case Nil
    with Suc.prems show ?thesis by (simp add: run_simps chain_values_def)
  next
    case (Cons q qs)
    with Suc.prems have chain: "page_not_done p" "azPipNext e t' p = Inr q" "page_chain e (q # qs)"
      for t' by auto
    let ?t = "t @ [CounterInc ReadRequests, AzPipNext p (Inr q)]"
    from Suc.IH [OF chain(3), of "acc @ page_values p" ?t] Suc.prems Cons obtain es where
      "GetAll_pages fuel (acc @ page_values p) q e ?t =
        (Returned (Inr ((acc @ page_values p) @ chain_values (q # qs))), ?t @ es)" by auto
    then show ?thesis
      using chain Cons by (auto simp: run_simps pip_client_defs chain_values_Cons)
  qed
qed

end
