(* ===== verification/Object_Labeler.thy ===== *)
theory Object_Labeler
  imports Effects
begin

text \<open>
  Label values that name the owner of a custom resource, and the mapping back from the
  resource to its owner (\<open>pkg/controller/utils.go\<close>).
\<close>

section \<open>Labelers\<close>

record object_labeler =
  GetLabelValue :: "k8s_object \<Rightarrow> string"
  GetNamespacedName :: "string \<Rightarrow> object_key"

definition empty_key :: object_key where
  "empty_key = \<lparr>key_namespace = '''', key_name = ''''\<rparr>"

definition cluster_GetLabelValue :: "k8s_object \<Rightarrow> string" where
  "cluster_GetLabelValue ob = meta_name (obj_meta ob)"

definition cluster_GetNamespacedName :: "string \<Rightarrow> object_key" where
  "cluster_GetNamespacedName label_value = \<lparr>key_namespace = '''', key_name = label_value\<rparr>"

definition NewClusterObjectLabeler :: object_labeler where
  "NewClusterObjectLabeler =
     \<lparr>GetLabelValue = cluster_GetLabelValue, GetNamespacedName = cluster_GetNamespacedName\<rparr>"

definition namespaced_GetLabelValue :: "string \<Rightarrow> k8s_object \<Rightarrow> string" where
  "namespaced_GetLabelValue sep ob =
     (if meta_name (obj_meta ob) \<noteq> ''''
      then meta_namespace (obj_meta ob) @ sep @ meta_name (obj_meta ob) else '''')"

definition namespaced_GetNamespacedName :: "string \<Rightarrow> string \<Rightarrow> object_key" where
  "namespaced_GetNamespacedName sep label_value =
     (case str_split label_value sep of
        [ns, n] \<Rightarrow> \<lparr>key_namespace = ns, key_name = n\<rparr>
      | _ \<Rightarrow> empty_key)"

definition NewNamespacedObjectLabeler :: "string \<Rightarrow> object_labeler" where
  "NewNamespacedObjectLabeler sep =
     \<lparr>GetLabelValue = namespaced_GetLabelValue sep,
      GetNamespacedName = namespaced_GetNamespacedName sep\<rparr>"

text \<open>The labelers of the service and node controllers (their \<open>add.go\<close>).\<close>

definition service_ObjectLabeler :: object_labeler where
  "service_ObjectLabeler = NewNamespacedObjectLabeler ''.''"

definition node_ObjectLabeler :: object_labeler where
  "node_ObjectLabeler = NewClusterObjectLabeler"

section \<open>Mappers\<close>

definition labelMapper_Map :: "object_labeler \<Rightarrow> string \<Rightarrow> k8s_object \<Rightarrow> object_key" where
  "labelMapper_Map l label ob = GetNamespacedName l (map_get (meta_labels (obj_meta ob)) label)"

definition MapFuncFromMapper :: "(k8s_object \<Rightarrow> object_key) \<Rightarrow> k8s_object \<Rightarrow> object_key list" where
  "MapFuncFromMapper mapper ob =
     (let key = mapper ob in if key_name key = '''' then [] else [key])"

section \<open>The contract\<close>

text \<open>
  A labeler is sound for the objects in \<open>valid\<close>: their label value leads back to them, and
  no label leads to no object.
\<close>

locale object_labeler_contract =
  fixes l :: object_labeler and valid :: "k8s_object \<Rightarrow> bool"
  assumes label_roundtrip: "valid ob \<Longrightarrow> GetNamespacedName l (GetLabelValue l ob) = obj_key ob"
    and valid_name: "valid ob \<Longrightarrow> key_name (obj_key ob) \<noteq> ''''"
    and no_label: "key_name (GetNamespacedName l '''') = ''''"
begin

lemma label_inj:
  "valid a \<Longrightarrow> valid b \<Longrightarrow> GetLabelValue l a = GetLabelValue l b \<Longrightarrow> obj_key a = obj_key b"
  by (metis label_roundtrip)

definition owned_by :: "string \<Rightarrow> k8s_object \<Rightarrow> k8s_object \<Rightarrow> bool" where
  "owned_by label ob owner \<longleftrightarrow> map_get (meta_labels (obj_meta ob)) label = GetLabelValue l owner"

lemma map_to_owner:
  "valid owner \<Longrightarrow> owned_by label ob owner \<Longrightarrow>
   MapFuncFromMapper (labelMapper_Map l label) ob = [obj_key owner]"
  using label_roundtrip [of owner] valid_name [of owner]
  by (auto simp: MapFuncFromMapper_def labelMapper_Map_def owned_by_def)

lemma map_unlabelled:
  "map_get (meta_labels (obj_meta ob)) label = '''' \<Longrightarrow>
   MapFuncFromMapper (labelMapper_Map l label) ob = []"
  using no_label by (simp add: MapFuncFromMapper_def labelMapper_Map_def)

end

text \<open>Cluster objects have no namespace.\<close>

definition cluster_object :: "k8s_object \<Rightarrow> bool" where
  "cluster_object ob \<longleftrightarrow> meta_namespace (obj_meta ob) = '''' \<and> meta_name (obj_meta ob) \<noteq> ''''"

text \<open>Objects whose namespace and name do not contain the separator.\<close>

definition separable :: "char \<Rightarrow> k8s_object \<Rightarrow> bool" where
  "separable c ob \<longleftrightarrow> meta_name (obj_meta ob) \<noteq> '''' \<and>
     c \<notin> set (meta_namespace (obj_meta ob)) \<and> c \<notin> set (meta_name (obj_meta ob))"

interpretation cluster_labeler: object_labeler_contract NewClusterObjectLabeler cluster_object
  by unfold_locales
    (auto simp: NewClusterObjectLabeler_def cluster_GetLabelValue_def
      cluster_GetNamespacedName_def cluster_object_def obj_key_def)

lemma namespaced_roundtrip:
  assumes "separable c ob"
  shows "namespaced_GetNamespacedName [c] (namespaced_GetLabelValue [c] ob) = obj_key ob"
proof -
  let ?ns = "meta_namespace (obj_meta ob)" and ?n = "meta_name (obj_meta ob)"
  have "str_split (?ns @ c # ?n) [c] = [?ns, ?n]"
    using assms by (simp add: str_split_def separable_def split_from_one_sep split_from_no_sep)
  then show ?thesis
    using assms by (simp add: namespaced_GetNamespacedName_def namespaced_GetLabelValue_def
        separable_def obj_key_def)
qed

interpretation namespaced_labeler:
  object_labeler_contract "NewNamespacedObjectLabeler [c]" "separable c" for c
  by unfold_locales
    (auto simp: NewNamespacedObjectLabeler_def namespaced_roundtrip,
      auto simp: separable_def obj_key_def namespaced_GetNamespacedName_def str_split_def
        empty_key_def)

text \<open>A label of a namespaced object never leads to a different object.\<close>

lemma length_split_from: "length (split_from [c] piece s) = Suc (count_list s c)"
  by (induction s arbitrary: piece) auto

lemma count_list_0_notin: "count_list s c = 0 \<longleftrightarrow> c \<notin> set s"
  by (induction s) auto

lemma namespaced_label_safe:
  assumes "meta_name (obj_meta ob) \<noteq> ''''"
  shows "namespaced_GetNamespacedName [c] (namespaced_GetLabelValue [c] ob) =
     (if separable c ob then obj_key ob else empty_key)"
proof (cases "separable c ob")
  case True
  then show ?thesis by (simp add: namespaced_roundtrip)
next
  case False
  let ?s = "meta_namespace (obj_meta ob) @ c # meta_name (obj_meta ob)"
  from False assms have "count_list ?s c \<noteq> 1"
    by (simp add: separable_def count_list_0_notin [symmetric])
  then have "length (str_split ?s [c]) \<noteq> 2"
    by (simp add: str_split_def length_split_from)
  then have "namespaced_GetNamespacedName [c] ?s = empty_key"
    by (auto simp: namespaced_GetNamespacedName_def split: list.split)
  with False assms show ?thesis by (simp add: namespaced_GetLabelValue_def)
qed

end
