(* ===== verification/Reconciler.thy ===== *)
theory Reconciler
  imports Effects
begin

text \<open>
  The generic reconciler (\<open>pkg/controller/reconciler.go\<close>, \<open>controller.go\<close>): it fetches an
  object, guards the actuator with a finalizer and turns the actuator's outcome into a
  result for the work queue. The actuator interface is the record \<open>actuator\<close>; an actuator
  gets the object by pointer, so its operations also return the object as they leave it.
\<close>

section \<open>The operations\<close>

record actuator =
  CreateOrUpdate :: "k8s_object \<Rightarrow> ((goerr + duration) \<times> k8s_object) io"
  Delete :: "k8s_object \<Rightarrow> ((goerr + duration) \<times> k8s_object) io"
  ShouldFinalize :: "k8s_object \<Rightarrow> (goerr + bool) io"

record result =
  Requeue :: bool
  RequeueAfter :: duration

definition empty_result :: result where
  "empty_result = \<lparr>Requeue = False, RequeueAfter = 0\<rparr>"

record reconciler =
  rc_actuator :: actuator
  rc_finalizer :: string
  rc_kind :: kind
  rc_should_ensure_deleted :: bool

text \<open>Calls of the Kubernetes client and its helpers.\<close>

definition client_Get :: "kind \<Rightarrow> object_key \<Rightarrow> (goerr + k8s_object) io" where
  "client_Get k key = ecall (\<lambda>e t. kGet e t k key) (KGet k key)"

definition AddFinalizers :: "k8s_object \<Rightarrow> string \<Rightarrow> (goerr option \<times> k8s_object) io" where
  "AddFinalizers ob f =
     ecall (\<lambda>e t. kAddFinalizer e t ob f) (\<lambda>(err, _). KAddFinalizer ob f err)"

definition RemoveFinalizers :: "k8s_object \<Rightarrow> string \<Rightarrow> goerr option io" where
  "RemoveFinalizers ob f = ecall (\<lambda>e t. kRemoveFinalizer e t ob f) (KRemoveFinalizer ob f)"

definition reconcileErr :: "goerr \<Rightarrow> (goerr + result) io" where
  "reconcileErr err =
     seq (ask (\<lambda>e. errorsCause e err)) (\<lambda>cause.
     case cause of
       RequeueAfterError _ after \<Rightarrow> ret (Inr \<lparr>Requeue = True, RequeueAfter = after\<rparr>)
     | _ \<Rightarrow> ret (Inl err))"

text \<open>
  The common tail of both branches: remove the finalizer, tolerating that the object is gone.
\<close>

definition remove_finalizer :: "reconciler \<Rightarrow> k8s_object \<Rightarrow> result \<Rightarrow> (goerr + result) io" where
  "remove_finalizer r ob res =
     seq (RemoveFinalizers ob (rc_finalizer r)) (\<lambda>err.
     seq (ask (\<lambda>e. ignoreNotFound e err)) (\<lambda>err.
     case err of
       Some err \<Rightarrow> ret (Inl (Wrap ''could not remove finalizer'' err))
     | None \<Rightarrow> ret (Inr res)))"

definition requeue_result :: "duration \<Rightarrow> result" where
  "requeue_result after = (if after \<noteq> 0 then \<lparr>Requeue = False, RequeueAfter = after\<rparr> else empty_result)"

definition actuator_CreateOrUpdate ::
  "reconciler \<Rightarrow> bool \<Rightarrow> k8s_object \<Rightarrow> (goerr + result) io" where
  "actuator_CreateOrUpdate r should_finalize ob =
     seq (CreateOrUpdate (rc_actuator r) ob) (\<lambda>(res, ob').
     case res of
       Inl err \<Rightarrow> reconcileErr (Wrap ''could not reconcile object creation or update'' err)
     | Inr after \<Rightarrow>
         if \<not> should_finalize then remove_finalizer r ob' empty_result
         else ret (Inr (requeue_result after)))"

definition createOrUpdate :: "reconciler \<Rightarrow> k8s_object \<Rightarrow> (goerr + result) io" where
  "createOrUpdate r ob =
     seq (ShouldFinalize (rc_actuator r) ob) (\<lambda>sf.
     case sf of
       Inl err \<Rightarrow> ret (Inl (Wrap ''could not check if the object should be finalized'' err))
     | Inr should_finalize \<Rightarrow>
         if should_finalize then
           seq (AddFinalizers ob (rc_finalizer r)) (\<lambda>(err, ob').
           case err of
             Some err \<Rightarrow>
               seq (ask (\<lambda>e. isNotFound e err)) (\<lambda>not_found.
               if not_found then ret (Inr empty_result)
               else ret (Inl (Wrap ''could not ensure finalizer'' err)))
           | None \<Rightarrow> actuator_CreateOrUpdate r True ob')
         else
           seq (ask (\<lambda>e. containsFinalizer e ob (rc_finalizer r))) (\<lambda>has.
           if \<not> has then ret (Inr empty_result) else actuator_CreateOrUpdate r False ob))"

definition delete :: "reconciler \<Rightarrow> k8s_object \<Rightarrow> (goerr + result) io" where
  "delete r ob =
     seq (ask (\<lambda>e. containsFinalizer e ob (rc_finalizer r))) (\<lambda>has.
     if \<not> has then ret (Inr empty_result)
     else
       seq (Delete (rc_actuator r) ob) (\<lambda>(res, ob').
       case res of
         Inl err \<Rightarrow> reconcileErr (Wrap ''could not reconcile object deletion'' err)
       | Inr after \<Rightarrow> remove_finalizer r ob' (requeue_result after)))"

definition ensureDeleted :: "reconciler \<Rightarrow> k8s_object \<Rightarrow> (goerr + result) io" where
  "ensureDeleted r ob =
     seq (Delete (rc_actuator r) ob) (\<lambda>(res, ob').
     case res of
       Inl err \<Rightarrow> reconcileErr (Wrap ''could not ensure object deletion'' err)
     | Inr _ \<Rightarrow> ret (Inr empty_result))"

definition Reconcile :: "reconciler \<Rightarrow> object_key \<Rightarrow> (goerr + result) io" where
  "Reconcile r request =
     seq (client_Get (rc_kind r) request) (\<lambda>got.
     case got of
       Inl err \<Rightarrow>
         seq (ask (\<lambda>e. isNotFound e err)) (\<lambda>not_found.
         if not_found then
           (if rc_should_ensure_deleted r then ensureDeleted r (zero_object (rc_kind r) request)
            else ret (Inr empty_result))
         else ret (Inl (Wrap ''could not get object'' err)))
     | Inr ob \<Rightarrow>
         if meta_deletion_timestamp (obj_meta ob) \<noteq> None then delete r ob
         else createOrUpdate r ob)"

section \<open>Events of the reconciler\<close>

fun actuator_event :: "event \<Rightarrow> bool" where
  "actuator_event (KAddFinalizer _ _ _) = False"
| "actuator_event (KRemoveFinalizer _ _ _) = False"
| "actuator_event (KGet _ _ _) = False"
| "actuator_event _ = True"

text \<open>
  A run of an actuator operation, with its outcome and its events, none of which is an event of
  the reconciler itself; and a reconciliation that ends without an error and without asking for
  an immediate repetition.
\<close>

definition ran :: "env \<Rightarrow> 'a io \<Rightarrow> 'a outcome \<Rightarrow> trace \<Rightarrow> bool" where
  "ran e m out acts \<longleftrightarrow> (\<exists>t. m e t = (out, t @ acts)) \<and> list_all actuator_event acts"

lemma stays_ran: "stays actuator_event m \<Longrightarrow> yields e m (\<lambda>out es. ran e m out es)"
  unfolding stays_def yields_def ran_def by (metis prod.collapse)

definition finished :: "(goerr + result) outcome \<Rightarrow> bool" where
  "finished r \<longleftrightarrow> (\<exists>res. r = Returned (Inr res) \<and> \<not> Requeue res)"

lemma finished_simps [simp]:
  "finished (Returned (Inr res)) \<longleftrightarrow> \<not> Requeue res" "\<not> finished (Returned (Inl err))"
  "\<not> finished (Panicked msg)" "\<not> finished OutOfFuel"
  by (auto simp: finished_def)

lemma requeue_simps [simp]: "\<not> Requeue empty_result" "\<not> Requeue (requeue_result d)"
  by (simp_all add: empty_result_def requeue_result_def)

text \<open>
  The order the finalizer imposes on the events around an actuator operation \<open>m\<close>.
  \<open>released_by\<close>: the operation runs, and if and only if it succeeds, the finalizer is taken off
  the object of the same kind it handed back, as the last call; the reconciliation is finished if and only if
  that call succeeded or found the object gone. \<open>protected_by\<close>: the finalizer is put on the
  object first; if that is refused nothing else happens, and otherwise the operation runs and
  the finalizer stays. \<open>run_bare\<close>: the operation runs without any finalizer.
\<close>

definition released_by ::
  "env \<Rightarrow> string \<Rightarrow> (k8s_object \<Rightarrow> ((goerr + duration) \<times> k8s_object) io) \<Rightarrow> k8s_object \<Rightarrow>
   (goerr + result) outcome \<Rightarrow> trace \<Rightarrow> bool" where
  "released_by e f m ob r es \<longleftrightarrow>
     (\<exists>out acts. ran e (m ob) out acts \<and>
        (case out of
           Returned (Inr d, ob') \<Rightarrow> obj_kind ob' = obj_kind ob \<and>
             (\<exists>err. es = acts @ [KRemoveFinalizer ob' f err] \<and> (finished r \<longleftrightarrow> ignoreNotFound e err = None))
         | _ \<Rightarrow> es = acts \<and> \<not> finished r))"

definition run_bare ::
  "env \<Rightarrow> ((goerr + duration) \<times> k8s_object) io \<Rightarrow> (goerr + result) outcome \<Rightarrow> trace \<Rightarrow> bool" where
  "run_bare e m r es \<longleftrightarrow>
     (\<exists>out. ran e m out es \<and> (finished r \<longleftrightarrow> (\<exists>d ob'. out = Returned (Inr d, ob'))))"

definition protected_by ::
  "env \<Rightarrow> string \<Rightarrow> (k8s_object \<Rightarrow> ((goerr + duration) \<times> k8s_object) io) \<Rightarrow> k8s_object \<Rightarrow>
   (goerr + result) outcome \<Rightarrow> trace \<Rightarrow> bool" where
  "protected_by e f m ob r es \<longleftrightarrow>
     (\<exists>err. es = [KAddFinalizer ob f (Some err)] \<and> (finished r \<longleftrightarrow> isNotFound e err)) \<or>
     (\<exists>ob' acts. es = KAddFinalizer ob f None # acts \<and> run_bare e (m ob') r acts)"

text \<open>
  The whole reconciliation of the object \<open>key\<close>, where \<open>wants\<close> says whether an object is to carry
  the finalizer: one fetch, then what the answer calls for.
\<close>

definition answers_fetch ::
  "env \<Rightarrow> reconciler \<Rightarrow> (k8s_object \<Rightarrow> goerr + bool) \<Rightarrow> object_key \<Rightarrow> goerr + k8s_object \<Rightarrow>
   (goerr + result) outcome \<Rightarrow> trace \<Rightarrow> bool" where
  "answers_fetch e rc wants key got r es \<longleftrightarrow>
     (case got of
        Inl err \<Rightarrow>
          if isNotFound e err \<and> rc_should_ensure_deleted rc
          then run_bare e (Delete (rc_actuator rc) (zero_object (rc_kind rc) key)) r es
          else es = [] \<and> (finished r \<longleftrightarrow> isNotFound e err)
      | Inr ob \<Rightarrow>
          if meta_deletion_timestamp (obj_meta ob) \<noteq> None then
            if containsFinalizer e ob (rc_finalizer rc)
            then released_by e (rc_finalizer rc) (Delete (rc_actuator rc)) ob r es
            else es = [] \<and> finished r
          else
            case wants ob of
              Inl err \<Rightarrow> es = [] \<and> \<not> finished r
            | Inr True \<Rightarrow> protected_by e (rc_finalizer rc) (CreateOrUpdate (rc_actuator rc)) ob r es
            | Inr False \<Rightarrow>
                if containsFinalizer e ob (rc_finalizer rc)
                then released_by e (rc_finalizer rc) (CreateOrUpdate (rc_actuator rc)) ob r es
                else es = [] \<and> finished r)"

definition disciplined ::
  "env \<Rightarrow> reconciler \<Rightarrow> (k8s_object \<Rightarrow> goerr + bool) \<Rightarrow> object_key \<Rightarrow>
   (goerr + result) outcome \<Rightarrow> trace \<Rightarrow> bool" where
  "disciplined e rc wants key r es \<longleftrightarrow>
     (\<exists>got es'. es = KGet (rc_kind rc) key got # es' \<and> answers_fetch e rc wants key got r es')"

lemma yields_reconcileErr: "(\<And>r. Q r []) \<Longrightarrow> yields e (reconcileErr err) Q"
  unfolding reconcileErr_def by (auto intro!: yields_intros split: goerr.split)

lemma yields_reconcileErr_unfinished:
  "yields e (reconcileErr err) (\<lambda>r es. es = [] \<and> \<not> finished r)"
  unfolding reconcileErr_def by (auto intro!: yields_intros split: goerr.split)

lemma yields_remove_finalizer:
  "(\<And>r err. Q r [KRemoveFinalizer ob (rc_finalizer rc) err]) \<Longrightarrow>
   yields e (remove_finalizer rc ob res) Q"
  unfolding remove_finalizer_def RemoveFinalizers_def
  by (auto intro!: yields_intros split: option.split)

lemma yields_remove_finalizer_finished:
  "\<not> Requeue res \<Longrightarrow> yields e (remove_finalizer rc ob res) (\<lambda>r es. \<exists>err.
     es = [KRemoveFinalizer ob (rc_finalizer rc) err] \<and> (finished r \<longleftrightarrow> ignoreNotFound e err = None))"
  unfolding remove_finalizer_def RemoveFinalizers_def
  by (auto intro!: yields_intros split: option.split)

section \<open>The contract of an actuator\<close>

text \<open>
  An actuator leaves finalizers and the fetching of its object to the reconciler, its test
  whether to finalize has no effects and always gives the answer \<open>wants\<close>, and it hands back an
  object of the kind it was given.
\<close>

locale actuator_contract =
  fixes a :: actuator and wants :: "k8s_object \<Rightarrow> goerr + bool"
  assumes create_frame: "stays actuator_event (CreateOrUpdate a ob)"
    and delete_frame: "stays actuator_event (Delete a ob)"
    and should_finalize_wants: "ShouldFinalize a ob = ret (wants ob)"
    and create_kind: "yields e (CreateOrUpdate a ob)
      (\<lambda>r es. \<forall>res ob'. r = Returned (res, ob') \<longrightarrow> obj_kind ob' = obj_kind ob)"
    and delete_kind: "yields e (Delete a ob)
      (\<lambda>r es. \<forall>res ob'. r = Returned (res, ob') \<longrightarrow> obj_kind ob' = obj_kind ob)"
begin

text \<open>Deletion: the finalizer goes last, and only after the actuator succeeded.\<close>

lemma delete_trace:
  assumes "rc_actuator rc = a"
  shows "yields e (delete rc ob) (\<lambda>r es.
     if containsFinalizer e ob (rc_finalizer rc)
     then released_by e (rc_finalizer rc) (Delete a) ob r es else es = [] \<and> finished r)"
  unfolding delete_def assms
  by (auto simp: released_by_def intro!: yields_intros
      yields_seq [OF yields_conj [OF stays_ran [OF delete_frame] delete_kind]]
      yields_mono [OF yields_reconcileErr_unfinished] yields_mono [OF yields_remove_finalizer_finished]
      split: sum.split; fastforce)

text \<open>Creation and update.\<close>

lemma create_bare:
  assumes "rc_actuator rc = a"
  shows "yields e (actuator_CreateOrUpdate rc True ob) (run_bare e (CreateOrUpdate a ob))"
  unfolding actuator_CreateOrUpdate_def assms
  by (auto simp: run_bare_def intro!: yields_intros yields_seq [OF stays_ran [OF create_frame]]
      yields_mono [OF yields_reconcileErr_unfinished] split: sum.split; fastforce)

lemma create_released:
  assumes "rc_actuator rc = a"
  shows "yields e (actuator_CreateOrUpdate rc False ob)
     (released_by e (rc_finalizer rc) (CreateOrUpdate a) ob)"
  unfolding actuator_CreateOrUpdate_def assms
  by (auto simp: released_by_def intro!: yields_intros
      yields_seq [OF yields_conj [OF stays_ran [OF create_frame] create_kind]]
      yields_mono [OF yields_reconcileErr_unfinished] yields_mono [OF yields_remove_finalizer_finished]
      split: sum.split; fastforce)

lemma createOrUpdate_trace:
  assumes "rc_actuator rc = a"
  shows "yields e (createOrUpdate rc ob) (\<lambda>r es.
     case wants ob of
       Inl err \<Rightarrow> es = [] \<and> \<not> finished r
     | Inr True \<Rightarrow> protected_by e (rc_finalizer rc) (CreateOrUpdate a) ob r es
     | Inr False \<Rightarrow>
         if containsFinalizer e ob (rc_finalizer rc)
         then released_by e (rc_finalizer rc) (CreateOrUpdate a) ob r es else es = [] \<and> finished r)"
proof -
  have "yields e (actuator_CreateOrUpdate rc True ob') (\<lambda>r es.
      protected_by e (rc_finalizer rc) (CreateOrUpdate a) ob r (KAddFinalizer ob (rc_finalizer rc) None # es))"
    for ob'
    by (rule yields_mono [OF create_bare [OF assms]]) (auto simp: protected_by_def)
  then show ?thesis
    unfolding createOrUpdate_def assms AddFinalizers_def should_finalize_wants
    by (auto simp: protected_by_def [of _ _ _ _ _ "[KAddFinalizer ob (rc_finalizer rc) (Some _)]"]
        intro!: yields_intros create_released [OF assms]
        split: sum.split prod.split option.split bool.split)
qed

lemma ensureDeleted_bare:
  assumes "rc_actuator rc = a"
  shows "yields e (ensureDeleted rc ob) (run_bare e (Delete a ob))"
  unfolding ensureDeleted_def assms
  by (auto simp: run_bare_def intro!: yields_intros yields_seq [OF stays_ran [OF delete_frame]]
      yields_mono [OF yields_reconcileErr_unfinished] split: sum.split; fastforce)

text \<open>A whole reconciliation.\<close>

lemma Reconcile_disciplined:
  assumes "rc_actuator rc = a"
  shows "yields e (Reconcile rc key) (disciplined e rc wants key)"
proof -
  have fetched: "yields e m (\<lambda>r es. disciplined e rc wants key r (KGet (rc_kind rc) key got # es))"
    if "yields e m (answers_fetch e rc wants key got)" for m got
    using that by (rule yields_mono) (simp add: disciplined_def)
  show ?thesis
    unfolding Reconcile_def client_Get_def
    by (rule yields_seq_ecall, rule fetched)
      (auto simp: assms answers_fetch_def
        intro!: yields_intros createOrUpdate_trace [OF assms, THEN yields_mono]
          delete_trace [OF assms, THEN yields_mono] ensureDeleted_bare [OF assms, THEN yields_mono]
        split: sum.split bool.splits)
qed

end

text \<open>If every object is to be finalized, a finalizer is removed only after a successful deletion.\<close>

lemma ran_no_removal: "ran e m out acts \<Longrightarrow> KRemoveFinalizer ob f err \<notin> set acts"
  by (auto simp: ran_def list_all_iff)

lemma released_by_removal:
  assumes "released_by e g m ob0 r es" "KRemoveFinalizer ob f err \<in> set es"
  shows "\<exists>d t acts. m ob0 e t = (Returned (Inr d, ob), t @ acts)"
proof -
  obtain out acts where ran: "ran e (m ob0) out acts" and es: "case out of
      Returned (Inr d, ob') \<Rightarrow> obj_kind ob' = obj_kind ob0 \<and>
        (\<exists>err. es = acts @ [KRemoveFinalizer ob' g err] \<and> (finished r \<longleftrightarrow> ignoreNotFound e err = None))
    | _ \<Rightarrow> es = acts \<and> \<not> finished r"
    using assms(1) unfolding released_by_def by blast
  from ran_no_removal [OF ran] es assms(2) obtain d where "out = Returned (Inr d, ob)"
    by (auto split: outcome.splits prod.splits sum.splits)
  with ran show ?thesis by (auto simp: ran_def)
qed

lemma disciplined_removal:
  assumes "disciplined e rc (\<lambda>_. Inr True) key r es" "KRemoveFinalizer ob f err \<in> set es"
  shows "\<exists>ob0 d t acts. Delete (rc_actuator rc) ob0 e t = (Returned (Inr d, ob), t @ acts)"
proof -
  obtain got es' where es: "es = KGet (rc_kind rc) key got # es'"
      "answers_fetch e rc (\<lambda>_. Inr True) key got r es'"
    using assms(1) unfolding disciplined_def by blast
  from es(1) assms(2) have "KRemoveFinalizer ob f err \<in> set es'" by simp
  with es(2) obtain ob0 where "released_by e (rc_finalizer rc) (Delete (rc_actuator rc)) ob0 r es'"
    unfolding answers_fetch_def
    by (auto simp: run_bare_def protected_by_def dest: ran_no_removal split: sum.splits if_splits)
  from released_by_removal [OF this \<open>KRemoveFinalizer ob f err \<in> set es'\<close>] show ?thesis by blast
qed

section \<open>Properties of the history around an actuator\<close>

text \<open>
  The reconciler's own events surround those of one actuator operation. A property of
  histories that survives such surroundings carries over from the actuator to the reconciler.
\<close>

definition wraps :: "(trace \<Rightarrow> bool) \<Rightarrow> bool" where
  "wraps P \<longleftrightarrow> P [] \<and>
     (\<forall>pre es post. list_all (\<lambda>ev. \<not> actuator_event ev) pre \<longrightarrow> P es \<longrightarrow>
        list_all (\<lambda>ev. \<not> actuator_event ev) post \<longrightarrow> P (pre @ es @ post))"

lemma wraps_around:
  "wraps P \<Longrightarrow> list_all (\<lambda>ev. \<not> actuator_event ev) pre \<Longrightarrow> P es \<Longrightarrow>
   list_all (\<lambda>ev. \<not> actuator_event ev) post \<Longrightarrow> P (pre @ es @ post)"
  unfolding wraps_def by blast

lemma wraps_own: "wraps P \<Longrightarrow> list_all (\<lambda>ev. \<not> actuator_event ev) es \<Longrightarrow> P es"
  using wraps_around [of P es "[]" "[]"] by (simp add: wraps_def)

lemma wraps_one:
  assumes "wraps P" "P es"
  shows "\<not> actuator_event ev \<Longrightarrow> P (ev # es)" "\<not> actuator_event ev \<Longrightarrow> P (es @ [ev])"
    "\<not> actuator_event ev \<Longrightarrow> \<not> actuator_event ev' \<Longrightarrow> P (ev # es @ [ev'])"
    "\<not> actuator_event ev \<Longrightarrow> \<not> actuator_event ev' \<Longrightarrow> P (ev # ev' # es)"
  using wraps_around [OF assms(1) _ assms(2), of "[ev]" "[]"]
    wraps_around [OF assms(1) _ assms(2), of "[]" "[ev]"]
    wraps_around [OF assms(1) _ assms(2), of "[ev]" "[ev']"]
    wraps_around [OF assms(1) _ assms(2), of "[ev, ev']" "[]"] by simp_all

lemma Reconcile_wraps:
  assumes w: "wraps P"
    and c: "\<And>ob. yields e (CreateOrUpdate (rc_actuator rc) ob) (\<lambda>_ es. P es)"
    and d: "\<And>ob. yields e (Delete (rc_actuator rc) ob) (\<lambda>_ es. P es)"
    and f: "\<And>ob. yields e (ShouldFinalize (rc_actuator rc) ob) (\<lambda>_ es. es = [])"
  shows "yields e (Reconcile rc key) (\<lambda>_ es. P es)"
proof -
  have acts: "yields e (actuator_CreateOrUpdate rc sf ob) (\<lambda>_ es. P (xs @ es))"
    if "list_all (\<lambda>ev. \<not> actuator_event ev) xs" for sf ob xs
    unfolding actuator_CreateOrUpdate_def
    by (rule yields_seq [OF c])
      (use wraps_around [OF w that] in
        \<open>auto intro!: yields_intros yields_reconcileErr yields_remove_finalizer split: sum.split\<close>,
       (use wraps_around [OF w that, of _ "[]"] in auto)+)
  have dels: "yields e (delete rc ob) (\<lambda>_ es. P (ev # es))"
    "yields e (ensureDeleted rc ob) (\<lambda>_ es. P (ev # es))" if "\<not> actuator_event ev" for ob ev
    unfolding delete_def ensureDeleted_def
    using that wraps_own [OF w, of "[ev]"] wraps_one [OF w]
    by (auto intro!: yields_intros yields_seq [OF d] yields_reconcileErr yields_remove_finalizer
        split: sum.split)
  have creates: "yields e (createOrUpdate rc ob) (\<lambda>_ es. P (ev # es))"
    if "\<not> actuator_event ev" for ob ev
    unfolding createOrUpdate_def AddFinalizers_def
    by (rule yields_seq [OF f])
      (use that acts [of "[ev]"] acts [of "[ev, _]"] wraps_own [OF w] in
        \<open>auto intro!: yields_intros split: sum.split prod.split option.split\<close>)
  show ?thesis
    unfolding Reconcile_def client_Get_def
    by (auto intro!: yields_intros dels creates wraps_own [OF w] split: sum.split)
qed

section \<open>Running the reconciler on each branch\<close>

text \<open>What each branch does once the actuator's run is known.\<close>

lemma delete_without_finalizer:
  "\<not> containsFinalizer e ob (rc_finalizer rc) \<Longrightarrow>
   delete rc ob e t = (Returned (Inr empty_result), t)"
  by (simp add: delete_def run_simps)

lemma delete_actuator_ok:
  assumes "containsFinalizer e ob (rc_finalizer rc)"
    and "Delete (rc_actuator rc) ob e t = (Returned (Inr after, ob'), t')"
  shows "delete rc ob e t =
    (let err = kRemoveFinalizer e t' ob' (rc_finalizer rc)
     in (Returned (case ignoreNotFound e err of
           None \<Rightarrow> Inr (requeue_result after)
         | Some err' \<Rightarrow> Inl (Wrap ''could not remove finalizer'' err')),
         t' @ [KRemoveFinalizer ob' (rc_finalizer rc) err]))"
  using assms
  by (auto simp: delete_def run_simps seq_run_Returned remove_finalizer_def RemoveFinalizers_def
      Let_def split: option.split)

lemma delete_actuator_error:
  assumes "containsFinalizer e ob (rc_finalizer rc)"
    and "Delete (rc_actuator rc) ob e t = (Returned (Inl err, ob'), t')"
  shows "delete rc ob e t =
    reconcileErr (Wrap ''could not reconcile object deletion'' err) e t'"
  using assms by (simp add: delete_def run_simps seq_run_Returned)

lemma reconcileErr_requeue:
  "errorsCause e err = RequeueAfterError cause after \<Longrightarrow>
   reconcileErr err e t = (Returned (Inr \<lparr>Requeue = True, RequeueAfter = after\<rparr>), t)"
  by (simp add: reconcileErr_def run_simps)

lemma reconcileErr_plain:
  "(\<And>cause after. errorsCause e err \<noteq> RequeueAfterError cause after) \<Longrightarrow>
   reconcileErr err e t = (Returned (Inl err), t)"
  by (simp add: reconcileErr_def run_simps split: goerr.split)

end
