(* ===== verification/Pip_Actuator.thy ===== *)
theory Pip_Actuator
  imports Failed_Operations Azure_Pip_Utils Object_Labeler Reconciler
begin

text \<open>
  The actuator of the publicipaddress controller
  (\<open>pkg/controller/azure/publicipaddress/actuator.go\<close>). Its \<open>CreateOrUpdate\<close> and \<open>Delete\<close> take
  the resource by pointer and change it through the status patch, so the model hands the
  patched resource on.
\<close>

section \<open>The operations\<close>

record pip_actuator =
  pa_utils :: pip_utils
  pa_config :: pip_config

definition ServiceTag :: string where
  "ServiceTag = ''service''"

text \<open>\<open>controllerutil.CreateOrPatch\<close> of the custom resource.\<close>

definition CreateOrPatchPip ::
  "public_ip_address \<Rightarrow> (public_ip_address \<Rightarrow> public_ip_address) \<Rightarrow>
   (goerr option \<times> public_ip_address) io" where
  "CreateOrPatchPip pubip f =
     ecall (\<lambda>e t. kPatchPip e t pubip f) (\<lambda>(err, pubip'). KPatchPip pubip err pubip')"

definition getFailedOperations :: "public_ip_address \<Rightarrow> failed_operation list" where
  "getFailedOperations pubip = ps_failed_operations (pip_status pubip)"

definition shouldNotClean :: "public_ip_address \<Rightarrow> bool" where
  "shouldNotClean pubip \<longleftrightarrow>
     map_get (meta_annotations (pip_meta pubip)) DoNotCleanAnnotation = format_bool True"

definition getProvisioningState :: "az_public_ip \<Rightarrow> provisioning_state" where
  "getProvisioningState azip =
     (case az_ip_provisioning_state azip of None \<Rightarrow> OtherState '''' | Some st \<Rightarrow> st)"

definition build_status :: "az_public_ip option \<Rightarrow> failed_operation list \<Rightarrow> pip_status" where
  "build_status azip ops =
     (let status = (case azip of
            None \<Rightarrow> empty_pip_status
          | Some z \<Rightarrow> \<lparr>ps_exists = True, ps_id = az_ip_id z, ps_name = az_ip_name z,
                       ps_provisioning_state = az_ip_provisioning_state z,
                       ps_failed_operations = []\<rparr>)
      in if ops \<noteq> [] then status\<lparr>ps_failed_operations := ops\<rparr> else status)"

definition updatePublicIPAddressStatus ::
  "public_ip_address \<Rightarrow> az_public_ip option \<Rightarrow> failed_operation list \<Rightarrow>
   (goerr option \<times> public_ip_address) io" where
  "updatePublicIPAddressStatus pubip azip ops =
     seq (CreateOrPatchPip pubip (\<lambda>p. p\<lparr>pip_status := build_status azip ops\<rparr>)) (\<lambda>(err, pubip').
     seq (ask (\<lambda>e. ignoreNotFound e err)) (\<lambda>err.
     ret (map_option (Wrap ''could not update publicipaddress status'') err, pubip')))"

definition tagged_for :: "string \<Rightarrow> az_public_ip \<Rightarrow> bool" where
  "tagged_for serviceName z \<longleftrightarrow>
     serviceName = ''/'' \<or>
     (case az_ip_tags z ServiceTag of Some (Some v) \<Rightarrow> v = serviceName | _ \<Rightarrow> False)"

definition getByIPAndTag ::
  "pip_actuator \<Rightarrow> public_ip_address \<Rightarrow> (goerr + az_public_ip option) io" where
  "getByIPAndTag a pubip =
     seq (GetByIP (pa_utils a) (ps_ip_address (pip_spec pubip))) (\<lambda>r.
     case r of
       Inl err \<Rightarrow> ret (Inl (Wrap ''could not get Azure public IP address by IP'' err))
     | Inr azip \<Rightarrow>
         seq (ask (\<lambda>e. namespacedNameString e (GetNamespacedName service_ObjectLabeler
                (map_get (meta_labels (pip_meta pubip)) ServiceLabel)))) (\<lambda>serviceName.
         case azip of
           Some z \<Rightarrow> if tagged_for serviceName z then ret (Inr (Some z)) else ret (Inr None)
         | None \<Rightarrow> ret (Inr None)))"

definition getAzurePublicIPAddress ::
  "pip_actuator \<Rightarrow> public_ip_address \<Rightarrow> (goerr + az_public_ip option) io" where
  "getAzurePublicIPAddress a pubip =
     (case ps_name (pip_status pubip) of
        None \<Rightarrow> getByIPAndTag a pubip
      | Some name \<Rightarrow>
          seq (GetByName (pa_utils a) name) (\<lambda>r.
          case r of
            Inl err \<Rightarrow> ret (Inl (Wrap ''could not get Azure public IP address by name'' err))
          | Inr None \<Rightarrow> getByIPAndTag a pubip
          | Inr (Some z) \<Rightarrow>
              seq (deref (az_ip_address z)) (\<lambda>ip.
              if ip = ps_ip_address (pip_spec pubip) then ret (Inr (Some z))
              else getByIPAndTag a pubip)))"

definition cleanAzurePublicIPAddress ::
  "pip_actuator \<Rightarrow> public_ip_address \<Rightarrow> goerr option io" where
  "cleanAzurePublicIPAddress a pubip =
     seq (deref (ps_id (pip_status pubip))) (\<lambda>id.
     seq (RemoveFromLoadBalancer (pa_utils a) [id]) (\<lambda>r.
     case r of
       Some err \<Rightarrow>
         ret (Some (Wrap ''could not remove Azure public IP address from the load balancer'' err))
     | None \<Rightarrow>
         seq (deref (ps_name (pip_status pubip))) (\<lambda>name.
         seq (DeletePip (pa_utils a) name) (\<lambda>r.
         case r of
           Some err \<Rightarrow> ret (Some (Wrap ''could not delete Azure public IP address'' err))
         | None \<Rightarrow> ret None))))"

text \<open>
  What follows a failed Azure operation, the same block wherever one fails: count it, patch
  the status, requeue with backoff or give up.
\<close>

definition handle_failure ::
  "pip_actuator \<Rightarrow> public_ip_address \<Rightarrow> az_public_ip option \<Rightarrow> failed_operation list \<Rightarrow>
   operation_type \<Rightarrow> go_int \<Rightarrow> goerr \<Rightarrow> ((goerr + duration) \<times> public_ip_address) io" where
  "handle_failure a pubip azip ops op_type max_attempts err =
     seq (ask (\<lambda>e. errorText e err)) (\<lambda>msg.
     seq now (\<lambda>ts.
     let (ops', op) = AddOrUpdateFailedOperation ops op_type msg ts in
     seq (updatePublicIPAddressStatus pubip azip ops') (\<lambda>(uerr, pubip').
     case uerr of
       Some err' \<Rightarrow> ret (Inl err', pubip')
     | None \<Rightarrow>
         if go_less (fo_attempts op) max_attempts then
           (case requeue_backoff (pc_requeue_interval (pa_config a)) (fo_attempts op) of
              None \<Rightarrow> panic ''negative shift amount''
            | Some after \<Rightarrow> ret (Inl (RequeueAfterError err after), pubip'))
         else ret (Inr (pc_sync_period (pa_config a)), pubip'))))"

definition transient :: "az_public_ip option \<Rightarrow> bool" where
  "transient azip \<longleftrightarrow>
     (case azip of
        None \<Rightarrow> True
      | Some z \<Rightarrow> getProvisioningState z \<noteq> Succeeded \<and> getProvisioningState z \<noteq> Failed)"

definition pip_CreateOrUpdate ::
  "pip_actuator \<Rightarrow> public_ip_address \<Rightarrow> ((goerr + duration) \<times> public_ip_address) io" where
  "pip_CreateOrUpdate a pubip =
     (let failed = getFailedOperations pubip in
      seq (getAzurePublicIPAddress a pubip) (\<lambda>r.
      case r of
        Inl err \<Rightarrow>
          handle_failure a pubip None failed OperationTypeGetPublicIPAddress
            (pc_max_get_attempts (pa_config a)) err
      | Inr azip \<Rightarrow>
          (let failed = DeleteFailedOperation failed OperationTypeGetPublicIPAddress in
           seq (updatePublicIPAddressStatus pubip azip failed) (\<lambda>(uerr, pubip').
           case uerr of
             Some err \<Rightarrow> ret (Inl err, pubip')
           | None \<Rightarrow>
               ret (Inr (if transient azip then pc_requeue_interval (pa_config a)
                         else pc_sync_period (pa_config a)), pubip')))))"

text \<open>The part of \<open>Delete\<close> after the grace period: clean, count, patch the status.\<close>

definition pip_clean ::
  "pip_actuator \<Rightarrow> public_ip_address \<Rightarrow> az_public_ip option \<Rightarrow> failed_operation list \<Rightarrow>
   ((goerr + duration) \<times> public_ip_address) io" where
  "pip_clean a pubip azip failed =
     seq (cleanAzurePublicIPAddress a pubip) (\<lambda>r.
     case r of
       Some err \<Rightarrow>
         handle_failure a pubip azip failed OperationTypeCleanPublicIPAddress
           (pc_max_clean_attempts (pa_config a)) err
     | None \<Rightarrow>
         (let failed = DeleteFailedOperation failed OperationTypeCleanPublicIPAddress in
          seq (counter_inc CleanedIPs) (\<lambda>_.
          seq (updatePublicIPAddressStatus pubip None failed) (\<lambda>(uerr, pubip').
          case uerr of
            Some err \<Rightarrow> ret (Inl err, pubip')
          | None \<Rightarrow> ret (Inr 0, pubip')))))"

definition within_grace :: "pip_actuator \<Rightarrow> public_ip_address \<Rightarrow> bool io" where
  "within_grace a pubip =
     (case meta_deletion_timestamp (pip_meta pubip) of
        None \<Rightarrow> ret False
      | Some dt \<Rightarrow>
          seq now (\<lambda>ts.
          ret (\<not> (ptr_time dt + sint (pc_deletion_grace_period (pa_config a)) < ts))))"

definition pip_Delete ::
  "pip_actuator \<Rightarrow> public_ip_address \<Rightarrow> ((goerr + duration) \<times> public_ip_address) io" where
  "pip_Delete a pubip =
     (let failed = getFailedOperations pubip in
      seq (getAzurePublicIPAddress a pubip) (\<lambda>r.
      case r of
        Inl err \<Rightarrow>
          handle_failure a pubip None failed OperationTypeGetPublicIPAddress
            (pc_max_get_attempts (pa_config a)) err
      | Inr azip \<Rightarrow>
          (let failed = DeleteFailedOperation failed OperationTypeGetPublicIPAddress in
           seq (updatePublicIPAddressStatus pubip azip failed) (\<lambda>(uerr, pubip').
           case uerr of
             Some err \<Rightarrow> ret (Inl err, pubip')
           | None \<Rightarrow>
               if azip \<noteq> None \<and> \<not> shouldNotClean pubip' then
                 seq (within_grace a pubip') (\<lambda>within.
                 if within then
                   ret (Inl (RequeueAfterError (NewError ''public IP address still exists'')
                          (pc_requeue_interval (pa_config a))), pubip')
                 else pip_clean a pubip' azip failed)
               else ret (Inr 0, pubip')))))"

text \<open>The actuator interface: the cast of the object, then the typed operation.\<close>

definition on_pip ::
  "(public_ip_address \<Rightarrow> ((goerr + duration) \<times> public_ip_address) io) \<Rightarrow>
   k8s_object \<Rightarrow> ((goerr + duration) \<times> k8s_object) io" where
  "on_pip f ob =
     (case ob of
        PublicIPAddress pubip \<Rightarrow> seq (f pubip) (\<lambda>(res, pubip'). ret (res, PublicIPAddress pubip'))
      | _ \<Rightarrow> ret (Inl (NewError ''reconciled object is not a publicipaddress''), ob))"

definition pip_NewActuator :: "pip_utils \<Rightarrow> pip_config \<Rightarrow> actuator" where
  "pip_NewActuator u config =
     (let a = \<lparr>pa_utils = u, pa_config = config\<rparr> in
      \<lparr>CreateOrUpdate = on_pip (pip_CreateOrUpdate a),
       Delete = on_pip (pip_Delete a),
       ShouldFinalize = (\<lambda>_. ret (Inr True))\<rparr>)"

text \<open>\<open>DefaultAddOptions\<close> of \<open>publicipaddress/add.go\<close>.\<close>

definition pip_default_config :: pip_config where
  "pip_default_config = \<lparr>pc_requeue_interval = 1 * minute, pc_sync_period = 10 * hour,
     pc_service_sync_period = 0, pc_deletion_grace_period = 5 * minute,
     pc_max_get_attempts = 5, pc_max_clean_attempts = 5\<rparr>"

definition pip_FinalizerName :: string where
  "pip_FinalizerName = ''azure.remedy.gardener.cloud/publicipaddress''"

text \<open>The reconciler \<open>AddToManagerWithOptions\<close> hands to the manager.\<close>

definition pip_reconciler :: "pip_utils \<Rightarrow> pip_config \<Rightarrow> reconciler" where
  "pip_reconciler u config =
     \<lparr>rc_actuator = pip_NewActuator u config, rc_finalizer = pip_FinalizerName,
      rc_kind = PublicIPAddressKind, rc_should_ensure_deleted = False\<rparr>"

end
