(* ===== verification/Pip_Guarantees.thy ===== *)
theory Pip_Guarantees
  imports Pip_Actuator
begin

text \<open>
  What the publicipaddress actuator guarantees, proved for every implementation of
  \<open>PublicIPAddressUtils\<close> that keeps the contract, and then for the repository's own.
\<close>

section \<open>Guards of the Azure writes\<close>

text \<open>The resources as the status patches of a history left them.\<close>

definition patched :: "trace \<Rightarrow> public_ip_address \<Rightarrow> bool" where
  "patched es p \<longleftrightarrow> (\<exists>p0 err. KPatchPip p0 err p \<in> set es)"

text \<open>
  Cleaning is allowed: the resource is not exempt, and if it is being deleted the clock has
  been read past the end of the grace period.
\<close>

definition grace_over :: "pip_config \<Rightarrow> trace \<Rightarrow> public_ip_address \<Rightarrow> bool" where
  "grace_over cfg es p \<longleftrightarrow>
     (\<forall>dt. meta_deletion_timestamp (pip_meta p) = Some dt \<longrightarrow>
        (\<exists>ts. ClockNow ts \<in> set es \<and> ptr_time dt + sint (pc_deletion_grace_period cfg) < ts))"

definition clean_allowed :: "pip_config \<Rightarrow> trace \<Rightarrow> public_ip_address \<Rightarrow> bool" where
  "clean_allowed cfg es p \<longleftrightarrow> patched es p \<and> \<not> shouldNotClean p \<and> grace_over cfg es p"

fun delete_guard :: "pip_config \<Rightarrow> trace \<Rightarrow> event \<Rightarrow> bool" where
  "delete_guard cfg pre (AzPipDelete _ name _) =
     (\<exists>p id. clean_allowed cfg pre p \<and> ps_name (pip_status p) = Some name \<and>
        ps_id (pip_status p) = Some id \<and> list_ex (detaches [id]) pre)"
| "delete_guard cfg pre (AzLbUpdate _ _ lb _) =
     (\<exists>p id. clean_allowed cfg pre p \<and> ps_id (pip_status p) = Some id \<and> detached [id] lb)"
| "delete_guard cfg pre (CounterInc m) =
     (m = CleanedIPs \<longrightarrow> list_ex is_pip_delete pre)"
| "delete_guard cfg pre _ = True"

text \<open>Events that no guard is about.\<close>

fun quiet_event :: "event \<Rightarrow> bool" where
  "quiet_event (AzPipDelete _ _ _) = False"
| "quiet_event (AzLbUpdate _ _ _ _) = False"
| "quiet_event (AzVmReapply _ _ _) = False"
| "quiet_event (CounterInc m) = (m \<noteq> CleanedIPs)"
| "quiet_event _ = True"

text \<open>A deletion aims at the address of the given name.\<close>

fun aims_at :: "string option \<Rightarrow> event \<Rightarrow> bool" where
  "aims_at name (AzPipDelete _ n _) = (name = Some n)"
| "aims_at name _ = True"

lemma aims_at_no_delete: "\<not> is_pip_delete ev \<Longrightarrow> aims_at name ev"
  by (cases ev) auto

lemma quiet_event_no_delete: "quiet_event ev \<Longrightarrow> \<not> is_pip_delete ev"
  by (cases ev) auto

lemma lb_event_no_delete: "lb_event ids ev \<Longrightarrow> \<not> is_pip_delete ev"
  by (cases ev) auto

lemma quiet_aims: "list_all quiet_event es \<Longrightarrow> list_all (aims_at name) es"
  by (erule list.pred_mono_strong) (simp add: aims_at_no_delete quiet_event_no_delete)

lemma lb_aims: "list_all (lb_event ids) es \<Longrightarrow> list_all (aims_at name) es"
  by (erule list.pred_mono_strong) (simp add: aims_at_no_delete lb_event_no_delete)

lemma pip_delete_event_aims: "pip_delete_event n ev \<Longrightarrow> aims_at (Some n) ev"
  by (cases ev) auto

lemma pip_delete_aims: "list_all (pip_delete_event n) es \<Longrightarrow> list_all (aims_at (Some n)) es"
  by (erule list.pred_mono_strong) (rule pip_delete_event_aims)

lemma quiet_no_delete:
  "list_all quiet_event es \<Longrightarrow> list_all (\<lambda>ev. is_pip_delete ev \<longrightarrow> P ev) es"
  by (erule list.pred_mono_strong) (simp add: quiet_event_no_delete)

lemma quiet_guard: "quiet_event ev \<Longrightarrow> delete_guard cfg pre ev"
  by (cases ev) auto

lemma quiet_guarded: "list_all quiet_event es \<Longrightarrow> guarded (\<lambda>pre. delete_guard cfg (xs @ pre)) es"
  by (erule guarded_all) (rule quiet_guard)

lemma guarded_quiet: "list_all quiet_event es \<Longrightarrow> guarded (delete_guard cfg) es"
  by (erule guarded_all) (rule quiet_guard)

lemma lookup_quiet: "lookup_event ev \<Longrightarrow> quiet_event ev"
  by (cases ev) auto

lemma lookups_quiet: "list_all lookup_event es \<Longrightarrow> list_all quiet_event es"
  by (auto elim: list.pred_mono_strong intro: lookup_quiet)

lemma quiet_no_write: "quiet_event ev \<Longrightarrow> \<not> write_request ev"
  by (cases ev) auto

lemma quiet_no_writes: "list_all quiet_event es \<Longrightarrow> occurrences write_request es = 0"
  by (intro occurrences_none) (auto elim!: list.pred_mono_strong dest: quiet_no_write)

lemma patched_mono: "patched es p \<Longrightarrow> set es \<subseteq> set es' \<Longrightarrow> patched es' p"
  by (auto simp: patched_def)

lemma grace_over_mono: "grace_over cfg es p \<Longrightarrow> set es \<subseteq> set es' \<Longrightarrow> grace_over cfg es' p"
  by (auto simp: grace_over_def)

lemma clean_allowed_mono: "clean_allowed cfg es p \<Longrightarrow> set es \<subseteq> set es' \<Longrightarrow> clean_allowed cfg es' p"
  unfolding clean_allowed_def by (blast intro: patched_mono grace_over_mono)

lemma lb_guarded:
  assumes "list_all (lb_event [i]) es" "clean_allowed cfg xs p" "ps_id (pip_status p) = Some i"
  shows "guarded (\<lambda>pre. delete_guard cfg (xs @ pre)) es"
proof (rule guarded_all [OF assms(1)])
  fix pre ev
  assume "lb_event [i] ev"
  moreover have "clean_allowed cfg (xs @ pre) p"
    using assms(2) by (rule clean_allowed_mono) simp
  ultimately show "delete_guard cfg (xs @ pre) ev"
    using assms(3) by (cases ev) auto
qed

lemma pip_delete_guarded:
  assumes "list_all (pip_delete_event name) es" "clean_allowed cfg xs p"
    and "ps_id (pip_status p) = Some i" "ps_name (pip_status p) = Some name"
    and "list_ex (detaches [i]) xs"
  shows "guarded (\<lambda>pre. delete_guard cfg (xs @ pre)) es"
proof (rule guarded_all [OF assms(1)])
  fix pre ev
  assume "pip_delete_event name ev"
  moreover have "clean_allowed cfg (xs @ pre) p"
    using assms(2) by (rule clean_allowed_mono) simp
  moreover have "list_ex (detaches [i]) (xs @ pre)" using assms(5) by simp
  ultimately show "delete_guard cfg (xs @ pre) ev"
    using assms(3,4) by (cases ev) auto
qed

section \<open>Building blocks\<close>

text \<open>
  The documented behaviour of \<open>CreateOrPatch\<close> the code relies on: when it succeeds, the
  object in memory is the mutation of some current version of it.
\<close>

definition patch_lawful :: "env \<Rightarrow> bool" where
  "patch_lawful e \<longleftrightarrow>
     (\<forall>t p f. ignoreNotFound e (fst (kPatchPip e t p f)) = None \<longrightarrow>
        (\<exists>base. snd (kPatchPip e t p f) = f base))"

lemma run_update_status:
  "updatePublicIPAddressStatus pubip azip ops e t =
     (let (err, p') = kPatchPip e t pubip (\<lambda>p. p\<lparr>pip_status := build_status azip ops\<rparr>)
      in (Returned (map_option (Wrap ''could not update publicipaddress status'')
            (ignoreNotFound e err), p'), t @ [KPatchPip pubip err p']))"
  by (simp add: updatePublicIPAddressStatus_def CreateOrPatchPip_def run_simps case_prod_unfold Let_def)

lemma patched_status:
  assumes "patch_lawful e"
    and "kPatchPip e t pubip (\<lambda>p. p\<lparr>pip_status := st\<rparr>) = (err, p')" "ignoreNotFound e err = None"
  shows "pip_status p' = st"
proof -
  obtain base where "snd (kPatchPip e t pubip (\<lambda>p. p\<lparr>pip_status := st\<rparr>)) =
      base\<lparr>pip_status := st\<rparr>"
    using assms unfolding patch_lawful_def by (metis fst_conv)
  with assms(2) show ?thesis by simp
qed

text \<open>The status patch: one event, and the patched resource carries the status built.\<close>

lemma yields_update_status:
  assumes "\<And>err err' p'. (patch_lawful e \<Longrightarrow> err = None \<Longrightarrow> pip_status p' = build_status azip ops) \<Longrightarrow>
      Q (Returned (err, p')) [KPatchPip pubip err' p']"
  shows "yields e (updatePublicIPAddressStatus pubip azip ops) Q"
  by (rule yieldsI)
    (auto simp: run_update_status Let_def split: prod.split intro!: assms dest: patched_status)

lemma yields_seq_update_status:
  assumes "\<And>err err' p'. (patch_lawful e \<Longrightarrow> err = None \<Longrightarrow> pip_status p' = build_status azip ops) \<Longrightarrow>
      yields e (f (err, p')) (\<lambda>r es. Q r (KPatchPip pubip err' p' # es))"
  shows "yields e (seq (updatePublicIPAddressStatus pubip azip ops) f) Q"
proof (rule yields_seq)
  show "yields e (updatePublicIPAddressStatus pubip azip ops) (\<lambda>r es. \<exists>err err' p'.
      r = Returned (err, p') \<and> es = [KPatchPip pubip err' p'] \<and>
      (patch_lawful e \<longrightarrow> err = None \<longrightarrow> pip_status p' = build_status azip ops))"
    by (rule yields_update_status) blast
qed (auto intro!: assms)

lemmas pip_intros = yields_intros yields_update_status yields_seq_update_status

text \<open>A failure is handled without touching Azure, and success then means giving up.\<close>

lemma handle_failure_spec:
  "yields e (handle_failure a pubip azip ops ty mx err)
     (\<lambda>r es. list_all quiet_event es \<and>
        (\<forall>d p'. r = Returned (Inr d, p') \<longrightarrow> d = pc_sync_period (pa_config a)))"
  unfolding handle_failure_def now_def
  by (auto simp: Let_def intro!: pip_intros split: prod.split option.split)

text \<open>What \<open>Delete\<close> deletes is an address it looked up for the resource.\<close>

definition delete_target :: "public_ip_address \<Rightarrow> trace \<Rightarrow> event \<Rightarrow> bool" where
  "delete_target pubip es ev \<longleftrightarrow>
     (\<exists>z \<in> set (seen_ips es). has_ip (ps_ip_address (pip_spec pubip)) z \<and> aims_at (az_ip_name z) ev)"

context pip_utils_contract
begin

text \<open>
  What a lookup may return: an address Azure answered with, that carries the IP of the
  resource, and that is tagged for its service unless it was found by the recorded name.
\<close>

lemma getByIPAndTag_spec:
  assumes "pa_utils a = u"
  shows "yields e (getByIPAndTag a pubip) (\<lambda>r es. list_all lookup_event es \<and>
     (\<forall>z. r = Returned (Inr (Some z)) \<longrightarrow>
        has_ip (ps_ip_address (pip_spec pubip)) z \<and> z \<in> set (seen_ips es) \<and>
        tagged_for (namespacedNameString e (GetNamespacedName service_ObjectLabeler
          (map_get (meta_labels (pip_meta pubip)) ServiceLabel))) z))"
  unfolding getByIPAndTag_def assms
  by (rule yields_seq [OF yields_conj [OF staysD [OF by_ip_reads] by_ip_ip]])
    (auto intro!: yields_intros split: sum.split option.split)

lemma getAzure_spec:
  assumes "pa_utils a = u"
  shows "yields e (getAzurePublicIPAddress a pubip) (\<lambda>r es. list_all lookup_event es \<and>
     (\<forall>z. r = Returned (Inr (Some z)) \<longrightarrow>
        has_ip (ps_ip_address (pip_spec pubip)) z \<and> z \<in> set (seen_ips es)))"
proof (cases "ps_name (pip_status pubip)")
  case None
  then show ?thesis
    unfolding getAzurePublicIPAddress_def
    by (auto intro!: yields_mono [OF getByIPAndTag_spec [OF assms]])
next
  case (Some name)
  show ?thesis
    unfolding getAzurePublicIPAddress_def Some option.case assms
  proof (rule yields_seq [OF yields_conj [OF staysD [OF by_name_reads] by_name_seen]], goal_cases)
    case (1 r es)
    show ?case
    proof (cases r)
      case (Inr azip)
      with 1 show ?thesis
        by (cases azip; cases "az_ip_address (the azip)")
          (auto simp: has_ip_def intro!: yields_intros
            intro: yields_mono [OF getByIPAndTag_spec [OF assms]])
    qed (use 1 in \<open>auto intro!: yields_intros\<close>)
  qed auto
qed

text \<open>Cleaning a resource whose cleaning is allowed.\<close>

lemma clean_spec:
  assumes "pa_utils a = u" "clean_allowed cfg xs p"
  shows "yields e (cleanAzurePublicIPAddress a p) (\<lambda>r es.
     guarded (\<lambda>pre. delete_guard cfg (xs @ pre)) es \<and> occurrences write_request es \<le> 2 \<and>
     list_all (aims_at (ps_name (pip_status p))) es \<and>
     (r = Returned None \<longrightarrow> list_ex is_pip_delete es))"
proof (cases "ps_id (pip_status p)")
  case None
  then show ?thesis by (simp add: cleanAzurePublicIPAddress_def yields_panic)
next
  case (Some i)
  note removal = yields_conj [OF staysD [OF remove_only [of "[i]"], of e]
      yields_conj [OF remove_ok [of e "[i]"] remove_writes [of e "[i]"]]]
  show ?thesis
    unfolding cleanAzurePublicIPAddress_def Some assms(1) deref_simps seq_ret
  proof (rule yields_seq [OF removal], goal_cases)
    case (1 res es)
    then have lb: "guarded (\<lambda>pre. delete_guard cfg (xs @ pre)) es"
      "occurrences write_request es \<le> 1" "list_all (aims_at (ps_name (pip_status p))) es"
      using lb_guarded [OF _ assms(2) Some] lb_aims by auto
    have allowed: "clean_allowed cfg (xs @ es) p"
      using assms(2) by (rule clean_allowed_mono) simp
    show ?case
    proof (cases res)
      case None
      with 1 have det: "list_ex (detaches [i]) (xs @ es)" by simp
      show ?thesis
      proof (cases "ps_name (pip_status p)")
        case name: (Some name)
        note deletion = yields_conj [OF staysD [OF delete_only [of name], of e]
            yields_conj [OF delete_calls [of e name] delete_writes [of e name]]]
        show ?thesis
          unfolding None option.case name deref_simps seq_ret
          by (rule yields_seq [OF deletion])
            (use lb pip_delete_guarded [OF _ allowed Some name det] name in
              \<open>auto intro!: yields_intros pip_delete_aims split: option.split\<close>)
      qed (use None lb in \<open>simp add: yields_panic\<close>)
    qed (use lb in \<open>auto intro!: yields_intros\<close>)
  qed (use lb_guarded [OF _ assms(2) Some] lb_aims in auto)
qed

lemma pip_clean_spec:
  assumes "pa_utils a = u" "clean_allowed cfg xs p"
  shows "yields e (pip_clean a p azip ops) (\<lambda>r es.
     guarded (\<lambda>pre. delete_guard cfg (xs @ pre)) es \<and> occurrences write_request es \<le> 2 \<and>
     list_all (aims_at (ps_name (pip_status p))) es)"
  unfolding pip_clean_def
proof (rule yields_seq [OF clean_spec [OF assms]], goal_cases)
  case (1 res es)
  show ?case
  proof (cases res)
    case None
    with 1 show ?thesis by (auto intro!: pip_intros split: option.split)
  next
    case (Some err)
    with 1 show ?thesis
      by (auto intro!: yields_mono [OF handle_failure_spec] quiet_guarded
          simp: quiet_no_writes quiet_aims append_assoc [symmetric] simp del: append_assoc)
  qed
qed auto

lemma within_grace_spec:
  assumes "pa_config a = cfg"
  shows "yields e (within_grace a p) (\<lambda>r es. list_all quiet_event es \<and>
     (r = Returned False \<longrightarrow> grace_over cfg es p))"
  unfolding within_grace_def now_def grace_over_def
  by (auto simp: assms intro!: yields_intros split: option.split)

text \<open>The tail of \<open>Delete\<close>, once the resource is known not to be exempt.\<close>

lemma checked_clean_spec:
  assumes "pa_utils a = u" "pa_config a = cfg" "\<not> shouldNotClean p" "patched xs p"
  shows "yields e (seq (within_grace a p) (\<lambda>within. if within then ret r0 else pip_clean a p azip ops))
    (\<lambda>r es. guarded (\<lambda>pre. delete_guard cfg (xs @ pre)) es \<and> occurrences write_request es \<le> 2 \<and>
       list_all (aims_at (ps_name (pip_status p))) es)"
proof (rule yields_seq [OF within_grace_spec [OF assms(2)]], goal_cases)
  case (1 within es)
  then have es: "guarded (\<lambda>pre. delete_guard cfg (xs @ pre)) es" "occurrences write_request es = 0"
    "list_all (aims_at (ps_name (pip_status p))) es"
    by (auto intro: quiet_guarded simp: quiet_no_writes quiet_aims)
  show ?case
  proof (cases within)
    case False
    with 1 have "clean_allowed cfg (xs @ es) p"
      using assms(3,4) grace_over_mono [of cfg es p "xs @ es"]
      by (auto simp: clean_allowed_def intro: patched_mono)
    from pip_clean_spec [OF assms(1) this] show ?thesis
      using False es by (auto elim: yields_mono)
  qed (use es in \<open>simp add: yields_ret\<close>)
qed (auto intro: quiet_guarded simp: quiet_no_writes quiet_aims)

text \<open>The whole of \<open>Delete\<close>.\<close>

lemma pip_Delete_spec:
  assumes "pa_utils a = u" "pa_config a = cfg"
  shows "yields e (pip_Delete a pubip) (\<lambda>r es.
     guarded (delete_guard cfg) es \<and> occurrences write_request es \<le> 2 \<and>
     (patch_lawful e \<longrightarrow> list_all (\<lambda>ev. is_pip_delete ev \<longrightarrow> delete_target pubip es ev) es))"
  unfolding pip_Delete_def Let_def
proof (rule yields_seq [OF getAzure_spec [OF assms(1)]], goal_cases)
  case (1 res es)
  then have q: "list_all quiet_event es" by (simp add: lookups_quiet)
  show ?case
  proof (cases res)
    case (Inl err)
    then show ?thesis
      using q by (auto intro!: yields_mono [OF handle_failure_spec] quiet_guarded
          simp: quiet_no_writes guarded_quiet quiet_no_delete)
  next
    case (Inr azip)
    let ?done = "\<lambda>p' r err' es'. guarded (delete_guard cfg) (es @ KPatchPip pubip err' p' # es') \<and>
       occurrences write_request (es @ KPatchPip pubip err' p' # es') \<le> 2 \<and>
       (patch_lawful e \<longrightarrow> list_all (\<lambda>ev. is_pip_delete ev \<longrightarrow>
          delete_target pubip (es @ KPatchPip pubip err' p' # es') ev) (es @ KPatchPip pubip err' p' # es'))"
    have checked: "yields e (seq (within_grace a p') (\<lambda>within.
        if within then ret (r0 p') else pip_clean a p' azip ops)) (\<lambda>r es'. ?done p' r err' es')"
      if "\<not> shouldNotClean p'" "azip = Some z"
        "patch_lawful e \<longrightarrow> pip_status p' = build_status (Some z) ops" for p' err' ops r0 z
    proof (rule yields_mono [OF checked_clean_spec [OF assms that(1), of "es @ [KPatchPip pubip err' p']"]],
        goal_cases)
      case (2 r es')
      have "patch_lawful e \<Longrightarrow> ps_name (pip_status p') = az_ip_name z"
        using that(3) by (auto simp: build_status_def Let_def)
      then show ?case
        using 2 q 1 Inr that(2)
        by (auto simp: guarded_quiet quiet_no_writes quiet_no_delete delete_target_def
            elim!: list.pred_mono_strong)
    qed (auto simp: patched_def)
    show ?thesis
      using q Inr checked
      by (auto intro!: pip_intros simp: guarded_quiet quiet_no_writes quiet_no_delete
          split: option.split)
  qed
qed (auto simp: lookups_quiet guarded_quiet quiet_no_writes quiet_no_delete)

end

end
