(* ===== verification/Retries.thy ===== *)
theory Retries
  imports Failed_Operations
begin

text \<open>
  Repeated reconciliation of a resource while an Azure operation keeps failing: the actuators
  count the failures in the status of the resource, ask to be called again after a doubling
  interval, and give up at a configured number. The locale \<open>retry_protocol\<close> is what one
  failing reconciliation does; both Azure actuators keep it.
\<close>

section \<open>Rounds\<close>

text \<open>
  The results of \<open>n\<close> reconciliations in a row, each starting from the resource the previous
  one left. A reconciliation that does not return ends the list.
\<close>

fun rounds :: "('o \<Rightarrow> ((goerr + duration) \<times> 'o) io) \<Rightarrow> nat \<Rightarrow> 'o \<Rightarrow> env \<Rightarrow> trace \<Rightarrow>
    (goerr + duration) list" where
  "rounds f 0 p e t = []"
| "rounds f (Suc n) p e t =
     (case f p e t of
        (Returned (res, p'), t') \<Rightarrow> res # rounds f n p' e t'
      | _ \<Rightarrow> [])"

lemma sint_of_nat_small: "n < 2 ^ 63 \<Longrightarrow> sint (of_nat n :: go_int) = int n"
  using sint_of_int_small [of "int n"] by simp

text \<open>The interval doubles with every attempt.\<close>

definition doubled :: "duration \<Rightarrow> nat \<Rightarrow> duration" where
  "doubled interval k = interval * push_bit k 1"

lemma sint_doubled:
  "0 \<le> sint interval \<Longrightarrow> sint interval * 2 ^ k < 2 ^ 63 \<Longrightarrow>
   sint (doubled interval k) = sint interval * 2 ^ k"
  unfolding doubled_def by (rule sint_mult_pow2)

lemma requeue_backoff_doubled:
  assumes "k < 2 ^ 63"
  shows "requeue_backoff interval (of_nat k + 1) = Some (doubled interval k)"
  using assms by (simp add: requeue_backoff_def shift_one_def doubled_def sint_of_nat_small)

definition retry_outcome ::
  "duration \<Rightarrow> duration \<Rightarrow> go_int \<Rightarrow> nat \<Rightarrow> goerr + duration \<Rightarrow> bool" where
  "retry_outcome interval sync mx k res \<longleftrightarrow>
     (if go_less (of_nat (Suc k)) mx
      then \<exists>err. res = Inl (RequeueAfterError err (doubled interval k)) else res = Inr sync)"

section \<open>The protocol\<close>

locale retry_protocol =
  fixes step :: "'o \<Rightarrow> ((goerr + duration) \<times> 'o) io"
    and attempts :: "'o \<Rightarrow> go_int"
    and failing :: "env \<Rightarrow> 'o \<Rightarrow> bool"
    and interval sync :: duration
    and mx :: go_int
  assumes fails: "failing e p \<Longrightarrow> attempts p = of_nat k \<Longrightarrow> k < 2 ^ 62 \<Longrightarrow>
      \<exists>res p' t'. step p e t = (Returned (res, p'), t') \<and> retry_outcome interval sync mx k res \<and>
        attempts p' = of_nat (Suc k) \<and> failing e p'"
begin

lemma rounds_failing:
  "failing e p \<Longrightarrow> attempts p = of_nat k \<Longrightarrow> k + n < 2 ^ 62 \<Longrightarrow>
   length (rounds step n p e t) = n \<and>
   (\<forall>j < n. retry_outcome interval sync mx (k + j) (rounds step n p e t ! j))"
proof (induction n arbitrary: k p t)
  case 0
  then show ?case by simp
next
  case (Suc n)
  obtain res p' t' where step: "step p e t = (Returned (res, p'), t')"
      "retry_outcome interval sync mx k res" "attempts p' = of_nat (Suc k)" "failing e p'"
    using fails [OF Suc.prems(1,2), of t] Suc.prems(3) by auto
  with Suc.IH [of p' "Suc k" t'] Suc.prems(3) show ?case
    by (auto simp: nth_Cons' less_Suc_eq_0_disj)
qed

text \<open>Starting afresh, the actuator retries with a doubling interval and gives up at \<open>m\<close>.\<close>

lemma gives_up:
  assumes "failing e p" "attempts p = 0" "mx = of_nat m" "0 < m" "m < 2 ^ 62"
  shows "\<exists>errs. length errs = m - 1 \<and>
     rounds step m p e t =
       map (\<lambda>j. Inl (RequeueAfterError (errs ! j) (doubled interval j))) [0 ..< m - 1] @ [Inr sync]"
proof -
  have len: "length (rounds step m p e t) = m"
    and out: "\<And>j. j < m \<Longrightarrow> retry_outcome interval sync mx j (rounds step m p e t ! j)"
    using rounds_failing [OF assms(1), of 0 m t] assms(2,5) by auto
  have less: "go_less (of_nat (Suc j)) mx \<longleftrightarrow> Suc j < m" if "j < m" for j
    using that assms(3,5) sint_of_nat_small [of "Suc j"] sint_of_nat_small [of m]
    unfolding go_less_def by (simp del: of_nat_Suc)
  let ?err = "\<lambda>j. SOME err. rounds step m p e t ! j = Inl (RequeueAfterError err (doubled interval j))"
  have early: "rounds step m p e t ! j = Inl (RequeueAfterError (?err j) (doubled interval j))"
    if "Suc j < m" for j
    using out [of j] less [of j] that unfolding retry_outcome_def
    by (auto intro: someI_ex)
  have last: "rounds step m p e t ! (m - 1) = Inr sync"
    using out [of "m - 1"] less [of "m - 1"] assms(4) by (simp add: retry_outcome_def)
  have "rounds step m p e t =
      map (\<lambda>j. Inl (RequeueAfterError (map ?err [0 ..< m - 1] ! j) (doubled interval j)))
        [0 ..< m - 1] @ [Inr sync]" (is "?l = ?r")
  proof (rule nth_equalityI)
    fix j assume "j < length ?l"
    then have "Suc j < m \<or> j = m - 1" using len by auto
    then show "?l ! j = ?r ! j"
      using early [of j] last assms(4) by (auto simp: nth_append)
  qed (use len assms(4) in simp)
  then show ?thesis by (intro exI [of _ "map ?err [0 ..< m - 1]"]) simp
qed

end

end
