(* ===== verification/Example_Env.thy ===== *)
theory Example_Env
  imports Effects
begin

text \<open>
  A concrete environment, for the instances that show the hypotheses of a theorem can hold:
  the library functions behave as documented, Azure is empty and healthy, the Kubernetes API
  accepts every write. Instances change single fields of it.
\<close>

fun example_cause :: "goerr \<Rightarrow> goerr" where
  "example_cause (Wrap msg err) = example_cause err"
| "example_cause err = err"

fun example_text :: "goerr \<Rightarrow> string" where
  "example_text (NewError msg) = msg"
| "example_text (Wrap msg err) = msg @ '': '' @ example_text err"
| "example_text (DetailedError status msg) = msg"
| "example_text (RequeueAfterError err after) = example_text err"
| "example_text (ApiError reason) = reason"
| "example_text (ExternalError msg) = msg"

definition example_env :: env where
  "example_env = \<lparr>
     isNotFound = (\<lambda>err. err = ApiError ''NotFound''),
     ignoreNotFound = (\<lambda>err. if err = Some (ApiError ''NotFound'') then None else err),
     errorsCause = example_cause,
     errorText = example_text,
     containsFinalizer = (\<lambda>ob f. f \<in> set (meta_finalizers (obj_meta ob))),
     namespacedNameString = (\<lambda>k. key_namespace k @ ''/'' @ key_name k),
     isConflict = (\<lambda>err. err = ApiError ''Conflict''),
     retrySteps = 3,
     pageFuel = 5,
     clockNow = (\<lambda>t. 0),
     ctxDone = (\<lambda>t. False),
     rangeOrder = (\<lambda>t ks. ks),
     azPipGet = (\<lambda>t rg n. Inl (DetailedError (Some 404) ''not found'')),
     azPipList = (\<lambda>t rg. Inr \<lparr>page_not_done = False, page_values = []\<rparr>),
     azPipNext = (\<lambda>t p. Inr \<lparr>page_not_done = False, page_values = []\<rparr>),
     azPipDelete = (\<lambda>t rg n. None),
     azPipDeleteWait = (\<lambda>t. None),
     azLbGet = (\<lambda>t rg n. Inr \<lparr>lb_frontend_ip_configurations = None, lb_rules = None,
                              lb_probes = None, lb_rest = ''''\<rparr>),
     azLbUpdate = (\<lambda>t rg n lb. None),
     azLbUpdateWait = (\<lambda>t. None),
     azVmGet = (\<lambda>t rg n. Inl (DetailedError (Some 404) ''not found'')),
     azVmReapply = (\<lambda>t rg n. None),
     azVmReapplyWait = (\<lambda>t. None),
     kGet = (\<lambda>t k key. Inl (ApiError ''NotFound'')),
     kListPips = (\<lambda>t ns ls. Inr []),
     kListServices = (\<lambda>t. Inr []),
     kDelete = (\<lambda>t ob. None),
     kUpdatePip = (\<lambda>t p. (None, p)),
     kCreateOrUpdatePip = (\<lambda>t p f. (None, f p)),
     kCreateOrUpdateVm = (\<lambda>t v f. (None, f v)),
     kPatchPip = (\<lambda>t p f. (None, f p)),
     kPatchVm = (\<lambda>t v f. (None, f v)),
     kAddFinalizer = (\<lambda>t ob f. (None, ob)),
     kRemoveFinalizer = (\<lambda>t ob f. None)\<rparr>"

lemma example_env_simps [simp]:
  "isNotFound example_env = (\<lambda>err. err = ApiError ''NotFound'')"
  "ignoreNotFound example_env =
     (\<lambda>err. if err = Some (ApiError ''NotFound'') then None else err)"
  "errorsCause example_env = example_cause"
  "errorText example_env = example_text"
  "containsFinalizer example_env = (\<lambda>ob f. f \<in> set (meta_finalizers (obj_meta ob)))"
  "namespacedNameString example_env = (\<lambda>k. key_namespace k @ ''/'' @ key_name k)"
  "isConflict example_env = (\<lambda>err. err = ApiError ''Conflict'')"
  "retrySteps example_env = 3"
  "pageFuel example_env = 5"
  "clockNow example_env = (\<lambda>t. 0)"
  "ctxDone example_env = (\<lambda>t. False)"
  "rangeOrder example_env = (\<lambda>t ks. ks)"
  "azPipGet example_env = (\<lambda>t rg n. Inl (DetailedError (Some 404) ''not found''))"
  "azPipList example_env = (\<lambda>t rg. Inr \<lparr>page_not_done = False, page_values = []\<rparr>)"
  "azPipNext example_env = (\<lambda>t p. Inr \<lparr>page_not_done = False, page_values = []\<rparr>)"
  "azPipDelete example_env = (\<lambda>t rg n. None)"
  "azPipDeleteWait example_env = (\<lambda>t. None)"
  "azLbUpdate example_env = (\<lambda>t rg n lb. None)"
  "azLbUpdateWait example_env = (\<lambda>t. None)"
  "azVmReapply example_env = (\<lambda>t rg n. None)"
  "azVmReapplyWait example_env = (\<lambda>t. None)"
  "kGet example_env = (\<lambda>t k key. Inl (ApiError ''NotFound''))"
  "kListPips example_env = (\<lambda>t ns ls. Inr [])"
  "kListServices example_env = (\<lambda>t. Inr [])"
  "kDelete example_env = (\<lambda>t ob. None)"
  "kUpdatePip example_env = (\<lambda>t p. (None, p))"
  "kCreateOrUpdatePip example_env = (\<lambda>t p f. (None, f p))"
  "kCreateOrUpdateVm example_env = (\<lambda>t v f. (None, f v))"
  "kPatchPip example_env = (\<lambda>t p f. (None, f p))"
  "kPatchVm example_env = (\<lambda>t v f. (None, f v))"
  "kAddFinalizer example_env = (\<lambda>t ob f. (None, ob))"
  "kRemoveFinalizer example_env = (\<lambda>t ob f. None)"
  by (simp_all add: example_env_def)

end
