(* ===== verification/Pip_Controller.thy ===== *)
theory Pip_Controller
  imports Pip_Guarantees Retries Example_Env
begin

text \<open>
  The publicipaddress controller as a whole: its actuator under the generic reconciler, on the
  repository's own \<open>PublicIPAddressUtils\<close>. Safety of every reconciliation, the retry protocol,
  and what the controller leaves behind when it gives up.
\<close>

section \<open>The actuator keeps the reconciler's contract\<close>

lemma lookup_actuator: "lookup_event ev \<Longrightarrow> actuator_event ev"
  by (cases ev) auto

lemma lb_actuator: "lb_event ids ev \<Longrightarrow> actuator_event ev"
  by (cases ev) auto

lemma pip_delete_actuator: "pip_delete_event name ev \<Longrightarrow> actuator_event ev"
  by (cases ev) auto

lemma stays_update_status [trace_rules]:
  "stays actuator_event (updatePublicIPAddressStatus pubip azip ops)"
  unfolding updatePublicIPAddressStatus_def CreateOrPatchPip_def
  by (auto intro!: trace_rules split: prod.split)

lemma stays_handle_failure [trace_rules]:
  "stays actuator_event (handle_failure a pubip azip ops ty mx err)"
  unfolding handle_failure_def now_def Let_def
  by (auto intro!: trace_rules split: prod.split option.split)

lemma stays_within_grace [trace_rules]: "stays actuator_event (within_grace a p)"
  unfolding within_grace_def now_def by (auto intro!: trace_rules split: option.split)

lemma stays_on_pip: "(\<And>p. stays P (f p)) \<Longrightarrow> stays P (on_pip f ob)"
  unfolding on_pip_def by (auto intro!: trace_rules split: k8s_object.split prod.split)

lemma on_pip_kind:
  assumes "\<And>p. stays P (f p)"
  shows "yields e (on_pip f ob)
    (\<lambda>r es. \<forall>res ob'. r = Returned (res, ob') \<longrightarrow> obj_kind ob' = obj_kind ob)"
proof (cases ob)
  case (PublicIPAddress p)
  show ?thesis
    unfolding on_pip_def PublicIPAddress k8s_object.case
    by (rule yields_seq [OF staysD [OF assms]]) (auto intro!: yields_intros split: prod.split)
qed (simp_all add: on_pip_def yields_ret)

context pip_utils_contract
begin

lemma stays_getAzure:
  assumes "pa_utils a = u"
  shows "stays actuator_event (getAzurePublicIPAddress a p)"
  unfolding getAzurePublicIPAddress_def getByIPAndTag_def assms
  by (auto intro!: trace_rules stays_mono [OF by_name_reads lookup_actuator]
      stays_mono [OF by_ip_reads lookup_actuator] split: sum.split option.split)

lemma stays_clean:
  assumes "pa_utils a = u"
  shows "stays actuator_event (cleanAzurePublicIPAddress a p)"
  unfolding cleanAzurePublicIPAddress_def assms
  by (auto intro!: trace_rules stays_mono [OF remove_only lb_actuator]
      stays_mono [OF delete_only pip_delete_actuator] split: option.split)

lemma stays_pip_create: "pa_utils a = u \<Longrightarrow> stays actuator_event (pip_CreateOrUpdate a p)"
  unfolding pip_CreateOrUpdate_def Let_def
  by (auto intro!: trace_rules stays_getAzure split: sum.split prod.split option.split)

lemma stays_pip_delete: "pa_utils a = u \<Longrightarrow> stays actuator_event (pip_Delete a p)"
  unfolding pip_Delete_def pip_clean_def Let_def
  by (auto intro!: trace_rules stays_getAzure stays_clean
      split: sum.split prod.split option.split)

end

text \<open>An implementation of the utilities that keeps its contract gives an actuator that keeps its own.\<close>

sublocale pip_utils_contract \<subseteq> pip_act: actuator_contract "pip_NewActuator u cfg" "\<lambda>_. Inr True" for cfg
  by unfold_locales
    (auto simp: pip_NewActuator_def Let_def
      intro!: stays_on_pip on_pip_kind [of actuator_event] yields_ret
        stays_pip_create stays_pip_delete)

section \<open>Safety of a reconciliation\<close>

text \<open>Only \<open>Delete\<close> writes to Azure: creation and update read it and patch the status.\<close>

context pip_utils_contract
begin

lemma pip_create_quiet:
  assumes "pa_utils a = u"
  shows "yields e (pip_CreateOrUpdate a p) (\<lambda>_ es. list_all quiet_event es)"
  unfolding pip_CreateOrUpdate_def Let_def
  by (rule yields_seq [OF getAzure_spec [OF assms]])
    (auto simp: lookups_quiet intro!: pip_intros yields_mono [OF handle_failure_spec]
      split: sum.split option.split)

end

lemma delete_guard_mono: "delete_guard cfg xs ev \<Longrightarrow> set xs \<subseteq> set ys \<Longrightarrow> delete_guard cfg ys ev"
  by (cases ev) (auto simp: list_ex_iff intro: clean_allowed_mono; blast intro: clean_allowed_mono)+

definition guarded_writes :: "pip_config \<Rightarrow> trace \<Rightarrow> bool" where
  "guarded_writes cfg es \<longleftrightarrow> guarded (delete_guard cfg) es \<and> occurrences write_request es \<le> 2"

lemma rec_event_quiet: "\<not> actuator_event ev \<Longrightarrow> quiet_event ev"
  by (cases ev) auto

lemma rec_events_quiet: "list_all (\<lambda>ev. \<not> actuator_event ev) es \<Longrightarrow> list_all quiet_event es"
  by (erule list.pred_mono_strong) (rule rec_event_quiet)

lemma guarded_mono:
  "guarded G es \<Longrightarrow> (\<And>pre ev. G pre ev \<Longrightarrow> H pre ev) \<Longrightarrow> guarded H es"
  by (simp add: guarded_def)

lemma guarded_after:
  "guarded (delete_guard cfg) es \<Longrightarrow> guarded (\<lambda>pre. delete_guard cfg (xs @ pre)) es"
  by (erule guarded_mono) (erule delete_guard_mono, simp)

lemma wraps_guarded_writes: "wraps (guarded_writes cfg)"
  unfolding wraps_def guarded_writes_def
  by (auto simp: rec_events_quiet guarded_quiet quiet_no_writes quiet_guarded
      append_assoc [symmetric] simp del: append_assoc intro: guarded_after
      dest!: rec_events_quiet)

lemma yields_on_pip:
  assumes "\<And>p. yields e (f p) (\<lambda>_ es. P es)" "P []"
  shows "yields e (on_pip f ob) (\<lambda>_ es. P es)"
proof (cases ob)
  case (PublicIPAddress p)
  show ?thesis
    unfolding on_pip_def PublicIPAddress k8s_object.case
    by (rule yields_seq [OF assms(1)]) (auto intro!: yields_intros split: prod.split)
qed (simp_all add: on_pip_def yields_ret assms(2))

context pip_utils_contract
begin

lemma pip_create_guarded_writes:
  assumes "pa_utils a = u"
  shows "yields e (pip_CreateOrUpdate a p) (\<lambda>_ es. guarded_writes cfg es)"
  by (rule yields_mono [OF pip_create_quiet [OF assms]])
    (simp add: guarded_writes_def guarded_quiet quiet_no_writes)

lemma pip_delete_guarded_writes:
  assumes "pa_utils a = u" "pa_config a = cfg"
  shows "yields e (pip_Delete a p) (\<lambda>_ es. guarded_writes cfg es)"
  by (rule yields_mono [OF pip_Delete_spec [OF assms]]) (simp add: guarded_writes_def)

lemma Reconcile_guarded_writes:
  "yields e (Reconcile (pip_reconciler u cfg) key) (\<lambda>_ es. guarded_writes cfg es)"
  by (rule Reconcile_wraps [OF wraps_guarded_writes])
    (auto simp: pip_reconciler_def pip_NewActuator_def Let_def
      intro!: yields_on_pip pip_create_guarded_writes pip_delete_guarded_writes yields_ret,
     simp_all add: guarded_writes_def)

end

section \<open>Completion\<close>

lemma getFailedOperations_built:
  "getFailedOperations (p\<lparr>pip_status := build_status azip ops\<rparr>) = ops"
  by (simp add: getFailedOperations_def build_status_def Let_def empty_pip_status_def
      split: option.split)

text \<open>
  \<open>Delete\<close> reports completion with 0. Giving up is reported with the sync period, after the
  failed attempts of one of its Azure operations were used up.
\<close>

definition given_up :: "pip_config \<Rightarrow> public_ip_address \<Rightarrow> bool" where
  "given_up cfg p \<longleftrightarrow>
     \<not> go_less (attempts_of (getFailedOperations p) OperationTypeGetPublicIPAddress) (pc_max_get_attempts cfg) \<or>
     \<not> go_less (attempts_of (getFailedOperations p) OperationTypeCleanPublicIPAddress) (pc_max_clean_attempts cfg)"

definition settled ::
  "pip_config \<Rightarrow> ((goerr + duration) \<times> public_ip_address) outcome \<Rightarrow> bool" where
  "settled cfg r \<longleftrightarrow> (\<forall>d p. r = Returned (Inr d, p) \<longrightarrow>
     d = 0 \<and> (shouldNotClean p \<or> \<not> ps_exists (pip_status p)) \<or>
     d = pc_sync_period cfg \<and> given_up cfg p)"

lemma settled_simps [simp]:
  "settled cfg (Panicked msg)" "settled cfg OutOfFuel" "settled cfg (Returned (Inl err, p))"
  "settled cfg (Returned (Inr d, p)) \<longleftrightarrow>
     d = 0 \<and> (shouldNotClean p \<or> \<not> ps_exists (pip_status p)) \<or> d = pc_sync_period cfg \<and> given_up cfg p"
  by (simp_all add: settled_def)

lemma getFailedOperations_status:
  "pip_status p = build_status azip ops \<Longrightarrow> getFailedOperations p = ops"
  using getFailedOperations_built [where p = p and azip = azip and ops = ops] by (simp add: getFailedOperations_def)

lemma attempts_added:
  "attempts_of (fst (AddOrUpdateFailedOperation ops ty msg ts)) ty =
   fo_attempts (snd (AddOrUpdateFailedOperation ops ty msg ts))"
  by (simp add: snd_add attempts_of_def [of "fst _"] lookup_add)

lemma handle_failure_settled:
  assumes "pa_config a = cfg" "patch_lawful e"
  shows "yields e (handle_failure a p azip ops OperationTypeGetPublicIPAddress
      (pc_max_get_attempts (pa_config a)) err) (\<lambda>r es. settled cfg r)"
    "yields e (handle_failure a p azip ops OperationTypeCleanPublicIPAddress
      (pc_max_clean_attempts (pa_config a)) err) (\<lambda>r es. settled cfg r)"
  unfolding handle_failure_def now_def case_prod_beta Let_def
  using assms
  by (auto intro!: pip_intros simp: given_up_def getFailedOperations_status attempts_added
      split: prod.split option.split)

lemma not_exists_built: "\<not> ps_exists (build_status None ops)"
  by (simp add: build_status_def empty_pip_status_def Let_def)

context pip_utils_contract
begin

lemma pip_clean_settled:
  assumes "pa_utils a = u" "pa_config a = cfg" "patch_lawful e"
  shows "yields e (pip_clean a p azip ops) (\<lambda>r es. settled cfg r)"
  unfolding pip_clean_def
  by (rule yields_seq [OF staysD [OF stays_clean [OF assms(1)]]])
    (use assms(3) in \<open>auto intro!: pip_intros handle_failure_settled [OF assms(2,3)]
      simp: not_exists_built split: option.split\<close>)

lemma pip_Delete_settled:
  assumes "pa_utils a = u" "pa_config a = cfg" "patch_lawful e"
  shows "yields e (pip_Delete a p) (\<lambda>r es. settled cfg r)"
  unfolding pip_Delete_def Let_def
proof (rule yields_seq [OF staysD [OF stays_getAzure [OF assms(1)]]], goal_cases)
  case (1 res es)
  have checked: "yields e (seq (within_grace a p') (\<lambda>within.
      if within then ret (Inl err, p') else pip_clean a p' azip ops))
      (\<lambda>r es. settled cfg r)" for p' azip ops err
    by (rule yields_seq [OF within_grace_spec [OF assms(2)]])
      (auto intro!: yields_ret pip_clean_settled [OF assms])
  show ?case
    using assms(3)
    by (cases res)
      (auto intro!: pip_intros handle_failure_settled [OF assms(2,3)] checked
        simp: not_exists_built split: option.split)
qed auto

end

section \<open>While Azure cannot be read\<close>

text \<open>
  Azure answers no lookup of the resource group, and the API server takes every status patch
  on the version of the resource it was computed from.
\<close>

definition pip_lookups_fail :: "env \<Rightarrow> string \<Rightarrow> bool" where
  "pip_lookups_fail e rg \<longleftrightarrow>
     (\<forall>t n. \<exists>err. azPipGet e t rg n = Inl err \<and> \<not> isAzureNotFoundError err) \<and>
     (\<forall>t. \<exists>err. azPipList e t rg = Inl err)"

definition accepts_patches :: "env \<Rightarrow> bool" where
  "accepts_patches e \<longleftrightarrow>
     ignoreNotFound e None = None \<and> (\<forall>t p f. kPatchPip e t p f = (None, f p))"

abbreviation azure_pip_actuator :: "string \<Rightarrow> pip_config \<Rightarrow> pip_actuator" where
  "azure_pip_actuator rg cfg \<equiv> \<lparr>pa_utils = NewPublicIPAddressUtils rg, pa_config = cfg\<rparr>"

lemma getByIPAndTag_fails:
  assumes "pip_lookups_fail e rg"
  shows "\<exists>err es. getByIPAndTag (azure_pip_actuator rg cfg) p e t = (Returned (Inl err), t @ es) \<and>
    list_all lookup_event es"
proof -
  obtain err where "azPipList e (t @ [CounterInc ReadRequests]) rg = Inl err"
    using assms unfolding pip_lookups_fail_def by blast
  then show ?thesis
    by (simp add: getByIPAndTag_def GetByIP_impl_def pip_client_defs run_simps)
qed

lemma getAzure_fails:
  assumes "pip_lookups_fail e rg"
  shows "\<exists>err es. getAzurePublicIPAddress (azure_pip_actuator rg cfg) p e t =
      (Returned (Inl err), t @ es) \<and> list_all lookup_event es"
proof (cases "ps_name (pip_status p)")
  case None
  then show ?thesis
    using getByIPAndTag_fails [OF assms] by (simp add: getAzurePublicIPAddress_def)
next
  case (Some n)
  obtain err where "azPipGet e (t @ [CounterInc ReadRequests]) rg n = Inl err"
      "\<not> isAzureNotFoundError err"
    using assms unfolding pip_lookups_fail_def by blast
  with Some show ?thesis
    by (simp add: getAzurePublicIPAddress_def GetByName_impl_def pip_client_defs run_simps)
qed

lemma handle_failure_run:
  assumes "accepts_patches e" "attempts_of ops ty = of_nat k" "k < 2 ^ 62"
  shows "\<exists>ops' res. handle_failure a p azip ops ty mx err e t =
      (Returned (res, p\<lparr>pip_status := build_status azip ops'\<rparr>), t @ [ClockNow (clockNow e t),
        KPatchPip p None (p\<lparr>pip_status := build_status azip ops'\<rparr>)]) \<and>
      retry_outcome (pc_requeue_interval (pa_config a)) (pc_sync_period (pa_config a)) mx k res \<and>
      ops' \<noteq> [] \<and> attempts_of ops' ty = of_nat (Suc k)"
proof -
  let ?add = "AddOrUpdateFailedOperation ops ty (errorText e err) (clockNow e t)"
  have op: "fo_attempts (snd ?add) = of_nat k + 1" "attempts_of (fst ?add) ty = of_nat k + 1"
    using assms(2) by (simp_all add: snd_add attempts_of_def [of "fst ?add"] lookup_add)
  have ne: "fst ?add \<noteq> []" by (metis lookup_add lookup_op_simps(1) option.distinct(1))
  have backoff: "requeue_backoff d (of_nat k + 1) = Some (doubled d k)" for d
    using assms(3) by (intro requeue_backoff_doubled) simp
  show ?thesis
    using assms(1) op ne backoff
    by (intro exI [of _ "fst ?add"])
      (auto simp: handle_failure_def now_def run_simps case_prod_beta run_update_status
        accepts_patches_def retry_outcome_def seq_run_Returned add.commute [of 1])
qed

definition get_attempts :: "public_ip_address \<Rightarrow> go_int" where
  "get_attempts p = attempts_of (getFailedOperations p) OperationTypeGetPublicIPAddress"

text \<open>The calls of a reconciliation whose lookup fails, with what is written and returned.\<close>

lemma get_failure_calls:
  assumes "pip_lookups_fail e rg" "accepts_patches e" "get_attempts p = of_nat k" "k < 2 ^ 62"
    and f: "f = pip_CreateOrUpdate (azure_pip_actuator rg cfg) \<or>
      f = pip_Delete (azure_pip_actuator rg cfg)"
  shows "\<exists>ops' res look now. f p e t = (Returned (res, p\<lparr>pip_status := build_status None ops'\<rparr>),
        t @ look @ [ClockNow now, KPatchPip p None (p\<lparr>pip_status := build_status None ops'\<rparr>)]) \<and>
      retry_outcome (pc_requeue_interval cfg) (pc_sync_period cfg) (pc_max_get_attempts cfg) k res \<and>
      get_attempts (p\<lparr>pip_status := build_status None ops'\<rparr>) = of_nat (Suc k) \<and>
      list_all lookup_event look"
proof -
  let ?a = "azure_pip_actuator rg cfg"
  obtain err es where look: "getAzurePublicIPAddress ?a p e t = (Returned (Inl err), t @ es)"
      "list_all lookup_event es"
    using getAzure_fails [OF assms(1)] by blast
  have "f p e t = handle_failure ?a p None (getFailedOperations p)
      OperationTypeGetPublicIPAddress (pc_max_get_attempts cfg) err e (t @ es)"
    using f look(1) by (auto simp: pip_CreateOrUpdate_def pip_Delete_def seq_run_Returned Let_def)
  moreover note handle_failure_run [OF assms(2) assms(3) [unfolded get_attempts_def] assms(4),
      of ?a p None "pc_max_get_attempts cfg" err "t @ es"]
  ultimately show ?thesis
    using look(2) by (auto simp: get_attempts_def getFailedOperations_built)
qed

lemma get_failure_run:
  assumes "pip_lookups_fail e rg" "accepts_patches e" "get_attempts p = of_nat k" "k < 2 ^ 62"
    and f: "f = pip_CreateOrUpdate (azure_pip_actuator rg cfg) \<or>
      f = pip_Delete (azure_pip_actuator rg cfg)"
  shows "\<exists>ops' res es. f p e t = (Returned (res, p\<lparr>pip_status := build_status None ops'\<rparr>), t @ es) \<and>
      retry_outcome (pc_requeue_interval cfg) (pc_sync_period cfg) (pc_max_get_attempts cfg) k res \<and>
      get_attempts (p\<lparr>pip_status := build_status None ops'\<rparr>) = of_nat (Suc k) \<and>
      list_all quiet_event es"
proof -
  have "list_all quiet_event (look @ [ClockNow now, KPatchPip p None p'])"
    if "list_all lookup_event look" for look now p'
    using that by (simp add: lookups_quiet)
  with get_failure_calls [OF assms, of t] show ?thesis by blast
qed

definition pip_failing :: "string \<Rightarrow> env \<Rightarrow> public_ip_address \<Rightarrow> bool" where
  "pip_failing rg e p \<longleftrightarrow> pip_lookups_fail e rg \<and> accepts_patches e"

interpretation pip_create_retry: retry_protocol
  "pip_CreateOrUpdate (azure_pip_actuator rg cfg)" get_attempts "pip_failing rg"
  "pc_requeue_interval cfg" "pc_sync_period cfg" "pc_max_get_attempts cfg" for rg cfg
  by unfold_locales (unfold pip_failing_def, metis get_failure_run)

interpretation pip_delete_retry: retry_protocol
  "pip_Delete (azure_pip_actuator rg cfg)" get_attempts "pip_failing rg"
  "pc_requeue_interval cfg" "pc_sync_period cfg" "pc_max_get_attempts cfg" for rg cfg
  by unfold_locales (unfold pip_failing_def, metis get_failure_run)

text \<open>Giving up on a deletion: the reconciler then takes the finalizer off.\<close>

lemma delete_gives_up_run:
  assumes "pip_lookups_fail e rg" "accepts_patches e"
    and "get_attempts p = of_nat k" "k < 2 ^ 62" "\<not> go_less (of_nat (Suc k)) (pc_max_get_attempts cfg)"
    and "containsFinalizer e (PublicIPAddress p) pip_FinalizerName"
  shows "\<exists>es p' err res. delete (pip_reconciler (NewPublicIPAddressUtils rg) cfg) (PublicIPAddress p) e t =
      (Returned res, t @ es @ [KRemoveFinalizer (PublicIPAddress p') pip_FinalizerName err]) \<and>
      list_all quiet_event es \<and>
      (ignoreNotFound e err = None \<longrightarrow> res = Inr (requeue_result (pc_sync_period cfg)))"
proof -
  let ?rc = "pip_reconciler (NewPublicIPAddressUtils rg) cfg"
  obtain ops' es where run: "pip_Delete (azure_pip_actuator rg cfg) p e t =
      (Returned (Inr (pc_sync_period cfg), p\<lparr>pip_status := build_status None ops'\<rparr>), t @ es)"
      "list_all quiet_event es"
    using get_failure_run [OF assms(1-4), of _ cfg t] assms(5) unfolding retry_outcome_def by metis
  have "Delete (rc_actuator ?rc) (PublicIPAddress p) e t = (Returned (Inr (pc_sync_period cfg),
      PublicIPAddress (p\<lparr>pip_status := build_status None ops'\<rparr>)), t @ es)"
    using run(1) by (simp add: pip_reconciler_def pip_NewActuator_def on_pip_def Let_def
        seq_run_Returned run_ret)
  from delete_actuator_ok [OF _ this] assms(6) run(2) show ?thesis
    by (auto simp: pip_reconciler_def Let_def split: option.split)
qed

end
