(* ===== verification/Pip_Cleaning.thy ===== *)
theory Pip_Cleaning
  imports Pip_Controller
begin

text \<open>
  What the publicipaddress controller achieves: when Azure and the Kubernetes API answer, one
  reconciliation of a resource whose deletion grace period is over takes the address off the
  load balancer, deletes it and releases the resource.
\<close>

section \<open>Azure and the API server answer\<close>

text \<open>The answer to the lookup of a resource: by its recorded name, or on the first page of the listing.\<close>

definition azure_knows :: "env \<Rightarrow> string \<Rightarrow> public_ip_address \<Rightarrow> az_public_ip \<Rightarrow> bool" where
  "azure_knows e rg p z \<longleftrightarrow>
     has_ip (ps_ip_address (pip_spec p)) z \<and>
     (case ps_name (pip_status p) of
        Some n \<Rightarrow> (\<forall>t. azPipGet e t rg n = Inr z)
      | None \<Rightarrow>
          0 < pageFuel e \<and>
          (\<forall>t. \<exists>page. azPipList e t rg = Inr page \<and> page_not_done page \<and>
             find (has_ip (ps_ip_address (pip_spec p))) (page_values page) = Some z) \<and>
          tagged_for (namespacedNameString e (GetNamespacedName service_ObjectLabeler
            (map_get (meta_labels (pip_meta p)) ServiceLabel))) z)"

text \<open>
  The load balancer of the resource group can be read and written, and a deletion succeeds
  or finds the address gone.
\<close>

definition azure_accepts_cleaning :: "env \<Rightarrow> string \<Rightarrow> bool" where
  "azure_accepts_cleaning e rg \<longleftrightarrow>
     (\<forall>t. \<exists>lb. azLbGet e t rg rg = Inr lb) \<and>
     (\<forall>t lb. azLbUpdate e t rg rg lb = None) \<and> (\<forall>t. azLbUpdateWait e t = None) \<and>
     (\<forall>t n err. azPipDelete e t rg n = Some err \<longrightarrow> isAzureNotFoundError err) \<and>
     (\<forall>t. azPipDeleteWait e t = None)"

definition releases_finalizers :: "env \<Rightarrow> bool" where
  "releases_finalizers e \<longleftrightarrow> (\<forall>t ob f. kRemoveFinalizer e t ob f = None)"

definition grace_elapsed :: "env \<Rightarrow> pip_config \<Rightarrow> public_ip_address \<Rightarrow> bool" where
  "grace_elapsed e cfg p \<longleftrightarrow>
     (\<forall>dt t. meta_deletion_timestamp (pip_meta p) = Some dt \<longrightarrow>
        ptr_time dt + sint (pc_deletion_grace_period cfg) < clockNow e t)"

section \<open>Running the operations\<close>

lemma getByIPAndTag_run:
  assumes "azure_knows e rg p z" "ps_name (pip_status p) = None"
  shows "\<exists>es. getByIPAndTag (azure_pip_actuator rg cfg) p e t = (Returned (Inr (Some z)), t @ es) \<and>
    list_all lookup_event es"
proof -
  obtain page where "azPipList e (t @ [CounterInc ReadRequests]) rg = Inr page" "page_not_done page"
      "find (has_ip (ps_ip_address (pip_spec p))) (page_values page) = Some z"
    using assms unfolding azure_knows_def by auto
  with assms show ?thesis
    by (cases "pageFuel e")
      (auto simp: azure_knows_def getByIPAndTag_def GetByIP_impl_def pip_client_defs run_simps)
qed

lemma getAzure_run:
  assumes "azure_knows e rg p z"
  shows "\<exists>es. getAzurePublicIPAddress (azure_pip_actuator rg cfg) p e t =
      (Returned (Inr (Some z)), t @ es) \<and> list_all lookup_event es"
proof (cases "ps_name (pip_status p)")
  case None
  then show ?thesis
    using getByIPAndTag_run [OF assms] by (simp add: getAzurePublicIPAddress_def)
next
  case (Some n)
  with assms show ?thesis
    by (simp add: getAzurePublicIPAddress_def GetByName_impl_def pip_client_defs run_simps
        azure_knows_def has_ip_def)
qed

text \<open>A history that takes an address off the load balancer and then deletes it.\<close>

definition cleans :: "string \<Rightarrow> string \<Rightarrow> string \<Rightarrow> trace \<Rightarrow> bool" where
  "cleans rg i n es \<longleftrightarrow>
     (\<exists>xs lb ys r zs. es = xs @ AzLbUpdate rg rg lb None # ys @ AzPipDelete rg n r # zs \<and>
        detached [i] lb \<and> (\<forall>err. r = Some err \<longrightarrow> isAzureNotFoundError err))"

lemma cleans_around: "cleans rg i n es \<Longrightarrow> cleans rg i n (xs @ es @ ys)"
  unfolding cleans_def by (metis append.assoc append_Cons)

lemma RemoveFromLoadBalancer_run:
  assumes "azure_accepts_cleaning e rg"
  shows "\<exists>xs lb ys. RemoveFromLoadBalancer_impl rg ids e t =
    (Returned None, t @ xs @ AzLbUpdate rg rg lb None # ys) \<and> detached ids lb"
proof -
  obtain lb where "azLbGet e (t @ [CounterInc ReadRequests]) rg rg = Inr lb"
    using assms unfolding azure_accepts_cleaning_def by blast
  with assms show ?thesis
    unfolding RemoveFromLoadBalancer_detach pip_client_defs
    by (intro exI [of _ "[CounterInc ReadRequests, AzLbGet rg rg (Inr lb), CounterInc WriteRequests]"]
        exI [of _ "detach_public_ips lb ids"]
        exI [of _ "[CounterInc ReadRequests, AzLbUpdateWait None]"])
      (simp add: azure_accepts_cleaning_def run_simps detach_detached)
qed

lemma Delete_run:
  assumes "azure_accepts_cleaning e rg"
  shows "\<exists>xs r ys. Delete_impl rg n e t = (Returned None, t @ xs @ AzPipDelete rg n r # ys) \<and>
    (\<forall>err. r = Some err \<longrightarrow> isAzureNotFoundError err)"
  using assms
  by (cases "azPipDelete e (t @ [CounterInc WriteRequests]) rg n")
    (auto simp: Delete_impl_def pip_client_defs run_simps azure_accepts_cleaning_def
      append_eq_Cons_conv intro!: exI [of _ "[CounterInc WriteRequests]"])

lemma clean_ips_run:
  assumes "azure_accepts_cleaning e rg"
    and "ps_id (pip_status p) = Some i" "ps_name (pip_status p) = Some n"
  shows "\<exists>es. cleanAzurePublicIPAddress (azure_pip_actuator rg cfg) p e t =
    (Returned None, t @ es) \<and> cleans rg i n es"
proof -
  obtain xs lb ys where lb: "RemoveFromLoadBalancer_impl rg [i] e t =
      (Returned None, t @ xs @ AzLbUpdate rg rg lb None # ys)" "detached [i] lb"
    using RemoveFromLoadBalancer_run [OF assms(1)] by blast
  obtain xs' r ys' where del: "Delete_impl rg n e (t @ xs @ AzLbUpdate rg rg lb None # ys) =
      (Returned None, (t @ xs @ AzLbUpdate rg rg lb None # ys) @ xs' @ AzPipDelete rg n r # ys')"
      "\<forall>err. r = Some err \<longrightarrow> isAzureNotFoundError err"
    using Delete_run [OF assms(1)] by blast
  have "cleans rg i n (xs @ AzLbUpdate rg rg lb None # (ys @ xs') @ AzPipDelete rg n r # ys')"
    unfolding cleans_def using lb(2) del(2) by blast
  with lb(1) del(1) assms(2,3) show ?thesis
    by (simp add: cleanAzurePublicIPAddress_def seq_run_Returned run_ret)
qed

lemma run_update_status_ok:
  assumes "accepts_patches e"
  shows "updatePublicIPAddressStatus p azip ops e t =
    (Returned (None, p\<lparr>pip_status := build_status azip ops\<rparr>),
     t @ [KPatchPip p None (p\<lparr>pip_status := build_status azip ops\<rparr>)])"
  using assms by (simp add: run_update_status accepts_patches_def)

lemma build_status_simps [simp]:
  "ps_id (build_status (Some z) ops) = az_ip_id z"
  "ps_name (build_status (Some z) ops) = az_ip_name z"
  "ps_exists (build_status (Some z) ops)"
  by (simp_all add: build_status_def Let_def)

lemma pip_clean_run:
  assumes "azure_accepts_cleaning e rg" "accepts_patches e"
    and "ps_id (pip_status p) = Some i" "ps_name (pip_status p) = Some n"
  shows "\<exists>p' es. pip_clean (azure_pip_actuator rg cfg) p azip ops e t =
    (Returned (Inr 0, p'), t @ es) \<and> cleans rg i n es \<and> \<not> ps_exists (pip_status p')"
proof -
  obtain es where es: "cleanAzurePublicIPAddress (azure_pip_actuator rg cfg) p e t =
      (Returned None, t @ es)" "cleans rg i n es"
    using clean_ips_run [OF assms(1,3,4)] by blast
  then have "cleans rg i n (es @ ys)" for ys
    using cleans_around [OF es(2), of "[]"] by simp
  with es(1) assms(2) show ?thesis
    by (simp add: pip_clean_def seq_run_Returned Let_def run_simps run_update_status_ok
        not_exists_built)
qed

lemma within_grace_run:
  assumes "grace_elapsed e cfg p"
  shows "\<exists>es. within_grace (azure_pip_actuator rg cfg) p e t = (Returned False, t @ es)"
  using assms
  by (cases "meta_deletion_timestamp (pip_meta p)")
    (auto simp: within_grace_def now_def run_simps grace_elapsed_def)

lemma pip_Delete_run:
  assumes knows: "azure_knows e rg p z" "az_ip_id z = Some i" "az_ip_name z = Some n"
    and accepts: "azure_accepts_cleaning e rg" "accepts_patches e"
    and p: "\<not> shouldNotClean p" "grace_elapsed e cfg p"
  shows "\<exists>p' es. pip_Delete (azure_pip_actuator rg cfg) p e t = (Returned (Inr 0, p'), t @ es) \<and>
    cleans rg i n es \<and> \<not> ps_exists (pip_status p')"
proof -
  let ?a = "azure_pip_actuator rg cfg"
  let ?ops = "DeleteFailedOperation (getFailedOperations p) OperationTypeGetPublicIPAddress"
  let ?p = "p\<lparr>pip_status := build_status (Some z) ?ops\<rparr>"
  obtain look where look: "getAzurePublicIPAddress ?a p e t = (Returned (Inr (Some z)), t @ look)"
    using getAzure_run [OF knows(1)] by blast
  have "grace_elapsed e cfg ?p" "\<not> shouldNotClean ?p"
    using p by (simp_all add: grace_elapsed_def shouldNotClean_def)
  from within_grace_run [OF this(1), of rg "t @ look @ [KPatchPip p None ?p]"] this(2)
  obtain g where g: "\<not> shouldNotClean ?p" "within_grace ?a ?p e (t @ look @ [KPatchPip p None ?p]) =
      (Returned False, (t @ look @ [KPatchPip p None ?p]) @ g)"
    by blast
  from pip_clean_run [OF accepts, of ?p i n cfg "Some z" ?ops
      "(t @ look @ [KPatchPip p None ?p]) @ g"] knows(2,3)
  obtain p' es where run: "pip_clean ?a ?p (Some z) ?ops e ((t @ look @ [KPatchPip p None ?p]) @ g) =
      (Returned (Inr 0, p'), ((t @ look @ [KPatchPip p None ?p]) @ g) @ es)"
      "cleans rg i n es" "\<not> ps_exists (pip_status p')"
    by auto
  from cleans_around [OF run(2), of "look @ KPatchPip p None ?p # g" "[]"] show ?thesis
    using look g run(1,3)
    by (intro exI [of _ p'] exI [of _ "look @ KPatchPip p None ?p # g @ es"])
      (simp add: pip_Delete_def Let_def seq_run_Returned run_update_status_ok [OF accepts(2)])
qed

section \<open>Reconciliation\<close>

lemma Reconcile_cleans:
  assumes fetched: "kGet e t PublicIPAddressKind key = Inr (PublicIPAddress p)"
    and deleting: "meta_deletion_timestamp (pip_meta p) \<noteq> None" "grace_elapsed e cfg p"
    and finalizer: "containsFinalizer e (PublicIPAddress p) pip_FinalizerName" "releases_finalizers e"
    and p: "\<not> shouldNotClean p"
    and knows: "azure_knows e rg p z" "az_ip_id z = Some i" "az_ip_name z = Some n"
    and accepts: "azure_accepts_cleaning e rg" "accepts_patches e"
  shows "\<exists>p' es. Reconcile (pip_reconciler (NewPublicIPAddressUtils rg) cfg) key e t =
      (Returned (Inr empty_result),
       t @ es @ [KRemoveFinalizer (PublicIPAddress p') pip_FinalizerName None]) \<and>
    cleans rg i n es \<and> \<not> ps_exists (pip_status p')"
proof -
  let ?rc = "pip_reconciler (NewPublicIPAddressUtils rg) cfg"
  let ?t = "t @ [KGet PublicIPAddressKind key (Inr (PublicIPAddress p))]"
  obtain p' es where run: "pip_Delete (azure_pip_actuator rg cfg) p e ?t = (Returned (Inr 0, p'), ?t @ es)"
      "cleans rg i n es" "\<not> ps_exists (pip_status p')"
    using pip_Delete_run [OF knows accepts p deleting(2)] by blast
  have act: "Delete (rc_actuator ?rc) (PublicIPAddress p) e ?t =
      (Returned (Inr 0, PublicIPAddress p'), ?t @ es)"
    using run(1) by (simp add: pip_reconciler_def pip_NewActuator_def on_pip_def Let_def
        seq_run_Returned run_ret)
  have "ignoreNotFound e None = None" using accepts(2) by (simp add: accepts_patches_def)
  with delete_actuator_ok [OF _ act] finalizer
  have "delete ?rc (PublicIPAddress p) e ?t = (Returned (Inr empty_result),
      ?t @ es @ [KRemoveFinalizer (PublicIPAddress p') pip_FinalizerName None])"
    by (simp add: pip_reconciler_def Let_def releases_finalizers_def requeue_result_def)
  moreover have "Reconcile ?rc key e t = delete ?rc (PublicIPAddress p) e ?t"
    using fetched deleting(1)
    by (simp add: Reconcile_def client_Get_def run_simps pip_reconciler_def)
  ultimately show ?thesis
    using run(3) cleans_around [OF run(2), of "[KGet PublicIPAddressKind key (Inr (PublicIPAddress p))]" "[]"]
    by (intro exI [of _ p']
        exI [of _ "KGet PublicIPAddressKind key (Inr (PublicIPAddress p)) # es"]) simp
qed

end
