(* ===== verification/Pip_Properties.thy ===== *)
theory Pip_Properties
  imports Pip_Cleaning
begin

text \<open>
  The properties of the publicipaddress controller and of the Azure utilities it uses, with
  instances that show their hypotheses can hold.
\<close>

section \<open>Instances\<close>

text \<open>A public IP address that outlived its resource, and the resource being deleted.\<close>

definition orphan_ip :: az_public_ip where
  "orphan_ip = \<lparr>az_ip_id = Some ''/ip-1'', az_ip_name = Some ''ip-1'',
     az_ip_address = Some ''1.2.3.4'', az_ip_provisioning_state = Some Succeeded,
     az_ip_tags = Map.empty\<rparr>"

definition orphan_env :: env where
  "orphan_env = example_env\<lparr>
     azPipList := (\<lambda>t rg. Inr \<lparr>page_not_done = True, page_values = [orphan_ip]\<rparr>),
     clockNow := (\<lambda>t. 301 * 1000000000)\<rparr>"

definition deleted_pip :: public_ip_address where
  "deleted_pip = (new_pip ''ns'' ''ip-1'')
     \<lparr>pip_meta := empty_meta\<lparr>meta_name := ''ip-1'', meta_finalizers := [pip_FinalizerName],
        meta_deletion_timestamp := Some (TimePtr 1 0)\<rparr>,
      pip_spec := \<lparr>ps_ip_address = ''1.2.3.4''\<rparr>\<rparr>"

fun deleted_name :: "event \<Rightarrow> string option" where
  "deleted_name (AzPipDelete _ name _) = Some name"
| "deleted_name _ = None"

lemma orphan_env_lawful: "patch_lawful orphan_env"
  by (auto simp: patch_lawful_def orphan_env_def)

section \<open>Deletion safety\<close>

text \<open>C1: Whatever Azure and the Kubernetes API answer, one reconciliation of a
  publicipaddress sends Azure at most two write requests; it deletes a public IP address only
  if the resource is not marked do-not-clean, the clock was read past the end of its deletion
  grace period, the address carries the name in the resource's status, and an update of the
  load balancer that no longer uses the address was accepted before; the load balancer is
  rewritten under the same conditions; and the cleaned-IPs counter only counts after a
  deletion call.\<close>

theorem reconcile_writes_guarded:
  "yields e (Reconcile (pip_reconciler (NewPublicIPAddressUtils rg) cfg) key)
     (\<lambda>_ es. guarded (delete_guard cfg) es \<and> occurrences write_request es \<le> 2)"
  using azure_pips.Reconcile_guarded_writes [of e rg cfg key] by (simp add: guarded_writes_def)

text \<open>C3: If the API server's patches are mutations of the resource, every public IP address
  that \<open>Delete\<close> deletes is one Azure answered with during that call, under the name it was
  answered with, and carries exactly the IP address in the resource's spec.\<close>

theorem deleted_ip_was_looked_up:
  assumes "patch_lawful e"
  shows "yields e (pip_Delete (azure_pip_actuator rg cfg) p) (\<lambda>_ es. \<forall>rg' name err.
     AzPipDelete rg' name err \<in> set es \<longrightarrow>
       (\<exists>z \<in> set (seen_ips es). az_ip_name z = Some name \<and>
          az_ip_address z = Some (ps_ip_address (pip_spec p))))"
  by (rule yields_mono [OF azure_pips.pip_Delete_spec [where cfg = cfg and rg = rg]])
    (use assms in \<open>fastforce simp: list_all_iff delete_target_def has_ip_def\<close>)+

theorem deleted_ip_was_looked_up_witness:
  "patch_lawful orphan_env \<and>
   List.map_filter deleted_name (snd (pip_Delete (azure_pip_actuator ''shoot'' pip_default_config)
     deleted_pip orphan_env [])) = [''ip-1''] \<and>
   yields orphan_env (pip_Delete (azure_pip_actuator ''shoot'' pip_default_config) deleted_pip)
     (\<lambda>_ es. \<forall>rg' name err. AzPipDelete rg' name err \<in> set es \<longrightarrow>
       (\<exists>z \<in> set (seen_ips es). az_ip_name z = Some name \<and>
          az_ip_address z = Some (ps_ip_address (pip_spec deleted_pip))))"
  by (intro conjI orphan_env_lawful deleted_ip_was_looked_up) code_simp

section \<open>Completeness of the cleaning\<close>

text \<open>An address that outlived its resource is cleaned: if the resource is being deleted,
  past its grace period, not marked do-not-clean and still has the finalizer, and Azure and the
  API server answer, then a single reconciliation takes the address off the load balancer,
  deletes it after that, and removes the finalizer last, from a resource whose status says the
  address does not exist; nothing is requeued.\<close>

lemma expired_ip_is_cleaned:
  assumes "kGet e t PublicIPAddressKind key = Inr (PublicIPAddress p)"
    and "meta_deletion_timestamp (pip_meta p) \<noteq> None" "grace_elapsed e cfg p"
    and "containsFinalizer e (PublicIPAddress p) pip_FinalizerName" "\<not> shouldNotClean p"
    and "azure_knows e rg p z" "az_ip_id z = Some i" "az_ip_name z = Some n"
    and "azure_accepts_cleaning e rg" "accepts_patches e" "releases_finalizers e"
  shows "\<exists>p' es xs lb ys r zs.
     Reconcile (pip_reconciler (NewPublicIPAddressUtils rg) cfg) key e t =
       (Returned (Inr empty_result),
        t @ es @ [KRemoveFinalizer (PublicIPAddress p') pip_FinalizerName None]) \<and>
     es = xs @ AzLbUpdate rg rg lb None # ys @ AzPipDelete rg n r # zs \<and> detached [i] lb \<and>
     \<not> ps_exists (pip_status p')"
  using Reconcile_cleans [OF assms(1-4,11,5-10)] unfolding cleans_def by blast

text \<open>The resource of \<open>orphan_ip\<close>, as the API server serves it, and a load balancer that uses the address.\<close>

definition expired_env :: env where
  "expired_env = orphan_env\<lparr>
     kGet := (\<lambda>t k key. Inr (PublicIPAddress deleted_pip)),
     azPipList := (\<lambda>t rg. Inr \<lparr>page_not_done = True,
       page_values = [orphan_ip\<lparr>az_ip_tags := [ServiceTag \<mapsto> Some ''/'']\<rparr>]\<rparr>),
     azLbGet := (\<lambda>t rg n. Inr \<lparr>lb_frontend_ip_configurations =
         Some [\<lparr>fc_id = Some ''/fc-1'', fc_public_ip = Some orphan_ip, fc_rest = ''''\<rparr>],
       lb_rules = None, lb_probes = None, lb_rest = ''''\<rparr>)\<rparr>"

lemma expired_env_facts:
  "azure_accepts_cleaning expired_env rg" "accepts_patches expired_env"
  "releases_finalizers expired_env" "grace_elapsed expired_env pip_default_config deleted_pip"
  by (simp_all add: expired_env_def orphan_env_def azure_accepts_cleaning_def accepts_patches_def
      releases_finalizers_def grace_elapsed_def deleted_pip_def pip_default_config_def)

text \<open>C19: \<open>Delete\<close> of a publicipaddress succeeds in two ways only: with 0, when the resource is
  exempt from cleaning or its status says that the Azure public IP address does not exist; or
  with the sync period, when its status records as many failed attempts to look the address up,
  or to clean it, as are allowed - then it has given up, and the address may well exist. The
  reconciler takes either for completion: it takes the finalizer off a publicipaddress only if
  the resource is exempt, its address does not exist, or the attempts are used up.\<close>

theorem delete_completes_when_gone_or_given_up:
  assumes "patch_lawful e"
  shows "yields e (pip_Delete (azure_pip_actuator rg cfg) p) (\<lambda>r _. \<forall>d p'. r = Returned (Inr d, p') \<longrightarrow>
      d = 0 \<and> (shouldNotClean p' \<or> \<not> ps_exists (pip_status p')) \<or>
      d = pc_sync_period cfg \<and> given_up cfg p') \<and>
    yields e (Reconcile (pip_reconciler (NewPublicIPAddressUtils rg) cfg) key)
      (\<lambda>_ es. \<forall>ob f err. KRemoveFinalizer ob f err \<in> set es \<longrightarrow> (\<exists>p'. ob = PublicIPAddress p' \<and>
        (shouldNotClean p' \<or> \<not> ps_exists (pip_status p') \<or> given_up cfg p')))"
proof
  let ?rc = "pip_reconciler (NewPublicIPAddressUtils rg) cfg"
  have del: "yields e (pip_Delete (azure_pip_actuator rg cfg) p) (\<lambda>r _. settled cfg r)" for p
    by (rule azure_pips.pip_Delete_settled) (use assms in simp_all)
  then show "yields e (pip_Delete (azure_pip_actuator rg cfg) p) (\<lambda>r _. \<forall>d p'. r = Returned (Inr d, p') \<longrightarrow>
      d = 0 \<and> (shouldNotClean p' \<or> \<not> ps_exists (pip_status p')) \<or>
      d = pc_sync_period cfg \<and> given_up cfg p')"
    by (simp add: settled_def)
  have "\<exists>p'. ob = PublicIPAddress p' \<and> (shouldNotClean p' \<or> \<not> ps_exists (pip_status p') \<or> given_up cfg p')"
    if "Delete (rc_actuator ?rc) ob0 e t = (Returned (Inr d, ob), t')" for ob0 t d ob t'
  proof -
    have "yields e (Delete (rc_actuator ?rc) ob0) (\<lambda>r _. \<forall>d ob. r = Returned (Inr d, ob) \<longrightarrow>
        (\<exists>p'. ob = PublicIPAddress p' \<and> settled cfg (Returned (Inr d, p'))))"
      by (auto simp: pip_reconciler_def pip_NewActuator_def on_pip_def Let_def
          intro!: yields_ret yields_seq [OF del] split: k8s_object.split prod.split)
    from yields_run [OF this that] show ?thesis by auto
  qed
  moreover have "yields e (Reconcile ?rc key) (disciplined e ?rc (\<lambda>_. Inr True) key)"
    by (rule azure_pips.pip_act.Reconcile_disciplined) (simp add: pip_reconciler_def)
  ultimately show "yields e (Reconcile ?rc key)
      (\<lambda>_ es. \<forall>ob f err. KRemoveFinalizer ob f err \<in> set es \<longrightarrow> (\<exists>p'. ob = PublicIPAddress p' \<and>
        (shouldNotClean p' \<or> \<not> ps_exists (pip_status p') \<or> given_up cfg p')))"
    by (blast intro: yields_mono dest: disciplined_removal)
qed

lemma expired_env_lawful: "patch_lawful expired_env"
  by (auto simp: patch_lawful_def expired_env_def orphan_env_def)

text \<open>Cleaning the same address with a load balancer that cannot be read, and one attempt allowed.\<close>

definition hopeless_config :: pip_config where
  "hopeless_config = pip_default_config\<lparr>pc_max_clean_attempts := 1\<rparr>"

definition hopeless_env :: env where
  "hopeless_env = expired_env\<lparr>azLbGet := (\<lambda>t rg n. Inl (ApiError ''AzureError''))\<rparr>"

lemma hopeless_env_lawful: "patch_lawful hopeless_env"
  by (auto simp: patch_lawful_def hopeless_env_def expired_env_def orphan_env_def)

fun removed_from :: "event \<Rightarrow> (bool \<times> bool) option" where
  "removed_from (KRemoveFinalizer (PublicIPAddress p) _ _) =
     Some (ps_exists (pip_status p), given_up hopeless_config p)"
| "removed_from _ = None"

theorem delete_completes_when_gone_or_given_up_witness:
  "(case fst (pip_Delete (azure_pip_actuator ''shoot'' pip_default_config) deleted_pip expired_env []) of
     Returned (Inr d, p') \<Rightarrow> d = 0 \<and> \<not> shouldNotClean p' \<and> \<not> ps_exists (pip_status p') | _ \<Rightarrow> False) \<and>
   (case fst (pip_Delete (azure_pip_actuator ''shoot'' hopeless_config) deleted_pip hopeless_env []) of
     Returned (Inr d, p') \<Rightarrow> d = pc_sync_period hopeless_config \<and> \<not> shouldNotClean p' \<and> ps_exists (pip_status p')
   | _ \<Rightarrow> False) \<and>
   List.map_filter removed_from (snd (Reconcile
     (pip_reconciler (NewPublicIPAddressUtils ''shoot'') hopeless_config) (obj_key (PublicIPAddress deleted_pip)) hopeless_env [])) =
       [(True, True)] \<and>
   yields hopeless_env (Reconcile (pip_reconciler (NewPublicIPAddressUtils ''shoot'') hopeless_config)
     (obj_key (PublicIPAddress deleted_pip)))
      (\<lambda>_ es. \<forall>ob f err. KRemoveFinalizer ob f err \<in> set es \<longrightarrow> (\<exists>p'. ob = PublicIPAddress p' \<and>
        (shouldNotClean p' \<or> \<not> ps_exists (pip_status p') \<or> given_up hopeless_config p')))"
  by (intro conjI delete_completes_when_gone_or_given_up [OF hopeless_env_lawful, THEN conjunct2]) code_simp+

lemma deleted_pip_facts:
  "meta_deletion_timestamp (pip_meta deleted_pip) \<noteq> None" "\<not> shouldNotClean deleted_pip"
  "containsFinalizer expired_env (PublicIPAddress deleted_pip) pip_FinalizerName"
  by (simp_all add: deleted_pip_def shouldNotClean_def empty_meta_def map_get_def format_bool_def
      expired_env_def orphan_env_def)

lemma expired_known:
  "azure_knows expired_env rg deleted_pip (orphan_ip\<lparr>az_ip_tags := [ServiceTag \<mapsto> Some ''/'']\<rparr>)"
proof -
  have "tagged_for (namespacedNameString expired_env (GetNamespacedName service_ObjectLabeler
      (map_get (meta_labels (pip_meta deleted_pip)) ServiceLabel)))
      (orphan_ip\<lparr>az_ip_tags := [ServiceTag \<mapsto> Some ''/'']\<rparr>)"
    by code_simp
  then show ?thesis
    by (simp add: azure_knows_def deleted_pip_def new_pip_def empty_pip_status_def has_ip_def
        orphan_ip_def, simp add: expired_env_def orphan_env_def orphan_ip_def has_ip_def)
qed

section \<open>Retries\<close>

text \<open>While Azure cannot be read, reconciling a publicipaddress that has no failed
  lookups on record asks to be retried after the requeue interval, doubled at every further
  attempt, and gives up at the configured maximum of attempts with the sync period.\<close>

lemma lookup_retries_then_gives_up:
  assumes "pip_lookups_fail e rg" "accepts_patches e" "get_attempts p = 0"
    and "pc_max_get_attempts cfg = of_nat m" "0 < m" "m < 2 ^ 62"
  shows "\<exists>errs. length errs = m - 1 \<and>
     rounds (pip_CreateOrUpdate (azure_pip_actuator rg cfg)) m p e t =
       map (\<lambda>j. Inl (RequeueAfterError (errs ! j) (doubled (pc_requeue_interval cfg) j)))
         [0 ..< m - 1] @ [Inr (pc_sync_period cfg)]"
  using assms by (intro pip_create_retry.gives_up) (simp_all add: pip_failing_def)

definition unreadable_env :: env where
  "unreadable_env = example_env\<lparr>
     azPipGet := (\<lambda>t rg n. Inl (ExternalError ''429'')),
     azPipList := (\<lambda>t rg. Inl (ExternalError ''429''))\<rparr>"

lemma unreadable_env_facts:
  "pip_lookups_fail unreadable_env rg" "accepts_patches unreadable_env"
  by (simp_all add: unreadable_env_def pip_lookups_fail_def accepts_patches_def)

section \<open>What a failed lookup does to the status\<close>

text \<open>A lookup that fails, on creation or deletion alike, rewrites the status as if the
  public IP address did not exist: existence, id and name recorded earlier are lost, and with
  the name the next lookup by name. Only the failed operations are kept.\<close>

lemma failed_lookup_forgets_the_address:
  assumes "pip_lookups_fail e rg" "accepts_patches e" "get_attempts p = of_nat k" "k < 2 ^ 62"
  shows "\<exists>res p' t'. pip_CreateOrUpdate (azure_pip_actuator rg cfg) p e t = (Returned (res, p'), t') \<and>
     \<not> ps_exists (pip_status p') \<and> ps_id (pip_status p') = None \<and> ps_name (pip_status p') = None \<and>
     get_attempts p' = of_nat (Suc k)"
proof -
  obtain ops' res es where "pip_CreateOrUpdate (azure_pip_actuator rg cfg) p e t =
      (Returned (res, p\<lparr>pip_status := build_status None ops'\<rparr>), t @ es)"
      "get_attempts (p\<lparr>pip_status := build_status None ops'\<rparr>) = of_nat (Suc k)"
    using get_failure_run [OF assms, of _ cfg t] by blast
  then show ?thesis by (auto simp: build_status_def empty_pip_status_def Let_def)
qed

definition known_pip :: public_ip_address where
  "known_pip = (new_pip ''ns'' ''ip-1'')\<lparr>pip_status :=
     \<lparr>ps_exists = True, ps_id = Some ''/ip-1'', ps_name = Some ''ip-1'',
      ps_provisioning_state = Some Succeeded, ps_failed_operations = []\<rparr>\<rparr>"

lemma known_pip_attempts: "get_attempts known_pip = of_nat 0"
  by (simp add: known_pip_def get_attempts_def getFailedOperations_def attempts_of_def)

text \<open>C35: A public IP address that Azure knows under the recorded name but that has no IP
  address assigned crashes both operations of the actuator, before anything is written: the
  lookup by name dereferences the missing address (the lookup by IP checks it).\<close>

theorem unassigned_ip_panics:
  assumes "ps_name (pip_status p) = Some n"
    and "azPipGet e (t @ [CounterInc ReadRequests]) rg n = Inr z" "az_ip_address z = None"
  shows "pip_CreateOrUpdate (azure_pip_actuator rg cfg) p e t =
      (Panicked ''nil pointer dereference'', t @ [CounterInc ReadRequests, AzPipGet rg n (Inr z)]) \<and>
    pip_Delete (azure_pip_actuator rg cfg) p e t =
      (Panicked ''nil pointer dereference'', t @ [CounterInc ReadRequests, AzPipGet rg n (Inr z)])"
proof -
  have "getAzurePublicIPAddress (azure_pip_actuator rg cfg) p e t =
      (Panicked ''nil pointer dereference'', t @ [CounterInc ReadRequests, AzPipGet rg n (Inr z)])"
    using assms by (simp add: getAzurePublicIPAddress_def GetByName_impl_def pip_client_defs run_simps)
  then show ?thesis by (simp add: pip_CreateOrUpdate_def pip_Delete_def Let_def seq_def)
qed

definition unassigned_env :: env where
  "unassigned_env = example_env\<lparr>azPipGet := (\<lambda>t rg n. Inr (orphan_ip\<lparr>az_ip_address := None\<rparr>))\<rparr>"

theorem unassigned_ip_panics_witness:
  "fst (pip_CreateOrUpdate (azure_pip_actuator ''shoot'' pip_default_config) known_pip
     unassigned_env []) = Panicked ''nil pointer dereference''"
  using unassigned_ip_panics [of known_pip "''ip-1''" unassigned_env "[]" "''shoot''"
      "orphan_ip\<lparr>az_ip_address := None\<rparr>" pip_default_config]
  by (simp add: known_pip_def unassigned_env_def)

end
