(* ===== verification/Azure_Vm_Utils.thy ===== *)
theory Azure_Vm_Utils
  imports Azure_Pip_Utils
begin

text \<open>
  \<open>VirtualMachineUtils\<close> of \<open>pkg/utils/azure/vm.go\<close>, with the client methods it calls; the
  interface is the record \<open>vm_utils\<close>.
\<close>

definition VirtualMachinesClient_Get :: "string \<Rightarrow> string \<Rightarrow> (goerr + az_vm) io" where
  "VirtualMachinesClient_Get rg name = ecall (\<lambda>e t. azVmGet e t rg name) (AzVmGet rg name)"

definition VirtualMachinesClient_Reapply :: "string \<Rightarrow> string \<Rightarrow> goerr option io" where
  "VirtualMachinesClient_Reapply rg name =
     ecall (\<lambda>e t. azVmReapply e t rg name) (AzVmReapply rg name)"

definition WaitForVmReapply :: "goerr option io" where
  "WaitForVmReapply = ecall azVmReapplyWait AzVmReapplyWait"

lemmas vm_client_defs =
  VirtualMachinesClient_Get_def VirtualMachinesClient_Reapply_def WaitForVmReapply_def

definition VmGet_impl :: "string \<Rightarrow> string \<Rightarrow> (goerr + az_vm option) io" where
  "VmGet_impl rg name =
     seq (counter_inc ReadRequests) (\<lambda>_.
     seq (VirtualMachinesClient_Get rg name) (\<lambda>r.
     case r of
       Inl err \<Rightarrow>
         if isAzureNotFoundError err then ret (Inr None)
         else ret (Inl (Wrap ''could not get Azure VirtualMachine'' err))
     | Inr vm \<Rightarrow> ret (Inr (Some vm))))"

definition VmReapply_impl :: "string \<Rightarrow> string \<Rightarrow> goerr option io" where
  "VmReapply_impl rg name =
     seq (counter_inc WriteRequests) (\<lambda>_.
     seq (VirtualMachinesClient_Reapply rg name) (\<lambda>r.
     case r of
       Some err \<Rightarrow> ret (Some (Wrap ''could not reapply Azure VirtualMachine'' err))
     | None \<Rightarrow>
         seq (counter_inc ReadRequests) (\<lambda>_.
         seq WaitForVmReapply (\<lambda>r.
         case r of
           Some err \<Rightarrow>
             ret (Some (Wrap ''could not wait for the Azure VirtualMachine reapply to complete'' err))
         | None \<Rightarrow> ret None))))"

record vm_utils =
  VmGet :: "string \<Rightarrow> (goerr + az_vm option) io"
  VmReapply :: "string \<Rightarrow> goerr option io"

definition NewVirtualMachineUtils :: "string \<Rightarrow> vm_utils" where
  "NewVirtualMachineUtils rg = \<lparr>VmGet = VmGet_impl rg, VmReapply = VmReapply_impl rg\<rparr>"

lemma NewVirtualMachineUtils_simps [simp]:
  "VmGet (NewVirtualMachineUtils rg) = VmGet_impl rg"
  "VmReapply (NewVirtualMachineUtils rg) = VmReapply_impl rg"
  by (simp_all add: NewVirtualMachineUtils_def)

section \<open>The contract of the interface\<close>

fun vm_lookup_event :: "string \<Rightarrow> event \<Rightarrow> bool" where
  "vm_lookup_event name (CounterInc m) = (m = ReadRequests)"
| "vm_lookup_event name (AzVmGet _ n _) = (n = name)"
| "vm_lookup_event name _ = False"

fun vm_reapply_event :: "string \<Rightarrow> event \<Rightarrow> bool" where
  "vm_reapply_event name (CounterInc m) = (m = ReadRequests \<or> m = WriteRequests)"
| "vm_reapply_event name (AzVmReapply _ n _) = (n = name)"
| "vm_reapply_event name (AzVmReapplyWait _) = True"
| "vm_reapply_event name _ = False"

definition reapply_calls :: "trace \<Rightarrow> event list" where
  "reapply_calls es = filter (\<lambda>ev. case ev of AzVmReapply _ _ _ \<Rightarrow> True | _ \<Rightarrow> False) es"

locale vm_utils_contract =
  fixes u :: vm_utils
  assumes get_reads: "stays (vm_lookup_event name) (VmGet u name)"
    and reapply_only: "stays (vm_reapply_event name) (VmReapply u name)"
    and get_seen: "yields e (VmGet u name)
      (\<lambda>r es. \<forall>vm. r = Returned (Inr (Some vm)) \<longrightarrow> (\<exists>rg. AzVmGet rg name (Inr vm) \<in> set es))"
    and reapply_ok: "yields e (VmReapply u name)
      (\<lambda>r es. r = Returned None \<longrightarrow> (\<exists>rg. AzVmReapply rg name None \<in> set es))"
    and reapply_once: "yields e (VmReapply u name) (\<lambda>r es. length (reapply_calls es) = Suc 0)"

lemma stays_VmGet: "stays (vm_lookup_event name) (VmGet_impl rg name)"
  unfolding VmGet_impl_def vm_client_defs by (auto intro!: trace_rules split: sum.split)

lemma stays_VmReapply: "stays (vm_reapply_event name) (VmReapply_impl rg name)"
  unfolding VmReapply_impl_def vm_client_defs by (auto intro!: trace_rules split: option.split)

lemma VmGet_seen:
  "yields e (VmGet_impl rg name)
     (\<lambda>r es. \<forall>vm. r = Returned (Inr (Some vm)) \<longrightarrow> (\<exists>rg. AzVmGet rg name (Inr vm) \<in> set es))"
  unfolding VmGet_impl_def vm_client_defs by (auto intro!: yields_intros split: sum.split)

lemma VmReapply_ok:
  "yields e (VmReapply_impl rg name)
     (\<lambda>r es. r = Returned None \<longrightarrow> (\<exists>rg. AzVmReapply rg name None \<in> set es))"
  unfolding VmReapply_impl_def vm_client_defs by (auto intro!: yields_intros split: option.split)

lemma VmReapply_once:
  "yields e (VmReapply_impl rg name) (\<lambda>r es. length (reapply_calls es) = Suc 0)"
  unfolding VmReapply_impl_def vm_client_defs
  by (auto intro!: yields_intros simp: reapply_calls_def split: option.split)

interpretation azure_vms: vm_utils_contract "NewVirtualMachineUtils rg" for rg
  by unfold_locales (simp_all add: stays_VmGet stays_VmReapply VmGet_seen VmReapply_ok VmReapply_once)

end
