(* ===== verification/Vm_Actuator.thy ===== *)
theory Vm_Actuator
  imports Failed_Operations Azure_Vm_Utils Reconciler
begin

text \<open>
  The actuator of the virtualmachine controller
  (\<open>pkg/controller/azure/virtualmachine/actuator.go\<close>): it mirrors an Azure virtual machine in
  the status of the resource, reapplies it when its provisioning failed, and keeps a gauge of
  its state.
\<close>

section \<open>The operations\<close>

record vm_actuator =
  va_utils :: vm_utils
  va_config :: vm_config

definition CreateOrPatchVm ::
  "virtual_machine \<Rightarrow> (virtual_machine \<Rightarrow> virtual_machine) \<Rightarrow>
   (goerr option \<times> virtual_machine) io" where
  "CreateOrPatchVm vm f =
     ecall (\<lambda>e t. kPatchVm e t vm f) (\<lambda>(err, vm'). KPatchVm vm err vm')"

text \<open>
  The name of the Azure virtual machine: as recorded in the status, else what follows the last
  slash of the provider id, else the name of the resource.
\<close>

definition getVirtualMachineName :: "virtual_machine \<Rightarrow> string" where
  "getVirtualMachineName vm =
     (case vs_name (vm_status vm) of
        Some name \<Rightarrow> name
      | None \<Rightarrow>
          (let provider_id = vs_provider_id (vm_spec vm);
               lsi = str_last_index provider_id ''/''
           in if lsi > 0 then drop (nat (lsi + 1)) provider_id else meta_name (vm_meta vm)))"

definition vm_getFailedOperations :: "virtual_machine \<Rightarrow> failed_operation list" where
  "vm_getFailedOperations vm = vs_failed_operations (vm_status vm)"

definition vm_getProvisioningState :: "az_vm \<Rightarrow> provisioning_state" where
  "vm_getProvisioningState azvm =
     (case az_vm_provisioning_state azvm of None \<Rightarrow> OtherState '''' | Some st \<Rightarrow> st)"

definition vm_build_status :: "az_vm option \<Rightarrow> failed_operation list \<Rightarrow> vm_status" where
  "vm_build_status azvm ops =
     (let status = (case azvm of
            None \<Rightarrow> empty_vm_status
          | Some v \<Rightarrow> \<lparr>vs_exists = True, vs_id = az_vm_id v, vs_name = az_vm_name v,
                       vs_provisioning_state = az_vm_provisioning_state v,
                       vs_failed_operations = []\<rparr>)
      in if ops \<noteq> [] then status\<lparr>vs_failed_operations := ops\<rparr> else status)"

definition updateVirtualMachineStatus ::
  "virtual_machine \<Rightarrow> az_vm option \<Rightarrow> failed_operation list \<Rightarrow>
   (goerr option \<times> virtual_machine) io" where
  "updateVirtualMachineStatus vm azvm ops =
     seq (CreateOrPatchVm vm (\<lambda>v. v\<lparr>vm_status := vm_build_status azvm ops\<rparr>)) (\<lambda>(err, vm').
     ret (map_option (Wrap ''could not update virtualmachine status'') err, vm'))"

definition setVMStatesGauge :: "az_vm option \<Rightarrow> string \<Rightarrow> unit io" where
  "setVMStatesGauge azvm name =
     (case azvm of
        Some v \<Rightarrow>
          if vm_getProvisioningState v = Failed then emit (GaugeSet name VMStateFailed)
          else emit (GaugeSet name VMStateOK)
      | None \<Rightarrow> emit (GaugeDelete name))"

definition getAzureVirtualMachine ::
  "vm_actuator \<Rightarrow> string \<Rightarrow> (goerr + az_vm option) io" where
  "getAzureVirtualMachine a name =
     seq (VmGet (va_utils a) name) (\<lambda>r.
     case r of
       Inl err \<Rightarrow> ret (Inl (Wrap ''could not get Azure virtual machine'' err))
     | Inr azvm \<Rightarrow> ret (Inr azvm))"

definition reapplyAzureVirtualMachine ::
  "vm_actuator \<Rightarrow> string \<Rightarrow> (goerr + az_vm option) io" where
  "reapplyAzureVirtualMachine a name =
     seq (VmReapply (va_utils a) name) (\<lambda>r.
     case r of
       Some err \<Rightarrow> ret (Inl (Wrap ''could not reapply Azure virtual machine'' err))
     | None \<Rightarrow>
         seq (VmGet (va_utils a) name) (\<lambda>r.
         case r of
           Inl err \<Rightarrow> ret (Inl (Wrap ''could not get Azure virtual machine'' err))
         | Inr azvm \<Rightarrow> ret (Inr azvm)))"

text \<open>
  What follows a failed operation; \<open>finally\<close> is what the reapply branch does before it gives
  up (it sets the gauge), the lookup branches do nothing.
\<close>

definition vm_handle_failure ::
  "vm_actuator \<Rightarrow> virtual_machine \<Rightarrow> az_vm option \<Rightarrow> failed_operation list \<Rightarrow>
   operation_type \<Rightarrow> go_int \<Rightarrow> unit io \<Rightarrow> goerr \<Rightarrow>
   ((goerr + duration) \<times> virtual_machine) io" where
  "vm_handle_failure a vm azvm ops op_type max_attempts finally err =
     seq (ask (\<lambda>e. errorText e err)) (\<lambda>msg.
     seq now (\<lambda>ts.
     let (ops', op) = AddOrUpdateFailedOperation ops op_type msg ts in
     seq (updateVirtualMachineStatus vm azvm ops') (\<lambda>(uerr, vm').
     case uerr of
       Some err' \<Rightarrow> ret (Inl err', vm')
     | None \<Rightarrow>
         if go_less (fo_attempts op) max_attempts then
           (case requeue_backoff (vc_requeue_interval (va_config a)) (fo_attempts op) of
              None \<Rightarrow> panic ''negative shift amount''
            | Some after \<Rightarrow> ret (Inl (RequeueAfterError err after), vm'))
         else seq finally (\<lambda>_. ret (Inr (vc_sync_period (va_config a)), vm')))))"

definition vm_transient :: "az_vm option \<Rightarrow> bool" where
  "vm_transient azvm \<longleftrightarrow>
     (case azvm of
        None \<Rightarrow> True
      | Some v \<Rightarrow> vm_getProvisioningState v \<noteq> Succeeded \<and> vm_getProvisioningState v \<noteq> Failed)"

text \<open>The branch for a virtual machine in state Failed; \<open>None\<close> is falling through to the end.\<close>

definition vm_reapply ::
  "vm_actuator \<Rightarrow> virtual_machine \<Rightarrow> string \<Rightarrow> az_vm \<Rightarrow> failed_operation list \<Rightarrow>
   ((goerr + duration) option \<times> virtual_machine) io" where
  "vm_reapply a vm vmName azvm failed =
     seq (emit (GaugeSet vmName VMStateFailedWillReapply)) (\<lambda>_.
     seq (reapplyAzureVirtualMachine a vmName) (\<lambda>r.
     case r of
       Inl err \<Rightarrow>
         seq (vm_handle_failure a vm (Some azvm) failed OperationTypeReapplyVirtualMachine
                (vc_max_reapply_attempts (va_config a)) (emit (GaugeSet vmName VMStateFailed)) err)
           (\<lambda>(res, vm'). ret (Some res, vm'))
     | Inr reapplied \<Rightarrow>
         (let failed = DeleteFailedOperation failed OperationTypeReapplyVirtualMachine in
          seq (counter_inc ReappliedVMs) (\<lambda>_.
          seq (setVMStatesGauge reapplied vmName) (\<lambda>_.
          seq (updateVirtualMachineStatus vm reapplied failed) (\<lambda>(uerr, vm').
          case uerr of
            Some err \<Rightarrow> ret (Some (Inl err), vm')
          | None \<Rightarrow> ret (None, vm')))))))"

definition vm_CreateOrUpdate ::
  "vm_actuator \<Rightarrow> virtual_machine \<Rightarrow> ((goerr + duration) \<times> virtual_machine) io" where
  "vm_CreateOrUpdate a vm =
     (let vmName = getVirtualMachineName vm;
          failed = vm_getFailedOperations vm
      in
      seq (getAzureVirtualMachine a vmName) (\<lambda>r.
      case r of
        Inl err \<Rightarrow>
          vm_handle_failure a vm None failed OperationTypeGetVirtualMachine
            (vc_max_get_attempts (va_config a)) (ret ()) err
      | Inr azvm \<Rightarrow>
          (let failed = DeleteFailedOperation failed OperationTypeGetVirtualMachine;
               requeue = (if vm_transient azvm then vc_requeue_interval (va_config a)
                          else vc_sync_period (va_config a))
           in
           seq (updateVirtualMachineStatus vm azvm failed) (\<lambda>(uerr, vm').
           case uerr of
             Some err \<Rightarrow> ret (Inl err, vm')
           | None \<Rightarrow>
               (case azvm of
                  Some v \<Rightarrow>
                    if vm_getProvisioningState v = Failed then
                      seq (vm_reapply a vm' vmName v failed) (\<lambda>(early, vm'').
                      case early of
                        Some res \<Rightarrow> ret (res, vm'')
                      | None \<Rightarrow> ret (Inr requeue, vm''))
                    else
                      seq (emit (GaugeSet vmName VMStateOK)) (\<lambda>_. ret (Inr requeue, vm'))
                | None \<Rightarrow>
                    seq (emit (GaugeDelete vmName)) (\<lambda>_. ret (Inr requeue, vm')))))))"

definition vm_Delete ::
  "vm_actuator \<Rightarrow> virtual_machine \<Rightarrow> ((goerr + duration) \<times> virtual_machine) io" where
  "vm_Delete a vm =
     (let vmName = getVirtualMachineName vm;
          failed = vm_getFailedOperations vm
      in
      seq (getAzureVirtualMachine a vmName) (\<lambda>r.
      case r of
        Inl err \<Rightarrow>
          vm_handle_failure a vm None failed OperationTypeGetVirtualMachine
            (vc_max_get_attempts (va_config a)) (ret ()) err
      | Inr azvm \<Rightarrow>
          (let failed = DeleteFailedOperation failed OperationTypeGetVirtualMachine in
           seq (setVMStatesGauge azvm vmName) (\<lambda>_.
           seq (updateVirtualMachineStatus vm azvm failed) (\<lambda>(uerr, vm').
           case uerr of
             Some err \<Rightarrow> ret (Inl err, vm')
           | None \<Rightarrow> ret (Inr 0, vm'))))))"

text \<open>
  A Go function that returns an error with a duration: \<open>reconciler\<close> looks at the error first, so
  the \<open>return 0, err\<close> of \<open>Delete\<close> is \<open>Inl err\<close>.
\<close>

definition on_vm ::
  "(virtual_machine \<Rightarrow> ((goerr + duration) \<times> virtual_machine) io) \<Rightarrow>
   k8s_object \<Rightarrow> ((goerr + duration) \<times> k8s_object) io" where
  "on_vm f ob =
     (case ob of
        VirtualMachine vm \<Rightarrow> seq (f vm) (\<lambda>(res, vm'). ret (res, VirtualMachine vm'))
      | _ \<Rightarrow> ret (Inl (NewError ''reconciled object is not a virtualmachine''), ob))"

definition vm_NewActuator :: "vm_utils \<Rightarrow> vm_config \<Rightarrow> actuator" where
  "vm_NewActuator u config =
     (let a = \<lparr>va_utils = u, va_config = config\<rparr> in
      \<lparr>CreateOrUpdate = on_vm (vm_CreateOrUpdate a),
       Delete = on_vm (vm_Delete a),
       ShouldFinalize = (\<lambda>_. ret (Inr True))\<rparr>)"

end
