(* ===== verification/Vm_Controller.thy ===== *)
theory Vm_Controller
  imports Vm_Actuator Retries
begin

text \<open>
  The virtualmachine controller: its actuator keeps the reconciler's contract, reapplies only
  machines Azure reports as failed, leaves the gauge in agreement with the status, and follows
  the retry protocol.
\<close>

text \<open>\<open>DefaultAddOptions\<close> and \<open>FinalizerName\<close> of \<open>virtualmachine/add.go\<close>, and the reconciler
  \<open>AddToManagerWithOptions\<close> hands to the manager.\<close>

definition vm_default_config :: vm_config where
  "vm_default_config = \<lparr>vc_requeue_interval = 1 * minute, vc_sync_period = 2 * hour,
     vc_node_sync_period = 0, vc_max_get_attempts = 5, vc_max_reapply_attempts = 5\<rparr>"

definition vm_FinalizerName :: string where
  "vm_FinalizerName = ''azure.remedy.gardener.cloud/virtualmachine''"

definition vm_reconciler :: "vm_utils \<Rightarrow> vm_config \<Rightarrow> reconciler" where
  "vm_reconciler u config =
     \<lparr>rc_actuator = vm_NewActuator u config, rc_finalizer = vm_FinalizerName,
      rc_kind = VirtualMachineKind, rc_should_ensure_deleted = False\<rparr>"

section \<open>Guards\<close>

fun reapply_guard :: "trace \<Rightarrow> event \<Rightarrow> bool" where
  "reapply_guard pre (AzVmReapply _ n _) =
     ((\<exists>rg v. AzVmGet rg n (Inr v) \<in> set pre \<and> vm_getProvisioningState v = Failed) \<and>
      GaugeSet n VMStateFailedWillReapply \<in> set pre)"
| "reapply_guard pre (CounterInc m) =
     (m = ReappliedVMs \<longrightarrow> (\<exists>rg n. AzVmReapply rg n None \<in> set pre))"
| "reapply_guard pre (AzPipDelete _ _ _) = False"
| "reapply_guard pre (AzLbUpdate _ _ _ _) = False"
| "reapply_guard pre _ = True"

fun vm_quiet :: "event \<Rightarrow> bool" where
  "vm_quiet (AzVmReapply _ _ _) = False"
| "vm_quiet (CounterInc m) = (m \<noteq> ReappliedVMs)"
| "vm_quiet (AzPipDelete _ _ _) = False"
| "vm_quiet (AzLbUpdate _ _ _ _) = False"
| "vm_quiet _ = True"

definition guarded_reapply :: "trace \<Rightarrow> bool" where
  "guarded_reapply es \<longleftrightarrow> guarded reapply_guard es \<and> occurrences write_request es \<le> Suc 0"

lemma vm_quiet_guard: "vm_quiet ev \<Longrightarrow> reapply_guard pre ev"
  by (cases ev) auto

lemma vm_quiet_guarded: "list_all vm_quiet es \<Longrightarrow> guarded (\<lambda>pre. reapply_guard (xs @ pre)) es"
  by (erule guarded_all) (rule vm_quiet_guard)

lemma vm_guarded_quiet: "list_all vm_quiet es \<Longrightarrow> guarded reapply_guard es"
  by (erule guarded_all) (rule vm_quiet_guard)

lemma vm_quiet_no_write: "vm_quiet ev \<Longrightarrow> \<not> write_request ev"
  by (cases ev) auto

lemma vm_quiet_no_writes: "list_all vm_quiet es \<Longrightarrow> occurrences write_request es = 0"
  by (intro occurrences_none) (auto elim!: list.pred_mono_strong dest: vm_quiet_no_write)

lemma reapply_guard_mono: "reapply_guard xs ev \<Longrightarrow> set xs \<subseteq> set ys \<Longrightarrow> reapply_guard ys ev"
  by (cases ev) auto

lemma vm_lookup_quiet: "vm_lookup_event n ev \<Longrightarrow> vm_quiet ev"
  by (cases ev) auto

lemma vm_lookups_quiet: "list_all (vm_lookup_event n) es \<Longrightarrow> list_all vm_quiet es"
  by (erule list.pred_mono_strong) (rule vm_lookup_quiet)

section \<open>The gauge\<close>

fun is_gauge :: "event \<Rightarrow> bool" where
  "is_gauge (GaugeSet _ _) = True"
| "is_gauge (GaugeDelete _) = True"
| "is_gauge _ = False"

fun last_gauge :: "trace \<Rightarrow> event option" where
  "last_gauge [] = None"
| "last_gauge (ev # es) =
     (case last_gauge es of Some g \<Rightarrow> Some g | None \<Rightarrow> if is_gauge ev then Some ev else None)"

lemma last_gauge_append [simp]:
  "last_gauge (xs @ ys) = (case last_gauge ys of Some g \<Rightarrow> Some g | None \<Rightarrow> last_gauge xs)"
  by (induction xs) (auto split: option.split)

lemma last_gauge_none: "list_all (\<lambda>ev. \<not> is_gauge ev) es \<Longrightarrow> last_gauge es = None"
  by (induction es) auto

text \<open>What the gauge says of a machine with the given status.\<close>

definition status_gauge :: "string \<Rightarrow> vm_status \<Rightarrow> event" where
  "status_gauge name st =
     (if \<not> vs_exists st then GaugeDelete name
      else if vs_provisioning_state st = Some Failed then GaugeSet name VMStateFailed
      else GaugeSet name VMStateOK)"

definition vm_attempts :: "operation_type \<Rightarrow> virtual_machine \<Rightarrow> go_int" where
  "vm_attempts ty vm = attempts_of (vm_getFailedOperations vm) ty"

lemma vm_getFailedOperations_built:
  "vm_getFailedOperations (vm\<lparr>vm_status := vm_build_status azvm ops\<rparr>) = ops"
  by (simp add: vm_getFailedOperations_def vm_build_status_def Let_def empty_vm_status_def
      split: option.split)

lemma vm_attempts_built:
  "vm_status vm = vm_build_status azvm ops \<Longrightarrow> vm_attempts ty vm = attempts_of ops ty"
  using vm_getFailedOperations_built [where vm = vm and azvm = azvm and ops = ops]
  by (simp add: vm_attempts_def vm_getFailedOperations_def)

lemma attempts_of_add:
  "attempts_of (fst (AddOrUpdateFailedOperation ops ty msg ts)) ty = attempts_of ops ty + 1"
  by (simp add: attempts_of_def [of "fst _"] lookup_add)

text \<open>
  The lookup of the machine failed and that was the last attempt: one more failed attempt is
  recorded, and no more are allowed. Only then an operation leaves the gauge as it is.
\<close>

definition lookup_given_up :: "vm_config \<Rightarrow> virtual_machine \<Rightarrow> duration \<Rightarrow> virtual_machine \<Rightarrow> bool" where
  "lookup_given_up cfg vm d vm' \<longleftrightarrow> d = vc_sync_period cfg \<and> \<not> vs_exists (vm_status vm') \<and>
     vm_attempts OperationTypeGetVirtualMachine vm' = vm_attempts OperationTypeGetVirtualMachine vm + 1 \<and>
     \<not> go_less (vm_attempts OperationTypeGetVirtualMachine vm') (vc_max_get_attempts cfg)"

definition gauge_ok ::
  "(duration \<Rightarrow> virtual_machine \<Rightarrow> bool) \<Rightarrow> string \<Rightarrow>
   ((goerr + duration) \<times> virtual_machine) outcome \<Rightarrow> trace \<Rightarrow> bool" where
  "gauge_ok untouched name r es \<longleftrightarrow>
     (case r of
        Returned (Inr d, vm') \<Rightarrow>
          (case last_gauge es of
             None \<Rightarrow> untouched d vm'
           | Some g \<Rightarrow> g = status_gauge name (vm_status vm'))
      | _ \<Rightarrow> True)"

lemma gauge_ok_simps [simp]:
  "gauge_ok u name (Panicked msg) es" "gauge_ok u name OutOfFuel es"
  "gauge_ok u name (Returned (Inl err, vm')) es"
  "gauge_ok u name (Returned (Inr d, vm')) es \<longleftrightarrow>
     (case last_gauge es of
        None \<Rightarrow> u d vm'
      | Some g \<Rightarrow> g = status_gauge name (vm_status vm'))"
  by (simp_all add: gauge_ok_def)

lemma vm_lookup_no_gauge: "vm_lookup_event n ev \<Longrightarrow> \<not> is_gauge ev"
  by (cases ev) auto

lemma vm_lookups_no_gauge: "list_all (vm_lookup_event n) es \<Longrightarrow> last_gauge es = None"
  by (intro last_gauge_none) (auto elim!: list.pred_mono_strong dest: vm_lookup_no_gauge)

lemma vm_reapply_no_gauge: "vm_reapply_event n ev \<Longrightarrow> \<not> is_gauge ev"
  by (cases ev) auto

lemma status_gauge_built:
  "status_gauge name (vm_build_status (Some v) ops) =
     (if vm_getProvisioningState v = Failed then GaugeSet name VMStateFailed
      else GaugeSet name VMStateOK)"
  "status_gauge name (vm_build_status None ops) = GaugeDelete name"
  "\<not> vs_exists (vm_build_status None ops)"
  by (auto simp: status_gauge_def vm_build_status_def vm_getProvisioningState_def
      empty_vm_status_def Let_def split: option.splits)

section \<open>Building blocks\<close>

text \<open>A successful \<open>CreateOrPatch\<close> leaves the mutation of some version of the resource.\<close>

definition vm_patch_lawful :: "env \<Rightarrow> bool" where
  "vm_patch_lawful e \<longleftrightarrow>
     (\<forall>t p f. fst (kPatchVm e t p f) = None \<longrightarrow> (\<exists>base. snd (kPatchVm e t p f) = f base))"

lemma run_update_vm_status:
  "updateVirtualMachineStatus vm azvm ops e t =
     (let (err, vm') = kPatchVm e t vm (\<lambda>v. v\<lparr>vm_status := vm_build_status azvm ops\<rparr>)
      in (Returned (map_option (Wrap ''could not update virtualmachine status'') err, vm'),
          t @ [KPatchVm vm err vm']))"
  by (simp add: updateVirtualMachineStatus_def CreateOrPatchVm_def run_simps case_prod_unfold Let_def)

lemma vm_patched_status:
  assumes "vm_patch_lawful e" "kPatchVm e t vm (\<lambda>v. v\<lparr>vm_status := st\<rparr>) = (None, vm')"
  shows "vm_status vm' = st"
proof -
  obtain base where "snd (kPatchVm e t vm (\<lambda>v. v\<lparr>vm_status := st\<rparr>)) = base\<lparr>vm_status := st\<rparr>"
    using assms unfolding vm_patch_lawful_def by (metis fst_conv)
  with assms(2) show ?thesis by simp
qed

lemma yields_update_vm:
  assumes "\<And>err err' vm'. (vm_patch_lawful e \<Longrightarrow> err = None \<Longrightarrow> vm_status vm' = vm_build_status azvm ops) \<Longrightarrow>
      Q (Returned (err, vm')) [KPatchVm vm err' vm']"
  shows "yields e (updateVirtualMachineStatus vm azvm ops) Q"
  by (rule yieldsI)
    (auto simp: run_update_vm_status Let_def split: prod.split intro!: assms dest: vm_patched_status)

lemma yields_seq_update_vm:
  assumes "\<And>err err' vm'. (vm_patch_lawful e \<Longrightarrow> err = None \<Longrightarrow> vm_status vm' = vm_build_status azvm ops) \<Longrightarrow>
      yields e (f (err, vm')) (\<lambda>r es. Q r (KPatchVm vm err' vm' # es))"
  shows "yields e (seq (updateVirtualMachineStatus vm azvm ops) f) Q"
proof (rule yields_seq)
  show "yields e (updateVirtualMachineStatus vm azvm ops) (\<lambda>r es. \<exists>err err' vm'.
      r = Returned (err, vm') \<and> es = [KPatchVm vm err' vm'] \<and>
      (vm_patch_lawful e \<longrightarrow> err = None \<longrightarrow> vm_status vm' = vm_build_status azvm ops))"
    by (rule yields_update_vm) blast
qed (auto intro!: assms)

lemmas vm_intros = yields_intros yields_update_vm yields_seq_update_vm

lemma vm_failure_quiet:
  assumes "finally = ret () \<or> finally = emit (GaugeSet n g)"
  shows "yields e (vm_handle_failure a vm azvm ops ty mx finally err) (\<lambda>r es. list_all vm_quiet es)"
  unfolding vm_handle_failure_def now_def
  using assms by (auto simp: Let_def intro!: vm_intros split: prod.split option.split)

lemma vm_get_failure_gauge:
  assumes "vm_patch_lawful e" "va_config a = cfg"
  shows "yields e (vm_handle_failure a vm None (vm_getFailedOperations vm) OperationTypeGetVirtualMachine
      (vc_max_get_attempts (va_config a)) (ret ()) err)
    (\<lambda>r es. last_gauge es = None \<and> gauge_ok (lookup_given_up cfg vm) name r es)"
  unfolding vm_handle_failure_def now_def case_prod_beta Let_def
  using assms
  by (auto intro!: vm_intros simp: status_gauge_built lookup_given_up_def vm_attempts_built
      attempts_of_add snd_add vm_attempts_def [of _ vm] split: prod.split option.split)

lemma vm_reapply_failure_gauge:
  assumes "vm_patch_lawful e" "vm_getProvisioningState v = Failed"
  shows "yields e (vm_handle_failure a vm (Some v) ops ty mx (emit (GaugeSet name VMStateFailed)) err)
    (\<lambda>r es. \<forall>pre. gauge_ok u name r (pre @ es))"
  unfolding vm_handle_failure_def now_def
  using assms by (auto simp: Let_def status_gauge_built intro!: vm_intros split: prod.split option.split)

section \<open>The actuator\<close>

text \<open>A reapply is guarded when the machine was seen failed and the gauge says so.\<close>

definition seen_failed :: "string \<Rightarrow> trace \<Rightarrow> bool" where
  "seen_failed name xs \<longleftrightarrow>
     (\<exists>rg v. AzVmGet rg name (Inr v) \<in> set xs \<and> vm_getProvisioningState v = Failed)"

lemma reapply_guarded:
  assumes "list_all (\<lambda>ev. vm_reapply_event n ev \<or> vm_lookup_event n ev) es"
    and "seen_failed n xs" "GaugeSet n VMStateFailedWillReapply \<in> set xs"
  shows "guarded (\<lambda>pre. reapply_guard (xs @ pre)) es"
proof (rule guarded_all [OF assms(1)])
  fix pre ev
  assume "vm_reapply_event n ev \<or> vm_lookup_event n ev"
  then show "reapply_guard (xs @ pre) ev"
    using assms(2,3) by (cases ev) (auto simp: seen_failed_def)
qed

lemma reapply_writes:
  "list_all (\<lambda>ev. vm_reapply_event n ev \<or> vm_lookup_event n ev) es \<Longrightarrow>
   occurrences write_request es = length (reapply_calls es)"
  unfolding occurrences_def reapply_calls_def
  by (induction es) (auto split: event.split)

lemma reapply_no_gauge:
  "list_all (\<lambda>ev. vm_reapply_event n ev \<or> vm_lookup_event n ev) es \<Longrightarrow> last_gauge es = None"
  by (intro last_gauge_none)
    (auto elim!: list.pred_mono_strong dest: vm_reapply_no_gauge vm_lookup_no_gauge)

text \<open>The result of the reapply branch: an early return, or falling through.\<close>

definition reapply_gauge_ok ::
  "(duration \<Rightarrow> virtual_machine \<Rightarrow> bool) \<Rightarrow> string \<Rightarrow>
   ((goerr + duration) option \<times> virtual_machine) outcome \<Rightarrow> trace \<Rightarrow> bool" where
  "reapply_gauge_ok u name r es \<longleftrightarrow>
     (case r of
        Returned (Some res, vm') \<Rightarrow> \<forall>pre. gauge_ok u name (Returned (res, vm')) (pre @ es)
      | Returned (None, vm') \<Rightarrow> last_gauge es = Some (status_gauge name (vm_status vm'))
      | _ \<Rightarrow> True)"

lemma reapply_gauge_ok_simps [simp]:
  "reapply_gauge_ok u name (Panicked msg) es" "reapply_gauge_ok u name OutOfFuel es"
  "reapply_gauge_ok u name (Returned (Some res, vm')) es \<longleftrightarrow>
     (\<forall>pre. gauge_ok u name (Returned (res, vm')) (pre @ es))"
  "reapply_gauge_ok u name (Returned (None, vm')) es \<longleftrightarrow>
     last_gauge es = Some (status_gauge name (vm_status vm'))"
  by (simp_all add: reapply_gauge_ok_def)

lemma set_gauge_spec:
  "yields e (setVMStatesGauge azvm name) (\<lambda>r es. list_all vm_quiet es \<and>
     (\<forall>ops. last_gauge es = Some (status_gauge name (vm_build_status azvm ops))))"
  unfolding setVMStatesGauge_def
  by (auto simp: status_gauge_built intro!: yields_intros split: option.split)

context vm_utils_contract
begin

lemma getAzureVm_spec:
  assumes "va_utils a = u"
  shows "yields e (getAzureVirtualMachine a name) (\<lambda>r es. list_all (vm_lookup_event name) es \<and>
    (\<forall>v. r = Returned (Inr (Some v)) \<longrightarrow> (\<exists>rg. AzVmGet rg name (Inr v) \<in> set es)))"
  unfolding getAzureVirtualMachine_def assms
  by (rule yields_seq [OF yields_conj [OF staysD [OF get_reads] get_seen]])
    (auto intro!: yields_intros split: sum.split)

lemma reapplyAzure_spec:
  assumes "va_utils a = u"
  shows "yields e (reapplyAzureVirtualMachine a name) (\<lambda>r es.
    list_all (\<lambda>ev. vm_reapply_event name ev \<or> vm_lookup_event name ev) es \<and>
    length (reapply_calls es) = Suc 0 \<and>
    (\<forall>v. r = Returned (Inr v) \<longrightarrow> (\<exists>rg. AzVmReapply rg name None \<in> set es)))"
proof -
  have lookup: "reapply_calls es = []" if "list_all (vm_lookup_event name) es" for es
    using that unfolding reapply_calls_def filter_empty_conv
    by (auto simp: list_all_iff split: event.split)
  show ?thesis
    unfolding reapplyAzureVirtualMachine_def assms
  proof (rule yields_seq [OF yields_conj [OF staysD [OF reapply_only]
        yields_conj [OF reapply_ok reapply_once]]], goal_cases)
    case (1 res es)
    then show ?case
      by (cases res)
        (auto simp: lookup reapply_calls_def [of "_ @ _"] reapply_calls_def [symmetric]
          elim: list.pred_mono_strong
          intro!: yields_intros yields_seq [OF staysD [OF get_reads]] split: sum.split)
  qed (auto elim: list.pred_mono_strong)
qed

lemma vm_reapply_spec:
  assumes "va_utils a = u" "seen_failed name xs"
  shows "yields e (vm_reapply a vm name v ops)
    (\<lambda>r es. guarded (\<lambda>pre. reapply_guard (xs @ pre)) es \<and> occurrences write_request es \<le> Suc 0)"
  unfolding vm_reapply_def Let_def
proof (rule yields_seq_emit, rule yields_seq [OF reapplyAzure_spec [OF assms(1)]], goal_cases)
  case (1 res es)
  let ?xs = "xs @ [GaugeSet name VMStateFailedWillReapply]"
  have "seen_failed name ?xs" using assms(2) by (auto simp: seen_failed_def)
  with 1 have es: "guarded (\<lambda>pre. reapply_guard (?xs @ pre)) es"
    "occurrences write_request es = Suc 0"
    using reapply_guarded [of name es ?xs] by (auto simp: reapply_writes)
  show ?case
  proof (cases res)
    case (Inl err)
    have "yields e (vm_handle_failure a vm (Some v) ops OperationTypeReapplyVirtualMachine
        (vc_max_reapply_attempts (va_config a)) (emit (GaugeSet name VMStateFailed)) err)
      (\<lambda>r es. list_all vm_quiet es)" by (rule vm_failure_quiet) auto
    then show ?thesis
      unfolding Inl sum.case
      by (rule yields_seq)
        (use es vm_quiet_guarded [of _ "?xs @ es"] in
          \<open>auto intro!: yields_intros simp: vm_quiet_no_writes split: prod.split\<close>)
  next
    case (Inr reapplied)
    with 1 have acc: "\<exists>rg n. AzVmReapply rg n None \<in> set xs \<or> AzVmReapply rg n None \<in> set es"
      by blast
    show ?thesis
      unfolding Inr sum.case
    proof (rule yields_seq_emit, rule yields_seq [OF set_gauge_spec], goal_cases)
      case (1 _ es')
      then show ?case
        using es acc vm_quiet_guarded [of es' "?xs @ es @ [CounterInc ReappliedVMs]"]
        by (auto intro!: vm_intros simp: vm_quiet_no_writes split: option.split)
    qed (use es acc vm_quiet_guarded [of _ "?xs @ es @ [CounterInc ReappliedVMs]"] in
      \<open>auto simp: vm_quiet_no_writes\<close>)
  qed
qed (use reapply_guarded [of name _ "xs @ [GaugeSet name VMStateFailedWillReapply]"] assms(2) in
  \<open>auto simp: reapply_writes seen_failed_def\<close>)

lemma vm_reapply_gauge:
  assumes "va_utils a = u" "vm_patch_lawful e" "vm_getProvisioningState v = Failed"
  shows "yields e (vm_reapply a vm name v ops) (reapply_gauge_ok p name)"
  unfolding vm_reapply_def Let_def
proof (rule yields_seq_emit, rule yields_seq [OF reapplyAzure_spec [OF assms(1)]], goal_cases)
  case (1 res es)
  show ?case
  proof (cases res)
    case (Inl err)
    show ?thesis
      unfolding Inl sum.case
    proof (rule yields_seq [OF vm_reapply_failure_gauge [OF assms(2,3), where name = name and u = p]], goal_cases)
      case (1 out es')
      have "gauge_ok p name (Returned out)
          (pre @ GaugeSet name VMStateFailedWillReapply # es @ es')" for pre
        using spec [OF 1, of "pre @ GaugeSet name VMStateFailedWillReapply # es"] by simp
      then show ?case by (auto intro!: yields_intros split: prod.split)
    qed auto
  next
    case (Inr reapplied)
    show ?thesis
      unfolding Inr sum.case
      by (rule yields_seq_emit, rule yields_seq [OF set_gauge_spec])
        (use assms(2) in \<open>auto intro!: vm_intros split: option.split\<close>)
  qed
qed auto

lemma vm_create_spec:
  assumes "va_utils a = u"
  shows "yields e (vm_CreateOrUpdate a vm) (\<lambda>_ es. guarded_reapply es)"
  unfolding vm_CreateOrUpdate_def Let_def
proof (rule yields_seq [OF getAzureVm_spec [OF assms]], goal_cases)
  case (1 res es)
  then have q: "list_all vm_quiet es" by (auto intro: vm_lookups_quiet)
  show ?case
  proof (cases res)
    case (Inl err)
    have "yields e (vm_handle_failure a vm None (vm_getFailedOperations vm)
        OperationTypeGetVirtualMachine (vc_max_get_attempts (va_config a)) (ret ()) err)
      (\<lambda>r es. list_all vm_quiet es)" by (rule vm_failure_quiet) auto
    then show ?thesis
      unfolding Inl sum.case
      by (rule yields_mono)
        (use q in \<open>simp add: guarded_reapply_def vm_guarded_quiet vm_quiet_guarded vm_quiet_no_writes\<close>)
  next
    case (Inr azvm)
    have reapply: "yields e (seq (vm_reapply a vm' (getVirtualMachineName vm) v ops) (\<lambda>(early, vm'').
        case early of Some r \<Rightarrow> ret (r, vm'') | None \<Rightarrow> ret (Inr d, vm'')))
        (\<lambda>r es'. guarded_reapply (es @ KPatchVm vm err' vm' # es'))"
      if "vm_getProvisioningState v = Failed" "azvm = Some v" for v vm' err' ops d
    proof (rule yields_seq [OF vm_reapply_spec [OF assms, of _ "es @ [KPatchVm vm err' vm']"]],
        goal_cases)
      case 1
      show ?case using \<open>list_all _ es \<and> _\<close> that Inr by (auto simp: seen_failed_def)
    qed (use q in \<open>auto simp: guarded_reapply_def vm_guarded_quiet vm_quiet_no_writes
        intro!: yields_intros split: prod.split option.split\<close>)
    show ?thesis
      using q Inr reapply
      by (auto simp: guarded_reapply_def vm_guarded_quiet vm_quiet_no_writes
          intro!: vm_intros split: option.split)
  qed
qed (auto simp: guarded_reapply_def vm_lookups_quiet vm_guarded_quiet vm_quiet_no_writes)

lemma vm_delete_quiet:
  assumes "va_utils a = u"
  shows "yields e (vm_Delete a vm) (\<lambda>_ es. list_all vm_quiet es)"
  unfolding vm_Delete_def Let_def
proof (rule yields_seq [OF getAzureVm_spec [OF assms]], goal_cases)
  case (1 res es)
  then have q: "list_all vm_quiet es" by (auto intro: vm_lookups_quiet)
  show ?case
  proof (cases res)
    case (Inl err)
    have "yields e (vm_handle_failure a vm None (vm_getFailedOperations vm)
        OperationTypeGetVirtualMachine (vc_max_get_attempts (va_config a)) (ret ()) err)
      (\<lambda>r es. list_all vm_quiet es)" by (rule vm_failure_quiet) auto
    then show ?thesis
      unfolding Inl sum.case by (rule yields_mono) (use q in simp)
  next
    case (Inr azvm)
    show ?thesis
      unfolding Inr sum.case
      by (rule yields_seq [OF set_gauge_spec])
        (use q in \<open>auto intro!: vm_intros split: option.split\<close>)
  qed
qed (auto intro: vm_lookups_quiet)

lemma vm_delete_spec:
  assumes "va_utils a = u"
  shows "yields e (vm_Delete a vm) (\<lambda>_ es. guarded_reapply es)"
  by (rule yields_mono [OF vm_delete_quiet [OF assms]])
    (simp add: guarded_reapply_def vm_guarded_quiet vm_quiet_no_writes)

text \<open>After every successful operation the gauge and the status agree.\<close>

lemma vm_create_gauge:
  assumes "va_utils a = u" "vm_patch_lawful e" "va_config a = cfg"
  shows "yields e (vm_CreateOrUpdate a vm) (gauge_ok (lookup_given_up cfg vm) (getVirtualMachineName vm))"
  unfolding vm_CreateOrUpdate_def Let_def
proof (rule yields_seq [OF getAzureVm_spec [OF assms(1)]], goal_cases)
  case (1 res es)
  then have n: "last_gauge es = None" by (auto dest: vm_lookups_no_gauge)
  show ?case
  proof (cases res)
    case (Inl err)
    show ?thesis
      unfolding Inl sum.case
      by (rule yields_mono [OF vm_get_failure_gauge [OF assms(2,3)]])
        (auto simp: gauge_ok_def n split: outcome.splits sum.splits option.splits)
  next
    case (Inr azvm)
    have reapply: "yields e (seq (vm_reapply a vm' (getVirtualMachineName vm) v ops) (\<lambda>(early, vm'').
        case early of Some r \<Rightarrow> ret (r, vm'') | None \<Rightarrow> ret (Inr d, vm'')))
        (\<lambda>r es'. gauge_ok (lookup_given_up cfg vm) (getVirtualMachineName vm) r (es @ KPatchVm vm err' vm' # es'))"
      if "vm_getProvisioningState v = Failed" for v vm' err' ops d
    proof (rule yields_seq [OF vm_reapply_gauge [OF assms(1,2) that,
        where p = "lookup_given_up cfg vm"]], goal_cases)
      case (1 out es')
      then show ?case
        by (cases out; cases "fst out")
          (auto intro!: yields_intros dest: spec [of _ "es @ [KPatchVm vm err' vm']"])
    qed auto
    show ?thesis
      using Inr reapply assms(2)
      by (auto intro!: vm_intros simp: status_gauge_built split: option.split)
  qed
qed auto

lemma vm_delete_gauge:
  assumes "va_utils a = u" "vm_patch_lawful e" "va_config a = cfg"
  shows "yields e (vm_Delete a vm) (gauge_ok (lookup_given_up cfg vm) (getVirtualMachineName vm))"
  unfolding vm_Delete_def Let_def
proof (rule yields_seq [OF getAzureVm_spec [OF assms(1)]], goal_cases)
  case (1 res es)
  then have n: "last_gauge es = None" by (auto dest: vm_lookups_no_gauge)
  show ?case
  proof (cases res)
    case (Inl err)
    show ?thesis
      unfolding Inl sum.case
      by (rule yields_mono [OF vm_get_failure_gauge [OF assms(2,3)]])
        (auto simp: gauge_ok_def n split: outcome.splits sum.splits option.splits)
  next
    case (Inr azvm)
    show ?thesis
      unfolding Inr sum.case
      by (rule yields_seq [OF set_gauge_spec])
        (use n assms(2) in \<open>auto intro!: vm_intros split: option.split\<close>)
  qed
qed auto

end

section \<open>The actuator keeps the reconciler's contract\<close>

lemma vm_lookup_actuator: "vm_lookup_event n ev \<Longrightarrow> actuator_event ev"
  by (cases ev) auto

lemma vm_reapply_actuator: "vm_reapply_event n ev \<Longrightarrow> actuator_event ev"
  by (cases ev) auto

lemma stays_update_vm [trace_rules]:
  "stays actuator_event (updateVirtualMachineStatus vm azvm ops)"
  unfolding updateVirtualMachineStatus_def CreateOrPatchVm_def
  by (auto intro!: trace_rules split: prod.split)

lemma stays_set_gauge [trace_rules]: "stays actuator_event (setVMStatesGauge azvm name)"
  unfolding setVMStatesGauge_def by (auto intro!: trace_rules split: option.split)

lemma stays_vm_failure [trace_rules]:
  "stays actuator_event finally \<Longrightarrow>
   stays actuator_event (vm_handle_failure a vm azvm ops ty mx finally err)"
  unfolding vm_handle_failure_def now_def Let_def
  by (auto intro!: trace_rules split: prod.split option.split)

lemma stays_on_vm: "(\<And>vm. stays P (f vm)) \<Longrightarrow> stays P (on_vm f ob)"
  unfolding on_vm_def by (auto intro!: trace_rules split: k8s_object.split prod.split)

lemma on_vm_kind:
  assumes "\<And>vm. stays P (f vm)"
  shows "yields e (on_vm f ob)
    (\<lambda>r es. \<forall>res ob'. r = Returned (res, ob') \<longrightarrow> obj_kind ob' = obj_kind ob)"
proof (cases ob)
  case (VirtualMachine vm)
  show ?thesis
    unfolding on_vm_def VirtualMachine k8s_object.case
    by (rule yields_seq [OF staysD [OF assms]]) (auto intro!: yields_intros split: prod.split)
qed (simp_all add: on_vm_def yields_ret)

lemma yields_on_vm:
  assumes "\<And>vm. yields e (f vm) (\<lambda>_ es. P es)" "P []"
  shows "yields e (on_vm f ob) (\<lambda>_ es. P es)"
proof (cases ob)
  case (VirtualMachine vm)
  show ?thesis
    unfolding on_vm_def VirtualMachine k8s_object.case
    by (rule yields_seq [OF assms(1)]) (auto intro!: yields_intros split: prod.split)
qed (simp_all add: on_vm_def yields_ret assms(2))

context vm_utils_contract
begin

lemma stays_getAzureVm:
  assumes "va_utils a = u"
  shows "stays actuator_event (getAzureVirtualMachine a name)"
  unfolding getAzureVirtualMachine_def assms
  by (auto intro!: trace_rules stays_mono [OF get_reads vm_lookup_actuator] split: sum.split)

lemma stays_reapplyAzure:
  assumes "va_utils a = u"
  shows "stays actuator_event (reapplyAzureVirtualMachine a name)"
  unfolding reapplyAzureVirtualMachine_def assms
  by (auto intro!: trace_rules stays_mono [OF get_reads vm_lookup_actuator]
      stays_mono [OF reapply_only vm_reapply_actuator] split: sum.split option.split)

lemma stays_vm_reapply:
  "va_utils a = u \<Longrightarrow> stays actuator_event (vm_reapply a vm name v ops)"
  unfolding vm_reapply_def Let_def
  by (auto intro!: trace_rules stays_reapplyAzure split: sum.split prod.split option.split)

lemma stays_vm_create: "va_utils a = u \<Longrightarrow> stays actuator_event (vm_CreateOrUpdate a vm)"
  unfolding vm_CreateOrUpdate_def Let_def
  by (auto intro!: trace_rules stays_getAzureVm stays_vm_reapply
      split: sum.split prod.split option.split)

lemma stays_vm_delete: "va_utils a = u \<Longrightarrow> stays actuator_event (vm_Delete a vm)"
  unfolding vm_Delete_def Let_def
  by (auto intro!: trace_rules stays_getAzureVm split: sum.split prod.split option.split)

end

sublocale vm_utils_contract \<subseteq> vm_act: actuator_contract "vm_NewActuator u cfg" "\<lambda>_. Inr True" for cfg
  by unfold_locales
    (auto simp: vm_NewActuator_def Let_def
      intro!: stays_on_vm on_vm_kind [of actuator_event] yields_ret stays_vm_create stays_vm_delete)

section \<open>A whole reconciliation\<close>

lemma vm_rec_event_quiet: "\<not> actuator_event ev \<Longrightarrow> vm_quiet ev"
  by (cases ev) auto

lemma vm_rec_events_quiet: "list_all (\<lambda>ev. \<not> actuator_event ev) es \<Longrightarrow> list_all vm_quiet es"
  by (erule list.pred_mono_strong) (rule vm_rec_event_quiet)

lemma guarded_weaken:
  "guarded G es \<Longrightarrow> (\<And>pre ev. G pre ev \<Longrightarrow> H pre ev) \<Longrightarrow> guarded H es"
  by (simp add: guarded_def)

lemma reapply_guarded_after:
  "guarded reapply_guard es \<Longrightarrow> guarded (\<lambda>pre. reapply_guard (xs @ pre)) es"
  by (erule guarded_weaken) (erule reapply_guard_mono, simp)

lemma wraps_guarded_reapply: "wraps guarded_reapply"
  unfolding wraps_def guarded_reapply_def
  by (auto simp: vm_guarded_quiet vm_quiet_no_writes vm_quiet_guarded
      append_assoc [symmetric] simp del: append_assoc intro: reapply_guarded_after
      dest!: vm_rec_events_quiet)

context vm_utils_contract
begin

lemma Reconcile_guarded_reapply:
  "yields e (Reconcile (vm_reconciler u cfg) key) (\<lambda>_ es. guarded_reapply es)"
  by (rule Reconcile_wraps [OF wraps_guarded_reapply])
    (auto simp: vm_reconciler_def vm_NewActuator_def Let_def
      intro!: yields_on_vm vm_create_spec vm_delete_spec yields_ret,
     simp_all add: guarded_reapply_def)

end

section \<open>While Azure cannot be read, or does not reapply\<close>

definition accepts_vm_patches :: "env \<Rightarrow> bool" where
  "accepts_vm_patches e \<longleftrightarrow> (\<forall>t vm f. kPatchVm e t vm f = (None, f vm))"

definition vm_lookups_fail :: "env \<Rightarrow> string \<Rightarrow> bool" where
  "vm_lookups_fail e rg \<longleftrightarrow>
     (\<forall>t n. \<exists>err. azVmGet e t rg n = Inl err \<and> \<not> isAzureNotFoundError err)"

definition vm_stays_failed :: "env \<Rightarrow> string \<Rightarrow> bool" where
  "vm_stays_failed e rg \<longleftrightarrow>
     (\<forall>t n. \<exists>v. azVmGet e t rg n = Inr v \<and> vm_getProvisioningState v = Failed) \<and>
     (\<forall>t n. \<exists>err. azVmReapply e t rg n = Some err)"

abbreviation azure_vm_actuator :: "string \<Rightarrow> vm_config \<Rightarrow> vm_actuator" where
  "azure_vm_actuator rg cfg \<equiv> \<lparr>va_utils = NewVirtualMachineUtils rg, va_config = cfg\<rparr>"

lemma attempts_delete_other:
  "ty' \<noteq> ty \<Longrightarrow> attempts_of (DeleteFailedOperation ops ty) ty' = attempts_of ops ty'"
  by (induction ops ty rule: DeleteFailedOperation.induct) (auto simp: attempts_of_def)

lemma ret_not_emit: "ret () \<noteq> (emit g :: ('e, 'v, unit) effect)"
proof
  assume "ret () = (emit g :: ('e, 'v, unit) effect)"
  from fun_cong [OF fun_cong [OF this], of undefined "[]"] show False by (simp add: run_simps)
qed

lemma vm_handle_failure_run:
  assumes "accepts_vm_patches e" "attempts_of ops ty = of_nat k" "k < 2 ^ 62"
    and "finally = ret () \<or> finally = emit g"
  shows "\<exists>ops' res es. vm_handle_failure a vm azvm ops ty mx finally err e t =
      (Returned (res, vm\<lparr>vm_status := vm_build_status azvm ops'\<rparr>), t @ es) \<and>
      retry_outcome (vc_requeue_interval (va_config a)) (vc_sync_period (va_config a)) mx k res \<and>
      attempts_of ops' ty = of_nat (Suc k) \<and> es \<noteq> [] \<and>
      (finally = emit g \<and> \<not> go_less (of_nat (Suc k)) mx \<longrightarrow> last es = g)"
proof -
  let ?add = "AddOrUpdateFailedOperation ops ty (errorText e err) (clockNow e t)"
  have op: "fo_attempts (snd ?add) = of_nat k + 1" "attempts_of (fst ?add) ty = of_nat k + 1"
    using assms(2) by (simp_all add: snd_add attempts_of_def [of "fst ?add"] lookup_add)
  have backoff: "requeue_backoff d (of_nat k + 1) = Some (doubled d k)" for d
    using assms(3) by (intro requeue_backoff_doubled) simp
  show ?thesis
    using assms(1,4) op backoff
    by (intro exI [of _ "fst ?add"])
      (auto simp: vm_handle_failure_def now_def run_simps case_prod_beta run_update_vm_status
        accepts_vm_patches_def retry_outcome_def seq_run_Returned add.commute [of 1] ret_not_emit)
qed

lemma vm_get_failure_run:
  assumes "vm_lookups_fail e rg" "accepts_vm_patches e"
    and "vm_attempts OperationTypeGetVirtualMachine vm = of_nat k" "k < 2 ^ 62"
    and f: "f = vm_CreateOrUpdate (azure_vm_actuator rg cfg) \<or> f = vm_Delete (azure_vm_actuator rg cfg)"
  shows "\<exists>res vm' t'. f vm e t = (Returned (res, vm'), t') \<and>
      retry_outcome (vc_requeue_interval cfg) (vc_sync_period cfg) (vc_max_get_attempts cfg) k res \<and>
      vm_attempts OperationTypeGetVirtualMachine vm' = of_nat (Suc k)"
proof -
  let ?a = "azure_vm_actuator rg cfg" and ?n = "getVirtualMachineName vm"
  obtain err where "azVmGet e (t @ [CounterInc ReadRequests]) rg ?n = Inl err"
      "\<not> isAzureNotFoundError err"
    using assms(1) unfolding vm_lookups_fail_def by blast
  then obtain err' es where "getAzureVirtualMachine ?a ?n e t = (Returned (Inl err'), t @ es)"
    by (simp add: getAzureVirtualMachine_def VmGet_impl_def vm_client_defs run_simps)
  then have "f vm e t = vm_handle_failure ?a vm None (vm_getFailedOperations vm)
      OperationTypeGetVirtualMachine (vc_max_get_attempts cfg) (ret ()) err' e (t @ es)"
    using f by (auto simp: vm_CreateOrUpdate_def vm_Delete_def seq_run_Returned Let_def)
  moreover note vm_handle_failure_run [OF assms(2) assms(3) [unfolded vm_attempts_def] assms(4),
      of "ret ()" undefined ?a vm None "vc_max_get_attempts cfg" err' "t @ es"]
  ultimately show ?thesis
    by (force simp: vm_attempts_def vm_getFailedOperations_built)
qed

text \<open>A machine that stays failed: every round tries one reapply and records its failure.\<close>

lemma vm_reapply_failure_run:
  assumes "vm_stays_failed e rg" "accepts_vm_patches e"
    and "vm_attempts OperationTypeReapplyVirtualMachine vm = of_nat k" "k < 2 ^ 62"
  shows "\<exists>res vm' es. vm_CreateOrUpdate (azure_vm_actuator rg cfg) vm e t = (Returned (res, vm'), t @ es) \<and>
      retry_outcome (vc_requeue_interval cfg) (vc_sync_period cfg) (vc_max_reapply_attempts cfg) k res \<and>
      vm_attempts OperationTypeReapplyVirtualMachine vm' = of_nat (Suc k) \<and>
      (\<not> go_less (of_nat (Suc k)) (vc_max_reapply_attempts cfg) \<longrightarrow>
         last es = GaugeSet (getVirtualMachineName vm) VMStateFailed)"
proof -
  let ?a = "azure_vm_actuator rg cfg" and ?n = "getVirtualMachineName vm"
  let ?ops = "DeleteFailedOperation (vm_getFailedOperations vm) OperationTypeGetVirtualMachine"
  obtain v where v: "azVmGet e (t @ [CounterInc ReadRequests]) rg ?n = Inr v"
      "vm_getProvisioningState v = Failed"
    using assms(1) unfolding vm_stays_failed_def by blast
  let ?vm = "vm\<lparr>vm_status := vm_build_status (Some v) ?ops\<rparr>"
  let ?t = "t @ [CounterInc ReadRequests, AzVmGet rg ?n (Inr v), KPatchVm vm None ?vm,
      GaugeSet ?n VMStateFailedWillReapply]"
  obtain err where "azVmReapply e (?t @ [CounterInc WriteRequests]) rg ?n = Some err"
    using assms(1) unfolding vm_stays_failed_def by blast
  then obtain err' es where re: "reapplyAzureVirtualMachine ?a ?n e ?t = (Returned (Inl err'), ?t @ es)"
    by (simp add: reapplyAzureVirtualMachine_def VmReapply_impl_def vm_client_defs run_simps)
  have "attempts_of ?ops OperationTypeReapplyVirtualMachine = of_nat k"
    using assms(3) by (simp add: vm_attempts_def attempts_delete_other)
  from vm_handle_failure_run [OF assms(2) this assms(4),
      of "emit (GaugeSet ?n VMStateFailed)" "GaugeSet ?n VMStateFailed" ?a ?vm "Some v"
        "vc_max_reapply_attempts cfg" err' "?t @ es"]
  obtain ops' res es' where h: "vm_handle_failure ?a ?vm (Some v) ?ops OperationTypeReapplyVirtualMachine
        (vc_max_reapply_attempts cfg) (emit (GaugeSet ?n VMStateFailed)) err' e (?t @ es) =
      (Returned (res, ?vm\<lparr>vm_status := vm_build_status (Some v) ops'\<rparr>), (?t @ es) @ es')"
      "retry_outcome (vc_requeue_interval cfg) (vc_sync_period cfg) (vc_max_reapply_attempts cfg) k res"
      "attempts_of ops' OperationTypeReapplyVirtualMachine = of_nat (Suc k)" "es' \<noteq> []"
      "\<not> go_less (of_nat (Suc k)) (vc_max_reapply_attempts cfg) \<longrightarrow>
        last es' = GaugeSet ?n VMStateFailed"
    by auto
  have get: "getAzureVirtualMachine ?a ?n e t =
      (Returned (Inr (Some v)), t @ [CounterInc ReadRequests, AzVmGet rg ?n (Inr v)])"
    using v(1) by (simp add: getAzureVirtualMachine_def VmGet_impl_def vm_client_defs run_simps)
  have up: "updateVirtualMachineStatus vm (Some v) ?ops e t' =
      (Returned (None, ?vm), t' @ [KPatchVm vm None ?vm])" for t'
    using assms(2) by (simp add: run_update_vm_status accepts_vm_patches_def)
  have "vm_reapply ?a ?vm ?n v ?ops e (t @ [CounterInc ReadRequests, AzVmGet rg ?n (Inr v),
        KPatchVm vm None ?vm]) =
      (Returned (Some res, ?vm\<lparr>vm_status := vm_build_status (Some v) ops'\<rparr>), (?t @ es) @ es')"
    using re h(1) by (simp add: vm_reapply_def seq_emit seq_run_Returned run_ret)
  then have "vm_CreateOrUpdate ?a vm e t =
      (Returned (res, ?vm\<lparr>vm_status := vm_build_status (Some v) ops'\<rparr>), (?t @ es) @ es')"
    using v(2) get up by (simp add: vm_CreateOrUpdate_def Let_def seq_run_Returned run_ret)
  then show ?thesis
    using h(2-) by (auto simp: vm_attempts_def vm_getFailedOperations_built)
qed

end
