(* ===== verification/Vm_Properties.thy ===== *)
theory Vm_Properties
  imports Vm_Controller Example_Env
begin

text \<open>
  The properties of the virtualmachine controller.
\<close>

interpretation vm_create_retry: retry_protocol
  "vm_CreateOrUpdate (azure_vm_actuator rg cfg)" "vm_attempts OperationTypeGetVirtualMachine"
  "\<lambda>e vm. vm_lookups_fail e rg \<and> accepts_vm_patches e"
  "vc_requeue_interval cfg" "vc_sync_period cfg" "vc_max_get_attempts cfg" for rg cfg
  by unfold_locales (metis vm_get_failure_run)

interpretation vm_delete_retry: retry_protocol
  "vm_Delete (azure_vm_actuator rg cfg)" "vm_attempts OperationTypeGetVirtualMachine"
  "\<lambda>e vm. vm_lookups_fail e rg \<and> accepts_vm_patches e"
  "vc_requeue_interval cfg" "vc_sync_period cfg" "vc_max_get_attempts cfg" for rg cfg
  by unfold_locales (metis vm_get_failure_run)

interpretation vm_reapply_retry: retry_protocol
  "vm_CreateOrUpdate (azure_vm_actuator rg cfg)" "vm_attempts OperationTypeReapplyVirtualMachine"
  "\<lambda>e vm. vm_stays_failed e rg \<and> accepts_vm_patches e"
  "vc_requeue_interval cfg" "vc_sync_period cfg" "vc_max_reapply_attempts cfg" for rg cfg
  by unfold_locales (metis vm_reapply_failure_run)

section \<open>Safety\<close>

text \<open>C17: Whatever Azure and the Kubernetes API answer, one reconciliation of a virtualmachine
  sends Azure at most one write request, a reapply, and only for a machine that Azure reported
  as Failed in that reconciliation and after the gauge was set to will-reapply; it never
  touches a public IP address or a load balancer, and the reapplied-VMs counter only counts
  after an accepted reapply.\<close>

theorem vm_reconcile_reapplies_guarded:
  "yields e (Reconcile (vm_reconciler (NewVirtualMachineUtils rg) cfg) key)
     (\<lambda>_ es. guarded reapply_guard es \<and> occurrences write_request es \<le> 1)"
  using azure_vms.Reconcile_guarded_reapply [of e rg cfg key] by (simp add: guarded_reapply_def)

section \<open>The gauge\<close>

text \<open>C25: After every operation of the actuator that returns without error, the last value
  given to the gauge of the machine agrees with the status that was written: deleted if the
  machine does not exist, failed if its provisioning failed, ok otherwise. The gauge is left
  alone, and may be stale, only if the lookup of the machine failed for the last allowed time:
  then one more failed lookup is recorded, no more are allowed, the status says that the
  machine does not exist, and the sync period is asked for.\<close>

theorem gauge_agrees_with_status:
  assumes "vm_patch_lawful e"
    and "op = vm_CreateOrUpdate (azure_vm_actuator rg cfg) \<or> op = vm_Delete (azure_vm_actuator rg cfg)"
  shows "yields e (op vm) (\<lambda>r es. \<forall>d vm'. r = Returned (Inr d, vm') \<longrightarrow>
    (case last_gauge es of
       None \<Rightarrow> lookup_given_up cfg vm d vm'
     | Some g \<Rightarrow> g = status_gauge (getVirtualMachineName vm) (vm_status vm')))"
proof -
  have "yields e (op vm) (gauge_ok (lookup_given_up cfg vm) (getVirtualMachineName vm))"
    using assms(2) azure_vms.vm_create_gauge [OF _ assms(1)] azure_vms.vm_delete_gauge [OF _ assms(1)]
    by auto
  then show ?thesis by (rule yields_mono) (auto simp: gauge_ok_def)
qed

definition vm_in_state :: "provisioning_state \<Rightarrow> az_vm" where
  "vm_in_state st =
     \<lparr>az_vm_id = Some ''/vm'', az_vm_name = Some ''vm'', az_vm_provisioning_state = Some st\<rparr>"

text \<open>The machine is Failed until it is reapplied, and Updating afterwards.\<close>

definition recovering_env :: env where
  "recovering_env = example_env\<lparr>
     azVmGet := (\<lambda>t rg n. Inr (vm_in_state
       (if list_ex (\<lambda>ev. case ev of AzVmReapply _ _ _ \<Rightarrow> True | _ \<Rightarrow> False) t
        then OtherState ''Updating'' else Failed)))\<rparr>"

lemma recovering_env_lawful: "vm_patch_lawful recovering_env"
  by (auto simp: vm_patch_lawful_def recovering_env_def)

theorem gauge_agrees_with_status_witness:
  "(case last_gauge (snd (vm_CreateOrUpdate (azure_vm_actuator ''shoot'' vm_default_config)
       (new_vm ''ns'' ''vm'') recovering_env [])) of
     Some (GaugeSet n g) \<Rightarrow> n = ''vm'' \<and> g = VMStateOK | _ \<Rightarrow> False) \<and>
   yields recovering_env (vm_CreateOrUpdate (azure_vm_actuator ''shoot'' vm_default_config)
     (new_vm ''ns'' ''vm'')) (\<lambda>r es. \<forall>d vm'. r = Returned (Inr d, vm') \<longrightarrow>
    (case last_gauge es of
       None \<Rightarrow> lookup_given_up vm_default_config (new_vm ''ns'' ''vm'') d vm'
     | Some g \<Rightarrow> g = status_gauge (getVirtualMachineName (new_vm ''ns'' ''vm'')) (vm_status vm')))"
proof
  show "yields recovering_env (vm_CreateOrUpdate (azure_vm_actuator ''shoot'' vm_default_config)
     (new_vm ''ns'' ''vm'')) (\<lambda>r es. \<forall>d vm'. r = Returned (Inr d, vm') \<longrightarrow>
    (case last_gauge es of
       None \<Rightarrow> lookup_given_up vm_default_config (new_vm ''ns'' ''vm'') d vm'
     | Some g \<Rightarrow> g = status_gauge (getVirtualMachineName (new_vm ''ns'' ''vm'')) (vm_status vm')))"
    by (rule gauge_agrees_with_status [OF recovering_env_lawful disjI1 [OF refl]])
qed code_simp

section \<open>Retries\<close>

text \<open>A machine that stays Failed although it is reapplied is reapplied once per
  reconciliation, with the requeue interval doubled every time, until the configured maximum of
  attempts; then the actuator settles for the sync period.\<close>

lemma reapply_retries_then_gives_up:
  assumes "vm_stays_failed e rg" "accepts_vm_patches e"
    and "vm_attempts OperationTypeReapplyVirtualMachine vm = 0"
    and "vc_max_reapply_attempts cfg = of_nat m" "0 < m" "m < 2 ^ 62"
  shows "\<exists>errs. length errs = m - 1 \<and>
     rounds (vm_CreateOrUpdate (azure_vm_actuator rg cfg)) m vm e t =
       map (\<lambda>j. Inl (RequeueAfterError (errs ! j) (doubled (vc_requeue_interval cfg) j)))
         [0 ..< m - 1] @ [Inr (vc_sync_period cfg)]"
  using assms by (intro vm_reapply_retry.gives_up) simp_all

definition broken_vm_env :: env where
  "broken_vm_env = example_env\<lparr>
     azVmGet := (\<lambda>t rg n. Inr (vm_in_state Failed)),
     azVmReapply := (\<lambda>t rg n. Some (ExternalError ''conflict''))\<rparr>"

lemma broken_vm_env_facts:
  "vm_stays_failed broken_vm_env rg" "accepts_vm_patches broken_vm_env"
  by (simp_all add: broken_vm_env_def vm_stays_failed_def accepts_vm_patches_def vm_in_state_def
      vm_getProvisioningState_def)

text \<open>When the last allowed reapply fails, the last thing the actuator does is to set the
  gauge of the machine to failed, the state an alert can be raised on, and it asks for the sync
  period.\<close>

lemma exhausted_reapply_raises_the_gauge:
  assumes "vm_stays_failed e rg" "accepts_vm_patches e"
    and "vm_attempts OperationTypeReapplyVirtualMachine vm = of_nat k" "k < 2 ^ 62"
    and "\<not> go_less (of_nat (Suc k)) (vc_max_reapply_attempts cfg)"
  shows "\<exists>vm' es. vm_CreateOrUpdate (azure_vm_actuator rg cfg) vm e t =
      (Returned (Inr (vc_sync_period cfg), vm'), t @ es) \<and>
    last es = GaugeSet (getVirtualMachineName vm) VMStateFailed"
  using vm_reapply_failure_run [OF assms(1-4), of cfg t] assms(5)
  unfolding retry_outcome_def by fastforce

section \<open>The name of the machine\<close>

text \<open>Without a name in the status, the Azure name is the last segment of the provider
  id: for a provider id that ends in a slash and a name free of slashes it is that name, and
  for one without a slash it is the name of the resource.\<close>

lemma vm_name_is_last_segment:
  assumes "vs_name (vm_status vm) = None" "CHR ''/'' \<notin> set n"
  shows "(vs_provider_id (vm_spec vm) = u @ CHR ''/'' # n \<and> u \<noteq> [] \<longrightarrow>
      getVirtualMachineName vm = n) \<and>
    (vs_provider_id (vm_spec vm) = n \<longrightarrow> getVirtualMachineName vm = meta_name (vm_meta vm))"
  using assms str_last_index_single [of "CHR ''/''" n u] str_last_index_none [of "CHR ''/''" n]
  by (auto simp: getVirtualMachineName_def Let_def nat_add_distrib)

definition azure_node_vm :: virtual_machine where
  "azure_node_vm = (new_vm ''ns'' ''node-1'')\<lparr>vm_spec := \<lparr>vs_hostname = '''',
     vs_provider_id = ''azure:///vm-1'', vs_not_ready_or_unreachable = False\<rparr>\<rparr>"

section \<open>After a reapply\<close>

text \<open>The result is the sync period, or nothing was reapplied.\<close>

definition synced :: "vm_config \<Rightarrow> ((goerr + duration) \<times> virtual_machine) outcome \<Rightarrow> trace \<Rightarrow> bool" where
  "synced cfg r es \<longleftrightarrow> CounterInc ReappliedVMs \<in> set es \<longrightarrow>
     (case r of Returned (Inr d, vm') \<Rightarrow> d = vc_sync_period cfg | _ \<Rightarrow> True)"

lemma synced_simps [simp]:
  "synced cfg (Panicked msg) es" "synced cfg OutOfFuel es" "synced cfg (Returned (Inl err, vm')) es"
  "synced cfg (Returned (Inr (vc_sync_period cfg), vm')) es"
  by (simp_all add: synced_def)

lemma not_counted: "list_all vm_quiet es \<Longrightarrow> CounterInc ReappliedVMs \<notin> set es"
  by (auto simp: list_all_iff)

lemma vm_failure_synced:
  assumes "va_config a = cfg" "finally = ret () \<or> finally = emit g"
  shows "yields e (vm_handle_failure a vm azvm ops ty mx finally err) (\<lambda>r es. \<forall>pre. synced cfg r (pre @ es))"
  unfolding vm_handle_failure_def now_def
  using assms by (auto simp: Let_def intro!: vm_intros split: prod.split option.split)

context vm_utils_contract
begin

lemma vm_reapply_synced:
  assumes "va_utils a = u" "va_config a = cfg"
  shows "yields e (vm_reapply a vm name v ops) (\<lambda>r es. \<forall>pre.
    case r of Returned (Some res, vm') \<Rightarrow> synced cfg (Returned (res, vm')) (pre @ es) | _ \<Rightarrow> True)"
  unfolding vm_reapply_def Let_def
proof (rule yields_seq_emit, rule yields_seq [OF reapplyAzure_spec [OF assms(1)]], goal_cases)
  case (1 res es)
  show ?case
  proof (cases res)
    case (Inl err)
    show ?thesis
      unfolding Inl sum.case
    proof (rule yields_seq [OF vm_failure_synced [OF assms(2) disjI2 [OF refl]]], goal_cases)
      case (1 out es')
      have "synced cfg (Returned out) (pre @ GaugeSet name VMStateFailedWillReapply # es @ es')" for pre
        using spec [OF 1, of "pre @ GaugeSet name VMStateFailedWillReapply # es"] by simp
      then show ?case by (auto intro!: yields_intros split: prod.split)
    qed auto
  next
    case (Inr reapplied)
    show ?thesis
      unfolding Inr sum.case
      by (rule yields_seq_emit, rule yields_seq [OF set_gauge_spec])
        (auto intro!: vm_intros split: option.split)
  qed
qed auto

lemma vm_create_synced:
  assumes "va_utils a = u" "va_config a = cfg"
  shows "yields e (vm_CreateOrUpdate a vm) (synced cfg)"
  unfolding vm_CreateOrUpdate_def Let_def
proof (rule yields_seq [OF getAzureVm_spec [OF assms(1)]], goal_cases)
  case (1 res es)
  then have n: "CounterInc ReappliedVMs \<notin> set es" by (auto dest: vm_lookups_quiet not_counted)
  show ?case
  proof (cases res)
    case (Inl err)
    show ?thesis
      unfolding Inl sum.case
      by (rule yields_mono [OF vm_failure_synced [OF assms(2) disjI1 [OF refl]]]) blast
  next
    case (Inr azvm)
    have reapply: "yields e (seq (vm_reapply a vm' (getVirtualMachineName vm) v ops) (\<lambda>(early, vm'').
        case early of Some r \<Rightarrow> ret (r, vm'') | None \<Rightarrow> ret (Inr (vc_sync_period cfg), vm'')))
        (\<lambda>r es'. synced cfg r (es @ KPatchVm vm err' vm' # es'))" for v vm' err' ops
    proof (rule yields_seq [OF vm_reapply_synced [OF assms]], goal_cases)
      case (1 out es')
      then show ?case
        by (cases out; cases "fst out")
          (auto intro!: yields_intros dest: spec [of _ "es @ [KPatchVm vm err' vm']"])
    qed auto
    show ?thesis
      using Inr reapply n assms(2)
      by (auto intro!: vm_intros simp: synced_def [of _ "Returned (Inr _, _)"] vm_transient_def
          split: option.split)
  qed
qed auto

end

text \<open>After a reapply the next visit is a whole sync period away, whatever state the machine
  is in then: the choice of the requeue interval looks at the state from before the reapply, so
  a machine that is still updating, or gone, is not looked at again after the short interval.\<close>

lemma reapplied_vm_waits_for_sync_period:
  "yields e (vm_CreateOrUpdate (azure_vm_actuator rg cfg) vm) (\<lambda>r es. \<forall>d vm'.
     CounterInc ReappliedVMs \<in> set es \<and> r = Returned (Inr d, vm') \<longrightarrow> d = vc_sync_period cfg)"
  by (rule yields_mono [OF azure_vms.vm_create_synced [where cfg = cfg and rg = rg]])
    (auto simp: synced_def)

section \<open>Every failed machine\<close>

lemma vm_failure_yields: "yields e (vm_handle_failure a vm azvm ops ty mx (emit g) err) (\<lambda>_ _. True)"
  unfolding vm_handle_failure_def now_def
  by (auto simp: Let_def intro!: vm_intros split: prod.split option.split)

lemma vm_reapply_calls:
  "yields e (vm_reapply (azure_vm_actuator rg cfg) vm n v ops)
     (\<lambda>_ es. \<exists>err. AzVmReapply rg n err \<in> set es)"
proof -
  have calls: "yields e (reapplyAzureVirtualMachine (azure_vm_actuator rg cfg) n)
      (\<lambda>_ es. \<exists>err. AzVmReapply rg n err \<in> set es)"
    unfolding reapplyAzureVirtualMachine_def VmReapply_impl_def VmGet_impl_def vm_client_defs
    by (auto intro!: vm_intros simp: VmReapply_impl_def VmGet_impl_def vm_client_defs
        split: option.split sum.split)
  show ?thesis
    unfolding vm_reapply_def Let_def
  proof (rule yields_seq_emit, rule yields_seq [OF calls], goal_cases)
    case (1 r es)
    then show ?case
      by (auto intro!: vm_intros yields_seq [OF set_gauge_spec] yields_seq [OF vm_failure_yields]
          split: sum.split option.split)
  qed auto
qed

text \<open>C26: A machine the actuator finds Failed is reapplied in the same call, whether or not
  its node is ready and reachable (the README says otherwise): the resource's
  \<open>NotReadyOrUnreachable\<close> has no influence. The only exception is a failed status update, which
  comes between the lookup and the reapply: then the call ends at once with that error.\<close>

theorem failed_vm_is_reapplied:
  "yields e (vm_CreateOrUpdate (azure_vm_actuator rg cfg) vm) (\<lambda>r es.
    \<forall>v. AzVmGet rg (getVirtualMachineName vm) (Inr v) \<in> set es \<and> vm_getProvisioningState v = Failed \<longrightarrow>
      (\<exists>err. AzVmReapply rg (getVirtualMachineName vm) err \<in> set es) \<or>
      (\<exists>err vm'. r = Returned (Inl (Wrap ''could not update virtualmachine status'' err), vm') \<and>
         last es = KPatchVm vm (Some err) vm'))"
proof -
  let ?n = "getVirtualMachineName vm"
  have reapply: "yields e (seq (vm_reapply (azure_vm_actuator rg cfg) w ?n v ops) (\<lambda>(early, vm'').
        case early of Some r \<Rightarrow> ret (r, vm'') | None \<Rightarrow> ret (Inr d, vm'')))
      (\<lambda>_ es. \<exists>err. AzVmReapply rg ?n err \<in> set es)" for w v ops d
    by (rule yields_seq [OF vm_reapply_calls]) (auto intro!: yields_intros split: prod.split option.split)
  show ?thesis
    unfolding vm_CreateOrUpdate_def getAzureVirtualMachine_def VmGet_impl_def vm_client_defs Let_def
      updateVirtualMachineStatus_def CreateOrPatchVm_def vm_handle_failure_def now_def
    by (auto simp: VmGet_impl_def vm_client_defs Let_def
        intro!: yields_intros yields_mono [OF reapply]
        split: sum.split option.split prod.split) blast+
qed

text \<open>
  The machine of a node that is ready and reachable, with an API server that takes every
  patch, and with one that takes none.
\<close>

definition unwritable_env :: env where
  "unwritable_env = broken_vm_env\<lparr>kPatchVm := (\<lambda>t vm f. (Some (ApiError ''Forbidden''), vm))\<rparr>"

definition reapplies :: "env \<Rightarrow> bool" where
  "reapplies e \<longleftrightarrow> list_ex (\<lambda>ev. case ev of AzVmReapply rg n _ \<Rightarrow> rg = ''shoot'' \<and> n = ''vm-1'' | _ \<Rightarrow> False)
     (snd (vm_CreateOrUpdate (azure_vm_actuator ''shoot'' vm_default_config) azure_node_vm e []))"

theorem failed_vm_is_reapplied_witness:
  "\<not> vs_not_ready_or_unreachable (vm_spec azure_node_vm) \<and>
   reapplies broken_vm_env \<and> \<not> reapplies unwritable_env \<and>
   yields broken_vm_env (vm_CreateOrUpdate (azure_vm_actuator ''shoot'' vm_default_config) azure_node_vm) (\<lambda>r es.
    \<forall>v. AzVmGet ''shoot'' (getVirtualMachineName azure_node_vm) (Inr v) \<in> set es \<and>
        vm_getProvisioningState v = Failed \<longrightarrow>
      (\<exists>err. AzVmReapply ''shoot'' (getVirtualMachineName azure_node_vm) err \<in> set es) \<or>
      (\<exists>err vm'. r = Returned (Inl (Wrap ''could not update virtualmachine status'' err), vm') \<and>
         last es = KPatchVm azure_node_vm (Some err) vm'))"
proof (intro conjI)
  show "\<not> vs_not_ready_or_unreachable (vm_spec azure_node_vm)" by (simp add: azure_node_vm_def)
qed (code_simp, code_simp, rule failed_vm_is_reapplied)

end
