(* ===== verification/Service_Actuator.thy ===== *)
theory Service_Actuator
  imports Object_Labeler Reconciler
begin

text \<open>
  The actuator of the service controller (\<open>pkg/controller/azure/service/actuator.go\<close>): it keeps
  one publicipaddress resource per load balancer IP of a service. The local variables of the
  Go code that point to a publicipaddress are passed along explicitly.
\<close>

section \<open>Calls of the Kubernetes client\<close>

definition CreateOrUpdatePip ::
  "(public_ip_address \<Rightarrow> public_ip_address) \<Rightarrow> public_ip_address \<Rightarrow>
   (goerr option \<times> public_ip_address) io" where
  "CreateOrUpdatePip f pubip =
     ecall (\<lambda>e t. kCreateOrUpdatePip e t pubip f) (\<lambda>(err, pubip'). KCreateOrUpdatePip pubip err pubip')"

definition client_Update :: "public_ip_address \<Rightarrow> (goerr option \<times> public_ip_address) io" where
  "client_Update pubip =
     ecall (\<lambda>e t. kUpdatePip e t pubip) (\<lambda>(err, pubip'). KUpdatePip pubip err pubip')"

definition client_List :: "string \<Rightarrow> strmap \<Rightarrow> (goerr + public_ip_address list) io" where
  "client_List ns labels = ecall (\<lambda>e t. kListPips e t ns labels) (KListPips ns labels)"

definition client_Delete :: "k8s_object \<Rightarrow> goerr option io" where
  "client_Delete ob = ecall (\<lambda>e t. kDelete e t ob) (KDelete ob)"

text \<open>\<open>client.IgnoreNotFound(client.Delete(ctx, obj))\<close>, wrapped by the caller's message.\<close>

definition delete_object :: "string \<Rightarrow> k8s_object \<Rightarrow> goerr option io" where
  "delete_object msg ob =
     seq (client_Delete ob) (\<lambda>err.
     seq (ask (\<lambda>e. ignoreNotFound e err)) (\<lambda>err.
     ret (map_option (Wrap msg) err)))"

section \<open>The operations\<close>

text \<open>\<open>pkg/utils/map.go\<close>.\<close>

definition Add :: "strmap \<Rightarrow> string \<Rightarrow> string \<Rightarrow> strmap" where
  "Add m key v = Some ((case m of None \<Rightarrow> Map.empty | Some f \<Rightarrow> f)(key \<mapsto> v))"

lemma map_get_Add [simp]: "map_get (Add m k v) k' = (if k' = k then v else map_get m k')"
  by (cases m) (auto simp: Add_def map_get_def)

record service_actuator =
  sa_namespace :: string
  sa_sync_period :: duration

text \<open>The set of load balancer IPs, a \<open>map[string]bool\<close>: its keys in the order of insertion.\<close>

fun insert_ip :: "string list \<Rightarrow> string \<Rightarrow> string list" where
  "insert_ip ips ip = (if ip \<in> set ips then ips else ips @ [ip])"

definition getServiceLoadBalancerIPs :: "service \<Rightarrow> string list" where
  "getServiceLoadBalancerIPs svc =
     foldl (\<lambda>ips ing. if ingress_ip ing \<noteq> '''' then insert_ip ips (ingress_ip ing) else ips)
       [] (svc_ingress svc)"

definition shouldIgnoreService :: "service \<Rightarrow> bool" where
  "shouldIgnoreService svc \<longleftrightarrow>
     map_get (meta_annotations (svc_meta svc)) IgnoreAnnotation = format_bool True"

definition generatePublicIPAddressName :: "string \<Rightarrow> string \<Rightarrow> string \<Rightarrow> string" where
  "generatePublicIPAddressName serviceNamespace serviceName ip =
     serviceNamespace @ ''-'' @ serviceName @ ''-'' @ ip"

definition pubip_labels :: "service \<Rightarrow> strmap" where
  "pubip_labels svc = Some [ServiceLabel \<mapsto> GetLabelValue service_ObjectLabeler (Service svc)]"

definition pubip_for :: "service_actuator \<Rightarrow> service \<Rightarrow> string \<Rightarrow> public_ip_address" where
  "pubip_for a svc ip = new_pip (sa_namespace a)
     (generatePublicIPAddressName (meta_namespace (svc_meta svc)) (meta_name (svc_meta svc)) ip)"

text \<open>The mutation of a publicipaddress for an IP of the service.\<close>

definition mutate_pubip :: "service \<Rightarrow> string \<Rightarrow> public_ip_address \<Rightarrow> public_ip_address" where
  "mutate_pubip svc ip p =
     p\<lparr>pip_meta := (pip_meta p)\<lparr>meta_labels := pubip_labels svc,
          meta_annotations := map_delete (meta_annotations (pip_meta p)) DoNotCleanAnnotation\<rparr>,
       pip_spec := (pip_spec p)\<lparr>ps_ip_address := ip\<rparr>\<rparr>"

definition create_for_ip :: "service_actuator \<Rightarrow> service \<Rightarrow> string \<Rightarrow> goerr option io" where
  "create_for_ip a svc ip =
     seq (RetryOnConflict (CreateOrUpdatePip (mutate_pubip svc ip)) (pubip_for a svc ip))
       (\<lambda>(err, _). ret (map_option (Wrap ''could not create or update publicipaddress'') err))"

text \<open>One try of adding the do-not-clean annotation: the update works on the caller's variable.\<close>

definition annotate_and_update :: "public_ip_address \<Rightarrow> (goerr option \<times> public_ip_address) io" where
  "annotate_and_update p =
     client_Update (p\<lparr>pip_meta := (pip_meta p)\<lparr>meta_annotations :=
       Add (meta_annotations (pip_meta p)) DoNotCleanAnnotation (format_bool True)\<rparr>\<rparr>)"

definition delete_listed :: "service \<Rightarrow> public_ip_address \<Rightarrow> goerr option io" where
  "delete_listed svc pubip =
     (if ps_ip_address (pip_spec pubip) \<notin> set (getServiceLoadBalancerIPs svc) \<or> shouldIgnoreService svc
      then
        (if shouldIgnoreService svc then
           seq (RetryOnConflict annotate_and_update pubip) (\<lambda>(err, pubip').
           case err of
             Some err \<Rightarrow>
               ret (Some (Wrap ''could not add do-not-clean annotation on publicipaddress'' err))
           | None \<Rightarrow> delete_object ''could not delete publicipaddress'' (PublicIPAddress pubip'))
         else delete_object ''could not delete publicipaddress'' (PublicIPAddress pubip))
      else ret None)"

definition svc_CreateOrUpdate :: "service_actuator \<Rightarrow> service \<Rightarrow> (goerr + duration) io" where
  "svc_CreateOrUpdate a svc =
     seq (if \<not> shouldIgnoreService svc then
            seq (ask_at (\<lambda>e t. range_keys (rangeOrder e t) (getServiceLoadBalancerIPs svc))) (\<lambda>ips.
            for_each ips (create_for_ip a svc))
          else ret None) (\<lambda>r.
     case r of
       Some err \<Rightarrow> ret (Inl err)
     | None \<Rightarrow>
         seq (client_List (sa_namespace a) (pubip_labels svc)) (\<lambda>listed.
         case listed of
           Inl err \<Rightarrow> ret (Inl (Wrap ''could not list publicipaddresses'' err))
         | Inr pubips \<Rightarrow>
             seq (for_each pubips (delete_listed svc)) (\<lambda>r.
             case r of
               Some err \<Rightarrow> ret (Inl err)
             | None \<Rightarrow> ret (Inr (sa_sync_period a)))))"

definition delete_stale :: "service \<Rightarrow> public_ip_address \<Rightarrow> goerr option io" where
  "delete_stale svc pubip =
     (if ps_ip_address (pip_spec pubip) \<notin> set (getServiceLoadBalancerIPs svc)
      then delete_object ''could not delete publicipaddress'' (PublicIPAddress pubip) else ret None)"

definition svc_Delete :: "service_actuator \<Rightarrow> service \<Rightarrow> (goerr + duration) io" where
  "svc_Delete a svc =
     seq (ask_at (\<lambda>e t. range_keys (rangeOrder e t) (getServiceLoadBalancerIPs svc))) (\<lambda>ips.
     seq (for_each ips (\<lambda>ip. delete_object ''could not delete publicipaddress''
            (PublicIPAddress (pubip_for a svc ip)))) (\<lambda>r.
     case r of
       Some err \<Rightarrow> ret (Inl err)
     | None \<Rightarrow>
         seq (client_List (sa_namespace a) (pubip_labels svc)) (\<lambda>listed.
         case listed of
           Inl err \<Rightarrow> ret (Inl (Wrap ''could not list publicipaddresses'' err))
         | Inr pubips \<Rightarrow>
             seq (for_each pubips (delete_stale svc)) (\<lambda>r.
             case r of
               Some err \<Rightarrow> ret (Inl err)
             | None \<Rightarrow> ret (Inr 0)))))"

definition svc_ShouldFinalize :: "k8s_object \<Rightarrow> (goerr + bool) io" where
  "svc_ShouldFinalize ob =
     (case ob of
        Service svc \<Rightarrow>
          ret (Inr (length (getServiceLoadBalancerIPs svc) > 0 \<and> \<not> shouldIgnoreService svc))
      | _ \<Rightarrow> ret (Inl (NewError ''reconciled object is not a service'')))"

definition on_service ::
  "(service \<Rightarrow> (goerr + duration) io) \<Rightarrow> k8s_object \<Rightarrow> ((goerr + duration) \<times> k8s_object) io" where
  "on_service f ob =
     (case ob of
        Service svc \<Rightarrow> seq (f svc) (\<lambda>res. ret (res, ob))
      | _ \<Rightarrow> ret (Inl (NewError ''reconciled object is not a service''), ob))"

definition svc_NewActuator :: "string \<Rightarrow> duration \<Rightarrow> actuator" where
  "svc_NewActuator namespace sync_period =
     (let a = \<lparr>sa_namespace = namespace, sa_sync_period = sync_period\<rparr> in
      \<lparr>CreateOrUpdate = on_service (svc_CreateOrUpdate a),
       Delete = on_service (svc_Delete a),
       ShouldFinalize = svc_ShouldFinalize\<rparr>)"

text \<open>\<open>AddToManagerWithOptions\<close> of \<open>service/add.go\<close>.\<close>

definition svc_FinalizerName :: string where
  "svc_FinalizerName = ''azure.remedy.gardener.cloud/service''"

definition svc_reconciler :: "string \<Rightarrow> pip_config \<Rightarrow> reconciler" where
  "svc_reconciler namespace config =
     \<lparr>rc_actuator = svc_NewActuator namespace (pc_service_sync_period config),
      rc_finalizer = svc_FinalizerName, rc_kind = ServiceKind, rc_should_ensure_deleted = True\<rparr>"

section \<open>The set of IPs\<close>

lemma distinct_insert_ip: "distinct ips \<Longrightarrow> distinct (insert_ip ips ip)"
  by simp

lemma ips_fold:
  "set (foldl (\<lambda>ips ing. if ingress_ip ing \<noteq> '''' then insert_ip ips (ingress_ip ing) else ips) ips ings)
     = set ips \<union> (ingress_ip ` set ings - {''''})"
  "distinct ips \<Longrightarrow> distinct
     (foldl (\<lambda>ips ing. if ingress_ip ing \<noteq> '''' then insert_ip ips (ingress_ip ing) else ips) ips ings)"
  by (induction ings arbitrary: ips) auto

lemma set_load_balancer_ips:
  "set (getServiceLoadBalancerIPs svc) = ingress_ip ` set (svc_ingress svc) - {''''}"
  by (simp add: getServiceLoadBalancerIPs_def ips_fold)

lemma distinct_load_balancer_ips: "distinct (getServiceLoadBalancerIPs svc)"
  by (simp add: getServiceLoadBalancerIPs_def ips_fold)

end
