(* ===== verification/Node_Actuator.thy ===== *)
theory Node_Actuator
  imports Service_Actuator
begin

text \<open>
  The actuator of the node controller (\<open>pkg/controller/azure/node/actuator.go\<close>): it keeps one
  virtualmachine resource per node.
\<close>

definition TaintKeyUnreachable :: string where
  "TaintKeyUnreachable = ''node.kubernetes.io/unreachable''"

definition HostnameLabel :: string where
  "HostnameLabel = ''kubernetes.io/hostname''"

record node_actuator =
  na_namespace :: string
  na_sync_period :: duration

fun ready_condition :: "node_condition list \<Rightarrow> bool" where
  "ready_condition [] = False"
| "ready_condition (c # cs) =
     (if cond_type c = NodeReady then cond_status c = ConditionTrue else ready_condition cs)"

definition isNodeReady :: "node \<Rightarrow> bool" where
  "isNodeReady nd = ready_condition (node_conditions nd)"

definition isNodeUnreachable :: "node \<Rightarrow> bool" where
  "isNodeUnreachable nd = list_ex (\<lambda>tn. taint_key tn = TaintKeyUnreachable) (node_taints nd)"

definition isNodeNotReadyOrUnreachable :: "node \<Rightarrow> bool" where
  "isNodeNotReadyOrUnreachable nd \<longleftrightarrow> \<not> isNodeReady nd \<or> isNodeUnreachable nd"

definition CreateOrUpdateVm ::
  "(virtual_machine \<Rightarrow> virtual_machine) \<Rightarrow> virtual_machine \<Rightarrow> (goerr option \<times> virtual_machine) io" where
  "CreateOrUpdateVm f vm =
     ecall (\<lambda>e t. kCreateOrUpdateVm e t vm f) (\<lambda>(err, vm'). KCreateOrUpdateVm vm err vm')"

definition vm_labels :: "node \<Rightarrow> strmap" where
  "vm_labels nd = Some [NodeLabel \<mapsto> GetLabelValue node_ObjectLabeler (Node nd)]"

definition mutate_vm :: "node \<Rightarrow> virtual_machine \<Rightarrow> virtual_machine" where
  "mutate_vm nd vm =
     vm\<lparr>vm_meta := (vm_meta vm)\<lparr>meta_labels := vm_labels nd\<rparr>,
        vm_spec := (vm_spec vm)\<lparr>vs_hostname := map_get (meta_labels (node_meta nd)) HostnameLabel,
          vs_provider_id := node_provider_id nd,
          vs_not_ready_or_unreachable := isNodeNotReadyOrUnreachable nd\<rparr>\<rparr>"

definition vm_for :: "node_actuator \<Rightarrow> node \<Rightarrow> virtual_machine" where
  "vm_for a nd = new_vm (na_namespace a) (meta_name (node_meta nd))"

definition node_CreateOrUpdate :: "node_actuator \<Rightarrow> node \<Rightarrow> (goerr + duration) io" where
  "node_CreateOrUpdate a nd =
     seq (RetryOnConflict (CreateOrUpdateVm (mutate_vm nd)) (vm_for a nd)) (\<lambda>(err, _).
     case err of
       Some err \<Rightarrow> ret (Inl (Wrap ''could not create or update virtualmachine'' err))
     | None \<Rightarrow> ret (Inr (na_sync_period a)))"

definition node_Delete :: "node_actuator \<Rightarrow> node \<Rightarrow> (goerr + duration) io" where
  "node_Delete a nd =
     seq (delete_object ''could not delete virtualmachine'' (VirtualMachine (vm_for a nd))) (\<lambda>r.
     case r of
       Some err \<Rightarrow> ret (Inl err)
     | None \<Rightarrow> ret (Inr 0))"

definition on_node ::
  "string \<Rightarrow> (node \<Rightarrow> (goerr + duration) io) \<Rightarrow> k8s_object \<Rightarrow> ((goerr + duration) \<times> k8s_object) io" where
  "on_node msg f ob =
     (case ob of
        Node nd \<Rightarrow> seq (f nd) (\<lambda>res. ret (res, ob))
      | _ \<Rightarrow> ret (Inl (NewError msg), ob))"

definition node_NewActuator :: "string \<Rightarrow> duration \<Rightarrow> actuator" where
  "node_NewActuator namespace sync_period =
     (let a = \<lparr>na_namespace = namespace, na_sync_period = sync_period\<rparr> in
      \<lparr>CreateOrUpdate = on_node ''reconciled object is not a node'' (node_CreateOrUpdate a),
       Delete = on_node ''reconciled object is not a Node'' (node_Delete a),
       ShouldFinalize = (\<lambda>_. ret (Inr True))\<rparr>)"

text \<open>\<open>AddToManagerWithOptions\<close> of \<open>node/add.go\<close>.\<close>

definition node_FinalizerName :: string where
  "node_FinalizerName = ''azure.remedy.gardener.cloud/node''"

definition node_reconciler :: "string \<Rightarrow> vm_config \<Rightarrow> reconciler" where
  "node_reconciler namespace config =
     \<lparr>rc_actuator = node_NewActuator namespace (vc_node_sync_period config),
      rc_finalizer = node_FinalizerName, rc_kind = NodeKind, rc_should_ensure_deleted = True\<rparr>"

text \<open>Readiness is decided by the first condition of type Ready.\<close>

lemma ready_condition_find:
  "ready_condition cs \<longleftrightarrow>
     (case find (\<lambda>c. cond_type c = NodeReady) cs of
        None \<Rightarrow> False | Some c \<Rightarrow> cond_status c = ConditionTrue)"
  by (induction cs) auto

end
