(* ===== verification/Service_Controller.thy ===== *)
theory Service_Controller
  imports Node_Actuator Pip_Actuator
begin

text \<open>
  The service and node controllers: their actuators keep the reconciler's contract, and the
  service actuator keeps the publicipaddress resources in step with the load balancer IPs.
\<close>

section \<open>The actuators keep the reconciler's contract\<close>

lemma stays_delete_object [trace_rules]: "stays actuator_event (delete_object msg ob)"
  unfolding delete_object_def client_Delete_def by (auto intro!: trace_rules)

lemma stays_create_for_ip [trace_rules]: "stays actuator_event (create_for_ip a svc ip)"
  unfolding create_for_ip_def CreateOrUpdatePip_def
  by (auto intro!: trace_rules split: prod.split)

lemma stays_annotate [trace_rules]: "stays actuator_event (annotate_and_update p)"
  unfolding annotate_and_update_def client_Update_def by (auto intro!: trace_rules split: prod.split)

lemma stays_delete_listed [trace_rules]: "stays actuator_event (delete_listed svc p)"
  unfolding delete_listed_def by (auto intro!: trace_rules split: prod.split option.split)

lemma stays_svc_create: "stays actuator_event (svc_CreateOrUpdate a svc)"
  unfolding svc_CreateOrUpdate_def client_List_def
  by (auto intro!: trace_rules split: sum.split option.split)

lemma stays_svc_delete: "stays actuator_event (svc_Delete a svc)"
  unfolding svc_Delete_def delete_stale_def client_List_def
  by (auto intro!: trace_rules split: sum.split option.split)

lemma stays_node_create: "stays actuator_event (node_CreateOrUpdate a nd)"
  unfolding node_CreateOrUpdate_def CreateOrUpdateVm_def
  by (auto intro!: trace_rules split: prod.split option.split)

lemma stays_node_delete: "stays actuator_event (node_Delete a nd)"
  unfolding node_Delete_def by (auto intro!: trace_rules split: option.split)

lemma stays_on_service: "(\<And>svc. stays P (f svc)) \<Longrightarrow> stays P (on_service f ob)"
  unfolding on_service_def by (auto intro!: trace_rules split: k8s_object.split)

lemma stays_on_node: "(\<And>nd. stays P (f nd)) \<Longrightarrow> stays P (on_node msg f ob)"
  unfolding on_node_def by (auto intro!: trace_rules split: k8s_object.split)

text \<open>Both hand back the object they were given.\<close>

lemma on_service_kind:
  assumes "\<And>svc. stays P (f svc)"
  shows "yields e (on_service f ob)
    (\<lambda>r es. \<forall>res ob'. r = Returned (res, ob') \<longrightarrow> obj_kind ob' = obj_kind ob)"
  unfolding on_service_def
  by (auto intro!: yields_intros yields_seq [OF staysD [OF assms]] split: k8s_object.split)

lemma on_node_kind:
  assumes "\<And>nd. stays P (f nd)"
  shows "yields e (on_node msg f ob)
    (\<lambda>r es. \<forall>res ob'. r = Returned (res, ob') \<longrightarrow> obj_kind ob' = obj_kind ob)"
  unfolding on_node_def
  by (auto intro!: yields_intros yields_seq [OF staysD [OF assms]] split: k8s_object.split)

text \<open>
  A service is to carry the finalizer while it has a load balancer IP and is not to be ignored.
\<close>

definition service_wants :: "k8s_object \<Rightarrow> goerr + bool" where
  "service_wants ob =
     (case ob of
        Service svc \<Rightarrow> Inr ((\<exists>ing \<in> set (svc_ingress svc). ingress_ip ing \<noteq> '''') \<and> \<not> shouldIgnoreService svc)
      | _ \<Rightarrow> Inl (NewError ''reconciled object is not a service''))"

lemma svc_ShouldFinalize_wants: "svc_ShouldFinalize ob = ret (service_wants ob)"
proof -
  have "(\<exists>ing \<in> set (svc_ingress svc). ingress_ip ing \<noteq> '''') \<longleftrightarrow>
      set (getServiceLoadBalancerIPs svc) \<noteq> {}" for svc
    unfolding set_load_balancer_ips by blast
  then show ?thesis
    by (simp add: svc_ShouldFinalize_def service_wants_def split: k8s_object.split)
qed

interpretation svc_act: actuator_contract "svc_NewActuator ns d" service_wants for ns d
  by unfold_locales
    (auto simp: svc_NewActuator_def Let_def svc_ShouldFinalize_wants
      intro!: stays_on_service on_service_kind [of actuator_event] yields_ret stays_svc_create
        stays_svc_delete split: k8s_object.split)

interpretation node_act: actuator_contract "node_NewActuator ns d" "\<lambda>_. Inr True" for ns d
  by unfold_locales
    (auto simp: node_NewActuator_def Let_def
      intro!: stays_on_node on_node_kind [of actuator_event] yields_ret stays_node_create
        stays_node_delete)

section \<open>What is released\<close>

text \<open>
  A publicipaddress may be deleted by \<open>CreateOrUpdate\<close> only if the service no longer has its
  IP or, when the service is ignored, after it was marked do-not-clean; and nothing is created
  for an ignored service.
\<close>

fun release_guard :: "service \<Rightarrow> trace \<Rightarrow> event \<Rightarrow> bool" where
  "release_guard svc pre (KDelete ob _) =
     (case ob of
        PublicIPAddress p \<Rightarrow>
          if shouldIgnoreService svc
          then \<exists>p0. KUpdatePip p0 None p \<in> set pre \<and> shouldNotClean p0
          else ps_ip_address (pip_spec p) \<notin> set (getServiceLoadBalancerIPs svc)
      | _ \<Rightarrow> False)"
| "release_guard svc pre (KCreateOrUpdatePip _ _ _) = (\<not> shouldIgnoreService svc)"
| "release_guard svc pre _ = True"

lemma release_guard_mono: "release_guard svc xs ev \<Longrightarrow> set xs \<subseteq> set ys \<Longrightarrow> release_guard svc ys ev"
  by (cases "(svc, xs, ev)" rule: release_guard.cases) (auto split: k8s_object.splits if_splits)

lemma release_guarded_after:
  "guarded (release_guard svc) es \<Longrightarrow> guarded (\<lambda>pre. release_guard svc (xs @ pre)) es"
  unfolding guarded_def by (auto elim!: release_guard_mono)

text \<open>Deleting an object: the call is made, and its success says that the object is gone.\<close>

definition gone :: "env \<Rightarrow> k8s_object \<Rightarrow> trace \<Rightarrow> bool" where
  "gone e ob es \<longleftrightarrow> (\<exists>err. KDelete ob err \<in> set es \<and> ignoreNotFound e err = None)"

lemma gone_append: "gone e ob es \<Longrightarrow> gone e ob (xs @ es @ ys)"
  by (auto simp: gone_def)

lemma delete_object_spec:
  "yields e (delete_object msg ob) (\<lambda>r es. (\<exists>err. es = [KDelete ob err]) \<and>
     (r = Returned None \<longrightarrow> gone e ob es) \<and> r \<noteq> OutOfFuel)"
  unfolding delete_object_def client_Delete_def by (auto simp: gone_def intro!: yields_intros)

section \<open>Retried calls\<close>

text \<open>
  A call that is retried on a variable of its caller ended with \<open>s'\<close> in the variable, if the
  first try started from \<open>s\<close>, each further one from what a failed one left, and the last one
  succeeded; \<open>ev s err s'\<close> is the event of a try.
\<close>

definition tried :: "('s \<Rightarrow> goerr option \<Rightarrow> 's \<Rightarrow> event) \<Rightarrow> 's \<Rightarrow> 's \<Rightarrow> trace \<Rightarrow> bool" where
  "tried ev s s' es \<longleftrightarrow>
     (\<exists>s0. (s, s0) \<in> {(x, y). \<exists>err. ev x (Some err) y \<in> set es}\<^sup>* \<and> ev s0 None s' \<in> set es)"

lemma tried_mono: "tried ev s s' es \<Longrightarrow> set es \<subseteq> set es' \<Longrightarrow> tried ev s s' es'"
  unfolding tried_def
  by (elim exE conjE, rule exI, rule conjI, erule rtrancl_mono [THEN subsetD, rotated]) auto

lemma tried_again:
  assumes "ev s (Some err) s1 \<in> set es'" "tried ev s1 s' es" "set es \<subseteq> set es'"
  shows "tried ev s s' es'"
proof -
  have "tried ev s1 s' es'" using assms(2,3) by (rule tried_mono)
  then show ?thesis
    using assms(1) unfolding tried_def by (blast intro: converse_rtrancl_into_rtrancl)
qed

text \<open>
  \<open>J\<close> is kept by every call, \<open>G\<close> holds of what a successful one leaves.
\<close>

lemma yields_retry_call:
  assumes keep: "\<And>s t. J s \<Longrightarrow> J (snd (q s e t))"
    and good: "\<And>s t. fst (q s e t) = None \<Longrightarrow> G (snd (q s e t))"
    and start: "J s"
  shows "yields e (RetryOnConflict (\<lambda>s. ecall (q s) (\<lambda>(err, s'). ev s err s')) s) (\<lambda>r es.
     list_all (\<lambda>v. \<exists>s err s'. v = ev s err s') es \<and>
     (\<forall>s'. r = Returned (None, s') \<longrightarrow> tried ev s s' es \<and> J s' \<and> G s') \<and> r \<noteq> OutOfFuel)"
proof -
  let ?f = "\<lambda>s. ecall (q s) (\<lambda>(err, s'). ev s err s')"
  let ?Q = "\<lambda>s r es. list_all (\<lambda>v. \<exists>s err s'. v = ev s err s') es \<and>
     (\<forall>s'. r = Returned (None, s') \<longrightarrow> tried ev s s' es \<and> J s' \<and> G s') \<and> r \<noteq> OutOfFuel"
  have call: "yields e (?f s) (\<lambda>r es. ?Q s r es \<and>
      (\<forall>err s'. r = Returned (Some err, s') \<longrightarrow> J s' \<and> es = [ev s (Some err) s']))" if "J s" for s
  proof (rule yields_ecall, goal_cases)
    case (1 t)
    show ?case
      using keep [OF that, of t] good [of s t] by (cases "q s e t") (auto simp: tried_def)
  qed
  have "yields e (retry_conflicts n ?f s) (?Q s)" for n
    using start
  proof (induction n arbitrary: s)
    case 0
    then show ?case by (auto intro: yields_mono [OF call])
  next
    case (Suc n)
    show ?case
      unfolding retry_conflicts.simps
    proof (rule yields_seq [OF call [OF Suc.prems]], goal_cases)
      case (1 r es)
      show ?case
      proof (cases "fst r")
        case (Some err)
        then have s1: "J (snd r)" "es = [ev s (Some err) (snd r)]" using 1 by (cases r; auto)+
        have "yields e (retry_conflicts n ?f (snd r)) (\<lambda>r' es'. ?Q s r' (es @ es'))"
          by (rule yields_mono [OF Suc.IH [OF s1(1)]])
            (use s1(2) tried_again [of ev s err "snd r" "es @ _"] in auto)
        then show ?thesis
          using 1 Some by (cases r) (auto intro!: yields_intros)
      qed (use 1 in \<open>cases r, auto intro!: yields_intros\<close>)
    qed auto
  qed
  then show ?thesis
    unfolding RetryOnConflict_def by (rule yields_seq_ask)
qed

text \<open>Names are kept by the API server, and by a mutation that keeps them.\<close>

definition pip_key :: "public_ip_address \<Rightarrow> string \<times> string" where
  "pip_key p = (meta_namespace (pip_meta p), meta_name (pip_meta p))"

definition update_keeps_key :: "env \<Rightarrow> bool" where
  "update_keeps_key e \<longleftrightarrow> (\<forall>t p. pip_key (snd (kUpdatePip e t p)) = pip_key p)"

definition create_keeps_key :: "env \<Rightarrow> bool" where
  "create_keeps_key e \<longleftrightarrow>
     (\<forall>t p f. (\<forall>q. pip_key (f q) = pip_key q) \<longrightarrow> pip_key (snd (kCreateOrUpdatePip e t p f)) = pip_key p)"

text \<open>The annotation is set before each try of the update, whatever the resource looked like.\<close>

definition exempted :: "public_ip_address \<Rightarrow> public_ip_address" where
  "exempted p = p\<lparr>pip_meta := (pip_meta p)\<lparr>meta_annotations :=
     Some ((case meta_annotations (pip_meta p) of None \<Rightarrow> Map.empty | Some m \<Rightarrow> m)
       (DoNotCleanAnnotation \<mapsto> ''true''))\<rparr>\<rparr>"

lemma shouldNotClean_exempted: "shouldNotClean (exempted p)"
  by (simp add: exempted_def shouldNotClean_def map_get_def format_bool_def)

lemma pip_key_exempted [simp]: "pip_key (exempted p) = pip_key p"
  by (simp add: exempted_def pip_key_def)

abbreviation update_event ::
  "public_ip_address \<Rightarrow> goerr option \<Rightarrow> public_ip_address \<Rightarrow> event" where
  "update_event p err p' \<equiv> KUpdatePip (exempted p) err p'"

lemma annotate_call:
  "annotate_and_update = (\<lambda>p. ecall (\<lambda>e t. kUpdatePip e t (exempted p)) (\<lambda>(err, p'). update_event p err p'))"
  by (rule ext) (simp add: annotate_and_update_def client_Update_def exempted_def Add_def format_bool_def)

lemma retry_annotate_spec:
  "yields e (RetryOnConflict annotate_and_update p) (\<lambda>r es.
     list_all (\<lambda>ev. \<exists>p0 err p'. ev = KUpdatePip p0 err p') es \<and>
     (\<forall>p'. r = Returned (None, p') \<longrightarrow>
        tried update_event p p' es \<and> (update_keeps_key e \<longrightarrow> pip_key p' = pip_key p)) \<and>
     r \<noteq> OutOfFuel)"
  unfolding annotate_call
  by (rule yields_mono [OF yields_retry_call
        [where J = "\<lambda>p'. update_keeps_key e \<longrightarrow> pip_key p' = pip_key p" and G = "\<lambda>_. True"]])
    (auto simp: update_keeps_key_def elim!: list.pred_mono_strong)

lemma tried_marks:
  "tried update_event p p' es \<Longrightarrow> \<exists>p0. KUpdatePip p0 None p' \<in> set es \<and> shouldNotClean p0"
  unfolding tried_def by (auto intro: shouldNotClean_exempted)

section \<open>What a successful run leaves behind\<close>

text \<open>
  What \<open>CreateOrUpdate\<close> leaves behind of a listed resource: of an ignored service, this very
  resource was marked do-not-clean by an update and what the update left in the variable is gone.
\<close>

definition released :: "env \<Rightarrow> service \<Rightarrow> public_ip_address \<Rightarrow> trace \<Rightarrow> bool" where
  "released e svc p es \<longleftrightarrow>
     (if shouldIgnoreService svc
      then \<exists>p'. tried update_event p p' es \<and> (update_keeps_key e \<longrightarrow> pip_key p' = pip_key p) \<and>
        gone e (PublicIPAddress p') es
      else ps_ip_address (pip_spec p) \<in> set (getServiceLoadBalancerIPs svc) \<or>
        gone e (PublicIPAddress p) es)"

lemma released_append: "released e svc p es \<Longrightarrow> released e svc p (xs @ es @ ys)"
  using gone_append [of e _ es xs ys] tried_mono [of update_event p _ es "xs @ es @ ys"]
  by (auto simp: released_def split: if_splits)

lemma updates_guarded:
  "list_all (\<lambda>ev. \<exists>p0 err p'. ev = KUpdatePip p0 err p') es \<Longrightarrow> guarded (release_guard svc) es"
  by (erule guarded_all) auto

lemma delete_listed_spec:
  assumes "guarded (release_guard svc) pre"
  shows "yields e (delete_listed svc p) (\<lambda>r es. guarded (release_guard svc) (pre @ es) \<and>
    (r = Returned None \<longrightarrow> released e svc p es) \<and> r \<noteq> OutOfFuel)"
proof (cases "shouldIgnoreService svc")
  case True
  show ?thesis
    unfolding delete_listed_def if_P [OF True] if_P [OF disjI2 [OF True]]
  proof (rule yields_seq [OF retry_annotate_spec], goal_cases)
    case (1 out es)
    then have es: "guarded (release_guard svc) (pre @ es)"
      using assms release_guarded_after [OF updates_guarded] by auto
    show ?case
    proof (cases out)
      case (Pair err p')
      show ?thesis
      proof (cases err)
        case None
        with 1 Pair have p': "tried update_event p p' es" "update_keeps_key e \<longrightarrow> pip_key p' = pip_key p"
          by auto
        from tried_marks [OF p'(1)] obtain p0
          where p0: "KUpdatePip p0 None p' \<in> set es" "shouldNotClean p0" by blast
        have "tried update_event p p' (es @ es')" for es'
          using p'(1) by (rule tried_mono) simp
        then show ?thesis
          unfolding Pair None prod.case option.case
          by (intro yields_mono [OF delete_object_spec])
            (use es True p0 p'(2) in \<open>auto simp: released_def gone_def\<close>)
      qed (use es Pair in \<open>auto intro!: yields_ret\<close>)
    qed
  qed (use assms release_guarded_after [OF updates_guarded] in auto)
next
  case False
  then show ?thesis
    unfolding delete_listed_def
    using assms by (auto simp: released_def intro!: yields_ret yields_mono [OF delete_object_spec])
qed

definition create_lawful :: "env \<Rightarrow> bool" where
  "create_lawful e \<longleftrightarrow>
     (\<forall>t p f. fst (kCreateOrUpdatePip e t p f) = None \<longrightarrow>
        (\<exists>base. snd (kCreateOrUpdatePip e t p f) = f base))"

text \<open>
  A load balancer IP of a service has a resource of its own: the tries that created or updated
  it started from the name the IP has (\<open>pip_for_ip\<close>), and its contents are the service's.
\<close>

definition pip_for_ip :: "string \<Rightarrow> service \<Rightarrow> string \<Rightarrow> public_ip_address \<Rightarrow> bool" where
  "pip_for_ip namespace svc ip p \<longleftrightarrow> pip_key p =
     (namespace, meta_namespace (svc_meta svc) @ ''-'' @ meta_name (svc_meta svc) @ ''-'' @ ip)"

definition published :: "env \<Rightarrow> service_actuator \<Rightarrow> service \<Rightarrow> string \<Rightarrow> trace \<Rightarrow> bool" where
  "published e a svc ip es \<longleftrightarrow>
     (\<exists>p p'. pip_for_ip (sa_namespace a) svc ip p \<and> tried KCreateOrUpdatePip p p' es \<and>
        (create_keeps_key e \<longrightarrow> pip_for_ip (sa_namespace a) svc ip p') \<and>
        (create_lawful e \<longrightarrow> ps_ip_address (pip_spec p') = ip \<and>
           meta_labels (pip_meta p') = pubip_labels svc \<and> \<not> shouldNotClean p'))"

lemma published_append: "published e a svc ip es \<Longrightarrow> published e a svc ip (xs @ es @ ys)"
  using tried_mono [of KCreateOrUpdatePip _ _ es "xs @ es @ ys"] by (fastforce simp: published_def)

text \<open>Different load balancer IPs have different resources.\<close>

lemma pip_for_ip_inj: "pip_for_ip ns svc ip p \<Longrightarrow> pip_for_ip ns svc ip' p \<Longrightarrow> ip = ip'"
  by (simp add: pip_for_ip_def)

lemma pip_for_ip_pubip: "pip_for_ip (sa_namespace a) svc ip (pubip_for a svc ip)"
  by (simp add: pip_for_ip_def pip_key_def pubip_for_def new_pip_def generatePublicIPAddressName_def)

lemma mutate_pubip_facts:
  "ps_ip_address (pip_spec (mutate_pubip svc ip p)) = ip"
  "meta_labels (pip_meta (mutate_pubip svc ip p)) = pubip_labels svc"
  "\<not> shouldNotClean (mutate_pubip svc ip p)" "pip_key (mutate_pubip svc ip p) = pip_key p"
  by (simp_all add: mutate_pubip_def shouldNotClean_def format_bool_def pip_key_def)

lemma retry_create_spec:
  "yields e (RetryOnConflict (CreateOrUpdatePip (mutate_pubip svc ip)) (pubip_for a svc ip)) (\<lambda>r es.
     list_all (\<lambda>ev. \<exists>p0 err p'. ev = KCreateOrUpdatePip p0 err p') es \<and>
     (\<forall>p'. r = Returned (None, p') \<longrightarrow> published e a svc ip es) \<and> r \<noteq> OutOfFuel)"
proof -
  let ?J = "\<lambda>p. create_keeps_key e \<longrightarrow> pip_for_ip (sa_namespace a) svc ip p"
  let ?G = "\<lambda>p. create_lawful e \<longrightarrow> ps_ip_address (pip_spec p) = ip \<and>
      meta_labels (pip_meta p) = pubip_labels svc \<and> \<not> shouldNotClean p"
  have call: "CreateOrUpdatePip (mutate_pubip svc ip) = (\<lambda>p. ecall
      (\<lambda>e t. kCreateOrUpdatePip e t p (mutate_pubip svc ip)) (\<lambda>(err, p'). KCreateOrUpdatePip p err p'))"
    by (rule ext) (simp add: CreateOrUpdatePip_def)
  have "yields e (RetryOnConflict (CreateOrUpdatePip (mutate_pubip svc ip)) (pubip_for a svc ip)) (\<lambda>r es.
     list_all (\<lambda>ev. \<exists>p0 err p'. ev = KCreateOrUpdatePip p0 err p') es \<and>
     (\<forall>p'. r = Returned (None, p') \<longrightarrow> tried KCreateOrUpdatePip (pubip_for a svc ip) p' es \<and> ?J p' \<and> ?G p') \<and>
     r \<noteq> OutOfFuel)"
    unfolding call
  proof (rule yields_retry_call)
    fix p t assume p: "?J p"
    show "?J (snd (kCreateOrUpdatePip e t p (mutate_pubip svc ip)))"
      using p by (simp add: create_keeps_key_def pip_for_ip_def mutate_pubip_facts)
  next
    fix p t assume "fst (kCreateOrUpdatePip e t p (mutate_pubip svc ip)) = None"
    then show "?G (snd (kCreateOrUpdatePip e t p (mutate_pubip svc ip)))"
      unfolding create_lawful_def using mutate_pubip_facts by metis
  qed (simp add: pip_for_ip_pubip)
  then show ?thesis
    by (rule yields_mono) (use pip_for_ip_pubip in \<open>fastforce simp: published_def\<close>)
qed

lemma create_for_ip_spec:
  assumes "guarded (release_guard svc) pre" "\<not> shouldIgnoreService svc"
  shows "yields e (create_for_ip a svc ip) (\<lambda>r es. guarded (release_guard svc) (pre @ es) \<and>
    (r = Returned None \<longrightarrow> published e a svc ip es) \<and> r \<noteq> OutOfFuel)"
proof -
  have "guarded (release_guard svc) (pre @ es)"
    if "list_all (\<lambda>ev. \<exists>p0 err p'. ev = KCreateOrUpdatePip p0 err p') es" for es
    using assms guarded_all [OF that, of "release_guard svc"] release_guarded_after by fastforce
  then show ?thesis
    unfolding create_for_ip_def
    by (intro yields_seq [OF retry_create_spec]) (auto intro!: yields_ret split: prod.split)
qed

text \<open>The whole of \<open>CreateOrUpdate\<close>.\<close>

definition in_step :: "env \<Rightarrow> service_actuator \<Rightarrow> service \<Rightarrow> trace \<Rightarrow> bool" where
  "in_step e a svc es \<longleftrightarrow>
     (shouldIgnoreService svc \<or> (\<forall>ip \<in> set (getServiceLoadBalancerIPs svc). published e a svc ip es)) \<and>
     (\<exists>pubips. KListPips (sa_namespace a) (pubip_labels svc) (Inr pubips) \<in> set es \<and>
        (\<forall>p \<in> set pubips. released e svc p es))"

lemma publish_spec:
  "yields e (if \<not> shouldIgnoreService svc then
            seq (ask_at (\<lambda>e t. range_keys (rangeOrder e t) (getServiceLoadBalancerIPs svc))) (\<lambda>ips.
            for_each ips (create_for_ip a svc))
          else ret None) (\<lambda>r es. guarded (release_guard svc) es \<and>
    (r = Returned None \<longrightarrow> shouldIgnoreService svc \<or>
       (\<forall>ip \<in> set (getServiceLoadBalancerIPs svc). published e a svc ip es)) \<and> r \<noteq> OutOfFuel)"
proof (cases "shouldIgnoreService svc")
  case False
  have "yields e (for_each (range_keys (rangeOrder e t) (getServiceLoadBalancerIPs svc)) (create_for_ip a svc))
      (\<lambda>r es. guarded (release_guard svc) ([] @ es) \<and>
        (r = Returned None \<longrightarrow> (\<forall>ip \<in> set (range_keys (rangeOrder e t) (getServiceLoadBalancerIPs svc)).
           published e a svc ip es)) \<and> r \<noteq> OutOfFuel)" for t
    by (rule yields_for_each)
      (rule create_for_ip_spec [OF _ False] published_append guarded_Nil | assumption)+
  with False show ?thesis by (auto intro!: yields_seq_ask_at)
qed (simp add: yields_ret)

lemma list_and_release_spec:
  assumes "guarded (release_guard svc) pre"
  shows "yields e (for_each pubips (delete_listed svc)) (\<lambda>r es. guarded (release_guard svc) (pre @ es) \<and>
    (r = Returned None \<longrightarrow> (\<forall>p \<in> set pubips. released e svc p es)) \<and> r \<noteq> OutOfFuel)"
  by (rule yields_for_each) (rule delete_listed_spec released_append assms | assumption)+

lemma svc_create_spec:
  "yields e (svc_CreateOrUpdate a svc) (\<lambda>r es. guarded (release_guard svc) es \<and>
     (\<forall>d. r = Returned (Inr d) \<longrightarrow> d = sa_sync_period a \<and> in_step e a svc es) \<and> r \<noteq> OutOfFuel)"
  unfolding svc_CreateOrUpdate_def
proof (rule yields_seq [OF publish_spec], goal_cases)
  case (1 r es)
  show ?case
  proof (cases r)
    case None
    have listing: "yields e (seq (for_each pubips (delete_listed svc)) (\<lambda>r.
        case r of Some err \<Rightarrow> ret (Inl err) | None \<Rightarrow> ret (Inr (sa_sync_period a))))
        (\<lambda>r es'. guarded (release_guard svc)
           (es @ KListPips (sa_namespace a) (pubip_labels svc) (Inr pubips) # es') \<and>
           (\<forall>d. r = Returned (Inr d) \<longrightarrow> d = sa_sync_period a \<and>
              in_step e a svc (es @ KListPips (sa_namespace a) (pubip_labels svc) (Inr pubips) # es')) \<and>
           r \<noteq> OutOfFuel)" for pubips
    proof -
      let ?pre = "es @ [KListPips (sa_namespace a) (pubip_labels svc) (Inr pubips)]"
      have pre: "guarded (release_guard svc) ?pre" using 1 by simp
      have step: "in_step e a svc (?pre @ es')" if "\<forall>p \<in> set pubips. released e svc p es'" for es'
        using 1 None that published_append [of e a svc _ es "[]"] released_append [of e svc _ es' ?pre "[]"]
        by (auto simp: in_step_def)
      show ?thesis
        by (rule yields_seq [OF list_and_release_spec [OF pre]])
          (use step in \<open>auto intro!: yields_ret split: option.split\<close>)
    qed
    show ?thesis
      unfolding None option.case client_List_def
      using 1 listing by (auto intro!: yields_intros split: sum.split)
  qed (use 1 in \<open>auto intro!: yields_ret\<close>)
qed auto

text \<open>The whole of \<open>Delete\<close>.\<close>

definition cleared :: "env \<Rightarrow> service_actuator \<Rightarrow> service \<Rightarrow> trace \<Rightarrow> bool" where
  "cleared e a svc es \<longleftrightarrow>
     (\<exists>pubips. KListPips (sa_namespace a) (pubip_labels svc) (Inr pubips) \<in> set es \<and>
        (\<forall>p \<in> set pubips. ps_ip_address (pip_spec p) \<in> set (getServiceLoadBalancerIPs svc) \<or>
           gone e (PublicIPAddress p) es))"

lemma delete_stale_spec:
  "yields e (delete_stale svc p) (\<lambda>r es. True \<and> (r = Returned None \<longrightarrow>
     ps_ip_address (pip_spec p) \<in> set (getServiceLoadBalancerIPs svc) \<or> gone e (PublicIPAddress p) es) \<and>
     r \<noteq> OutOfFuel)"
  unfolding delete_stale_def
  by (auto intro!: yields_ret yields_mono [OF delete_object_spec])

lemma svc_delete_spec:
  "yields e (svc_Delete a svc) (\<lambda>r es. (\<forall>d. r = Returned (Inr d) \<longrightarrow> d = 0 \<and>
     (\<forall>ip \<in> set (getServiceLoadBalancerIPs svc). gone e (PublicIPAddress (pubip_for a svc ip)) es) \<and>
     cleared e a svc es) \<and> r \<noteq> OutOfFuel)"
  unfolding svc_Delete_def
proof (rule yields_seq_ask_at, goal_cases)
  case (1 t)
  let ?ips = "range_keys (rangeOrder e t) (getServiceLoadBalancerIPs svc)"
  have dels: "yields e (for_each ?ips (\<lambda>ip. delete_object ''could not delete publicipaddress''
      (PublicIPAddress (pubip_for a svc ip)))) (\<lambda>r es. True \<and>
        (r = Returned None \<longrightarrow> (\<forall>ip \<in> set ?ips. gone e (PublicIPAddress (pubip_for a svc ip)) es)) \<and>
        r \<noteq> OutOfFuel)"
    by (rule yields_for_each [where pre = "[]"])
      (auto intro: yields_mono [OF delete_object_spec] gone_append)
  show ?case
  proof (rule yields_seq [OF dels], goal_cases)
    case (1 r es)
    have stale: "yields e (for_each pubips (delete_stale svc)) (\<lambda>r es. True \<and>
        (r = Returned None \<longrightarrow> (\<forall>p \<in> set pubips.
           ps_ip_address (pip_spec p) \<in> set (getServiceLoadBalancerIPs svc) \<or>
           gone e (PublicIPAddress p) es)) \<and> r \<noteq> OutOfFuel)" for pubips
      by (rule yields_for_each [where pre = "[]"])
        (auto intro: yields_mono [OF delete_stale_spec] gone_append)
    show ?case
    proof (cases r)
      case None
      have tail: "yields e (seq (for_each pubips (delete_stale svc)) (\<lambda>r.
          case r of Some err \<Rightarrow> ret (Inl err) | None \<Rightarrow> ret (Inr 0))) (\<lambda>r es'.
          (\<forall>d. r = Returned (Inr d) \<longrightarrow> d = 0 \<and>
             cleared e a svc (es @ KListPips (sa_namespace a) (pubip_labels svc) (Inr pubips) # es')) \<and>
          r \<noteq> OutOfFuel)" for pubips
      proof (rule yields_seq [OF stale], goal_cases)
        case (1 r es')
        have "gone e ob (es @ KListPips (sa_namespace a) (pubip_labels svc) (Inr pubips) # es')"
          if "gone e ob es'" for ob
          using that by (auto simp: gone_def)
        with 1 have "r = None \<Longrightarrow>
            cleared e a svc (es @ KListPips (sa_namespace a) (pubip_labels svc) (Inr pubips) # es')"
          unfolding cleared_def by (intro exI [of _ pubips]) auto
        then show ?case by (cases r) (auto intro!: yields_ret)
      qed auto
      have kept: "gone e (PublicIPAddress (pubip_for a svc ip)) (es @ ys)"
        if "ip \<in> set (getServiceLoadBalancerIPs svc)" for ip ys
        using 1 None that gone_append [of e _ es "[]" ys] by auto
      show ?thesis
        unfolding None option.case client_List_def
        using kept by (auto intro!: yields_intros yields_mono [OF tail] split: sum.split)
    qed (auto intro!: yields_ret)
  qed auto
qed

section \<open>Nodes\<close>

definition create_vm_lawful :: "env \<Rightarrow> bool" where
  "create_vm_lawful e \<longleftrightarrow>
     (\<forall>t p f. fst (kCreateOrUpdateVm e t p f) = None \<longrightarrow>
        (\<exists>base. snd (kCreateOrUpdateVm e t p f) = f base))"

text \<open>A virtualmachine resource that mirrors the node.\<close>

definition mirrors_node :: "node \<Rightarrow> virtual_machine \<Rightarrow> bool" where
  "mirrors_node nd vm \<longleftrightarrow>
     meta_labels (vm_meta vm) = vm_labels nd \<and>
     vm_spec vm = \<lparr>vs_hostname = map_get (meta_labels (node_meta nd)) HostnameLabel,
       vs_provider_id = node_provider_id nd,
       vs_not_ready_or_unreachable = isNodeNotReadyOrUnreachable nd\<rparr>"

lemma mirrors_mutate: "mirrors_node nd (mutate_vm nd vm)"
  by (simp add: mirrors_node_def mutate_vm_def)

definition mirrored :: "env \<Rightarrow> node \<Rightarrow> trace \<Rightarrow> bool" where
  "mirrored e nd es \<longleftrightarrow>
     (\<exists>vm vm'. KCreateOrUpdateVm vm None vm' \<in> set es \<and> (create_vm_lawful e \<longrightarrow> mirrors_node nd vm'))"

lemma create_vm_try_spec:
  "yields e (CreateOrUpdateVm (mutate_vm nd) vm) (\<lambda>r es.
     list_all (\<lambda>ev. \<exists>p0 err p'. ev = KCreateOrUpdateVm p0 err p') es \<and>
     (\<forall>vm'. r = Returned (None, vm') \<longrightarrow> mirrored e nd es) \<and> r \<noteq> OutOfFuel)"
proof -
  have "create_vm_lawful e \<Longrightarrow> kCreateOrUpdateVm e t vm (mutate_vm nd) = (None, vm') \<Longrightarrow>
      \<exists>base. vm' = mutate_vm nd base" for t vm'
    unfolding create_vm_lawful_def by (metis fst_conv snd_conv)
  then show ?thesis
    unfolding CreateOrUpdateVm_def
    by (fastforce simp: mirrored_def mirrors_mutate intro!: yields_ecall split: prod.split)
qed

lemma node_create_spec:
  "yields e (node_CreateOrUpdate a nd) (\<lambda>r es.
     list_all (\<lambda>ev. \<exists>p0 err p'. ev = KCreateOrUpdateVm p0 err p') es \<and>
     (\<forall>d. r = Returned (Inr d) \<longrightarrow> d = na_sync_period a \<and> mirrored e nd es) \<and> r \<noteq> OutOfFuel)"
proof -
  have retry: "yields e (RetryOnConflict (CreateOrUpdateVm (mutate_vm nd)) vm) (\<lambda>r es.
      list_all (\<lambda>ev. \<exists>p0 err p'. ev = KCreateOrUpdateVm p0 err p') es \<and>
      (\<forall>vm'. r = Returned (None, vm') \<longrightarrow> mirrored e nd es) \<and> r \<noteq> OutOfFuel)" for vm
    by (rule yields_RetryOnConflict [where J = "\<lambda>_. True"])
      (auto intro: yields_mono [OF create_vm_try_spec] simp: mirrored_def)
  show ?thesis
    unfolding node_CreateOrUpdate_def
    by (rule yields_seq [OF retry]) (auto intro!: yields_ret split: prod.split option.split)
qed

lemma node_delete_spec:
  "yields e (node_Delete a nd) (\<lambda>r es. (\<exists>err. es = [KDelete (VirtualMachine (vm_for a nd)) err]) \<and>
     (\<forall>d. r = Returned (Inr d) \<longrightarrow> d = 0 \<and> gone e (VirtualMachine (vm_for a nd)) es) \<and> r \<noteq> OutOfFuel)"
  unfolding node_Delete_def
  by (rule yields_seq [OF delete_object_spec]) (auto intro!: yields_ret split: option.split)

section \<open>Exempt resources\<close>

text \<open>
  \<open>controllerutils.CreateOrPatch\<close> fetches the resource, applies the mutation to it and patches
  the difference. \<open>marks_stay\<close> says of the world that nobody takes the do-not-clean mark away
  between the reconciler's fetch and the patches: a mutation that leaves the metadata alone then
  finds, and leaves, a marked resource. It follows when the stored versions are marked.
\<close>

definition marks_stay :: "env \<Rightarrow> bool" where
  "marks_stay e \<longleftrightarrow>
     (\<forall>t p f. (\<forall>q. pip_meta (f q) = pip_meta q) \<longrightarrow> shouldNotClean p \<longrightarrow>
        shouldNotClean (snd (kPatchPip e t p f)))"

lemma marks_stay_if_stored:
  assumes "\<And>t p f. snd (kPatchPip e t p f) = f (stored t p)" "\<And>t p. shouldNotClean (stored t p)"
  shows "marks_stay e"
  using assms(2) unfolding marks_stay_def assms(1) by (simp add: shouldNotClean_def)

end
