(* ===== verification/Service_Properties.thy ===== *)
theory Service_Properties
  imports Service_Controller Pip_Guarantees Example_Env
begin

text \<open>
  The properties of the service and node controllers.
\<close>

section \<open>Services\<close>

text \<open>C16: \<open>CreateOrUpdate\<close> of a service deletes a publicipaddress resource only if the service
  no longer has its IP or, when the service is to be ignored, only after an accepted update
  that marked it do-not-clean; it creates none for an ignored service.\<close>

theorem service_releases_only_lost_or_marked:
  "yields e (svc_CreateOrUpdate a svc) (\<lambda>_ es. guarded (release_guard svc) es)"
  by (rule yields_mono [OF svc_create_spec]) blast

text \<open>C23: When \<open>CreateOrUpdate\<close> of a service succeeds, every load balancer IP of a service that
  is not ignored has a publicipaddress of its own, named by the service and the IP, that an
  accepted call gave that IP and the service's label and no exemption from cleaning; every
  resource listed for the service whose IP it no longer has is gone, and if the service is
  ignored each single listed resource was marked do-not-clean by an accepted update and is gone.
  A retried call starts from what the failed one left in the caller's variable; that the name
  is kept and that the mutation is applied is the documented behaviour of the API calls. The
  service is looked at again after the sync period.\<close>

theorem service_in_step_on_success:
  "yields e (svc_CreateOrUpdate a svc) (\<lambda>r es. \<forall>d. r = Returned (Inr d) \<longrightarrow>
     d = sa_sync_period a \<and>
     (\<forall>ip \<in> set (getServiceLoadBalancerIPs svc). shouldIgnoreService svc \<or> published e a svc ip es) \<and>
     (\<exists>pubips. KListPips (sa_namespace a) (pubip_labels svc) (Inr pubips) \<in> set es \<and>
        (\<forall>p \<in> set pubips. released e svc p es)))"
  by (rule yields_mono [OF svc_create_spec]) (auto simp: in_step_def)

definition example_service :: "(string \<rightharpoonup> string) \<Rightarrow> string list \<Rightarrow> service" where
  "example_service annotations ips =
     \<lparr>svc_meta = empty_meta\<lparr>meta_name := ''svc'', meta_namespace := ''default'',
        meta_annotations := Some annotations\<rparr>,
      svc_type = ServiceTypeLoadBalancer, svc_ingress = map (\<lambda>ip. \<lparr>ingress_ip = ip\<rparr>) ips\<rparr>"

definition example_pip :: "string \<Rightarrow> public_ip_address" where
  "example_pip ip =
     (new_pip ''shoot'' (generatePublicIPAddressName ''default'' ''svc'' ip))
       \<lparr>pip_spec := \<lparr>ps_ip_address = ip\<rparr>\<rparr>"

text \<open>The API server holds resources for two IPs of the service; it refuses the first update.\<close>

definition two_pips_env :: env where
  "two_pips_env = example_env\<lparr>
     kListPips := (\<lambda>t ns ls. Inr [example_pip ''1.1.1.1'', example_pip ''2.2.2.2'']),
     kUpdatePip := (\<lambda>t p. (if list_ex (\<lambda>ev. case ev of KUpdatePip _ _ _ \<Rightarrow> True | _ \<Rightarrow> False) t
        then None else Some (ApiError ''Conflict''), p))\<rparr>"

abbreviation example_service_actuator :: service_actuator where
  "example_service_actuator \<equiv> \<lparr>sa_namespace = ''shoot'', sa_sync_period = 4 * hour\<rparr>"

fun deleted_pip_ip :: "event \<Rightarrow> (string \<times> bool) option" where
  "deleted_pip_ip (KDelete (PublicIPAddress p) _) = Some (ps_ip_address (pip_spec p), shouldNotClean p)"
| "deleted_pip_ip _ = None"

theorem service_in_step_on_success_witness:
  "List.map_filter deleted_pip_ip (snd (svc_CreateOrUpdate example_service_actuator
     (example_service Map.empty [''1.1.1.1'']) two_pips_env [])) = [(''2.2.2.2'', False)] \<and>
   List.map_filter deleted_pip_ip (snd (svc_CreateOrUpdate example_service_actuator
     (example_service [IgnoreAnnotation \<mapsto> ''true''] [''1.1.1.1'']) two_pips_env [])) =
       [(''1.1.1.1'', True), (''2.2.2.2'', True)] \<and>
   yields two_pips_env (svc_CreateOrUpdate example_service_actuator
     (example_service Map.empty [''1.1.1.1''])) (\<lambda>r es. \<forall>d. r = Returned (Inr d) \<longrightarrow>
     d = sa_sync_period example_service_actuator \<and>
     (\<forall>ip \<in> set (getServiceLoadBalancerIPs (example_service Map.empty [''1.1.1.1''])).
        shouldIgnoreService (example_service Map.empty [''1.1.1.1'']) \<or>
        published two_pips_env example_service_actuator (example_service Map.empty [''1.1.1.1'']) ip es) \<and>
     (\<exists>pubips. KListPips (sa_namespace example_service_actuator)
          (pubip_labels (example_service Map.empty [''1.1.1.1''])) (Inr pubips) \<in> set es \<and>
        (\<forall>p \<in> set pubips. released two_pips_env (example_service Map.empty [''1.1.1.1'']) p es)))"
  by (rule conjI [OF _ conjI [OF _ service_in_step_on_success]]) code_simp+

text \<open>When \<open>Delete\<close> of a service succeeds, the resource of every load balancer IP of the
  service is gone, and so is every resource listed for the service with another IP.\<close>

lemma service_delete_clears:
  "yields e (svc_Delete a svc) (\<lambda>r es. \<forall>d. r = Returned (Inr d) \<longrightarrow>
     (\<forall>ip \<in> set (getServiceLoadBalancerIPs svc). gone e (PublicIPAddress (pubip_for a svc ip)) es) \<and>
     (\<exists>pubips. KListPips (sa_namespace a) (pubip_labels svc) (Inr pubips) \<in> set es \<and>
        (\<forall>p \<in> set pubips. ps_ip_address (pip_spec p) \<in> set (getServiceLoadBalancerIPs svc) \<or>
           gone e (PublicIPAddress p) es)))"
  by (rule yields_mono [OF svc_delete_spec]) (auto simp: cleared_def)

lemma zero_service_ips: "getServiceLoadBalancerIPs \<lparr>svc_meta = m, svc_type = ty, svc_ingress = []\<rparr> = []"
  by (simp add: getServiceLoadBalancerIPs_def)

definition service_labels :: "object_key \<Rightarrow> strmap" where
  "service_labels key =
     Some [ServiceLabel \<mapsto> GetLabelValue service_ObjectLabeler (zero_object ServiceKind key)]"

text \<open>Reconciling a service that does not exist (any more) without an error or a requeue leaves no
  resource behind: every publicipaddress listed under the service's label is gone, whatever
  happened to the finalizer.\<close>

lemma missing_service_is_cleaned_up:
  assumes "kGet e t ServiceKind key = Inl err" "isNotFound e err"
    and "Reconcile (svc_reconciler ns cfg) key e t = (Returned (Inr res), t')" "\<not> Requeue res"
  shows "\<exists>pubips. KListPips ns (service_labels key) (Inr pubips) \<in> set t' \<and>
    (\<forall>p \<in> set pubips. \<exists>err. KDelete (PublicIPAddress p) err \<in> set t' \<and> ignoreNotFound e err = None)"
proof -
  let ?a = "\<lparr>sa_namespace = ns, sa_sync_period = pc_service_sync_period cfg\<rparr>"
  let ?m = "empty_meta\<lparr>meta_name := key_name key, meta_namespace := key_namespace key\<rparr>"
  let ?svc = "\<lparr>svc_meta = ?m, svc_type = OtherServiceType '''', svc_ingress = []\<rparr>"
  let ?t = "t @ [KGet ServiceKind key (Inl err)]"
  obtain r t1 where run: "svc_Delete ?a ?svc e ?t = (r, t1)" by fastforce
  then obtain es where es: "t1 = ?t @ es" "\<forall>d. r = Returned (Inr d) \<longrightarrow> cleared e ?a ?svc es"
    using yields_run [OF svc_delete_spec run] by auto
  have "ensureDeleted (svc_reconciler ns cfg) (Service ?svc) e ?t = (Returned (Inr res), t')"
    using assms by (simp add: Reconcile_def client_Get_def run_simps svc_reconciler_def)
  then have "(\<exists>d. r = Returned (Inr d)) \<and> t' = t1"
    using run assms(4) by (cases r)
      (auto simp: ensureDeleted_def svc_reconciler_def svc_NewActuator_def on_service_def Let_def
        seq_def ret_def reconcileErr_def ask_def split: sum.splits goerr.splits)
  then have "cleared e ?a ?svc es" "t' = t1" using es(2) by auto
  then show ?thesis
    unfolding cleared_def gone_def zero_service_ips
    by (simp add: es(1) service_labels_def pubip_labels_def) blast
qed

section \<open>Exemption\<close>

text \<open>C32: A publicipaddress that is marked do-not-clean, as the service controller marks the
  ones of an ignored service, is not cleaned: if nobody takes the mark away while its deletion
  is reconciled (the status patches fetch the resource anew), deleting it sends Azure no write
  at all.\<close>

theorem exempt_resource_is_not_cleaned:
  assumes "marks_stay e" "shouldNotClean p"
  shows "yields e (pip_Delete \<lparr>pa_utils = NewPublicIPAddressUtils rg, pa_config = cfg\<rparr> p)
    (\<lambda>_ es. list_all quiet_event es)"
  unfolding pip_Delete_def Let_def
proof (rule yields_seq [OF azure_pips.getAzure_spec [where rg = rg]], simp, goal_cases)
  case (1 res es)
  then have q: "list_all quiet_event es" by (simp add: lookups_quiet)
  have marked: "shouldNotClean (snd (kPatchPip e t p f))" if "\<forall>q. pip_meta (f q) = pip_meta q" for t f
    using assms that unfolding marks_stay_def by blast
  have patched: "yields e (updatePublicIPAddressStatus p azip ops) (\<lambda>r es'. list_all quiet_event es' \<and>
      (\<forall>err p'. r = Returned (err, p') \<longrightarrow> shouldNotClean p'))" for azip ops
  proof (rule yieldsI, goal_cases)
    case (1 t)
    show ?case
      using marked [where t = t and f = "\<lambda>p. p\<lparr>pip_status := build_status azip ops\<rparr>"]
      by (simp add: run_update_status Let_def case_prod_unfold)
  qed
  show ?case
    by (cases res)
      (use q in \<open>auto intro!: yields_mono [OF handle_failure_spec] yields_seq [OF patched] yields_ret
        split: option.split\<close>)
qed (auto simp: lookups_quiet)

definition exempt_pip :: public_ip_address where
  "exempt_pip = (new_pip ''ns'' ''ip-1'')\<lparr>pip_meta := empty_meta\<lparr>meta_annotations :=
     Some [DoNotCleanAnnotation \<mapsto> ''true'']\<rparr>, pip_spec := \<lparr>ps_ip_address = ''1.2.3.4''\<rparr>\<rparr>"

text \<open>
  Azure still has the address; the API server applies the mutation to its version of the
  resource, which is marked.
\<close>

definition exempt_env :: env where
  "exempt_env = example_env\<lparr>
     azPipList := (\<lambda>t rg. Inr \<lparr>page_not_done = True, page_values =
       [\<lparr>az_ip_id = Some ''/ip-1'', az_ip_name = Some ''ip-1'', az_ip_address = Some ''1.2.3.4'',
         az_ip_provisioning_state = Some Succeeded, az_ip_tags = Map.empty\<rparr>]\<rparr>),
     kPatchPip := (\<lambda>t p f. (None, f (p\<lparr>pip_meta := pip_meta exempt_pip\<rparr>)))\<rparr>"

theorem exempt_resource_is_not_cleaned_witness:
  "(case fst (pip_Delete \<lparr>pa_utils = NewPublicIPAddressUtils ''shoot'', pa_config = pip_default_config\<rparr>
       exempt_pip exempt_env []) of
     Returned (Inr d, p) \<Rightarrow> d = 0 \<and> ps_exists (pip_status p) | _ \<Rightarrow> False) \<and>
   yields exempt_env
     (pip_Delete \<lparr>pa_utils = NewPublicIPAddressUtils ''shoot'', pa_config = pip_default_config\<rparr> exempt_pip)
     (\<lambda>_ es. list_all quiet_event es)"
proof
  have marked: "shouldNotClean exempt_pip"
    by (simp add: shouldNotClean_def exempt_pip_def map_get_def format_bool_def)
  have "marks_stay exempt_env"
    by (rule marks_stay_if_stored [where stored = "\<lambda>t p. p\<lparr>pip_meta := pip_meta exempt_pip\<rparr>"])
      (use marked in \<open>simp_all add: exempt_env_def shouldNotClean_def\<close>)
  from this marked show "yields exempt_env
     (pip_Delete \<lparr>pa_utils = NewPublicIPAddressUtils ''shoot'', pa_config = pip_default_config\<rparr> exempt_pip)
     (\<lambda>_ es. list_all quiet_event es)"
    by (rule exempt_resource_is_not_cleaned)
qed code_simp

section \<open>Nodes\<close>

definition example_node :: node where
  "example_node = \<lparr>node_meta = empty_meta\<lparr>meta_name := ''node-1'',
      meta_labels := Some [HostnameLabel \<mapsto> ''host-1'']\<rparr>, node_provider_id = ''azure:///node-1'',
     node_taints = [], node_conditions = [\<lparr>cond_type = NodeReady, cond_status = ConditionTrue\<rparr>]\<rparr>"

end
