(* ===== verification/Predicates.thy ===== *)
theory Predicates
  imports Node_Actuator
begin

text \<open>
  The event filters: the predicates of the service and node watches
  (\<open>service/predicate.go\<close>, \<open>node/predicate.go\<close>), which compare an update with the previous
  version and with a cached projection, and the predicate for owned objects
  (\<open>pkg/controller/predicate.go\<close>), which looks at the owner. A filter returns whether the
  event is to be processed, and the cache it leaves.
\<close>

section \<open>The cache\<close>

text \<open>
  \<open>utils.ExpiringCache\<close>: a map whose entries may be dropped when their time is over. What time
  does to it is left open: any entry may disappear between two events.
\<close>

type_synonym 'p cache = "string \<rightharpoonup> 'p"

text \<open>\<open>*metav1.Time\<close> values are compared as pointers.\<close>

definition same_pointer :: "time_ptr option \<Rightarrow> time_ptr option \<Rightarrow> bool" where
  "same_pointer p q \<longleftrightarrow> map_option ptr_address p = map_option ptr_address q"

text \<open>The predicate interface of controller-runtime; a missing object is a nil interface value.\<close>

record 'p event_predicate =
  pred_Create :: "'p cache \<Rightarrow> k8s_object option \<Rightarrow> bool \<times> 'p cache"
  pred_Update :: "'p cache \<Rightarrow> k8s_object option \<Rightarrow> k8s_object option \<Rightarrow> bool \<times> 'p cache"
  pred_Delete :: "'p cache \<Rightarrow> k8s_object option \<Rightarrow> bool \<times> 'p cache"
  pred_Generic :: "'p cache \<Rightarrow> k8s_object option \<Rightarrow> bool \<times> 'p cache"

section \<open>Services\<close>

record service_projection =
  sp_deletion_timestamp :: "time_ptr option"
  sp_should_ignore :: bool
  sp_ips :: "string list"

definition svc_NewProjection :: "service \<Rightarrow> service_projection" where
  "svc_NewProjection svc =
     \<lparr>sp_deletion_timestamp = meta_deletion_timestamp (svc_meta svc),
      sp_should_ignore = shouldIgnoreService svc, sp_ips = getServiceLoadBalancerIPs svc\<rparr>"

definition svc_pred_Create ::
  "service_projection cache \<Rightarrow> k8s_object option \<Rightarrow> bool \<times> service_projection cache" where
  "svc_pred_Create c ob =
     (case ob of
        Some (Service svc) \<Rightarrow> (True, c(meta_name (svc_meta svc) \<mapsto> svc_NewProjection svc))
      | _ \<Rightarrow> (False, c))"

text \<open>\<open>reflect.DeepEqual\<close> of two sets of IPs.\<close>

definition same_ips :: "string list \<Rightarrow> string list \<Rightarrow> bool" where
  "same_ips xs ys \<longleftrightarrow> set xs = set ys"

definition svc_relevant :: "service \<Rightarrow> service \<Rightarrow> service_projection option \<Rightarrow> bool" where
  "svc_relevant oldService newService cached =
     (case cached of
        None \<Rightarrow> True
      | Some cachedService \<Rightarrow>
          (let oldIPs = getServiceLoadBalancerIPs oldService;
               newIPs = getServiceLoadBalancerIPs newService;
               new_dt = meta_deletion_timestamp (svc_meta newService);
               old_dt = meta_deletion_timestamp (svc_meta oldService)
           in
           if length newIPs > 0 \<and> (\<not> same_pointer new_dt old_dt \<or>
                \<not> same_pointer new_dt (sp_deletion_timestamp cachedService)) then True
           else if length newIPs > 0 \<and>
                (shouldIgnoreService newService \<noteq> shouldIgnoreService oldService \<or>
                 shouldIgnoreService newService \<noteq> sp_should_ignore cachedService) then True
           else if \<not> same_ips newIPs oldIPs \<or> \<not> same_ips newIPs (sp_ips cachedService) then True
           else False))"

definition svc_pred_Update ::
  "service_projection cache \<Rightarrow> k8s_object option \<Rightarrow> k8s_object option \<Rightarrow>
   bool \<times> service_projection cache" where
  "svc_pred_Update c old new =
     (case (old, new) of
        (Some (Service oldService), Some (Service newService)) \<Rightarrow>
          (let name = meta_name (svc_meta newService);
               result = svc_relevant oldService newService (c name)
           in (result, if result then c(name \<mapsto> svc_NewProjection newService) else c))
      | _ \<Rightarrow> (False, c))"

definition svc_pred_Delete ::
  "service_projection cache \<Rightarrow> k8s_object option \<Rightarrow> bool \<times> service_projection cache" where
  "svc_pred_Delete c ob =
     (case ob of
        Some (Service svc) \<Rightarrow> (True, c(meta_name (svc_meta svc) := None))
      | _ \<Rightarrow> (False, c))"

definition svc_pred_Generic ::
  "service_projection cache \<Rightarrow> k8s_object option \<Rightarrow> bool \<times> service_projection cache" where
  "svc_pred_Generic c ob = (False, c)"

definition svc_NewPredicate :: "service_projection event_predicate" where
  "svc_NewPredicate =
     \<lparr>pred_Create = svc_pred_Create, pred_Update = svc_pred_Update,
      pred_Delete = svc_pred_Delete, pred_Generic = svc_pred_Generic\<rparr>"

lemma svc_NewPredicate_simps [simp]:
  "pred_Create svc_NewPredicate = svc_pred_Create" "pred_Update svc_NewPredicate = svc_pred_Update"
  "pred_Delete svc_NewPredicate = svc_pred_Delete" "pred_Generic svc_NewPredicate = svc_pred_Generic"
  by (simp_all add: svc_NewPredicate_def)

section \<open>Nodes\<close>

record node_projection =
  np_deletion_timestamp :: "time_ptr option"
  np_not_ready_or_unreachable :: bool

definition node_NewProjection :: "node \<Rightarrow> node_projection" where
  "node_NewProjection nd =
     \<lparr>np_deletion_timestamp = meta_deletion_timestamp (node_meta nd),
      np_not_ready_or_unreachable = isNodeNotReadyOrUnreachable nd\<rparr>"

definition node_pred_Create ::
  "node_projection cache \<Rightarrow> k8s_object option \<Rightarrow> bool \<times> node_projection cache" where
  "node_pred_Create c ob =
     (case ob of
        Some (Node nd) \<Rightarrow> (True, c(meta_name (node_meta nd) \<mapsto> node_NewProjection nd))
      | _ \<Rightarrow> (False, c))"

definition node_relevant :: "node \<Rightarrow> node \<Rightarrow> node_projection option \<Rightarrow> bool" where
  "node_relevant oldNode newNode cached =
     (case cached of
        None \<Rightarrow> True
      | Some cachedNode \<Rightarrow>
          (let new_dt = meta_deletion_timestamp (node_meta newNode);
               old_dt = meta_deletion_timestamp (node_meta oldNode)
           in
           if \<not> same_pointer new_dt old_dt \<or>
              \<not> same_pointer new_dt (np_deletion_timestamp cachedNode) then True
           else if isNodeNotReadyOrUnreachable newNode \<noteq> isNodeNotReadyOrUnreachable oldNode \<or>
              isNodeNotReadyOrUnreachable newNode \<noteq> np_not_ready_or_unreachable cachedNode then True
           else False))"

definition node_pred_Update ::
  "node_projection cache \<Rightarrow> k8s_object option \<Rightarrow> k8s_object option \<Rightarrow>
   bool \<times> node_projection cache" where
  "node_pred_Update c old new =
     (case (old, new) of
        (Some (Node oldNode), Some (Node newNode)) \<Rightarrow>
          (let name = meta_name (node_meta newNode);
               result = node_relevant oldNode newNode (c name)
           in (result, if result then c(name \<mapsto> node_NewProjection newNode) else c))
      | _ \<Rightarrow> (False, c))"

definition node_pred_Delete ::
  "node_projection cache \<Rightarrow> k8s_object option \<Rightarrow> bool \<times> node_projection cache" where
  "node_pred_Delete c ob =
     (case ob of
        Some (Node nd) \<Rightarrow> (True, c(meta_name (node_meta nd) := None))
      | _ \<Rightarrow> (False, c))"

definition node_pred_Generic ::
  "node_projection cache \<Rightarrow> k8s_object option \<Rightarrow> bool \<times> node_projection cache" where
  "node_pred_Generic c ob = (False, c)"

definition node_NewPredicate :: "node_projection event_predicate" where
  "node_NewPredicate =
     \<lparr>pred_Create = node_pred_Create, pred_Update = node_pred_Update,
      pred_Delete = node_pred_Delete, pred_Generic = node_pred_Generic\<rparr>"

lemma node_NewPredicate_simps [simp]:
  "pred_Create node_NewPredicate = node_pred_Create" "pred_Update node_NewPredicate = node_pred_Update"
  "pred_Delete node_NewPredicate = node_pred_Delete" "pred_Generic node_NewPredicate = node_pred_Generic"
  by (simp_all add: node_NewPredicate_def)

section \<open>Owned objects\<close>

record owned_object_predicate =
  oo_owner_kind :: kind
  oo_owner_mapper :: "k8s_object \<Rightarrow> object_key"
  oo_finalizer :: string

definition getOwner :: "owned_object_predicate \<Rightarrow> object_key \<Rightarrow> (goerr + k8s_object option) io" where
  "getOwner p key =
     seq (client_Get (oo_owner_kind p) key) (\<lambda>got.
     case got of
       Inl err \<Rightarrow>
         seq (ask (\<lambda>e. isNotFound e err)) (\<lambda>not_found.
         if not_found then ret (Inr None) else ret (Inl err))
     | Inr ob \<Rightarrow> ret (Inr (Some ob)))"

definition handleCreateOrUpdateEvent :: "owned_object_predicate \<Rightarrow> k8s_object \<Rightarrow> bool io" where
  "handleCreateOrUpdateEvent p ob =
     (let owner_key = oo_owner_mapper p ob in
      if key_name owner_key = '''' then ret False
      else
        seq (getOwner p owner_key) (\<lambda>r.
        case r of
          Inl err \<Rightarrow> ret False
        | Inr None \<Rightarrow> ret True
        | Inr (Some owner) \<Rightarrow>
            seq (ask (\<lambda>e. containsFinalizer e owner (oo_finalizer p))) (\<lambda>has.
            if \<not> has then ret False
            else if meta_deletion_timestamp (obj_meta ob) = None \<and>
                    meta_deletion_timestamp (obj_meta owner) \<noteq> None then ret True
            else ret False)))"

definition handleDeleteEvent :: "owned_object_predicate \<Rightarrow> k8s_object \<Rightarrow> bool io" where
  "handleDeleteEvent p ob =
     (let owner_key = oo_owner_mapper p ob in
      if key_name owner_key = '''' then ret False
      else
        seq (getOwner p owner_key) (\<lambda>r.
        case r of
          Inl err \<Rightarrow> ret False
        | Inr None \<Rightarrow> ret False
        | Inr (Some owner) \<Rightarrow>
            seq (ask (\<lambda>e. containsFinalizer e owner (oo_finalizer p))) (\<lambda>has.
            if \<not> has then ret False
            else if meta_deletion_timestamp (obj_meta owner) = None then ret True
            else ret False)))"

definition owned_Create :: "owned_object_predicate \<Rightarrow> k8s_object option \<Rightarrow> bool io" where
  "owned_Create p ob = (case ob of None \<Rightarrow> ret False | Some ob \<Rightarrow> handleCreateOrUpdateEvent p ob)"

definition owned_Update :: "owned_object_predicate \<Rightarrow> k8s_object option \<Rightarrow> k8s_object option \<Rightarrow> bool io" where
  "owned_Update p old new =
     (case new of None \<Rightarrow> ret False | Some ob \<Rightarrow> handleCreateOrUpdateEvent p ob)"

definition owned_Delete :: "owned_object_predicate \<Rightarrow> k8s_object option \<Rightarrow> bool io" where
  "owned_Delete p ob = (case ob of None \<Rightarrow> ret False | Some ob \<Rightarrow> handleDeleteEvent p ob)"

definition owned_Generic :: "owned_object_predicate \<Rightarrow> k8s_object option \<Rightarrow> bool io" where
  "owned_Generic p ob = ret False"

text \<open>The predicates of the service and node controllers for the resources they own.\<close>

definition svc_owned_predicate :: owned_object_predicate where
  "svc_owned_predicate = \<lparr>oo_owner_kind = ServiceKind,
     oo_owner_mapper = labelMapper_Map service_ObjectLabeler ServiceLabel,
     oo_finalizer = svc_FinalizerName\<rparr>"

definition node_owned_predicate :: owned_object_predicate where
  "node_owned_predicate = \<lparr>oo_owner_kind = NodeKind,
     oo_owner_mapper = labelMapper_Map node_ObjectLabeler NodeLabel,
     oo_finalizer = node_FinalizerName\<rparr>"

section \<open>Streams of events\<close>

text \<open>
  The events of one watch; \<open>Signalled\<close> is a generic event. \<open>Expired\<close> is the cache dropping an entry. A run keeps, next to the
  cache, the projection of the last event that got through, for every name.
\<close>

datatype watch_event =
    Created k8s_object
  | Updated k8s_object k8s_object
  | Deleted k8s_object
  | Signalled k8s_object
  | Expired string

fun watch_step :: "'p event_predicate \<Rightarrow> (k8s_object \<Rightarrow> 'p) \<Rightarrow> 'p cache \<times> 'p cache \<Rightarrow> watch_event \<Rightarrow>
    'p cache \<times> 'p cache" where
  "watch_step p proj (c, passed) (Created ob) =
     (let (pass, c') = pred_Create p c (Some ob)
      in (c', if pass then passed(meta_name (obj_meta ob) \<mapsto> proj ob) else passed))"
| "watch_step p proj (c, passed) (Updated old new) =
     (let (pass, c') = pred_Update p c (Some old) (Some new)
      in (c', if pass then passed(meta_name (obj_meta new) \<mapsto> proj new) else passed))"
| "watch_step p proj (c, passed) (Deleted ob) =
     (let (pass, c') = pred_Delete p c (Some ob)
      in (c', if pass then passed(meta_name (obj_meta ob) := None) else passed))"
| "watch_step p proj (c, passed) (Signalled ob) =
     (let (pass, c') = pred_Generic p c (Some ob)
      in (c', if pass then passed(meta_name (obj_meta ob) \<mapsto> proj ob) else passed))"
| "watch_step p proj (c, passed) (Expired name) = (c(name := None), passed)"

definition watch :: "'p event_predicate \<Rightarrow> (k8s_object \<Rightarrow> 'p) \<Rightarrow> watch_event list \<Rightarrow>
    'p cache \<times> 'p cache" where
  "watch p proj evs = foldl (watch_step p proj) (Map.empty, Map.empty) evs"

text \<open>
  A filter for changes: what it caches is what got through, and it drops an update only if the
  new version is the same as the old one and as the cached projection, as far as it cares.
\<close>

locale change_filter =
  fixes p :: "'p event_predicate" and proj :: "k8s_object \<Rightarrow> 'p" and same :: "'p \<Rightarrow> 'p \<Rightarrow> bool"
    and kind_ok :: "k8s_object \<Rightarrow> bool"
  assumes create_caches: "pred_Create p c (Some ob) = (pass, c') \<Longrightarrow>
      c' = (if pass then c(meta_name (obj_meta ob) \<mapsto> proj ob) else c)"
    and update_caches: "pred_Update p c (Some old) (Some new) = (pass, c') \<Longrightarrow>
      c' = (if pass then c(meta_name (obj_meta new) \<mapsto> proj new) else c)"
    and delete_uncaches: "pred_Delete p c (Some ob) = (pass, c') \<Longrightarrow>
      c' = (if pass then c(meta_name (obj_meta ob) := None) else c)"
    and generic_drops: "pred_Generic p c (Some ob) = (False, c)"
    and update_drops: "pred_Update p c (Some old) (Some new) = (False, c') \<Longrightarrow>
      kind_ok old \<Longrightarrow> kind_ok new \<Longrightarrow>
      same (proj old) (proj new) \<and>
      (\<exists>v. c (meta_name (obj_meta new)) = Some v \<and> same v (proj new))"
begin

text \<open>The cache only knows what got through.\<close>

lemma cache_from_passed:
  assumes "\<And>k v. fst s k = Some v \<Longrightarrow> snd s k = Some v"
  shows "fst (foldl (watch_step p proj) s evs) k = Some v \<Longrightarrow>
    snd (foldl (watch_step p proj) s evs) k = Some v"
  using assms
proof (induction evs arbitrary: s)
  case (Cons ev evs)
  obtain c passed where s: "s = (c, passed)" by fastforce
  have "snd (watch_step p proj s ev) k = Some v" if "fst (watch_step p proj s ev) k = Some v" for k v
    using that Cons.prems(2) unfolding s
    by (cases ev)
      (auto simp: Let_def generic_drops split: prod.splits if_splits
        dest!: create_caches update_caches delete_uncaches)
  then show ?case using Cons.IH [of "watch_step p proj s ev"] Cons.prems(1) by simp
qed auto

text \<open>A dropped update brings nothing new compared with the last event that got through.\<close>

lemma nothing_new_dropped:
  assumes "watch p proj evs = (c, passed)" "pred_Update p c (Some old) (Some new) = (False, c')"
    and "kind_ok old" "kind_ok new"
  shows "same (proj old) (proj new) \<and>
    (\<exists>v. passed (meta_name (obj_meta new)) = Some v \<and> same v (proj new))"
proof -
  have "c k = Some v \<Longrightarrow> passed k = Some v" for k v
    using cache_from_passed [of "(Map.empty, Map.empty)" evs k v] assms(1) by (simp add: watch_def)
  with update_drops [OF assms(2-)] show ?thesis by blast
qed

end

section \<open>Both filters keep the contract\<close>

text \<open>
  What a filter compares. The deletion timestamp and the ignore flag of a service count only if the
  new version \<open>v\<close> has load balancer IPs; timestamps are compared as pointers.
\<close>

definition svc_same :: "service_projection \<Rightarrow> service_projection \<Rightarrow> bool" where
  "svc_same u v \<longleftrightarrow> same_ips (sp_ips u) (sp_ips v) \<and>
     (sp_ips v = [] \<or> same_pointer (sp_deletion_timestamp u) (sp_deletion_timestamp v) \<and>
        sp_should_ignore u = sp_should_ignore v)"

definition node_same :: "node_projection \<Rightarrow> node_projection \<Rightarrow> bool" where
  "node_same u v \<longleftrightarrow> same_pointer (np_deletion_timestamp u) (np_deletion_timestamp v) \<and>
     np_not_ready_or_unreachable u = np_not_ready_or_unreachable v"

fun svc_proj :: "k8s_object \<Rightarrow> service_projection" where
  "svc_proj (Service svc) = svc_NewProjection svc"
| "svc_proj _ = \<lparr>sp_deletion_timestamp = None, sp_should_ignore = False, sp_ips = []\<rparr>"

fun node_proj :: "k8s_object \<Rightarrow> node_projection" where
  "node_proj (Node nd) = node_NewProjection nd"
| "node_proj _ = \<lparr>np_deletion_timestamp = None, np_not_ready_or_unreachable = False\<rparr>"

lemma svc_not_relevant:
  "\<not> svc_relevant old new cached \<Longrightarrow>
   svc_same (svc_NewProjection old) (svc_NewProjection new) \<and>
   (\<exists>v. cached = Some v \<and> svc_same v (svc_NewProjection new))"
  by (auto simp: svc_relevant_def svc_same_def svc_NewProjection_def same_ips_def same_pointer_def
      Let_def split: option.splits if_splits)

lemma node_not_relevant:
  "\<not> node_relevant old new cached \<Longrightarrow>
   node_same (node_NewProjection old) (node_NewProjection new) \<and>
   (\<exists>v. cached = Some v \<and> node_same v (node_NewProjection new))"
  by (auto simp: node_relevant_def node_same_def node_NewProjection_def same_pointer_def
      Let_def split: option.splits if_splits)

interpretation svc_filter: change_filter svc_NewPredicate svc_proj svc_same
  "\<lambda>ob. obj_kind ob = ServiceKind"
proof
  show "pred_Update svc_NewPredicate c (Some old) (Some new) = (False, c') \<Longrightarrow>
      obj_kind old = ServiceKind \<Longrightarrow> obj_kind new = ServiceKind \<Longrightarrow>
      svc_same (svc_proj old) (svc_proj new) \<and>
      (\<exists>v. c (meta_name (obj_meta new)) = Some v \<and> svc_same v (svc_proj new))" for c old new c'
    by (cases old; cases new)
      (auto simp: svc_NewPredicate_def svc_pred_Update_def Let_def dest: svc_not_relevant)
qed (auto simp: svc_NewPredicate_def svc_pred_Create_def svc_pred_Update_def svc_pred_Delete_def
    svc_pred_Generic_def     Let_def split: k8s_object.splits if_splits)

interpretation node_filter: change_filter node_NewPredicate node_proj node_same
  "\<lambda>ob. obj_kind ob = NodeKind"
proof
  show "pred_Update node_NewPredicate c (Some old) (Some new) = (False, c') \<Longrightarrow>
      obj_kind old = NodeKind \<Longrightarrow> obj_kind new = NodeKind \<Longrightarrow>
      node_same (node_proj old) (node_proj new) \<and>
      (\<exists>v. c (meta_name (obj_meta new)) = Some v \<and> node_same v (node_proj new))" for c old new c'
    by (cases old; cases new)
      (auto simp: node_NewPredicate_def node_pred_Update_def Let_def dest: node_not_relevant)
qed (auto simp: node_NewPredicate_def node_pred_Create_def node_pred_Update_def node_pred_Delete_def
    node_pred_Generic_def     Let_def split: k8s_object.splits if_splits)

end
