(* ===== verification/Predicate_Properties.thy ===== *)
theory Predicate_Properties
  imports Predicates Example_Env
begin

text \<open>
  The properties of the event filters.
\<close>

section \<open>What is dropped\<close>


text \<open>The same for nodes: a dropped update has the deletion timestamp and the readiness of
  the old version and of the last version that got through.\<close>

lemma node_filter_drops_nothing_new:
  assumes "watch node_NewPredicate node_proj evs = (c, passed)"
    and "node_pred_Update c (Some (Node old)) (Some (Node new)) = (False, c')"
  shows "node_same (node_NewProjection old) (node_NewProjection new) \<and>
    (\<exists>v. passed (meta_name (node_meta new)) = Some v \<and> node_same v (node_NewProjection new))"
  using node_filter.nothing_new_dropped [OF assms(1), of "Node old" "Node new" c'] assms(2)
  by (simp add: node_NewPredicate_def)

definition watched_service :: "string \<Rightarrow> string list \<Rightarrow> service" where
  "watched_service ns ips =
     \<lparr>svc_meta = empty_meta\<lparr>meta_name := ''svc'', meta_namespace := ns\<rparr>,
      svc_type = ServiceTypeLoadBalancer, svc_ingress = map (\<lambda>ip. \<lparr>ingress_ip = ip\<rparr>) ips\<rparr>"

definition one_service_watched :: "service_projection cache \<times> service_projection cache" where
  "one_service_watched = watch svc_NewPredicate svc_proj [Created (Service (watched_service ''a'' [''1.1.1.1'']))]"

text \<open>An unchanged version is dropped, and so is the deletion of a service without IPs.\<close>

definition deleted_service :: service where
  "deleted_service = (watched_service ''a'' [])\<lparr>svc_meta :=
     empty_meta\<lparr>meta_name := ''svc'', meta_namespace := ''a'', meta_deletion_timestamp := Some (TimePtr 1 0)\<rparr>\<rparr>"


section \<open>What gets through although nothing changed\<close>

text \<open>Deletion timestamps are compared as pointers, so every update of a service with load
  balancer IPs, or of a node, that is being deleted gets through, even if the old version has
  an equal timestamp, as two versions decoded separately do not share the pointer.\<close>

lemma deleting_objects_always_pass:
  assumes "meta_deletion_timestamp (svc_meta new) = Some (TimePtr p ts)"
    and "meta_deletion_timestamp (svc_meta old) = Some (TimePtr q ts)"
    and "meta_deletion_timestamp (node_meta nd') = Some (TimePtr p ts)"
    and "meta_deletion_timestamp (node_meta nd) = Some (TimePtr q ts)" "p \<noteq> q"
    and "getServiceLoadBalancerIPs new \<noteq> []"
  shows "fst (svc_pred_Update c (Some (Service old)) (Some (Service new))) \<and>
    fst (node_pred_Update c' (Some (Node nd)) (Some (Node nd')))"
  using assms by (auto simp: svc_pred_Update_def node_pred_Update_def svc_relevant_def
      node_relevant_def same_pointer_def Let_def split: option.split)

text \<open>The service cache is keyed by the name without the namespace, so services of the same
  name in different namespaces overwrite each other's entry: after one of them got through, an
  update that changes nothing of the other one gets through as well if their IPs differ.\<close>

lemma same_name_services_disturb_each_other:
  assumes "meta_name (svc_meta a) = meta_name (svc_meta b)"
    and "set (getServiceLoadBalancerIPs a) \<noteq> set (getServiceLoadBalancerIPs b)"
  shows "fst (svc_pred_Update (fst (watch svc_NewPredicate svc_proj
      (evs @ [Created (Service a), Created (Service b)]))) (Some (Service a)) (Some (Service a)))"
proof -
  obtain c passed where run: "foldl (watch_step svc_NewPredicate svc_proj) (Map.empty, Map.empty) evs =
      (c, passed)" by fastforce
  have "fst (watch svc_NewPredicate svc_proj (evs @ [Created (Service a), Created (Service b)])) =
      c(meta_name (svc_meta a) \<mapsto> svc_NewProjection b)"
    using assms(1) by (simp add: watch_def run svc_pred_Create_def)
  moreover have "svc_relevant a a (Some (svc_NewProjection b))"
    using assms(2) by (auto simp: svc_relevant_def svc_NewProjection_def same_ips_def Let_def)
  ultimately show ?thesis by (simp add: svc_pred_Update_def Let_def)
qed

section \<open>Owned objects\<close>

text \<open>The predicate for owned objects lets an object through on creation or update exactly
  if it names an owner and the owner does not exist, or carries the finalizer and is being
  deleted while the object is not; on deletion exactly if the owner exists, carries the
  finalizer and is not being deleted. An owner that cannot be read lets nothing through.\<close>

definition owner_of :: "env \<Rightarrow> trace \<Rightarrow> owned_object_predicate \<Rightarrow> k8s_object \<Rightarrow> goerr + k8s_object" where
  "owner_of e t p ob = kGet e t (oo_owner_kind p) (oo_owner_mapper p ob)"

lemma owned_object_predicate_spec:
  "fst (owned_Update p old (Some ob) e t) = fst (owned_Create p (Some ob) e t) \<and>
   fst (owned_Create p (Some ob) e t) = Returned (
     key_name (oo_owner_mapper p ob) \<noteq> '''' \<and>
     (case owner_of e t p ob of
        Inl err \<Rightarrow> isNotFound e err
      | Inr owner \<Rightarrow> containsFinalizer e owner (oo_finalizer p) \<and>
          meta_deletion_timestamp (obj_meta ob) = None \<and>
          meta_deletion_timestamp (obj_meta owner) \<noteq> None)) \<and>
   fst (owned_Delete p (Some ob) e t) = Returned (
     key_name (oo_owner_mapper p ob) \<noteq> '''' \<and>
     (case owner_of e t p ob of
        Inl err \<Rightarrow> False
      | Inr owner \<Rightarrow> containsFinalizer e owner (oo_finalizer p) \<and>
          meta_deletion_timestamp (obj_meta owner) = None))"
  by (auto simp: owned_Update_def owned_Create_def owned_Delete_def handleCreateOrUpdateEvent_def
      handleDeleteEvent_def getOwner_def client_Get_def owner_of_def run_simps Let_def
      split: sum.split)

end
