(* ===== verification/Orphan_Cleaner.thy ===== *)
theory Orphan_Cleaner
  imports Azure_Pip_Utils
begin

text \<open>
  The stand-alone remedy for orphaned public IPs (\<open>pkg/remedies/azure/pubip.go\<close>), run by the
  \<open>remedy-applier-azure\<close> command: it compares the public IPs in Azure with the IPs of the load
  balancer services once a day and removes those that nobody uses.
\<close>

section \<open>The operations\<close>

definition list_services :: "(goerr + service list) io" where
  "list_services = ecall kListServices KListServices"

definition service_ips :: "service \<Rightarrow> string list" where
  "service_ips svc =
     (if svc_type svc = ServiceTypeLoadBalancer then map ingress_ip (svc_ingress svc) else [])"

definition getKnownK8sIps :: "(goerr + string list) io" where
  "getKnownK8sIps =
     seq list_services (\<lambda>r.
     case r of
       Inl err \<Rightarrow> ret (Inl (Wrap ''could not list Kubernetes services'' err))
     | Inr services \<Rightarrow> ret (Inr (concat (map service_ips services))))"

text \<open>\<open>None\<close>: a public IP without a name, whose name is dereferenced.\<close>

fun separateOrphanAndKnownIps ::
  "string list \<Rightarrow> az_public_ip list \<Rightarrow> string \<Rightarrow> (az_public_ip list \<times> az_public_ip list) option" where
  "separateOrphanAndKnownIps k8sIps [] shootName = Some ([], [])"
| "separateOrphanAndKnownIps k8sIps (azip # azIps) shootName =
     (case az_ip_name azip of
        None \<Rightarrow> None
      | Some name \<Rightarrow>
          (case separateOrphanAndKnownIps k8sIps azIps shootName of
             None \<Rightarrow> None
           | Some (orphanIps, knownIps) \<Rightarrow>
               if \<not> str_contains name shootName then Some (orphanIps, knownIps)
               else (case az_ip_address azip of
                  None \<Rightarrow> Some (azip # orphanIps, knownIps)
                | Some ip \<Rightarrow>
                    if list_ex (\<lambda>k8sip. ip = k8sip) k8sIps then Some (orphanIps, azip # knownIps)
                    else Some (azip # orphanIps, knownIps))))"

fun collect_ids :: "az_public_ip list \<Rightarrow> string list io" where
  "collect_ids [] = ret []"
| "collect_ids (ip # ips) =
     seq (deref (az_ip_id ip)) (\<lambda>i. seq (collect_ids ips) (\<lambda>is. ret (i # is)))"

definition delete_orphan :: "pip_utils \<Rightarrow> az_public_ip \<Rightarrow> goerr option io" where
  "delete_orphan u ip =
     seq (deref (az_ip_name ip)) (\<lambda>name.
     seq (DeletePip u name) (\<lambda>r.
     ret (map_option (Wrap ''could not delete orphan public IP'') r)))"

text \<open>The part of \<open>clean\<close> from the orphans on.\<close>

definition remove_orphans :: "pip_utils \<Rightarrow> az_public_ip list \<Rightarrow> goerr option io" where
  "remove_orphans u orphanIps =
     seq (collect_ids orphanIps) (\<lambda>orphanIpIds.
     seq (RemoveFromLoadBalancer u orphanIpIds) (\<lambda>r.
     case r of
       Some err \<Rightarrow>
         ret (Some (Wrap ''could not remove orphan public IPs from the load balancer'' err))
     | None \<Rightarrow> for_each orphanIps (delete_orphan u)))"

definition clean :: "pip_utils \<Rightarrow> string \<Rightarrow> goerr option io" where
  "clean u shootName =
     seq getKnownK8sIps (\<lambda>r.
     case r of
       Inl err \<Rightarrow> ret (Some err)
     | Inr k8sIps \<Rightarrow>
         seq (GetAll u) (\<lambda>r.
         case r of
           Inl err \<Rightarrow> ret (Some (Wrap ''could not get Azure public IPs'' err))
         | Inr azureIps \<Rightarrow>
             (case separateOrphanAndKnownIps k8sIps azureIps shootName of
                None \<Rightarrow> panic ''nil pointer dereference''
              | Some (orphanIps, knownIps) \<Rightarrow> remove_orphans u orphanIps)))"

text \<open>\<open>retry\<close> counts up from 0; \<open>time.Duration\<close> sums wrap around.\<close>

fun fib :: "nat \<Rightarrow> duration" where
  "fib n = (if n \<le> 1 then second * of_nat n else fib (n - 1) + fib (n - 2))"

declare fib.simps [simp del]

definition backoff :: "nat \<Rightarrow> duration" where
  "backoff retry =
     (let b = fib retry in if go_less (5 * minute) b then 5 * minute else b)"

text \<open>
  The endless loop; \<open>fuel\<close> bounds the iterations. The context is only looked at while waiting
  for the next day: \<open>ctxDone\<close> says whether it is done before the day is over.
\<close>

fun CleanPublicIps :: "nat \<Rightarrow> pip_utils \<Rightarrow> string \<Rightarrow> nat \<Rightarrow> unit io" where
  "CleanPublicIps 0 u shootName retry = out_of_fuel"
| "CleanPublicIps (Suc fuel) u shootName retry =
     seq (clean u shootName) (\<lambda>r.
     case r of
       Some err \<Rightarrow>
         seq (emit (Sleep (backoff retry))) (\<lambda>_. CleanPublicIps fuel u shootName (Suc retry))
     | None \<Rightarrow>
         seq (ask_at ctxDone) (\<lambda>done.
         if done then ret ()
         else seq (emit (Sleep (24 * hour))) (\<lambda>_. CleanPublicIps fuel u shootName 0)))"

section \<open>Separation\<close>

definition orphan :: "string list \<Rightarrow> az_public_ip \<Rightarrow> bool" where
  "orphan k8sIps azip \<longleftrightarrow> (case az_ip_address azip of None \<Rightarrow> True | Some ip \<Rightarrow> ip \<notin> set k8sIps)"

definition belongs_to :: "string \<Rightarrow> az_public_ip \<Rightarrow> bool" where
  "belongs_to shootName azip \<longleftrightarrow>
     (case az_ip_name azip of None \<Rightarrow> False | Some name \<Rightarrow> str_contains name shootName)"

lemma separate_eq:
  "separateOrphanAndKnownIps ks ips shoot =
     (if list_all (\<lambda>ip. az_ip_name ip \<noteq> None) ips
      then Some (filter (\<lambda>ip. belongs_to shoot ip \<and> orphan ks ip) ips,
                 filter (\<lambda>ip. belongs_to shoot ip \<and> \<not> orphan ks ip) ips)
      else None)"
  by (induction ips)
    (auto simp: belongs_to_def orphan_def list_ex_iff split: option.splits)

lemma collect_ids_run:
  "collect_ids ips =
     (if list_all (\<lambda>ip. az_ip_id ip \<noteq> None) ips then ret (map (\<lambda>ip. the (az_ip_id ip)) ips)
      else panic ''nil pointer dereference'')"
  by (induction ips) (auto simp: deref_def split: option.split)

text \<open>A whole run, by what its three steps return.\<close>

lemma clean_run:
  "clean u shoot e t =
     (case kListServices e t of
        Inl err \<Rightarrow> (Returned (Some (Wrap ''could not list Kubernetes services'' err)),
          t @ [KListServices (Inl err)])
      | Inr svcs \<Rightarrow>
          (case GetAll u e (t @ [KListServices (Inr svcs)]) of
             (Returned (Inr azips), t2) \<Rightarrow>
               (case separateOrphanAndKnownIps (concat (map service_ips svcs)) azips shoot of
                  None \<Rightarrow> (Panicked ''nil pointer dereference'', t2)
                | Some (orphanIps, knownIps) \<Rightarrow> remove_orphans u orphanIps e t2)
           | (Returned (Inl err), t2) \<Rightarrow>
               (Returned (Some (Wrap ''could not get Azure public IPs'' err)), t2)
           | (Panicked msg, t2) \<Rightarrow> (Panicked msg, t2)
           | (OutOfFuel, t2) \<Rightarrow> (OutOfFuel, t2)))"
  by (auto simp: clean_def getKnownK8sIps_def list_services_def run_simps seq_def
      split: sum.split prod.split outcome.split option.split)

section \<open>The waiting time\<close>

fun nfib :: "nat \<Rightarrow> nat" where
  "nfib n = (if n \<le> 1 then n else nfib (n - 1) + nfib (n - 2))"

declare nfib.simps [simp del]

lemma fib_nfib: "fib n = second * of_nat (nfib n)"
proof (induction n rule: nfib.induct)
  case (1 n)
  then show ?case by (simp add: fib.simps [of n] nfib.simps [of n] algebra_simps)
qed

lemma nfib_step: "nfib (Suc (Suc n)) = nfib (Suc n) + nfib n"
  by (simp add: nfib.simps [of "Suc (Suc n)"])

lemma nfib_mono_Suc: "nfib n \<le> nfib (Suc n)"
  by (cases n) (auto simp: nfib_step nfib.simps [of 0] nfib.simps [of "Suc 0"])

lemma nfib_mono: "m \<le> n \<Longrightarrow> nfib m \<le> nfib n"
  by (rule lift_Suc_mono_le [of nfib, OF nfib_mono_Suc])

text \<open>A linear way to compute it.\<close>

fun fib_pair :: "nat \<Rightarrow> int \<times> int" where
  "fib_pair 0 = (0, 1)"
| "fib_pair (Suc n) = (let (a, b) = fib_pair n in (b, a + b))"

lemma fib_pair_eq: "fib_pair n = (int (nfib n), int (nfib (Suc n)))"
  by (induction n) (auto simp: nfib_step nfib.simps [of 0] nfib.simps [of "Suc 0"] Let_def)

lemma nfib_49: "nfib 49 = 7778742049" and nfib_50: "nfib 50 = 12586269025"
proof -
  have "fib_pair 49 = (7778742049, 12586269025)" by code_simp
  then show "nfib 49 = 7778742049" "nfib 50 = 12586269025" by (simp_all add: fib_pair_eq)
qed

lemma sint_fib: "n \<le> 49 \<Longrightarrow> sint (fib n) = 1000000000 * int (nfib n)"
proof -
  assume "n \<le> 49"
  then have "nfib n \<le> 7778742049" using nfib_mono [of n 49] nfib_49 by simp
  then have "1000000000 * int (nfib n) < 2 ^ 63" by simp
  then show ?thesis
    using sint_of_int_small [of "1000000000 * int (nfib n)"] by (simp add: fib_nfib)
qed

end
