(* ===== verification/Orphan_Properties.thy ===== *)
theory Orphan_Properties
  imports Orphan_Cleaner Example_Env
begin

text \<open>
  The properties of the stand-alone remedy for orphaned public IPs.
\<close>

section \<open>Guards\<close>

text \<open>The load balancer IPs the Kubernetes API answered with.\<close>

fun event_known :: "event \<Rightarrow> string list" where
  "event_known (KListServices (Inr services)) = concat (map service_ips services)"
| "event_known _ = []"

definition known_ips :: "trace \<Rightarrow> string list" where
  "known_ips es = concat (map event_known es)"

lemma known_ips_simps [simp]:
  "known_ips [] = []"
  "known_ips (ev # es) = event_known ev @ known_ips es"
  "known_ips (xs @ ys) = known_ips xs @ known_ips ys"
  by (simp_all add: known_ips_def)

text \<open>An address of the shoot that Azure answered with and no load balancer service uses.\<close>

definition seen_orphan :: "string \<Rightarrow> trace \<Rightarrow> az_public_ip \<Rightarrow> bool" where
  "seen_orphan shoot pre z \<longleftrightarrow>
     z \<in> set (seen_ips pre) \<and> belongs_to shoot z \<and> orphan (known_ips pre) z"

fun clean_guard :: "string \<Rightarrow> trace \<Rightarrow> event \<Rightarrow> bool" where
  "clean_guard shoot pre (AzPipDelete _ name _) =
     (\<exists>z ids. seen_orphan shoot pre z \<and> az_ip_name z = Some name \<and>
        (\<exists>i. az_ip_id z = Some i \<and> i \<in> set ids) \<and> list_ex (detaches ids) pre)"
| "clean_guard shoot pre (AzLbUpdate _ _ lb _) =
     (\<exists>ids. detached ids lb \<and> (\<forall>i \<in> set ids. \<exists>z. seen_orphan shoot pre z \<and> az_ip_id z = Some i))"
| "clean_guard shoot pre (AzVmReapply _ _ _) = False"
| "clean_guard shoot pre _ = True"

lemma lookup_known: "list_all lookup_event es \<Longrightarrow> known_ips es = []"
proof (induction es)
  case (Cons ev es)
  then show ?case by (cases ev) auto
qed simp

lemma lookup_guard: "lookup_event ev \<Longrightarrow> clean_guard shoot pre ev"
  by (cases ev) auto

text \<open>Events that leave what is known and seen as it is.\<close>

fun neutral :: "event \<Rightarrow> bool" where
  "neutral (KListServices _) = False"
| "neutral _ = True"

lemma neutral_known: "list_all neutral es \<Longrightarrow> known_ips es = []"
proof (induction es)
  case (Cons ev es)
  then show ?case by (cases ev) auto
qed simp

lemma seen_orphan_append:
  "seen_orphan shoot pre z \<Longrightarrow> list_all neutral es \<Longrightarrow> seen_orphan shoot (pre @ es) z"
  by (simp add: seen_orphan_def neutral_known)

lemma lb_neutral: "list_all (lb_event ids) es \<Longrightarrow> list_all neutral es"
proof (erule list.pred_mono_strong)
  show "lb_event ids ev \<Longrightarrow> neutral ev" for ev by (cases ev) auto
qed

lemma del_neutral: "list_all (pip_delete_event n) es \<Longrightarrow> list_all neutral es"
proof (erule list.pred_mono_strong)
  show "pip_delete_event n ev \<Longrightarrow> neutral ev" for ev by (cases ev) auto
qed

lemma seen_orphan_prefix:
  "seen_orphan shoot xs z \<Longrightarrow> list_all neutral es \<Longrightarrow> i \<le> length es \<Longrightarrow>
   seen_orphan shoot (xs @ take i es) z"
  by (rule seen_orphan_append) (auto simp: list_all_iff dest: in_set_takeD)

lemma lb_clean_guarded:
  assumes "list_all (lb_event ids) es"
    and "\<And>i. i \<in> set ids \<Longrightarrow> \<exists>z. seen_orphan shoot xs z \<and> az_ip_id z = Some i"
  shows "guarded (\<lambda>pre. clean_guard shoot (xs @ pre)) es"
  unfolding guarded_def
proof (intro allI impI)
  fix i assume i: "i < length es"
  then have "lb_event ids (es ! i)" using assms(1) by (simp add: list_all_length)
  moreover have "\<exists>z. seen_orphan shoot (xs @ take i es) z \<and> az_ip_id z = Some j" if "j \<in> set ids" for j
    using assms(2) [OF that] seen_orphan_prefix [OF _ lb_neutral [OF assms(1)], of shoot xs _ i] i
    by fastforce
  ultimately show "clean_guard shoot (xs @ take i es) (es ! i)"
    by (cases "es ! i") auto
qed

lemma del_clean_guarded:
  assumes "list_all (pip_delete_event name) es" "seen_orphan shoot xs z" "az_ip_name z = Some name"
    and "az_ip_id z = Some i" "i \<in> set ids" "list_ex (detaches ids) xs"
  shows "guarded (\<lambda>pre. clean_guard shoot (xs @ pre)) es"
  unfolding guarded_def
proof (intro allI impI)
  fix j assume j: "j < length es"
  then have "pip_delete_event name (es ! j)" using assms(1) by (simp add: list_all_length)
  moreover have "seen_orphan shoot (xs @ take j es) z"
    using assms(2) seen_orphan_prefix [OF _ del_neutral [OF assms(1)]] j by simp
  moreover have "list_ex (detaches ids) (xs @ take j es)" using assms(6) by simp
  ultimately show "clean_guard shoot (xs @ take j es) (es ! j)"
    using assms(3-5) by (cases "es ! j") auto
qed

section \<open>One cleaning\<close>

definition delete_called :: "az_public_ip \<Rightarrow> trace \<Rightarrow> bool" where
  "delete_called z es \<longleftrightarrow> (\<exists>rg name err. az_ip_name z = Some name \<and> AzPipDelete rg name err \<in> set es)"

fun lb_writing :: "event \<Rightarrow> bool" where
  "lb_writing (AzLbUpdate _ _ _ None) = True"
| "lb_writing _ = False"

lemma detaches_write: "detaches ids ev \<Longrightarrow> lb_writing ev"
  by (erule detaches.elims) simp_all

lemma detaches_written: "list_ex (detaches ids) es \<Longrightarrow> list_ex lb_writing es"
  by (auto simp: list_ex_iff dest: detaches_write)

definition cleaning :: "string \<Rightarrow> az_public_ip list \<Rightarrow> trace \<Rightarrow> bool" where
  "cleaning shoot orphans pre \<longleftrightarrow> guarded (clean_guard shoot) pre \<and>
     (\<forall>z \<in> set orphans. seen_orphan shoot pre z) \<and>
     list_ex (detaches (map (\<lambda>ip. the (az_ip_id ip)) orphans)) pre"

lemma cleaning_start: "cleaning shoot orphans pre \<Longrightarrow> guarded (clean_guard shoot) pre"
  by (simp add: cleaning_def)

context pip_utils_contract
begin

lemma delete_orphan_spec:
  assumes "z \<in> set orphans" "list_all (\<lambda>ip. az_ip_id ip \<noteq> None) orphans"
    and "cleaning shoot orphans pre"
  shows "yields e (delete_orphan u z) (\<lambda>r es. cleaning shoot orphans (pre @ es) \<and>
    (r = Returned None \<longrightarrow> delete_called z es) \<and> r \<noteq> OutOfFuel)"
proof (cases "az_ip_name z")
  case None
  then show ?thesis using assms(3) by (simp add: delete_orphan_def yields_panic)
next
  case (Some name)
  have z: "seen_orphan shoot pre z" "az_ip_id z = Some (the (az_ip_id z))"
    "the (az_ip_id z) \<in> set (map (\<lambda>ip. the (az_ip_id ip)) orphans)"
    using assms(1-3) by (auto simp: cleaning_def list_all_iff)
  have keep: "cleaning shoot orphans (pre @ es)" if "list_all (pip_delete_event name) es" for es
    using assms(3) del_clean_guarded [OF that z(1) Some z(2,3)] seen_orphan_append del_neutral [OF that]
    by (auto simp: cleaning_def)
  have called: "delete_called z es" if "list_all (pip_delete_event name) es" "list_ex is_pip_delete es" for es
    using that Some
    by (fastforce simp: delete_called_def list_ex_iff list_all_iff elim!: is_pip_delete.elims)
  show ?thesis
    unfolding delete_orphan_def Some deref_simps seq_ret
    by (rule yields_seq [OF yields_conj [OF staysD [OF delete_only [of name]]
          yields_conj [OF delete_calls [of _ name] delete_ends [of _ name]]]])
      (use keep called in \<open>auto intro!: yields_ret\<close>)
qed

end

text \<open>The first step: what the load balancer services use.\<close>

lemma getKnown_spec:
  "yields e getKnownK8sIps (\<lambda>r es. guarded (clean_guard shoot) es \<and> occurrences write_request es = 0 \<and>
     (\<forall>ks. r = Returned (Inr ks) \<longrightarrow> known_ips es = ks) \<and> r \<noteq> OutOfFuel)"
  unfolding getKnownK8sIps_def list_services_def
  by (auto intro!: yields_intros split: sum.split)

lemma separated:
  "separateOrphanAndKnownIps ks azips shoot = Some (orphans, known) \<Longrightarrow>
   orphans = filter (\<lambda>ip. belongs_to shoot ip \<and> orphan ks ip) azips"
  by (auto simp: separate_eq split: if_splits)

context pip_utils_contract
begin

text \<open>The last steps: from the orphans on.\<close>

lemma remove_orphans_spec:
  assumes "guarded (clean_guard shoot) pre" "\<forall>z \<in> set orphans. seen_orphan shoot pre z"
  shows "yields e (remove_orphans u orphans)
    (\<lambda>r es. guarded (clean_guard shoot) (pre @ es) \<and>
       (r = Returned None \<longrightarrow> (\<forall>z \<in> set orphans. delete_called z es) \<and> list_ex lb_writing es) \<and> r \<noteq> OutOfFuel)"
proof (cases "list_all (\<lambda>ip. az_ip_id ip \<noteq> None) orphans")
  case ids: True
  let ?ids = "map (\<lambda>ip. the (az_ip_id ip)) orphans"
  have owned: "\<exists>z. seen_orphan shoot pre z \<and> az_ip_id z = Some i" if "i \<in> set ?ids" for i
    using that assms(2) ids by (auto simp: list_all_iff)
  have lbg: "guarded (\<lambda>pre'. clean_guard shoot (pre @ pre')) es" if "list_all (lb_event ?ids) es" for es
    by (rule lb_clean_guarded [OF that owned])
  note removal = yields_conj [OF staysD [OF remove_only [of ?ids]]
      yields_conj [OF remove_ok [of _ ?ids] remove_ends [of _ ?ids]]]
  have "yields e (seq (RemoveFromLoadBalancer u ?ids) (\<lambda>r. case r of
        Some err \<Rightarrow> ret (Some (Wrap ''could not remove orphan public IPs from the load balancer'' err))
      | None \<Rightarrow> for_each orphans (delete_orphan u)))
    (\<lambda>r es. guarded (clean_guard shoot) (pre @ es) \<and>
       (r = Returned None \<longrightarrow> (\<forall>z \<in> set orphans. delete_called z es) \<and> list_ex lb_writing es) \<and> r \<noteq> OutOfFuel)"
  proof (rule yields_seq [OF removal], goal_cases)
    case (1 r es)
    have g: "guarded (clean_guard shoot) (pre @ es)"
      using assms(1) lbg [of es] 1 by auto
    show ?case
    proof (cases r)
      case None
      have "cleaning shoot orphans (pre @ es)"
        using g 1 None assms(2) seen_orphan_append lb_neutral by (auto simp: cleaning_def)
      then have "yields e (for_each orphans (delete_orphan u)) (\<lambda>r es'.
          cleaning shoot orphans ((pre @ es) @ es') \<and>
          (r = Returned None \<longrightarrow> (\<forall>z \<in> set orphans. delete_called z es')) \<and> r \<noteq> OutOfFuel)"
        by (intro yields_for_each)
          (rule delete_orphan_spec [OF _ ids], assumption+, auto simp: delete_called_def)
      then show ?thesis
        unfolding None option.case
        by (rule yields_mono)
          (use 1 None detaches_written in \<open>fastforce simp: delete_called_def dest: cleaning_start\<close>)
    qed (use g in \<open>auto intro!: yields_ret\<close>)
  qed (use assms(1) lbg in auto)
  then show ?thesis using ids by (simp add: remove_orphans_def collect_ids_run)
next
  case False
  then have "collect_ids orphans = panic ''nil pointer dereference''" by (simp only: collect_ids_run if_False)
  then show ?thesis using assms(1) by (simp add: remove_orphans_def yields_panic)
qed

text \<open>
  One cleaning deletes an address only if Azure listed it in that cleaning, its name contains
  the shoot's name, it has no IP or an IP that no load balancer service listed in that cleaning
  uses, and an accepted update of the load balancer took it off before; the load balancer is only
  rewritten to take such addresses off.
\<close>

lemma clean_spec:
  "yields e (clean u shoot) (\<lambda>r es. guarded (clean_guard shoot) es)"
  unfolding clean_def
proof (rule yields_seq [OF getKnown_spec [of _ shoot]], goal_cases)
  case known: (1 r es)
  have look: "guarded (clean_guard shoot) (es @ es')" if "list_all lookup_event es'" for es'
    using known guarded_all [OF that, of "\<lambda>pre. clean_guard shoot (es @ pre)"]
    by (auto intro: lookup_guard)
  show ?case
  proof (cases r)
    case ks: (Inr ks)
    note all = yields_conj [OF staysD [OF all_reads] all_seen]
    show ?thesis
      unfolding ks sum.case
    proof (rule yields_seq [OF all], goal_cases)
      case (1 r es')
      then have g: "guarded (clean_guard shoot) (es @ es')" using look by blast
      show ?case
      proof (cases r)
        case azips: (Inr azips)
        show ?thesis
        proof (cases "separateOrphanAndKnownIps ks azips shoot")
          case (Some sep)
          obtain orphans kn where sep: "sep = (orphans, kn)" by fastforce
          have "known_ips (es @ es') = ks" "set azips \<subseteq> set (seen_ips (es @ es'))"
            using known ks 1 azips by (auto simp: lookup_known)
          then have "\<forall>z \<in> set orphans. seen_orphan shoot (es @ es') z"
            unfolding separated [OF Some [unfolded sep]] seen_orphan_def by auto
          from remove_orphans_spec [OF g this] show ?thesis
            unfolding azips sum.case Some option.case sep prod.case
            by (rule yields_mono) simp
        qed (use g azips in \<open>auto intro!: yields_panic\<close>)
      qed (use g in \<open>auto intro!: yields_ret\<close>)
    qed (use look in auto)
  qed (use known in \<open>auto intro!: yields_ret\<close>)
qed auto

end

section \<open>Properties\<close>

text \<open>C37: Waiting after failures: for the first 50 failures in a row the wait is the Fibonacci
  number of seconds, capped at five minutes and never negative.\<close>

theorem backoff_bounded:
  assumes "n \<le> 49"
  shows "sint (backoff n) = min (300 * 1000000000) (1000000000 * int (nfib n))"
proof -
  have "sint (5 * minute) = 300 * 1000000000" by simp
  then show ?thesis
    using sint_fib [OF assms] by (auto simp: backoff_def go_less_def Let_def min_def)
qed

theorem backoff_bounded_witness: "sint (backoff 14) = 300 * 1000000000"
proof -
  have "nfib 14 = 377"
  proof -
    have "fib_pair 14 = (377, 610)" by code_simp
    then show ?thesis by (simp add: fib_pair_eq)
  qed
  then show ?thesis using backoff_bounded [of 14] by simp
qed

text \<open>After the 51st failure in a row the wait is negative: the sum wraps around, the
  comparison with the cap fails, and \<open>time.Sleep\<close> of a negative duration returns at once.\<close>

lemma backoff_wraps_negative: "sint (backoff 50) < 0"
  by (simp add: backoff_def fib_nfib nfib_50 go_less_def Let_def)

text \<open>C36: A cancelled context does not stop the remedy while it fails: as long as every cleaning
  fails (as it does once the context it uses is cancelled), no number of iterations is enough
  for the loop to return, whatever the context says.\<close>

theorem cancelled_loop_never_returns:
  assumes "\<And>t. \<exists>err t'. clean u shoot e t = (Returned (Some err), t')"
  shows "fst (CleanPublicIps fuel u shoot retry e t) = OutOfFuel"
proof (induction fuel arbitrary: retry t)
  case 0
  then show ?case by (simp add: run_simps)
next
  case (Suc fuel)
  obtain err t' where "clean u shoot e t = (Returned (Some err), t')" using assms by blast
  then show ?case using Suc by (simp add: seq_run_Returned run_simps)
qed

definition cancelled_env :: env where
  "cancelled_env = example_env\<lparr>ctxDone := (\<lambda>t. True),
     kListServices := (\<lambda>t. Inl (ExternalError ''context canceled''))\<rparr>"

theorem cancelled_loop_never_returns_witness:
  "fst (CleanPublicIps 1000 (NewPublicIPAddressUtils ''shoot'') ''shoot'' 0 cancelled_env []) = OutOfFuel"
  by (rule cancelled_loop_never_returns)
    (simp add: clean_def getKnownK8sIps_def list_services_def cancelled_env_def run_simps)

text \<open>When a cleaning succeeds, every orphan among the addresses Azure listed was asked to be
  deleted; and the load balancer is written even if there is no orphan.\<close>

lemma cleaning_is_complete:
  assumes "clean (NewPublicIPAddressUtils rg) shoot e t = (Returned None, t')"
  shows "\<exists>svcs azips t2 es. kListServices e t = Inr svcs \<and>
    GetAll_impl rg e (t @ [KListServices (Inr svcs)]) = (Returned (Inr azips), t2) \<and> t' = t @ es \<and>
    (\<forall>z \<in> set azips. belongs_to shoot z \<and> orphan (concat (map service_ips svcs)) z \<longrightarrow>
       delete_called z es) \<and> list_ex lb_writing es"
proof -
  obtain svcs where svcs: "kListServices e t = Inr svcs"
    using assms by (cases "kListServices e t") (auto simp: clean_run)
  let ?ks = "concat (map service_ips svcs)" and ?t1 = "t @ [KListServices (Inr svcs)]"
  obtain azips t2 where all: "GetAll_impl rg e ?t1 = (Returned (Inr azips), t2)"
    using assms by (cases "GetAll_impl rg e ?t1")
      (auto simp: clean_run svcs split: outcome.splits sum.splits)
  from yields_run [OF yields_conj [OF staysD [OF stays_GetAll] GetAll_seen] all]
  obtain es2 where es2: "t2 = ?t1 @ es2" "list_all lookup_event es2" "set azips \<subseteq> set (seen_ips es2)"
    by auto
  obtain orphans kn where sep: "separateOrphanAndKnownIps ?ks azips shoot = Some (orphans, kn)"
    using assms by (cases "separateOrphanAndKnownIps ?ks azips shoot") (auto simp: clean_run svcs all)
  have rest: "remove_orphans (NewPublicIPAddressUtils rg) orphans e t2 = (Returned None, t')"
    using assms by (simp add: clean_run svcs all sep)
  let ?pre = "KListServices (Inr svcs) # es2"
  have "guarded (clean_guard shoot) ?pre"
    using guarded_all [OF es2(2), of "\<lambda>pre. clean_guard shoot (KListServices (Inr svcs) # pre)"]
    by (auto intro: lookup_guard)
  moreover have "\<forall>z \<in> set orphans. seen_orphan shoot ?pre z"
    using es2(2,3) by (auto simp: separated [OF sep] seen_orphan_def lookup_known)
  ultimately obtain es3 where es3: "t' = t2 @ es3" "\<forall>z \<in> set orphans. delete_called z es3"
      "list_ex lb_writing es3"
    using yields_run [OF azure_pips.remove_orphans_spec rest] by blast
  have "delete_called z (KListServices (Inr svcs) # es2 @ es3)"
    if "z \<in> set azips" "belongs_to shoot z \<and> orphan ?ks z" for z
  proof -
    have "delete_called z es3" using es3(2) that by (simp add: separated [OF sep])
    then show ?thesis unfolding delete_called_def by auto
  qed
  with svcs all es2(1) es3(1,3) show ?thesis
    by (intro exI [of _ svcs] exI [of _ azips] exI [of _ t2]
        exI [of _ "KListServices (Inr svcs) # es2 @ es3"]) auto
qed

text \<open>One address the shoot uses, one it does not, one of another shoot.\<close>

definition three_ips_env :: env where
  "three_ips_env = example_env\<lparr>
     kListServices := (\<lambda>t. Inr [\<lparr>svc_meta = empty_meta, svc_type = ServiceTypeLoadBalancer,
       svc_ingress = [\<lparr>ingress_ip = ''1.1.1.1''\<rparr>]\<rparr>]),
     azPipList := (\<lambda>t rg. Inr \<lparr>page_not_done = True, page_values = map (\<lambda>(n, ip).
       \<lparr>az_ip_id = Some n, az_ip_name = Some n, az_ip_address = Some ip,
        az_ip_provisioning_state = Some Succeeded, az_ip_tags = Map.empty\<rparr>)
       [(''shoot-a'', ''1.1.1.1''), (''shoot-b'', ''2.2.2.2''), (''other'', ''3.3.3.3'')]\<rparr>)\<rparr>"

end
