(* ===== verification/Utils_Properties.thy ===== *)
theory Utils_Properties
  imports Azure_Vm_Utils Object_Labeler Failed_Operations Example_Env
begin

text \<open>
  The properties of the shared parts: the load balancer rewriting and the listings of the
  Azure utilities, the record of failed operations with its backoff, and the labels that tie
  custom resources to their owners.
\<close>

section \<open>Load balancer\<close>

text \<open>C24: When the load balancer can be read, \<open>RemoveFromLoadBalancer\<close> writes it back
  exactly once, with these changes and no others: the frontend configurations of the given
  public IPs are gone, the rules that point to one of those frontends are gone, and every
  probe, of the given public IPs or not, is repeated once for each of its rules that is left -
  so a probe with several such rules is duplicated and a probe with none is dropped, although the
  doc comment of the function speaks of the probes of the given IPs only. Everything else is as
  it was read.\<close>

theorem remove_from_load_balancer_effect:
  assumes "azLbGet e (t @ [CounterInc ReadRequests]) rg rg = Inr lb"
  shows "\<exists>err rest. snd (RemoveFromLoadBalancer_impl rg ids e t) =
     t @ [CounterInc ReadRequests, AzLbGet rg rg (Inr lb), CounterInc WriteRequests,
          AzLbUpdate rg rg
            (lb\<lparr>lb_frontend_ip_configurations :=
                  map_option (filter (\<lambda>fc. \<not> fc_uses ids fc)) (lb_frontend_ip_configurations lb),
                lb_rules :=
                  map_option (filter (\<lambda>r. \<not> rule_uses (removed_fc_ids ids lb) r)) (lb_rules lb),
                lb_probes := map_option
                  (\<lambda>ps. concat (map (\<lambda>p. replicate (surviving_rules (removed_rule_ids ids lb) p) p) ps))
                  (lb_probes lb)\<rparr>) err] @ rest \<and>
     occurrences write_request rest = 0"
  unfolding RemoveFromLoadBalancer_detach detach_public_ips_eq pip_client_defs
  using assms by (auto simp: run_simps split: option.split)

text \<open>A load balancer with two frontends; the first serves the public IP to take off.\<close>

definition example_fc :: "string \<Rightarrow> string \<Rightarrow> frontend_ip_configuration" where
  "example_fc name ip_id = \<lparr>fc_id = Some name, fc_public_ip = Some \<lparr>az_ip_id = Some ip_id,
     az_ip_name = None, az_ip_address = None, az_ip_provisioning_state = None,
     az_ip_tags = Map.empty\<rparr>, fc_rest = ''''\<rparr>"

definition example_rule :: "string \<Rightarrow> string \<Rightarrow> load_balancing_rule" where
  "example_rule name fc =
     \<lparr>lr_id = Some name, lr_frontend = Some \<lparr>sr_id = Some fc\<rparr>, lr_rest = ''''\<rparr>"

definition example_lb :: load_balancer where
  "example_lb = \<lparr>
     lb_frontend_ip_configurations = Some [example_fc ''fc-1'' ''/ip-1'', example_fc ''fc-2'' ''/ip-2''],
     lb_rules = Some [example_rule ''r-1'' ''fc-1'', example_rule ''r-2'' ''fc-2'',
       example_rule ''r-3'' ''fc-2''],
     lb_probes = Some [\<lparr>pr_rules = Some [\<lparr>sr_id = Some ''r-1''\<rparr>], pr_rest = ''p-1''\<rparr>,
       \<lparr>pr_rules = Some [\<lparr>sr_id = Some ''r-2''\<rparr>, \<lparr>sr_id = Some ''r-3''\<rparr>], pr_rest = ''p-2''\<rparr>],
     lb_rest = ''sku''\<rparr>"

definition lb_env :: env where
  "lb_env = example_env\<lparr>azLbGet := (\<lambda>t rg n. Inr example_lb)\<rparr>"

theorem remove_from_load_balancer_effect_witness:
  "map_option (map fc_id) (lb_frontend_ip_configurations (detach_public_ips example_lb [''/ip-1''])) =
     Some [Some ''fc-2''] \<and>
   map_option (map lr_id) (lb_rules (detach_public_ips example_lb [''/ip-1''])) =
     Some [Some ''r-2'', Some ''r-3''] \<and>
   (\<exists>err rest lb. snd (RemoveFromLoadBalancer_impl ''shoot'' [''/ip-1''] lb_env []) =
     [] @ [CounterInc ReadRequests, AzLbGet ''shoot'' ''shoot'' (Inr example_lb),
       CounterInc WriteRequests, AzLbUpdate ''shoot'' ''shoot'' lb err] @ rest \<and>
     occurrences write_request rest = 0)"
proof (intro conjI)
  have "azLbGet lb_env ([] @ [CounterInc ReadRequests]) ''shoot'' ''shoot'' = Inr example_lb"
    by (simp add: lb_env_def)
  from remove_from_load_balancer_effect [OF this, of "[''/ip-1'']"]
  show "\<exists>err rest lb. snd (RemoveFromLoadBalancer_impl ''shoot'' [''/ip-1''] lb_env []) =
     [] @ [CounterInc ReadRequests, AzLbGet ''shoot'' ''shoot'' (Inr example_lb),
       CounterInc WriteRequests, AzLbUpdate ''shoot'' ''shoot'' lb err] @ rest \<and>
     occurrences write_request rest = 0" by blast
qed code_simp+

definition single_rule_probe :: "probe \<Rightarrow> bool" where
  "single_rule_probe p \<longleftrightarrow> (case pr_rules p of Some [_] \<Rightarrow> True | _ \<Rightarrow> False)"

text \<open>Counting the copies of a probe.\<close>

lemma count_list_replicate: "count_list (replicate n y) x = (if x = y then n else 0)"
  by (induction n) auto

lemma count_concat_replicate:
  "count_list (concat (map (\<lambda>p. replicate (n p) p) ps)) x = n x * count_list ps x"
  by (induction ps) (auto simp: count_list_replicate)

lemma concat_replicate_id_iff:
  "concat (map (\<lambda>p. replicate (n p) p) ps) = ps \<longleftrightarrow> list_all (\<lambda>p. n p = 1) ps"
proof
  assume eq: "concat (map (\<lambda>p. replicate (n p) p) ps) = ps"
  have "n p = 1" if "p \<in> set ps" for p
  proof -
    have "count_list ps p = n p * count_list ps p"
      using count_concat_replicate [of n ps p] eq by simp
    moreover have "count_list ps p \<noteq> 0" using that by (simp add: count_list_0_iff)
    ultimately show ?thesis by simp
  qed
  then show "list_all (\<lambda>p. n p = 1) ps" by (simp add: list_all_iff)
qed (induction ps, auto)

text \<open>C34: Even when no rule is removed, \<open>updateProbes\<close> leaves the probes of a load balancer
  as they are only if every probe has exactly one rule: a probe with several rules is
  duplicated, a probe with none is dropped.\<close>

theorem probes_kept_iff_single_rule:
  "lb_probes (updateProbes lb []) = lb_probes lb \<longleftrightarrow>
     (case lb_probes lb of None \<Rightarrow> True | Some ps \<Rightarrow> list_all single_rule_probe ps)"
proof -
  have one: "surviving_rules [] p = 1 \<longleftrightarrow> single_rule_probe p" for p
    by (auto simp: single_rule_probe_def surviving_rules_def rule_stays_def length_Suc_conv
        split: option.splits list.splits)
  show ?thesis
    by (cases "lb_probes lb")
      (simp_all add: updateProbes_eq update_probe_list_eq one [simplified] concat_replicate_id_iff)
qed

section \<open>Listings\<close>

text \<open>C31: \<open>GetByIP\<close> ends and is complete: if the listing is followed through its pages and
  the fuel allows one step per page, it returns the first public IP address with the IP among
  the values of all pages, and none only if there is none.\<close>

theorem get_by_ip_complete:
  assumes "azPipList e (t @ [CounterInc ReadRequests]) rg = Inr p"
    and "page_chain e (p # ps)" "length ps < pageFuel e"
  shows "fst (GetByIP_impl rg ip e t) = Returned (Inr (find (has_ip ip) (chain_values (p # ps))))"
  using assms(1) GetByIP_pages_chain [OF assms(2,3), of ip
      "t @ [CounterInc ReadRequests, AzPipList rg (Inr p)]"]
  by (auto simp: GetByIP_impl_def pip_client_defs run_simps)

text \<open>\<open>GetAll\<close> ends and returns the values of all pages, in order.\<close>

lemma get_all_complete:
  assumes "azPipList e (t @ [CounterInc ReadRequests]) rg = Inr p"
    and "page_chain e (p # ps)" "length ps < pageFuel e"
  shows "fst (GetAll_impl rg e t) = Returned (Inr (chain_values (p # ps)))"
  using assms(1) GetAll_pages_chain [OF assms(2,3), of "[]"
      "t @ [CounterInc ReadRequests, AzPipList rg (Inr p)]"]
  by (auto simp: GetAll_impl_def pip_client_defs run_simps)

text \<open>Two pages with an address each, then the empty page that ends the listing.\<close>

definition example_ip :: "string \<Rightarrow> string \<Rightarrow> az_public_ip" where
  "example_ip name ip = \<lparr>az_ip_id = Some name, az_ip_name = Some name, az_ip_address = Some ip,
     az_ip_provisioning_state = Some Succeeded, az_ip_tags = Map.empty\<rparr>"

definition example_page :: "string \<Rightarrow> string \<Rightarrow> pip_page" where
  "example_page name ip = \<lparr>page_not_done = True, page_values = [example_ip name ip]\<rparr>"

definition last_page :: pip_page where
  "last_page = \<lparr>page_not_done = False, page_values = []\<rparr>"

definition paged_env :: env where
  "paged_env = example_env\<lparr>
     azPipList := (\<lambda>t rg. Inr (example_page ''a'' ''1.1.1.1'')),
     azPipNext := (\<lambda>t p. Inr (case map az_ip_name (page_values p) of
        [Some n] \<Rightarrow> if n = ''a'' then example_page ''b'' ''2.2.2.2'' else last_page
      | _ \<Rightarrow> last_page))\<rparr>"

lemma paged_env_chain:
  "page_chain paged_env [example_page ''a'' ''1.1.1.1'', example_page ''b'' ''2.2.2.2'', last_page]"
  "azPipList paged_env t rg = Inr (example_page ''a'' ''1.1.1.1'')" "pageFuel paged_env = 5"
  by (simp_all add: paged_env_def example_page_def example_ip_def last_page_def)

theorem get_by_ip_complete_witness:
  "fst (GetByIP_impl ''shoot'' ''2.2.2.2'' paged_env []) =
     Returned (Inr (Some (example_ip ''b'' ''2.2.2.2'')))"
  using get_by_ip_complete [OF paged_env_chain(2,1), where ip = "''2.2.2.2''" and rg = "''shoot''"]
  by (simp add: paged_env_chain(3) chain_values_def example_page_def example_ip_def has_ip_def)

section \<open>Idempotent deletion\<close>

text \<open>Deleting a public IP address or getting one that Azure does not know is no error:
  a 404 of Azure is turned into success and into \<open>None\<close>, and any other error is passed on
  wrapped, with no second call.\<close>

lemma azure_not_found_is_no_error:
  "fst (Delete_impl rg name e t) =
     (case azPipDelete e (t @ [CounterInc WriteRequests]) rg name of
        Some err \<Rightarrow>
          Returned (if isAzureNotFoundError err then None
                    else Some (Wrap ''could not delete Azure PublicIPAddress'' err))
      | None \<Rightarrow>
          Returned (map_option
            (Wrap ''could not wait for the Azure PublicIPAddress deletion to complete'')
            (azPipDeleteWait e (t @ [CounterInc WriteRequests, AzPipDelete rg name None,
               CounterInc ReadRequests])))) \<and>
   fst (GetByName_impl rg name e t) =
     (case azPipGet e (t @ [CounterInc ReadRequests]) rg name of
        Inl err \<Rightarrow>
          Returned (if isAzureNotFoundError err then Inr None
                    else Inl (Wrap ''could not get Azure PublicIPAddress'' err))
      | Inr azip \<Rightarrow> Returned (Inr (Some azip)))"
  by (auto simp: Delete_impl_def GetByName_impl_def pip_client_defs run_simps
      split: option.split sum.split)

section \<open>Failed operations\<close>

text \<open>After a success of an operation, the record of failed operations counts the
  failures since: \<open>n\<close> failures in a row leave exactly \<open>n\<close> attempts on record, whatever is
  recorded for the other operations, and theirs stay as they are.\<close>

lemma failures_are_counted:
  assumes "wf_ops ops"
  shows "attempts_of (foldl (\<lambda>l (msg, ts). fst (AddOrUpdateFailedOperation l ty msg ts))
       (DeleteFailedOperation ops ty) fails) ty' =
     (if ty' = ty then of_nat (length fails) else attempts_of ops ty')"
proof -
  have "wf_ops (DeleteFailedOperation ops ty)" by (rule wf_ops_delete [OF assms])
  from failed_ops.attempts_records_other [OF this, of ty' ty fails] show ?thesis
    using failed_ops.attempts_since_clear [OF assms, of ty fails]
      failed_ops.attempts_clear [OF assms, of ty ty']
    by (simp add: case_prod_unfold)
qed

text \<open>The requeue interval after the \<open>n\<close>-th failure is the configured interval times
  \<open>2 ^ (n - 1)\<close> as long as that fits 64 bits.\<close>

lemma backoff_doubles:
  assumes "1 \<le> sint n" "0 \<le> sint d" "sint d * 2 ^ nat (sint n - 1) < 2 ^ 63"
  shows "map_option sint (requeue_backoff d n) = Some (sint d * 2 ^ nat (sint n - 1))"
  using backoff_value [OF assms] by auto

text \<open>The interval has no upper bound and wraps: with the default interval of one minute
  the 28th failure is the last with a sensible interval; the 29th asks for a negative one,
  and from the 65th on no bit is left and it is 0.\<close>

lemma backoff_wraps:
  "map_option sint (requeue_backoff (1 * minute) 28) = Some (60000000000 * 2 ^ 27) \<and>
   map_option sint (requeue_backoff (1 * minute) 29) = Some (60000000000 * 2 ^ 28 - 2 ^ 64) \<and>
   requeue_backoff (1 * minute) 65 = Some 0"
  by (simp add: requeue_backoff_def shift_one_def)

section \<open>Labels\<close>

definition labelled :: "k8s_object \<Rightarrow> string \<Rightarrow> string \<Rightarrow> bool" where
  "labelled ob label v \<longleftrightarrow> map_get (meta_labels (obj_meta ob)) label = v"

text \<open>C33: A resource labelled by the service controller for a service, or by the node
  controller for a node, is mapped back to exactly that owner: one request with the owner's
  namespace and name. A resource without the label causes no request.\<close>

theorem owner_is_enqueued:
  assumes "separable (CHR ''.'') svc" "cluster_object nd"
    and "labelled a label (GetLabelValue service_ObjectLabeler svc)"
    and "labelled b label (GetLabelValue node_ObjectLabeler nd)" "labelled c label ''''"
  shows "MapFuncFromMapper (labelMapper_Map service_ObjectLabeler label) a = [obj_key svc] \<and>
    MapFuncFromMapper (labelMapper_Map node_ObjectLabeler label) b = [obj_key nd] \<and>
    MapFuncFromMapper (labelMapper_Map service_ObjectLabeler label) c = [] \<and>
    MapFuncFromMapper (labelMapper_Map node_ObjectLabeler label) c = []"
  using assms unfolding service_ObjectLabeler_def node_ObjectLabeler_def labelled_def
  by (simp add: namespaced_labeler.map_to_owner namespaced_labeler.owned_by_def
      cluster_labeler.map_to_owner cluster_labeler.owned_by_def
      namespaced_labeler.map_unlabelled cluster_labeler.map_unlabelled)

definition example_owner :: "string \<Rightarrow> string \<Rightarrow> k8s_object" where
  "example_owner ns n = PublicIPAddress (new_pip ns n)"

definition example_owned :: "string \<Rightarrow> k8s_object" where
  "example_owned v = PublicIPAddress ((new_pip ''ns'' ''owned'')
     \<lparr>pip_meta := empty_meta\<lparr>meta_labels := Some [''owner'' \<mapsto> v]\<rparr>\<rparr>)"

theorem owner_is_enqueued_witness:
  "MapFuncFromMapper (labelMapper_Map service_ObjectLabeler ''owner'') (example_owned ''ns.svc'') =
     [\<lparr>key_namespace = ''ns'', key_name = ''svc''\<rparr>]"
  using owner_is_enqueued [of "example_owner ''ns'' ''svc''" "example_owner '''' ''node''"
      "example_owned ''ns.svc''" "''owner''" "example_owned ''node''" "example_owned ''''"]
  by (simp add: separable_def cluster_object_def example_owner_def example_owned_def labelled_def
      new_pip_def obj_key_def empty_meta_def map_get_def service_ObjectLabeler_def
      node_ObjectLabeler_def NewNamespacedObjectLabeler_def NewClusterObjectLabeler_def
      namespaced_GetLabelValue_def cluster_GetLabelValue_def)

text \<open>No label leads to a wrong owner: the label of any named object, whatever characters
  its namespace and name contain, is mapped to a request for that object or to none.\<close>

lemma label_never_misleads:
  assumes "meta_name (obj_meta ob) \<noteq> ''''"
    and "labelled a label (GetLabelValue (NewNamespacedObjectLabeler [c]) ob)"
  shows "set (MapFuncFromMapper (labelMapper_Map (NewNamespacedObjectLabeler [c]) label) a)
    \<subseteq> {obj_key ob}"
  using namespaced_label_safe [OF assms(1), of c] assms(2)
  by (auto simp: MapFuncFromMapper_def labelMapper_Map_def labelled_def
      NewNamespacedObjectLabeler_def empty_key_def Let_def split: if_splits)

end
