(* ===== verification/Configuration.thy ===== *)
theory Configuration
  imports Api_Types
begin

text \<open>
  The configuration of the controller: its internal and its versioned form and the conversions
  between them (\<open>pkg/apis/config\<close>), loading it from a file
  (\<open>pkg/apis/config/helper/helper.go\<close>), and applying it to the options of the controllers
  (\<open>pkg/cmd/config_options.go\<close>).
\<close>

section \<open>Types\<close>

text \<open>The client connection settings are handed on to a library as they are: one opaque value.\<close>

record type_meta =
  tm_kind :: string
  tm_api_version :: string

record azure_configuration =
  ac_orphaned_public_ip_remedy :: "pip_config option"
  ac_failed_vm_remedy :: "vm_config option"

record controller_configuration =
  cc_type_meta :: type_meta
  cc_client_connection :: "string option"
  cc_azure :: "azure_configuration option"

definition empty_configuration :: controller_configuration where
  "empty_configuration = \<lparr>cc_type_meta = \<lparr>tm_kind = '''', tm_api_version = ''''\<rparr>,
     cc_client_connection = None, cc_azure = None\<rparr>"

text \<open>Version \<open>v1alpha1\<close>.\<close>

record v1_pip_config =
  v1_pc_requeue_interval :: duration
  v1_pc_sync_period :: duration
  v1_pc_service_sync_period :: duration
  v1_pc_deletion_grace_period :: duration
  v1_pc_max_get_attempts :: go_int
  v1_pc_max_clean_attempts :: go_int

record v1_vm_config =
  v1_vc_requeue_interval :: duration
  v1_vc_sync_period :: duration
  v1_vc_node_sync_period :: duration
  v1_vc_max_get_attempts :: go_int
  v1_vc_max_reapply_attempts :: go_int

record v1_azure_configuration =
  v1_ac_orphaned_public_ip_remedy :: "v1_pip_config option"
  v1_ac_failed_vm_remedy :: "v1_vm_config option"

record v1_controller_configuration =
  v1_cc_type_meta :: type_meta
  v1_cc_client_connection :: "string option"
  v1_cc_azure :: "v1_azure_configuration option"

section \<open>Conversions\<close>

text \<open>
  A conversion fills a given object; only the type information is not overwritten, so it is
  what the given object has. A pointer that is cast stays nil or not.
\<close>

definition Convert_v1_pip_config :: "v1_pip_config \<Rightarrow> pip_config" where
  "Convert_v1_pip_config c = \<lparr>pc_requeue_interval = v1_pc_requeue_interval c,
     pc_sync_period = v1_pc_sync_period c, pc_service_sync_period = v1_pc_service_sync_period c,
     pc_deletion_grace_period = v1_pc_deletion_grace_period c,
     pc_max_get_attempts = v1_pc_max_get_attempts c,
     pc_max_clean_attempts = v1_pc_max_clean_attempts c\<rparr>"

definition Convert_pip_config_v1 :: "pip_config \<Rightarrow> v1_pip_config" where
  "Convert_pip_config_v1 c = \<lparr>v1_pc_requeue_interval = pc_requeue_interval c,
     v1_pc_sync_period = pc_sync_period c, v1_pc_service_sync_period = pc_service_sync_period c,
     v1_pc_deletion_grace_period = pc_deletion_grace_period c,
     v1_pc_max_get_attempts = pc_max_get_attempts c,
     v1_pc_max_clean_attempts = pc_max_clean_attempts c\<rparr>"

definition Convert_v1_vm_config :: "v1_vm_config \<Rightarrow> vm_config" where
  "Convert_v1_vm_config c = \<lparr>vc_requeue_interval = v1_vc_requeue_interval c,
     vc_sync_period = v1_vc_sync_period c, vc_node_sync_period = v1_vc_node_sync_period c,
     vc_max_get_attempts = v1_vc_max_get_attempts c,
     vc_max_reapply_attempts = v1_vc_max_reapply_attempts c\<rparr>"

definition Convert_vm_config_v1 :: "vm_config \<Rightarrow> v1_vm_config" where
  "Convert_vm_config_v1 c = \<lparr>v1_vc_requeue_interval = vc_requeue_interval c,
     v1_vc_sync_period = vc_sync_period c, v1_vc_node_sync_period = vc_node_sync_period c,
     v1_vc_max_get_attempts = vc_max_get_attempts c,
     v1_vc_max_reapply_attempts = vc_max_reapply_attempts c\<rparr>"

definition Convert_v1_azure :: "v1_azure_configuration \<Rightarrow> azure_configuration" where
  "Convert_v1_azure c =
     \<lparr>ac_orphaned_public_ip_remedy = map_option Convert_v1_pip_config (v1_ac_orphaned_public_ip_remedy c),
      ac_failed_vm_remedy = map_option Convert_v1_vm_config (v1_ac_failed_vm_remedy c)\<rparr>"

definition Convert_azure_v1 :: "azure_configuration \<Rightarrow> v1_azure_configuration" where
  "Convert_azure_v1 c =
     \<lparr>v1_ac_orphaned_public_ip_remedy = map_option Convert_pip_config_v1 (ac_orphaned_public_ip_remedy c),
      v1_ac_failed_vm_remedy = map_option Convert_vm_config_v1 (ac_failed_vm_remedy c)\<rparr>"

definition Convert_v1_configuration ::
  "v1_controller_configuration \<Rightarrow> controller_configuration \<Rightarrow> controller_configuration" where
  "Convert_v1_configuration c out =
     out\<lparr>cc_client_connection := v1_cc_client_connection c,
         cc_azure := map_option Convert_v1_azure (v1_cc_azure c)\<rparr>"

definition Convert_configuration_v1 ::
  "controller_configuration \<Rightarrow> v1_controller_configuration \<Rightarrow> v1_controller_configuration" where
  "Convert_configuration_v1 c out =
     out\<lparr>v1_cc_client_connection := cc_client_connection c,
         v1_cc_azure := map_option Convert_azure_v1 (cc_azure c)\<rparr>"

lemma pip_config_inverse [simp]:
  "Convert_v1_pip_config (Convert_pip_config_v1 c) = c"
  "Convert_pip_config_v1 (Convert_v1_pip_config c1) = c1"
  by (simp_all add: Convert_v1_pip_config_def Convert_pip_config_v1_def)

lemma vm_config_inverse [simp]:
  "Convert_v1_vm_config (Convert_vm_config_v1 c) = c"
  "Convert_vm_config_v1 (Convert_v1_vm_config c1) = c1"
  by (simp_all add: Convert_v1_vm_config_def Convert_vm_config_v1_def)

lemma azure_inverse [simp]:
  "Convert_v1_azure (Convert_azure_v1 c) = c" "Convert_azure_v1 (Convert_v1_azure c1) = c1"
  by (simp_all add: Convert_v1_azure_def Convert_azure_v1_def option.map_comp comp_def option.map_ident)

section \<open>Files\<close>

text \<open>
  \<open>filepath.Clean\<close> on Unix: empty and \<open>.\<close> elements are dropped, \<open>..\<close> takes back the element
  before it, at the root it is dropped. The elements are kept in reverse.
\<close>

definition clean_element :: "bool \<Rightarrow> string list \<Rightarrow> string \<Rightarrow> string list" where
  "clean_element rooted acc el =
     (if el = '''' \<or> el = ''.'' then acc
      else if el = ''..'' then
        (case acc of
           [] \<Rightarrow> if rooted then [] else [''..'']
         | el' # acc' \<Rightarrow> if el' = ''..'' then ''..'' # acc else acc')
      else el # acc)"

fun join_path :: "string list \<Rightarrow> string" where
  "join_path [] = ''''"
| "join_path [el] = el"
| "join_path (el # els) = el @ ''/'' @ join_path els"

definition filepath_Clean :: "string \<Rightarrow> string" where
  "filepath_Clean path =
     (let rooted = prefix ''/'' path;
          els = rev (foldl (clean_element rooted) [] (str_split path ''/''))
      in if rooted then ''/'' @ join_path els
         else if els = [] then ''.'' else join_path els)"

text \<open>
  What the YAML codec returns for the text of a file: an error, the configuration, or an object
  of another type the scheme knows.
\<close>

datatype decoded = DecodedConfiguration v1_controller_configuration | DecodedOther

record file_env =
  readFile :: "string \<Rightarrow> goerr + string"
  decodeConfig :: "string \<Rightarrow> goerr + decoded"

text \<open>\<open>None\<close>: the type assertion on the decoded object panics.\<close>

definition Load :: "('a file_env_scheme) \<Rightarrow> string \<Rightarrow> (goerr + controller_configuration) option" where
  "Load fe text =
     (if text = [] then Some (Inr empty_configuration)
      else (case decodeConfig fe text of
          Inl err \<Rightarrow> Some (Inl err)
        | Inr (DecodedConfiguration c) \<Rightarrow>
            Some (Inr (Convert_v1_configuration c empty_configuration))
        | Inr DecodedOther \<Rightarrow> None))"

definition LoadFromFile ::
  "('a file_env_scheme) \<Rightarrow> string \<Rightarrow> (goerr + controller_configuration) option" where
  "LoadFromFile fe filename =
     (case readFile fe (filepath_Clean filename) of
        Inl err \<Rightarrow> Some (Inl err)
      | Inr bytes \<Rightarrow> Load fe bytes)"

section \<open>Options\<close>

text \<open>\<open>ConfigOptions.Complete\<close> with \<open>buildConfig\<close>.\<close>

definition buildConfig ::
  "('a file_env_scheme) \<Rightarrow> string \<Rightarrow> (goerr + controller_configuration) option" where
  "buildConfig fe configFilePath =
     (if configFilePath = [] then Some (Inl (NewError ''config file path not set''))
      else LoadFromFile fe configFilePath)"

definition ApplyAzureOrphanedPublicIPRemedy :: "controller_configuration \<Rightarrow> pip_config \<Rightarrow> pip_config" where
  "ApplyAzureOrphanedPublicIPRemedy c cfg =
     (case cc_azure c of
        Some azure \<Rightarrow>
          (case ac_orphaned_public_ip_remedy azure of Some remedy \<Rightarrow> remedy | None \<Rightarrow> cfg)
      | None \<Rightarrow> cfg)"

definition ApplyAzureFailedVMRemedy :: "controller_configuration \<Rightarrow> vm_config \<Rightarrow> vm_config" where
  "ApplyAzureFailedVMRemedy c cfg =
     (case cc_azure c of
        Some azure \<Rightarrow>
          (case ac_failed_vm_remedy azure of Some remedy \<Rightarrow> remedy | None \<Rightarrow> cfg)
      | None \<Rightarrow> cfg)"

end
