(* ===== verification/Clients.thy ===== *)
theory Clients
  imports Configuration
begin

text \<open>
  Creating the clients: the Azure clients from a credentials file
  (\<open>pkg/client/azure/client.go\<close>) and the Kubernetes clientset from a kubeconfig file
  (\<open>pkg/client/k8s/client.go\<close>). The decoders and constructors of the libraries are fields of
  the environment; their results are opaque texts.
\<close>

section \<open>Azure\<close>

record credentials =
  cr_client_id :: string
  cr_client_secret :: string
  cr_federated_token_file :: string
  cr_tenant_id :: string
  cr_subscription_id :: string
  cr_resource_group :: string

type_synonym oauth_config = string
type_synonym sp_token = string

text \<open>A client of the Azure SDK: the subscription it was made for and its authorizer.\<close>

record azure_client =
  ac_subscription :: string
  ac_authorizer :: sp_token

record azure_clients =
  cl_public_ip_addresses :: azure_client
  cl_load_balancers :: azure_client
  cl_virtual_machines :: azure_client

text \<open>The constructor of a token from a file gets the function that reads the file.\<close>

record client_env = file_env +
  openFile :: "string \<Rightarrow> goerr + string"
  decodeCredentials :: "string \<Rightarrow> goerr + credentials"
  activeDirectoryEndpoint :: string
  resourceManagerEndpoint :: string
  newOAuthConfig :: "string \<Rightarrow> string \<Rightarrow> goerr + oauth_config"
  newTokenFromFederatedTokenCallback ::
    "oauth_config \<Rightarrow> string \<Rightarrow> (unit \<Rightarrow> goerr + string) \<Rightarrow> string \<Rightarrow> goerr + sp_token"
  newToken :: "oauth_config \<Rightarrow> string \<Rightarrow> string \<Rightarrow> string \<Rightarrow> goerr + sp_token"
  loadKubeconfig :: "string \<Rightarrow> goerr + string option"
  newClientConfig :: "string \<Rightarrow> goerr + string option"
  newClientSet :: "string \<Rightarrow> goerr + string option"

definition ReadConfig :: "('a client_env_scheme) \<Rightarrow> string \<Rightarrow> goerr + credentials" where
  "ReadConfig se path =
     (case openFile se (filepath_Clean path) of
        Inl err \<Rightarrow> Inl (Wrap ''could not open configuration file'' err)
      | Inr input \<Rightarrow>
          (case decodeCredentials se input of
             Inl err \<Rightarrow> Inl (Wrap ''could not decode Azure credentials from JSON'' err)
           | Inr cred \<Rightarrow> Inr cred))"

text \<open>The function that reads the workload identity token.\<close>

definition federated_token :: "('a client_env_scheme) \<Rightarrow> credentials \<Rightarrow> unit \<Rightarrow> goerr + string" where
  "federated_token se cred _ =
     (case readFile se (cr_federated_token_file cred) of
        Inl err \<Rightarrow> Inl (Errorf ''could not read workload identity token from file'' err)
      | Inr b \<Rightarrow> Inr b)"

definition service_principal_token ::
  "('a client_env_scheme) \<Rightarrow> oauth_config \<Rightarrow> credentials \<Rightarrow> goerr + sp_token" where
  "service_principal_token se oauthConfig cred =
     (if length (cr_federated_token_file cred) > 0 then
        (case newTokenFromFederatedTokenCallback se oauthConfig (cr_client_id cred)
                (federated_token se cred) (resourceManagerEndpoint se) of
           Inl err \<Rightarrow> Inl (Errorf ''could not create service principal from federated token'' err)
         | Inr token \<Rightarrow> Inr token)
      else
        (case newToken se oauthConfig (cr_client_id cred) (cr_client_secret cred)
                (resourceManagerEndpoint se) of
           Inl err \<Rightarrow> Inl (Wrap ''could not create service principal token'' err)
         | Inr token \<Rightarrow> Inr token))"

definition NewClients :: "('a client_env_scheme) \<Rightarrow> credentials \<Rightarrow> goerr + azure_clients" where
  "NewClients se cred =
     (case newOAuthConfig se (activeDirectoryEndpoint se) (cr_tenant_id cred) of
        Inl err \<Rightarrow> Inl (Wrap ''could not create OAuth config'' err)
      | Inr oauthConfig \<Rightarrow>
          (case service_principal_token se oauthConfig cred of
             Inl err \<Rightarrow> Inl err
           | Inr authorizer \<Rightarrow>
               (let client = \<lparr>ac_subscription = cr_subscription_id cred, ac_authorizer = authorizer\<rparr>
                in Inr \<lparr>cl_public_ip_addresses = client, cl_load_balancers = client,
                        cl_virtual_machines = client\<rparr>)))"

section \<open>Kubernetes\<close>

text \<open>The steps of \<open>GetClientSet\<close> differ in their messages: an error is wrapped, nil is an error.\<close>

definition non_nil :: "string \<Rightarrow> string \<Rightarrow> goerr + string option \<Rightarrow> goerr + string" where
  "non_nil wrapped nil_msg r =
     (case r of
        Inl err \<Rightarrow> Inl (Wrap wrapped err)
      | Inr None \<Rightarrow> Inl (NewError nil_msg)
      | Inr (Some x) \<Rightarrow> Inr x)"

definition GetClientSet :: "('a client_env_scheme) \<Rightarrow> string \<Rightarrow> goerr + string" where
  "GetClientSet se path =
     (case readFile se (filepath_Clean path) of
        Inl err \<Rightarrow> Inl (Wrap ''could not open kubeconfig file'' err)
      | Inr kubeconfigRaw \<Rightarrow>
          (case non_nil ''could not load Kubernetes config from kubeconfig file''
                  ''Kubernetes config is nil'' (loadKubeconfig se kubeconfigRaw) of
             Inl err \<Rightarrow> Inl err
           | Inr config \<Rightarrow>
               (case non_nil ''could not create client config from Kubernetes config''
                       ''client config is nil'' (newClientConfig se config) of
                  Inl err \<Rightarrow> Inl err
                | Inr clientConfig \<Rightarrow>
                    non_nil ''could not create clientset from client config''
                      ''clientset is nil'' (newClientSet se clientConfig))))"

end
