(* ===== verification/Setup.thy ===== *)
theory Setup
  imports Pip_Controller Vm_Controller Predicates Orphan_Cleaner Clients
begin

text \<open>
  How the commands put the parts together: adding the four controllers to the managers
  (\<open>pkg/controller/controller.go\<close> and the \<open>add.go\<close> files), the \<open>remedy-controller-azure\<close> command
  (\<open>cmd/remedy-controller-azure/app/app.go\<close> with the options of \<open>pkg/cmd\<close>), and the
  \<open>remedy-applier-azure\<close> command (\<open>cmd/remedy-applier-azure/commands/root.go\<close>). What the
  libraries do is in the environment; the model ends where the managers are started.
\<close>

section \<open>Adding a controller to a manager\<close>

text \<open>The two managers, one for each cluster.\<close>

datatype cluster = ControlCluster | TargetCluster

datatype watch_predicate = GenerationChangedPredicate | ServicePredicate | NodePredicate

text \<open>
  A watch of another kind of object: where it is watched, what maps its objects to requests,
  and the predicate that filters its events with the cluster the predicate reads the owner from.
\<close>

record owned_watch =
  ow_cluster :: cluster
  ow_kind :: kind
  ow_map :: "k8s_object \<Rightarrow> object_key list"
  ow_predicate :: owned_object_predicate
  ow_reader :: cluster

record add_args =
  aa_actuator :: actuator
  aa_controller_name :: string
  aa_finalizer_name :: string
  aa_controller_options :: string
  aa_type :: kind
  aa_should_ensure_deleted :: bool
  aa_predicates :: "watch_predicate list"
  aa_watch_builder :: "owned_watch list"

text \<open>What a manager has after a controller was added to it.\<close>

record added_controller =
  ad_cluster :: cluster
  ad_name :: string
  ad_options :: string
  ad_reconciler :: reconciler
  ad_predicates :: "watch_predicate list"
  ad_watches :: "owned_watch list"

text \<open>
  Options of libraries are opaque texts, apart from the two fields of \<open>manager.Options\<close> the
  code sets itself.
\<close>

record manager_options =
  mo_base :: string
  mo_default_namespaces :: "string list option"
  mo_health_probe_bind_address :: string

record setup_env = client_env +
  newController :: "cluster \<Rightarrow> string \<Rightarrow> string \<Rightarrow> goerr option"
  primaryWatch :: "cluster \<Rightarrow> kind \<Rightarrow> watch_predicate list \<Rightarrow> goerr option"
  addWatches :: "string \<Rightarrow> owned_watch list \<Rightarrow> goerr option"
  aggregateComplete :: "goerr option list \<Rightarrow> goerr option"
  restComplete :: "string \<Rightarrow> goerr + string"
  baseManagerComplete :: "string \<Rightarrow> goerr + string"
  baseManagerApply :: "string \<Rightarrow> manager_options \<Rightarrow> manager_options"
  controllerComplete :: "string \<Rightarrow> int \<Rightarrow> goerr + string"
  switchesComplete :: "string \<Rightarrow> goerr option"
  runSwitches :: "string \<Rightarrow> (string \<times> (goerr + added_controller)) list \<Rightarrow> goerr + added_controller list"
  applyClientConnection :: "string option \<Rightarrow> string \<Rightarrow> string"
  newManager :: "cluster \<Rightarrow> string \<Rightarrow> manager_options \<Rightarrow> goerr option"
  addKubernetesScheme :: "cluster \<Rightarrow> goerr option"
  addAzureScheme :: "goerr option"

definition add_controller :: "('a setup_env_scheme) \<Rightarrow> cluster \<Rightarrow> add_args \<Rightarrow> goerr + added_controller" where
  "add_controller se mgr args =
     (case newController se mgr (aa_controller_name args) (aa_controller_options args) of
        Some err \<Rightarrow> Inl (Wrap ''could not create controller'' err)
      | None \<Rightarrow>
          (case primaryWatch se mgr (aa_type args) (aa_predicates args) of
             Some err \<Rightarrow> Inl (Wrap ''could not setup primary watch'' err)
           | None \<Rightarrow>
               (case addWatches se (aa_controller_name args) (aa_watch_builder args) of
                  Some err \<Rightarrow> Inl (Wrap ''could not setup additional watches'' err)
                | None \<Rightarrow>
                    Inr \<lparr>ad_cluster = mgr, ad_name = aa_controller_name args,
                      ad_options = aa_controller_options args,
                      ad_reconciler = \<lparr>rc_actuator = aa_actuator args,
                        rc_finalizer = aa_finalizer_name args, rc_kind = aa_type args,
                        rc_should_ensure_deleted = aa_should_ensure_deleted args\<rparr>,
                      ad_predicates = aa_predicates args, ad_watches = aa_watch_builder args\<rparr>)))"

section \<open>The controllers\<close>

definition pip_ControllerName :: string where
  "pip_ControllerName = ''azurepublicipaddress-controller''"

definition vm_ControllerName :: string where
  "vm_ControllerName = ''azurevirtualmachine-controller''"

definition svc_ControllerName :: string where
  "svc_ControllerName = ''azureservice-controller''"

definition node_ControllerName :: string where
  "node_ControllerName = ''azurenode-controller''"

text \<open>The options a controller is added with; the ones for the target cluster know the control one.\<close>

record 'c add_options =
  ao_controller :: string
  ao_infra_config_path :: string
  ao_config :: 'c

record 'c target_add_options =
  to_controller :: string
  to_client :: cluster
  to_namespace :: string
  to_manager :: cluster
  to_config :: 'c

definition svc_default_config :: pip_config where
  "svc_default_config = \<lparr>pc_requeue_interval = 0, pc_sync_period = 0,
     pc_service_sync_period = 4 * hour, pc_deletion_grace_period = 0,
     pc_max_get_attempts = 0, pc_max_clean_attempts = 0\<rparr>"

definition node_default_config :: vm_config where
  "node_default_config = \<lparr>vc_requeue_interval = 0, vc_sync_period = 0,
     vc_node_sync_period = 4 * hour, vc_max_get_attempts = 0, vc_max_reapply_attempts = 0\<rparr>"

text \<open>Reading the credentials and making the Azure clients.\<close>

definition connect :: "('a client_env_scheme) \<Rightarrow> string \<Rightarrow> goerr + (credentials \<times> azure_clients)" where
  "connect se path =
     (case ReadConfig se path of
        Inl err \<Rightarrow> Inl (Wrap ''could not read Azure credentials from infrastructure configuration file'' err)
      | Inr cred \<Rightarrow>
          (case NewClients se cred of
             Inl err \<Rightarrow> Inl (Wrap ''could not create Azure clients'' err)
           | Inr clients \<Rightarrow> Inr (cred, clients)))"

definition pip_AddToManagerWithOptions ::
  "('a setup_env_scheme) \<Rightarrow> cluster \<Rightarrow> pip_config add_options \<Rightarrow> goerr + added_controller" where
  "pip_AddToManagerWithOptions se mgr options =
     (case connect se (ao_infra_config_path options) of
        Inl err \<Rightarrow> Inl err
      | Inr (cred, clients) \<Rightarrow>
          add_controller se mgr
            \<lparr>aa_actuator = pip_NewActuator (NewPublicIPAddressUtils (cr_resource_group cred)) (ao_config options),
             aa_controller_name = pip_ControllerName, aa_finalizer_name = pip_FinalizerName,
             aa_controller_options = ao_controller options, aa_type = PublicIPAddressKind,
             aa_should_ensure_deleted = False, aa_predicates = [GenerationChangedPredicate],
             aa_watch_builder = []\<rparr>)"

definition vm_AddToManagerWithOptions ::
  "('a setup_env_scheme) \<Rightarrow> cluster \<Rightarrow> vm_config add_options \<Rightarrow> goerr + added_controller" where
  "vm_AddToManagerWithOptions se mgr options =
     (case connect se (ao_infra_config_path options) of
        Inl err \<Rightarrow> Inl err
      | Inr (cred, clients) \<Rightarrow>
          add_controller se mgr
            \<lparr>aa_actuator = vm_NewActuator (NewVirtualMachineUtils (cr_resource_group cred)) (ao_config options),
             aa_controller_name = vm_ControllerName, aa_finalizer_name = vm_FinalizerName,
             aa_controller_options = ao_controller options, aa_type = VirtualMachineKind,
             aa_should_ensure_deleted = False, aa_predicates = [GenerationChangedPredicate],
             aa_watch_builder = []\<rparr>)"

definition svc_AddToManagerWithOptions ::
  "('a setup_env_scheme) \<Rightarrow> cluster \<Rightarrow> pip_config target_add_options \<Rightarrow> goerr + added_controller" where
  "svc_AddToManagerWithOptions se mgr options =
     (let serviceMapper = labelMapper_Map service_ObjectLabeler ServiceLabel in
      add_controller se mgr
        \<lparr>aa_actuator = svc_NewActuator (to_namespace options) (pc_service_sync_period (to_config options)),
         aa_controller_name = svc_ControllerName, aa_finalizer_name = svc_FinalizerName,
         aa_controller_options = to_controller options, aa_type = ServiceKind,
         aa_should_ensure_deleted = True, aa_predicates = [ServicePredicate],
         aa_watch_builder = [\<lparr>ow_cluster = to_manager options, ow_kind = PublicIPAddressKind,
           ow_map = MapFuncFromMapper serviceMapper,
           ow_predicate = svc_owned_predicate, ow_reader = mgr\<rparr>]\<rparr>)"

definition node_AddToManagerWithOptions ::
  "('a setup_env_scheme) \<Rightarrow> cluster \<Rightarrow> vm_config target_add_options \<Rightarrow> goerr + added_controller" where
  "node_AddToManagerWithOptions se mgr options =
     (let nodeMapper = labelMapper_Map node_ObjectLabeler NodeLabel in
      add_controller se mgr
        \<lparr>aa_actuator = node_NewActuator (to_namespace options) (vc_node_sync_period (to_config options)),
         aa_controller_name = node_ControllerName, aa_finalizer_name = node_FinalizerName,
         aa_controller_options = to_controller options, aa_type = NodeKind,
         aa_should_ensure_deleted = True, aa_predicates = [NodePredicate],
         aa_watch_builder = [\<lparr>ow_cluster = to_manager options, ow_kind = VirtualMachineKind,
           ow_map = MapFuncFromMapper nodeMapper,
           ow_predicate = node_owned_predicate, ow_reader = mgr\<rparr>]\<rparr>)"

section \<open>Options of the managers\<close>

record manager_config =
  mc_base :: string
  mc_namespace :: string

definition manager_Complete ::
  "('a setup_env_scheme) \<Rightarrow> string \<Rightarrow> string \<Rightarrow> goerr + manager_config" where
  "manager_Complete se pref namespace =
     (case baseManagerComplete se pref of
        Inl err \<Rightarrow> Inl err
      | Inr base \<Rightarrow> Inr \<lparr>mc_base = base, mc_namespace = namespace\<rparr>)"

definition manager_Apply ::
  "('a setup_env_scheme) \<Rightarrow> manager_config \<Rightarrow> manager_options \<Rightarrow> manager_options" where
  "manager_Apply se c opts =
     (let opts = baseManagerApply se (mc_base c) opts;
          opts = (if mc_namespace c \<noteq> '''' then opts\<lparr>mo_default_namespaces := Some [mc_namespace c]\<rparr>
                  else opts)
      in opts\<lparr>mo_health_probe_bind_address := ''''\<rparr>)"

definition manager_Options :: "('a setup_env_scheme) \<Rightarrow> manager_config \<Rightarrow> manager_options" where
  "manager_Options se c = manager_Apply se c
     \<lparr>mo_base = '''', mo_default_namespaces = None, mo_health_probe_bind_address = ''''\<rparr>"

section \<open>Options of the reconcilers\<close>

text \<open>\<open>ReconcilerOptions\<close>: the path of the infrastructure configuration, completed without a check.\<close>

record reconciler_config =
  rec_infra_config_path :: string

record reconciler_options =
  ro_infra_config_path :: string
  ro_config :: "reconciler_config option"

definition reconciler_Complete :: "reconciler_options \<Rightarrow> goerr option \<times> reconciler_options" where
  "reconciler_Complete c = (None, c\<lparr>ro_config := Some \<lparr>rec_infra_config_path = ro_infra_config_path c\<rparr>\<rparr>)"

definition reconciler_Completed :: "reconciler_options \<Rightarrow> reconciler_config option" where
  "reconciler_Completed c = ro_config c"

definition reconciler_Apply :: "reconciler_config \<Rightarrow> string \<Rightarrow> string" where
  "reconciler_Apply c path = rec_infra_config_path c"

text \<open>
  What the completed options make of a path. The case of no configuration, in which the code would
  dereference nil, does not occur: \<open>Complete\<close> always sets one.
\<close>

definition infra_config_path :: "reconciler_options \<Rightarrow> string \<Rightarrow> string" where
  "infra_config_path c path =
     (case reconciler_Completed (snd (reconciler_Complete c)) of
        None \<Rightarrow> path
      | Some config \<Rightarrow> reconciler_Apply config path)"

lemma infra_config_path_simps [simp]:
  "infra_config_path c path = ro_infra_config_path c" "fst (reconciler_Complete c) = None"
  by (simp_all add: infra_config_path_def reconciler_Complete_def reconciler_Completed_def reconciler_Apply_def)

section \<open>The controller command\<close>

text \<open>
  The flags the model looks at; the other ones only reach libraries, which the environment
  stands for. \<open>Running\<close> are the controllers of the two managers at the moment these are
  started; \<open>Exited\<close> is \<open>logErrAndExit\<close>.
\<close>

record flags =
  fl_config_file :: string
  fl_infrastructure_config :: string
  fl_namespace :: string
  fl_target_namespace :: string

definition default_flags :: flags where
  "default_flags = \<lparr>fl_config_file = '''', fl_infrastructure_config = '''',
     fl_namespace = ''kube-system'', fl_target_namespace = ''''\<rparr>"

datatype run_result =
    Exited goerr string
  | Crashed
  | Running "added_controller list" "added_controller list"

text \<open>\<open>if err != nil { logErrAndExit(err, msg) }\<close>, and the value of completed options.\<close>

definition or_exit :: "string \<Rightarrow> goerr option \<Rightarrow> run_result \<Rightarrow> run_result" where
  "or_exit msg err rest = (case err of Some e \<Rightarrow> Exited e msg | None \<Rightarrow> rest)"

definition result_or_exit :: "string \<Rightarrow> goerr + 'a \<Rightarrow> ('a \<Rightarrow> run_result) \<Rightarrow> run_result" where
  "result_or_exit msg r f = (case r of Inl e \<Rightarrow> Exited e msg | Inr a \<Rightarrow> f a)"

definition completed :: "goerr + 'a \<Rightarrow> ('a \<Rightarrow> run_result) \<Rightarrow> run_result" where
  "completed r f = (case r of Inl _ \<Rightarrow> Crashed | Inr a \<Rightarrow> f a)"

definition err_of :: "goerr + 'a \<Rightarrow> goerr option" where
  "err_of r = (case r of Inl err \<Rightarrow> Some err | Inr _ \<Rightarrow> None)"

text \<open>\<open>ControllerSwitchOptions\<close> and \<open>TargetControllerSwitchOptions\<close>, with the options applied.\<close>

definition ControllerSwitchOptions ::
  "('a setup_env_scheme) \<Rightarrow> pip_config add_options \<Rightarrow> vm_config add_options \<Rightarrow>
   (string \<times> (goerr + added_controller)) list" where
  "ControllerSwitchOptions se pip_opts vm_opts =
     [(pip_ControllerName, pip_AddToManagerWithOptions se ControlCluster pip_opts),
      (vm_ControllerName, vm_AddToManagerWithOptions se ControlCluster vm_opts)]"

definition TargetControllerSwitchOptions ::
  "('a setup_env_scheme) \<Rightarrow> pip_config target_add_options \<Rightarrow> vm_config target_add_options \<Rightarrow>
   (string \<times> (goerr + added_controller)) list" where
  "TargetControllerSwitchOptions se svc_opts node_opts =
     [(svc_ControllerName, svc_AddToManagerWithOptions se TargetCluster svc_opts),
      (node_ControllerName, node_AddToManagerWithOptions se TargetCluster node_opts)]"

text \<open>Applying the completed options and adding the controllers.\<close>

definition add_controllers ::
  "('a setup_env_scheme) \<Rightarrow> flags \<Rightarrow> controller_configuration \<Rightarrow> manager_config \<Rightarrow>
   string \<Rightarrow> string \<Rightarrow> string \<Rightarrow> string \<Rightarrow> run_result" where
  "add_controllers se fl cfg mgr pip_ctrl vm_ctrl svc_ctrl node_ctrl =
     (let rec_opts = \<lparr>ro_infra_config_path = fl_infrastructure_config fl, ro_config = None\<rparr>;
          pip_opts = \<lparr>ao_controller = pip_ctrl, ao_infra_config_path = infra_config_path rec_opts '''',
            ao_config = ApplyAzureOrphanedPublicIPRemedy cfg pip_default_config\<rparr>;
          svc_opts = \<lparr>to_controller = svc_ctrl, to_client = ControlCluster,
            to_namespace = mc_namespace mgr, to_manager = ControlCluster,
            to_config = ApplyAzureOrphanedPublicIPRemedy cfg svc_default_config\<rparr>;
          vm_opts = \<lparr>ao_controller = vm_ctrl, ao_infra_config_path = infra_config_path rec_opts '''',
            ao_config = ApplyAzureFailedVMRemedy cfg vm_default_config\<rparr>;
          node_opts = \<lparr>to_controller = node_ctrl, to_client = ControlCluster,
            to_namespace = mc_namespace mgr, to_manager = ControlCluster,
            to_config = ApplyAzureFailedVMRemedy cfg node_default_config\<rparr>
      in
      result_or_exit ''Could not add controllers to manager''
        (runSwitches se '''' (ControllerSwitchOptions se pip_opts vm_opts)) (\<lambda>control.
      result_or_exit ''Could not add controllers to target cluster manager''
        (runSwitches se ''target-'' (TargetControllerSwitchOptions se svc_opts node_opts)) (\<lambda>target.
      Running control target)))"

text \<open>Creating the managers and updating their schemes.\<close>

definition create_managers ::
  "('a setup_env_scheme) \<Rightarrow> controller_configuration \<Rightarrow> string \<Rightarrow> manager_config \<Rightarrow>
   string \<Rightarrow> manager_config \<Rightarrow> run_result \<Rightarrow> run_result" where
  "create_managers se cfg rest mgr target_rest target_mgr next =
     or_exit ''Could not create manager''
       (newManager se ControlCluster (applyClientConnection se (cc_client_connection cfg) rest)
          (manager_Options se mgr))
     (or_exit ''Could not create target cluster manager''
       (newManager se TargetCluster (applyClientConnection se (cc_client_connection cfg) target_rest)
          (manager_Options se target_mgr))
     (or_exit ''Could not update manager scheme'' (addKubernetesScheme se ControlCluster)
     (or_exit ''Could not update manager scheme'' (addAzureScheme se)
     (or_exit ''Could not update target cluster manager scheme'' (addKubernetesScheme se TargetCluster)
      next))))"

definition run :: "('a setup_env_scheme) \<Rightarrow> flags \<Rightarrow> run_result" where
  "run se fl =
     (let rest = restComplete se '''';
          mgr = manager_Complete se '''' (fl_namespace fl);
          target_rest = restComplete se ''target-'';
          target_mgr = manager_Complete se ''target-'' (fl_target_namespace fl);
          pip_ctrl = controllerComplete se ''publicipaddress-'' 5;
          vm_ctrl = controllerComplete se ''virtualmachine-'' 5;
          svc_ctrl = controllerComplete se ''service-'' 5;
          node_ctrl = controllerComplete se ''node-'' 5
      in
      case buildConfig se (fl_config_file fl) of
        None \<Rightarrow> Crashed
      | Some config \<Rightarrow>
          or_exit ''Could not complete options''
            (aggregateComplete se [err_of rest, err_of mgr, err_of target_rest, err_of target_mgr,
               err_of pip_ctrl, err_of vm_ctrl, err_of svc_ctrl, err_of node_ctrl, err_of config,
               switchesComplete se '''', switchesComplete se ''target-'',
               fst (reconciler_Complete \<lparr>ro_infra_config_path = fl_infrastructure_config fl, ro_config = None\<rparr>)])
          (completed config (\<lambda>cfg. completed rest (\<lambda>rest. completed target_rest (\<lambda>target_rest.
           completed mgr (\<lambda>mgr. completed target_mgr (\<lambda>target_mgr.
           create_managers se cfg rest mgr target_rest target_mgr
             (completed pip_ctrl (\<lambda>pip_ctrl. completed vm_ctrl (\<lambda>vm_ctrl.
              completed svc_ctrl (\<lambda>svc_ctrl. completed node_ctrl (\<lambda>node_ctrl.
              add_controllers se fl cfg mgr pip_ctrl vm_ctrl svc_ctrl node_ctrl))))))))))))"

subsection \<open>Running the managers\<close>

text \<open>
  Both managers run in the background; the end of one of them, with the error of \<open>Start\<close> if there
  is one. The wait group counts the managers that have not ended without an error yet. The value is
  the exit code of the process, \<open>None\<close> while it runs; what happens after its end is not looked at.
\<close>

fun wait_managers :: "nat \<Rightarrow> goerr option list \<Rightarrow> nat option" where
  "wait_managers 0 ends = Some 0"
| "wait_managers (Suc n) [] = None"
| "wait_managers (Suc n) (Some err # ends) = Some 1"
| "wait_managers (Suc n) (None # ends) = wait_managers n ends"

lemma wait_managers_Suc:
  "wait_managers (Suc n) ends =
     (case ends of [] \<Rightarrow> None | Some err # rest \<Rightarrow> Some 1 | None # rest \<Rightarrow> wait_managers n rest)"
  by (cases ends) (auto split: option.splits)

text \<open>The whole command: an unrecovered panic exits with 2.\<close>

definition command_exit :: "run_result \<Rightarrow> goerr option list \<Rightarrow> nat option" where
  "command_exit res ends =
     (case res of
        Exited err msg \<Rightarrow> Some 1
      | Crashed \<Rightarrow> Some 2
      | Running control target \<Rightarrow> wait_managers 2 ends)"

text \<open>
  The command never ends well with a single manager: it exits with 0 only if it was started and
  both managers have ended without an error, and it still runs as long as one of them does.
\<close>

lemma command_exit_iff:
  "command_exit res ends = Some 0 \<longleftrightarrow>
     (\<exists>control target rest. res = Running control target \<and> ends = None # None # rest)"
  "command_exit (Running control target) ends = None \<longleftrightarrow> ends = [] \<or> ends = [None]"
  by (auto simp: command_exit_def numeral_2_eq_2 wait_managers_Suc
      split: run_result.splits list.splits option.splits)

section \<open>The applier command\<close>

datatype log_level = ErrorLevel | InfoLevel | DebugLevel

definition configureLogger :: "string \<Rightarrow> log_level" where
  "configureLogger level =
     (if level = ''error'' then ErrorLevel
      else if level = ''info'' then InfoLevel
      else if level = ''debug'' then DebugLevel
      else InfoLevel)"

text \<open>
  \<open>Inl\<close>: the error is printed and the command exits with 1. \<open>Inr\<close>: the loop that is started in
  the background, for every bound on its iterations; it gets the name of the resource group both
  for the Azure calls and as the name of the shoot.
\<close>

definition applier_run ::
  "('a client_env_scheme) \<Rightarrow> string \<Rightarrow> string \<Rightarrow> goerr + (nat \<Rightarrow> unit io)" where
  "applier_run se kubeconfigPath azureConfigPath =
     (case GetClientSet se kubeconfigPath of
        Inl err \<Rightarrow> Inl err
      | Inr clientSet \<Rightarrow>
          (case ReadConfig se azureConfigPath of
             Inl err \<Rightarrow> Inl err
           | Inr cred \<Rightarrow>
               (case NewClients se cred of
                  Inl err \<Rightarrow> Inl err
                | Inr clients \<Rightarrow>
                    Inr (\<lambda>fuel. CleanPublicIps fuel
                      (NewPublicIPAddressUtils (cr_resource_group cred)) (cr_resource_group cred) 0))))"

section \<open>What is added\<close>


lemma add_controller_result:
  "add_controller se mgr args = Inr c \<Longrightarrow>
   ad_cluster c = mgr \<and> ad_name c = aa_controller_name args \<and>
   ad_options c = aa_controller_options args \<and>
   ad_reconciler c = \<lparr>rc_actuator = aa_actuator args, rc_finalizer = aa_finalizer_name args,
     rc_kind = aa_type args, rc_should_ensure_deleted = aa_should_ensure_deleted args\<rparr> \<and>
   ad_predicates c = aa_predicates args \<and> ad_watches c = aa_watch_builder args"
  by (auto simp: add_controller_def split: option.splits)

lemma pip_added:
  "pip_AddToManagerWithOptions se mgr options = Inr c \<Longrightarrow>
   ad_cluster c = mgr \<and> (\<exists>cred. ReadConfig se (ao_infra_config_path options) = Inr cred \<and>
     ad_reconciler c = pip_reconciler (NewPublicIPAddressUtils (cr_resource_group cred)) (ao_config options))"
  by (auto simp: pip_AddToManagerWithOptions_def connect_def pip_reconciler_def
      dest!: add_controller_result split: sum.splits)

lemma vm_added:
  "vm_AddToManagerWithOptions se mgr options = Inr c \<Longrightarrow>
   ad_cluster c = mgr \<and> (\<exists>cred. ReadConfig se (ao_infra_config_path options) = Inr cred \<and>
     ad_reconciler c = vm_reconciler (NewVirtualMachineUtils (cr_resource_group cred)) (ao_config options))"
  by (auto simp: vm_AddToManagerWithOptions_def connect_def vm_reconciler_def
      dest!: add_controller_result split: sum.splits)

text \<open>The watches of a controller of the target cluster: the owned resources, the owner's reader.\<close>

lemma svc_added:
  "svc_AddToManagerWithOptions se mgr options = Inr c \<Longrightarrow>
   ad_cluster c = mgr \<and>
   ad_reconciler c = svc_reconciler (to_namespace options) (to_config options) \<and>
   list_all (\<lambda>w. ow_cluster w = to_manager options \<and> ow_reader w = mgr) (ad_watches c)"
  by (auto simp: svc_AddToManagerWithOptions_def svc_reconciler_def Let_def
      dest!: add_controller_result)

lemma node_added:
  "node_AddToManagerWithOptions se mgr options = Inr c \<Longrightarrow>
   ad_cluster c = mgr \<and>
   ad_reconciler c = node_reconciler (to_namespace options) (to_config options) \<and>
   list_all (\<lambda>w. ow_cluster w = to_manager options \<and> ow_reader w = mgr) (ad_watches c)"
  by (auto simp: node_AddToManagerWithOptions_def node_reconciler_def Let_def
      dest!: add_controller_result)

end
