(* ===== verification/Setup_Properties.thy ===== *)
theory Setup_Properties
  imports Setup Example_Env
begin

text \<open>
  The properties of configuration and startup: which configuration and credentials the
  controllers get, and what is and what is not kept by the conversions.
\<close>

section \<open>Configuration\<close>

text \<open>What a configuration file leads to: its section if it has one, else the default.\<close>

lemma apply_section:
  assumes "LoadFromFile se path = Some (Inr cfg)" "readFile se (filepath_Clean path) = Inr text" "text \<noteq> []"
    and "decodeConfig se text = Inr (DecodedConfiguration v)" "v1_cc_azure v = Some az"
  shows "ApplyAzureOrphanedPublicIPRemedy cfg d =
      (case v1_ac_orphaned_public_ip_remedy az of Some s \<Rightarrow> Convert_v1_pip_config s | None \<Rightarrow> d)"
    and "ApplyAzureFailedVMRemedy cfg d' =
      (case v1_ac_failed_vm_remedy az of Some s \<Rightarrow> Convert_v1_vm_config s | None \<Rightarrow> d')"
  using assms
  by (auto simp: LoadFromFile_def Load_def Convert_v1_configuration_def Convert_v1_azure_def
      ApplyAzureOrphanedPublicIPRemedy_def ApplyAzureFailedVMRemedy_def split: option.splits)

section \<open>Credentials\<close>

text \<open>The client secret is not used when a federated token file is configured: the clients
  then do not depend on it.\<close>

lemma federated_clients_ignore_secret:
  assumes "cr_federated_token_file cred \<noteq> ''''"
  shows "NewClients se (cred\<lparr>cr_client_secret := s\<rparr>) = NewClients se cred"
proof -
  have "federated_token se (cred\<lparr>cr_client_secret := s\<rparr>) = federated_token se cred"
    by (simp add: federated_token_def fun_eq_iff)
  then show ?thesis
    using assms by (simp add: NewClients_def service_principal_token_def split: sum.split)
qed

definition example_credentials :: credentials where
  "example_credentials = \<lparr>cr_client_id = ''id'', cr_client_secret = ''secret'',
     cr_federated_token_file = ''/var/token'', cr_tenant_id = ''tenant'',
     cr_subscription_id = ''subscription'', cr_resource_group = ''shoot''\<rparr>"

text \<open>An environment in which everything succeeds and every controller is switched on.\<close>

fun switch_all :: "(string \<times> (goerr + added_controller)) list \<Rightarrow> goerr + added_controller list" where
  "switch_all [] = Inr []"
| "switch_all ((n, Inl err) # sw) = Inl err"
| "switch_all ((n, Inr c) # sw) = (case switch_all sw of Inl err \<Rightarrow> Inl err | Inr cs \<Rightarrow> Inr (c # cs))"

definition example_section :: v1_pip_config where
  "example_section = \<lparr>v1_pc_requeue_interval = 1 * minute, v1_pc_sync_period = 0,
     v1_pc_service_sync_period = 0, v1_pc_deletion_grace_period = 0, v1_pc_max_get_attempts = 0,
     v1_pc_max_clean_attempts = 0\<rparr>"

definition example_file :: v1_controller_configuration where
  "example_file = \<lparr>v1_cc_type_meta = \<lparr>tm_kind = ''ControllerConfiguration'', tm_api_version = ''v1''\<rparr>,
     v1_cc_client_connection = None,
     v1_cc_azure = Some \<lparr>v1_ac_orphaned_public_ip_remedy = Some example_section,
       v1_ac_failed_vm_remedy = None\<rparr>\<rparr>"

definition example_setup :: setup_env where
  "example_setup =
     \<lparr>readFile = (\<lambda>f. Inr (''contents of '' @ f)),
      decodeConfig = (\<lambda>_. Inr (DecodedConfiguration example_file)),
      openFile = (\<lambda>f. Inr f),
      decodeCredentials = (\<lambda>_. Inr example_credentials),
      activeDirectoryEndpoint = ''ad'', resourceManagerEndpoint = ''rm'',
      newOAuthConfig = (\<lambda>ep tn. Inr tn),
      newTokenFromFederatedTokenCallback = (\<lambda>_ _ f _. f ()),
      newToken = (\<lambda>_ _ secret _. Inr secret),
      loadKubeconfig = (\<lambda>s. Inr (Some s)), newClientConfig = (\<lambda>s. Inr (Some s)),
      newClientSet = (\<lambda>s. Inr (Some s)),
      newController = (\<lambda>_ _ _. None), primaryWatch = (\<lambda>_ _ _. None), addWatches = (\<lambda>_ _. None),
      aggregateComplete = (\<lambda>errs. if list_all (\<lambda>err. err = None) errs then None
         else Some (ExternalError ''options'')),
      restComplete = Inr, baseManagerComplete = Inr, baseManagerApply = (\<lambda>_ opts. opts),
      controllerComplete = (\<lambda>pref _. Inr pref), switchesComplete = (\<lambda>_. None),
      runSwitches = (\<lambda>_. switch_all), applyClientConnection = (\<lambda>_ r. r),
      newManager = (\<lambda>_ _ _. None), addKubernetesScheme = (\<lambda>_. None), addAzureScheme = None\<rparr>"

section \<open>The controllers\<close>

text \<open>The switches of the extensions library add nothing but what they were given.\<close>

definition switches_sound :: "('a setup_env_scheme) \<Rightarrow> bool" where
  "switches_sound se \<longleftrightarrow> (\<forall>pref sw cs. runSwitches se pref sw = Inr cs \<longrightarrow>
     (\<forall>c \<in> set cs. \<exists>n. (n, Inr c) \<in> set sw))"

lemma running_simps:
  "or_exit msg err rest = Running cs ts \<longleftrightarrow> err = None \<and> rest = Running cs ts"
  "result_or_exit msg r f = Running cs ts \<longleftrightarrow> (\<exists>a. r = Inr a \<and> f a = Running cs ts)"
  "completed r f = Running cs ts \<longleftrightarrow> (\<exists>a. r = Inr a \<and> f a = Running cs ts)"
  by (auto simp: or_exit_def result_or_exit_def completed_def split: option.splits sum.splits)

lemma run_parts:
  assumes "run se fl = Running control target"
  obtains cfg mgr pip_ctrl vm_ctrl svc_ctrl node_ctrl where
    "buildConfig se (fl_config_file fl) = Some (Inr cfg)" "mc_namespace mgr = fl_namespace fl"
    "add_controllers se fl cfg mgr pip_ctrl vm_ctrl svc_ctrl node_ctrl = Running control target"
proof (cases "buildConfig se (fl_config_file fl)")
  case (Some config)
  from assms show thesis
    unfolding run_def Let_def Some option.case create_managers_def running_simps
    by (elim conjE exE) (rule that [rotated 2], assumption, auto simp: Some manager_Complete_def split: sum.splits)
qed (use assms in \<open>simp add: run_def Let_def\<close>)

text \<open>What the two managers get.\<close>

lemma control_added:
  assumes "switches_sound se" "run se fl = Running control target"
  obtains cfg where "buildConfig se (fl_config_file fl) = Some (Inr cfg)"
    "\<And>c. c \<in> set control \<Longrightarrow> ad_cluster c = ControlCluster \<and>
       (\<exists>cred. ReadConfig se (fl_infrastructure_config fl) = Inr cred \<and>
         (ad_reconciler c = pip_reconciler (NewPublicIPAddressUtils (cr_resource_group cred))
            (ApplyAzureOrphanedPublicIPRemedy cfg pip_default_config) \<or>
          ad_reconciler c = vm_reconciler (NewVirtualMachineUtils (cr_resource_group cred))
            (ApplyAzureFailedVMRemedy cfg vm_default_config)))"
    "\<And>c. c \<in> set target \<Longrightarrow> ad_cluster c = TargetCluster \<and>
       (ad_reconciler c = svc_reconciler (fl_namespace fl)
          (ApplyAzureOrphanedPublicIPRemedy cfg svc_default_config) \<or>
        ad_reconciler c = node_reconciler (fl_namespace fl)
          (ApplyAzureFailedVMRemedy cfg node_default_config)) \<and>
       list_all (\<lambda>w. ow_cluster w = ControlCluster \<and> ow_reader w = TargetCluster) (ad_watches c)"
proof -
  from assms(2) obtain cfg mgr pip_ctrl vm_ctrl svc_ctrl node_ctrl where
    cfg: "buildConfig se (fl_config_file fl) = Some (Inr cfg)" "mc_namespace mgr = fl_namespace fl"
    and added: "add_controllers se fl cfg mgr pip_ctrl vm_ctrl svc_ctrl node_ctrl = Running control target"
    by (rule run_parts)
  from added obtain pip_opts vm_opts svc_opts node_opts where
    control: "runSwitches se '''' (ControllerSwitchOptions se pip_opts vm_opts) = Inr control" and
    target: "runSwitches se ''target-'' (TargetControllerSwitchOptions se svc_opts node_opts) = Inr target" and
    opts: "ao_infra_config_path pip_opts = fl_infrastructure_config fl"
      "ao_config pip_opts = ApplyAzureOrphanedPublicIPRemedy cfg pip_default_config"
      "ao_infra_config_path vm_opts = fl_infrastructure_config fl"
      "ao_config vm_opts = ApplyAzureFailedVMRemedy cfg vm_default_config"
      "to_namespace svc_opts = mc_namespace mgr" "to_manager svc_opts = ControlCluster"
      "to_config svc_opts = ApplyAzureOrphanedPublicIPRemedy cfg svc_default_config"
      "to_namespace node_opts = mc_namespace mgr" "to_manager node_opts = ControlCluster"
      "to_config node_opts = ApplyAzureFailedVMRemedy cfg node_default_config"
    by (auto simp: add_controllers_def running_simps Let_def)
  have given: "\<exists>n. (n, Inr c) \<in> set sw" if "runSwitches se pref sw = Inr cs" "c \<in> set cs" for pref sw cs c
    using assms(1) that unfolding switches_sound_def by blast
  show thesis
  proof (rule that [OF cfg(1)])
    fix c assume "c \<in> set control"
    from given [OF control this] show "ad_cluster c = ControlCluster \<and>
       (\<exists>cred. ReadConfig se (fl_infrastructure_config fl) = Inr cred \<and>
         (ad_reconciler c = pip_reconciler (NewPublicIPAddressUtils (cr_resource_group cred))
            (ApplyAzureOrphanedPublicIPRemedy cfg pip_default_config) \<or>
          ad_reconciler c = vm_reconciler (NewVirtualMachineUtils (cr_resource_group cred))
            (ApplyAzureFailedVMRemedy cfg vm_default_config)))"
      by (auto simp: ControllerSwitchOptions_def opts dest!: pip_added [OF sym] vm_added [OF sym])
  next
    fix c assume "c \<in> set target"
    from given [OF target this] show "ad_cluster c = TargetCluster \<and>
       (ad_reconciler c = svc_reconciler (fl_namespace fl)
          (ApplyAzureOrphanedPublicIPRemedy cfg svc_default_config) \<or>
        ad_reconciler c = node_reconciler (fl_namespace fl)
          (ApplyAzureFailedVMRemedy cfg node_default_config)) \<and>
       list_all (\<lambda>w. ow_cluster w = ControlCluster \<and> ow_reader w = TargetCluster) (ad_watches c)"
      by (auto simp: TargetControllerSwitchOptions_def opts cfg(2) dest!: svc_added [OF sym] node_added [OF sym])
  qed
qed

text \<open>Once the command has started its managers, the configuration file was loaded; the
  target cluster's manager has only service and node controllers with the sync period of the
  file's section, or the default where it has none; the resources they create live in the
  namespace of the control cluster's manager and are watched in the control cluster, while the
  owners of these are read from the target cluster.\<close>

lemma target_controllers_are_configured:
  assumes "switches_sound se" "run se fl = Running control target"
  shows "\<exists>cfg. buildConfig se (fl_config_file fl) = Some (Inr cfg) \<and>
    (\<forall>c \<in> set target. ad_cluster c = TargetCluster \<and>
       (ad_reconciler c = svc_reconciler (fl_namespace fl)
          (ApplyAzureOrphanedPublicIPRemedy cfg svc_default_config) \<or>
        ad_reconciler c = node_reconciler (fl_namespace fl)
          (ApplyAzureFailedVMRemedy cfg node_default_config)) \<and>
       list_all (\<lambda>w. ow_cluster w = ControlCluster \<and> ow_reader w = TargetCluster) (ad_watches c))"
  by (rule control_added [OF assms]) blast

lemma switch_all_sound: "switch_all sw = Inr cs \<Longrightarrow> c \<in> set cs \<Longrightarrow> \<exists>n. (n, Inr c) \<in> set sw"
  by (induction sw arbitrary: cs rule: switch_all.induct) (fastforce split: sum.splits)+

lemma example_setup_sound: "switches_sound example_setup"
  unfolding switches_sound_def
  by (auto simp: example_setup_def intro: switch_all_sound)

definition example_flags :: flags where
  "example_flags = default_flags\<lparr>fl_config_file := ''/etc/config'', fl_infrastructure_config := ''/etc/azure''\<rparr>"

lemma example_runs:
  obtains control target where "run example_setup example_flags = Running control target"
    "map (\<lambda>c. rc_kind (ad_reconciler c)) control = [PublicIPAddressKind, VirtualMachineKind]"
    "map (\<lambda>c. rc_kind (ad_reconciler c)) target = [ServiceKind, NodeKind]"
proof -
  have "(case run example_setup example_flags of
      Running cs ts \<Rightarrow> map (\<lambda>c. rc_kind (ad_reconciler c)) cs = [PublicIPAddressKind, VirtualMachineKind] \<and>
        map (\<lambda>c. rc_kind (ad_reconciler c)) ts = [ServiceKind, NodeKind]
    | _ \<Rightarrow> False)"
    by code_simp
  then show thesis by (auto intro: that split: run_result.splits)
qed

end
