(* ===== verification/Lifecycle.thy ===== *)
theory Lifecycle
  imports Pip_Cleaning Pip_Properties Service_Properties
begin

text \<open>
  The life of a publicipaddress across the two controllers that share it: the service
  controller creates and deletes the resource, the publicipaddress controller sees the
  deletion timestamp and cleans the address. What joins the two steps is the API server, whose
  documented behaviour is stated as hypotheses on the environment.
\<close>

section \<open>A service loses an IP\<close>

text \<open>
  The API server's side of an accepted deletion of a resource that has a finalizer: from then on
  the resource is served with a deletion timestamp. The other conditions are those of a cleaning.
\<close>

definition terminating_at :: "env \<Rightarrow> string \<Rightarrow> pip_config \<Rightarrow> trace \<Rightarrow> object_key \<Rightarrow>
    string \<Rightarrow> string \<Rightarrow> bool" where
  "terminating_at e rg cfg t key i n \<longleftrightarrow>
     (\<exists>p z. kGet e t PublicIPAddressKind key = Inr (PublicIPAddress p) \<and>
        meta_deletion_timestamp (pip_meta p) \<noteq> None \<and> grace_elapsed e cfg p \<and>
        containsFinalizer e (PublicIPAddress p) pip_FinalizerName \<and> \<not> shouldNotClean p \<and>
        azure_knows e rg p z \<and> az_ip_id z = Some i \<and> az_ip_name z = Some n)"

definition cleaned_by_next_reconcile :: "env \<Rightarrow> string \<Rightarrow> pip_config \<Rightarrow> trace \<Rightarrow> object_key \<Rightarrow>
    string \<Rightarrow> string \<Rightarrow> bool" where
  "cleaned_by_next_reconcile e rg cfg t key i n \<longleftrightarrow>
     (\<exists>p es. Reconcile (pip_reconciler (NewPublicIPAddressUtils rg) cfg) key e t =
        (Returned (Inr empty_result),
         t @ es @ [KRemoveFinalizer (PublicIPAddress p) pip_FinalizerName None]) \<and>
        cleans rg i n es \<and> \<not> ps_exists (pip_status p))"

lemma terminating_is_cleaned:
  assumes "terminating_at e rg cfg t key i n"
    and "azure_accepts_cleaning e rg" "accepts_patches e" "releases_finalizers e"
  shows "cleaned_by_next_reconcile e rg cfg t key i n"
  using assms Reconcile_cleans
  unfolding terminating_at_def cleaned_by_next_reconcile_def by metis

lemma svc_create_releases:
  assumes "svc_CreateOrUpdate a svc e t = (Returned (Inr d), t1)" "\<not> shouldIgnoreService svc"
  shows "\<exists>pubips. KListPips (sa_namespace a) (pubip_labels svc) (Inr pubips) \<in> set t1 \<and>
    (\<forall>p \<in> set pubips. ps_ip_address (pip_spec p) \<in> set (getServiceLoadBalancerIPs svc) \<or>
       (\<exists>err. KDelete (PublicIPAddress p) err \<in> set t1 \<and> ignoreNotFound e err = None))"
proof -
  obtain es where es: "t1 = t @ es" "in_step e a svc es"
    using yields_run [OF svc_create_spec assms(1)] by auto
  from es(2) assms(2) obtain pubips where
    "KListPips (sa_namespace a) (pubip_labels svc) (Inr pubips) \<in> set es"
    "\<forall>p \<in> set pubips. ps_ip_address (pip_spec p) \<in> set (getServiceLoadBalancerIPs svc) \<or>
       (\<exists>err. KDelete (PublicIPAddress p) err \<in> set es \<and> ignoreNotFound e err = None)"
    unfolding in_step_def released_def gone_def by auto
  then show ?thesis unfolding es(1) by (intro exI [of _ pubips]) auto
qed

section \<open>A service regains an IP\<close>

lemma mutate_keeps_deletion:
  "meta_deletion_timestamp (pip_meta (mutate_pubip svc ip p)) = meta_deletion_timestamp (pip_meta p)"
  "meta_finalizers (pip_meta (mutate_pubip svc ip p)) = meta_finalizers (pip_meta p)"
  by (simp_all add: mutate_pubip_def)

lemma create_for_ip_accepted:
  assumes "\<And>t. kCreateOrUpdatePip e t (pubip_for a svc ip) (mutate_pubip svc ip) = (None, p)"
  shows "create_for_ip a svc ip e t =
    (Returned None, t @ [KCreateOrUpdatePip (pubip_for a svc ip) None p])"
proof -
  have "retry_conflicts n (CreateOrUpdatePip (mutate_pubip svc ip)) (pubip_for a svc ip) e t =
      (Returned (None, p), t @ [KCreateOrUpdatePip (pubip_for a svc ip) None p])" for n t
    using assms by (cases n) (simp_all add: CreateOrUpdatePip_def run_simps)
  then show ?thesis
    by (simp add: create_for_ip_def RetryOnConflict_def run_simps seq_run_Returned)
qed

lemma grace_elapsed_mutate: "grace_elapsed e cfg (mutate_pubip svc ip p) = grace_elapsed e cfg p"
  by (simp add: grace_elapsed_def mutate_keeps_deletion)

section \<open>Properties\<close>

text \<open>C8: From a lost IP to the deleted address, across both controllers: \<open>CreateOrUpdate\<close> of a
  service that is not ignored succeeds; every resource listed for it whose IP the service no
  longer has was deleted (or gone already). If the API server then serves such a resource as
  being deleted and its grace period is over, then whatever happened in between, the next
  reconciliation of the publicipaddress controller takes the address off the load balancer,
  deletes it, and releases the resource last, with a status that says it does not exist.\<close>

theorem lost_ip_is_cleaned:
  assumes "svc_CreateOrUpdate a svc e t = (Returned (Inr d), t1)" "\<not> shouldIgnoreService svc"
    and "\<And>p. KDelete (PublicIPAddress p) None \<in> set t1 \<Longrightarrow>
      terminating_at e rg cfg (t1 @ mid) (obj_key (PublicIPAddress p)) (ids p) (names p)"
    and "azure_accepts_cleaning e rg" "accepts_patches e" "releases_finalizers e"
  shows "\<exists>pubips. KListPips (sa_namespace a) (pubip_labels svc) (Inr pubips) \<in> set t1 \<and>
    (\<forall>p \<in> set pubips. ps_ip_address (pip_spec p) \<in> set (getServiceLoadBalancerIPs svc) \<or>
       (\<exists>err. KDelete (PublicIPAddress p) err \<in> set t1 \<and>
          (err = None \<longrightarrow> cleaned_by_next_reconcile e rg cfg (t1 @ mid)
             (obj_key (PublicIPAddress p)) (ids p) (names p))))"
proof -
  obtain pubips where pubips: "KListPips (sa_namespace a) (pubip_labels svc) (Inr pubips) \<in> set t1"
    "\<And>p. p \<in> set pubips \<Longrightarrow> ps_ip_address (pip_spec p) \<notin> set (getServiceLoadBalancerIPs svc) \<Longrightarrow>
       \<exists>err. KDelete (PublicIPAddress p) err \<in> set t1"
    using svc_create_releases [OF assms(1,2)] by blast
  then show ?thesis
    using terminating_is_cleaned [OF assms(3) assms(4-6)] by (intro exI [of _ pubips]) blast
qed

text \<open>
  An instance: the API server lists a resource for an IP the service lost and serves it as being
  deleted since time 0; the clock stands past the grace period, and Azure has the address.
\<close>

definition lost_azip :: az_public_ip where
  "lost_azip = \<lparr>az_ip_id = Some ''/ip-2'', az_ip_name = Some ''ip-2'',
     az_ip_address = Some ''2.2.2.2'', az_ip_provisioning_state = Some Succeeded,
     az_ip_tags = Map.empty\<rparr>"

definition lost_pip :: public_ip_address where
  "lost_pip = (example_pip ''2.2.2.2'')\<lparr>
     pip_meta := (pip_meta (example_pip ''2.2.2.2''))\<lparr>meta_finalizers := [pip_FinalizerName],
        meta_deletion_timestamp := Some (TimePtr 1 0)\<rparr>\<rparr>"

definition lost_env :: env where
  "lost_env = example_env\<lparr>
     kListPips := (\<lambda>t ns ls. Inr [example_pip ''2.2.2.2'']),
     kGet := (\<lambda>t k key. Inr (PublicIPAddress lost_pip)),
     azPipList := (\<lambda>t rg. Inr \<lparr>page_not_done = True, page_values = [lost_azip]\<rparr>),
     azLbGet := (\<lambda>t rg n. Inr \<lparr>lb_frontend_ip_configurations = None, lb_rules = None,
                              lb_probes = None, lb_rest = ''''\<rparr>),
     clockNow := (\<lambda>t. 301 * 1000000000)\<rparr>"

lemma lost_env_facts:
  "azure_accepts_cleaning lost_env rg" "accepts_patches lost_env" "releases_finalizers lost_env"
  by (simp_all add: lost_env_def azure_accepts_cleaning_def accepts_patches_def releases_finalizers_def)

lemma default_label: "map_get (meta_labels (pip_meta lost_pip)) ServiceLabel = ''''"
  by (simp add: lost_pip_def example_pip_def new_pip_def empty_meta_def map_get_def)

lemma lost_pip_facts:
  "ps_name (pip_status lost_pip) = None" "ps_ip_address (pip_spec lost_pip) = ''2.2.2.2''"
  "meta_deletion_timestamp (pip_meta lost_pip) = Some (TimePtr 1 0)" "\<not> shouldNotClean lost_pip"
  "containsFinalizer lost_env (PublicIPAddress lost_pip) pip_FinalizerName"
  by (simp_all add: lost_pip_def example_pip_def new_pip_def empty_pip_status_def empty_meta_def
      shouldNotClean_def map_get_def format_bool_def lost_env_def)

lemma lost_azip_found: "has_ip ''2.2.2.2'' lost_azip" "az_ip_id lost_azip = Some ''/ip-2''"
  "az_ip_name lost_azip = Some ''ip-2''"
  by (simp_all add: lost_azip_def has_ip_def)

lemma lost_tagged:
  "tagged_for (namespacedNameString lost_env (GetNamespacedName service_ObjectLabeler '''')) lost_azip"
  by code_simp

lemma lost_terminating: "terminating_at lost_env rg pip_default_config t key ''/ip-2'' ''ip-2''"
  unfolding terminating_at_def
  by (intro exI [of _ lost_pip] exI [of _ lost_azip])
    (simp add: lost_pip_facts lost_azip_found azure_knows_def default_label lost_tagged
      grace_elapsed_def pip_default_config_def, simp add: lost_env_def lost_azip_found)

theorem lost_ip_is_cleaned_witness:
  "\<exists>pubips. KListPips (sa_namespace example_service_actuator)
       (pubip_labels (example_service Map.empty [''1.1.1.1''])) (Inr pubips) \<in>
       set (snd (svc_CreateOrUpdate example_service_actuator
         (example_service Map.empty [''1.1.1.1'']) lost_env [])) \<and>
     (\<forall>p \<in> set pubips. ps_ip_address (pip_spec p) \<in>
         set (getServiceLoadBalancerIPs (example_service Map.empty [''1.1.1.1''])) \<or>
       (\<exists>err. KDelete (PublicIPAddress p) err \<in> set (snd (svc_CreateOrUpdate
           example_service_actuator (example_service Map.empty [''1.1.1.1'']) lost_env [])) \<and>
          (err = None \<longrightarrow> cleaned_by_next_reconcile lost_env ''shoot'' pip_default_config
             (snd (svc_CreateOrUpdate example_service_actuator
               (example_service Map.empty [''1.1.1.1'']) lost_env []) @ [ClockNow 0])
             (obj_key (PublicIPAddress p)) ''/ip-2'' ''ip-2'')))"
proof -
  let ?run = "svc_CreateOrUpdate example_service_actuator
    (example_service Map.empty [''1.1.1.1'']) lost_env []"
  have "(case fst ?run of Returned (Inr d) \<Rightarrow> True | _ \<Rightarrow> False)" by code_simp
  then obtain d where run: "?run = (Returned (Inr d), snd ?run)"
    by (auto simp: prod_eq_iff split: outcome.splits sum.splits)
  have "\<not> shouldIgnoreService (example_service Map.empty [''1.1.1.1''])" by code_simp
  from lost_ip_is_cleaned [OF run this lost_terminating lost_env_facts] show ?thesis by blast
qed

text \<open>C29: A regained IP is cleaned all the same: when a service gets an IP (again) whose
  resource is already being deleted, the service controller's update succeeds, but keeps the
  deletion timestamp, and takes away a do-not-clean mark; so the next reconciliation of the
  publicipaddress controller past the grace period deletes the address that the service uses.\<close>

theorem regained_ip_is_still_cleaned:
  assumes "ip \<in> set (getServiceLoadBalancerIPs svc)"
    and "\<And>t. kCreateOrUpdatePip e t (pubip_for a svc ip) (mutate_pubip svc ip) =
      (None, mutate_pubip svc ip p)"
    and "meta_deletion_timestamp (pip_meta p) \<noteq> None" "grace_elapsed e cfg p"
    and "kGet e t2 PublicIPAddressKind key = Inr (PublicIPAddress (mutate_pubip svc ip p))"
    and "containsFinalizer e (PublicIPAddress (mutate_pubip svc ip p)) pip_FinalizerName"
    and "azure_knows e rg (mutate_pubip svc ip p) z" "az_ip_id z = Some i" "az_ip_name z = Some n"
    and "azure_accepts_cleaning e rg" "accepts_patches e" "releases_finalizers e"
  shows "create_for_ip a svc ip e t =
      (Returned None, t @ [KCreateOrUpdatePip (pubip_for a svc ip) None (mutate_pubip svc ip p)]) \<and>
    has_ip ip z \<and> cleaned_by_next_reconcile e rg cfg t2 key i n"
proof (intro conjI)
  show "create_for_ip a svc ip e t =
      (Returned None, t @ [KCreateOrUpdatePip (pubip_for a svc ip) None (mutate_pubip svc ip p)])"
    using assms(2) by (rule create_for_ip_accepted)
  show "has_ip ip z"
    using assms(7) by (simp add: azure_knows_def mutate_pubip_facts)
  have "terminating_at e rg cfg t2 key i n"
    unfolding terminating_at_def
    using assms(3-9) mutate_pubip_facts(3) grace_elapsed_mutate mutate_keeps_deletion by metis
  then show "cleaned_by_next_reconcile e rg cfg t2 key i n"
    using assms(10-12) by (rule terminating_is_cleaned)
qed

definition regained_service :: service where
  "regained_service = example_service Map.empty [''2.2.2.2'']"

definition regained_azip :: az_public_ip where
  "regained_azip = lost_azip\<lparr>az_ip_tags := [ServiceTag \<mapsto> Some ''default/svc'']\<rparr>"

definition regained_pip :: public_ip_address where
  "regained_pip = mutate_pubip regained_service ''2.2.2.2'' lost_pip"

definition regained_env :: env where
  "regained_env = lost_env\<lparr>
     azPipList := (\<lambda>t rg. Inr \<lparr>page_not_done = True, page_values = [regained_azip]\<rparr>),
     kCreateOrUpdatePip := (\<lambda>t p f. (None, f lost_pip)),
     kGet := (\<lambda>t k key. Inr (PublicIPAddress regained_pip))\<rparr>"

lemma regained_env_facts:
  "azure_accepts_cleaning regained_env rg" "accepts_patches regained_env"
  "releases_finalizers regained_env" "grace_elapsed regained_env pip_default_config lost_pip"
  by (simp_all add: regained_env_def lost_env_def azure_accepts_cleaning_def accepts_patches_def
      releases_finalizers_def grace_elapsed_def lost_pip_facts pip_default_config_def)

lemma regained_pip_facts:
  "ps_name (pip_status regained_pip) = None" "ps_ip_address (pip_spec regained_pip) = ''2.2.2.2''"
  "containsFinalizer regained_env (PublicIPAddress regained_pip) pip_FinalizerName"
  by (simp_all add: regained_pip_def mutate_pubip_facts mutate_pubip_def lost_pip_facts
      regained_env_def lost_env_def lost_pip_def example_pip_def new_pip_def empty_pip_status_def)

lemma regained_tagged:
  "tagged_for (namespacedNameString regained_env (GetNamespacedName service_ObjectLabeler
     (map_get (meta_labels (pip_meta regained_pip)) ServiceLabel))) regained_azip"
  by code_simp

lemma regained_known: "azure_knows regained_env rg regained_pip regained_azip"
  using regained_tagged
  by (simp add: azure_knows_def regained_pip_facts has_ip_def regained_azip_def lost_azip_def,
      simp add: regained_env_def lost_env_def regained_azip_def lost_azip_def has_ip_def)

theorem regained_ip_is_still_cleaned_witness:
  "''2.2.2.2'' \<in> set (getServiceLoadBalancerIPs regained_service) \<and>
   create_for_ip example_service_actuator regained_service ''2.2.2.2'' regained_env [] =
     (Returned None, [] @ [KCreateOrUpdatePip
       (pubip_for example_service_actuator regained_service ''2.2.2.2'') None
       (mutate_pubip regained_service ''2.2.2.2'' lost_pip)]) \<and>
   has_ip ''2.2.2.2'' regained_azip \<and>
   cleaned_by_next_reconcile regained_env ''shoot'' pip_default_config [ClockNow 0]
     (obj_key (PublicIPAddress regained_pip)) ''/ip-2'' ''ip-2''"
proof (intro conjI [OF _ regained_ip_is_still_cleaned])
  show *: "''2.2.2.2'' \<in> set (getServiceLoadBalancerIPs regained_service)" by code_simp
  then show "''2.2.2.2'' \<in> set (getServiceLoadBalancerIPs regained_service)" .
qed (simp_all add: regained_env_facts regained_known [unfolded regained_pip_def]
    regained_pip_facts [unfolded regained_pip_def] lost_pip_facts,
  simp_all add: regained_env_def regained_pip_def regained_azip_def lost_azip_def)

end
