(* ===== verification/Status_Types.thy ===== *)
theory Status_Types
  imports Pip_Controller Vm_Controller
begin

text \<open>
  The type of the statuses the controllers write: what a status must look like beyond the Go
  types, and that every reconciliation keeps it so.
\<close>

section \<open>Well-formed statuses\<close>

text \<open>At most one failed operation per type, of the types of the resource.\<close>

definition ops_of_types :: "operation_type set \<Rightarrow> failed_operation list \<Rightarrow> bool" where
  "ops_of_types tys ops \<longleftrightarrow> wf_ops ops \<and> fo_type ` set ops \<subseteq> tys"

definition pip_operation_types :: "operation_type set" where
  "pip_operation_types = {OperationTypeGetPublicIPAddress, OperationTypeCleanPublicIPAddress}"

definition vm_operation_types :: "operation_type set" where
  "vm_operation_types = {OperationTypeGetVirtualMachine, OperationTypeReapplyVirtualMachine}"

text \<open>What does not exist has neither id nor name nor state.\<close>

definition wf_pip_status :: "pip_status \<Rightarrow> bool" where
  "wf_pip_status st \<longleftrightarrow> ops_of_types pip_operation_types (ps_failed_operations st) \<and>
     (ps_exists st \<or> ps_id st = None \<and> ps_name st = None \<and> ps_provisioning_state st = None)"

definition wf_vm_status :: "vm_status \<Rightarrow> bool" where
  "wf_vm_status st \<longleftrightarrow> ops_of_types vm_operation_types (vs_failed_operations st) \<and>
     (vs_exists st \<or> vs_id st = None \<and> vs_name st = None \<and> vs_provisioning_state st = None)"

lemma ops_of_types_add [simp]:
  "ops_of_types tys ops \<Longrightarrow> ty \<in> tys \<Longrightarrow>
   ops_of_types tys (fst (AddOrUpdateFailedOperation ops ty msg ts))"
  by (simp add: ops_of_types_def wf_ops_add types_add)

lemma ops_of_types_delete [simp]:
  "ops_of_types tys ops \<Longrightarrow> ops_of_types tys (DeleteFailedOperation ops ty)"
  unfolding ops_of_types_def using set_delete [of ops ty] wf_ops_delete by blast

lemma wf_build_status [simp]:
  "ops_of_types pip_operation_types ops \<Longrightarrow> wf_pip_status (build_status azip ops)"
  by (auto simp: wf_pip_status_def build_status_def Let_def empty_pip_status_def ops_of_types_def
      split: option.split)

lemma wf_vm_build_status [simp]:
  "ops_of_types vm_operation_types ops \<Longrightarrow> wf_vm_status (vm_build_status azvm ops)"
  by (auto simp: wf_vm_status_def vm_build_status_def Let_def empty_vm_status_def ops_of_types_def
      split: option.split)

lemma operation_types [simp]:
  "OperationTypeGetPublicIPAddress \<in> pip_operation_types"
  "OperationTypeCleanPublicIPAddress \<in> pip_operation_types"
  "OperationTypeGetVirtualMachine \<in> vm_operation_types"
  "OperationTypeReapplyVirtualMachine \<in> vm_operation_types"
  by (simp_all add: pip_operation_types_def vm_operation_types_def)

section \<open>Well-formed histories\<close>

text \<open>Every status patch that counted as accepted left a well-formed status.\<close>

fun well_typed :: "env \<Rightarrow> event \<Rightarrow> bool" where
  "well_typed e (KPatchPip _ err p) = (ignoreNotFound e err = None \<longrightarrow> wf_pip_status (pip_status p))"
| "well_typed e (KPatchVm _ err vm) = (err = None \<longrightarrow> wf_vm_status (vm_status vm))"
| "well_typed e _ = True"

abbreviation typed :: "env \<Rightarrow> 'a io \<Rightarrow> bool" where
  "typed e m \<equiv> yields e m (\<lambda>_ es. list_all (well_typed e) es)"

lemma typed_seq:
  assumes "typed e m" "\<And>a. typed e (f a)"
  shows "typed e (seq m f)"
  by (rule yields_seq [OF assms(1)]) (auto intro: yields_mono [OF assms(2)])

lemma typed_stays: "stays P m \<Longrightarrow> (\<And>ev. P ev \<Longrightarrow> well_typed e ev) \<Longrightarrow> typed e m"
  by (rule staysD [OF stays_mono])

lemma lookup_typed: "lookup_event ev \<Longrightarrow> well_typed e ev"
  by (cases ev) auto

lemma lb_typed: "lb_event ids ev \<Longrightarrow> well_typed e ev"
  by (cases ev) auto

lemma pip_delete_typed: "pip_delete_event name ev \<Longrightarrow> well_typed e ev"
  by (cases ev) auto

lemma vm_lookup_typed: "vm_lookup_event n ev \<Longrightarrow> well_typed e ev"
  by (cases ev) auto

lemma vm_reapply_typed: "vm_reapply_event n ev \<Longrightarrow> well_typed e ev"
  by (cases ev) auto

lemma patch_typed:
  assumes "patch_lawful e" "ops_of_types pip_operation_types ops"
  shows "typed e (updatePublicIPAddressStatus p azip ops)"
  by (rule yieldsI)
    (use patched_status [OF assms(1)] assms(2) in
      \<open>auto simp: run_update_status Let_def split: prod.split\<close>)

lemma vm_patch_typed:
  assumes "vm_patch_lawful e" "ops_of_types vm_operation_types ops"
  shows "typed e (updateVirtualMachineStatus vm azvm ops)"
  by (rule yieldsI)
    (use vm_patched_status [OF assms(1)] assms(2) in
      \<open>auto simp: run_update_vm_status Let_def split: prod.split\<close>)

lemmas typed_intros = typed_seq yields_ret yields_panic yields_fuel yields_ask yields_emit
  patch_typed vm_patch_typed

lemma now_typed: "typed e now"
  unfolding now_def by (auto intro!: yields_ecall)

section \<open>The actuators\<close>

lemma handle_failure_typed:
  assumes "patch_lawful e" "ops_of_types pip_operation_types ops" "ty \<in> pip_operation_types"
  shows "typed e (handle_failure a p azip ops ty mx err)"
  unfolding handle_failure_def Let_def case_prod_beta
  using assms by (auto intro!: typed_intros now_typed split: option.split)

lemma vm_handle_failure_typed:
  assumes "vm_patch_lawful e" "ops_of_types vm_operation_types ops" "ty \<in> vm_operation_types"
    and "typed e finally"
  shows "typed e (vm_handle_failure a vm azvm ops ty mx finally err)"
  unfolding vm_handle_failure_def Let_def case_prod_beta
  using assms by (auto intro!: typed_intros now_typed split: option.split)

lemma within_grace_typed: "typed e (within_grace a p)"
  unfolding within_grace_def by (auto intro!: typed_intros now_typed split: option.split)

context pip_utils_contract
begin

lemma getAzure_typed:
  assumes "pa_utils a = u"
  shows "typed e (getAzurePublicIPAddress a p)"
  by (rule yields_mono [OF getAzure_spec [OF assms]])
    (auto elim!: list.pred_mono_strong intro: lookup_typed)

lemma clean_typed:
  assumes "pa_utils a = u"
  shows "typed e (cleanAzurePublicIPAddress a p)"
  unfolding cleanAzurePublicIPAddress_def deref_def assms
  by (auto intro!: typed_intros typed_stays [OF remove_only lb_typed]
      typed_stays [OF delete_only pip_delete_typed] split: option.split)

lemma pip_operations_typed:
  assumes "pa_utils a = u" "patch_lawful e"
    and "ops_of_types pip_operation_types (ps_failed_operations (pip_status p))"
  shows "typed e (pip_CreateOrUpdate a p)" "typed e (pip_Delete a p)"
  unfolding pip_CreateOrUpdate_def pip_Delete_def pip_clean_def Let_def getFailedOperations_def
    case_prod_beta
  using assms
  by (auto intro!: typed_intros getAzure_typed clean_typed handle_failure_typed within_grace_typed
      split: sum.split option.split)

end

context vm_utils_contract
begin

lemma getAzureVm_typed:
  assumes "va_utils a = u"
  shows "typed e (getAzureVirtualMachine a n)" "typed e (reapplyAzureVirtualMachine a n)"
  unfolding getAzureVirtualMachine_def reapplyAzureVirtualMachine_def assms
  by (auto intro!: typed_intros typed_stays [OF get_reads vm_lookup_typed]
      typed_stays [OF reapply_only vm_reapply_typed] split: sum.split option.split)

lemma gauge_typed: "typed e (setVMStatesGauge azvm n)"
  unfolding setVMStatesGauge_def by (auto intro!: typed_intros split: option.split)

lemma vm_operations_typed:
  assumes "va_utils a = u" "vm_patch_lawful e"
    and "ops_of_types vm_operation_types (vs_failed_operations (vm_status vm))"
  shows "typed e (vm_CreateOrUpdate a vm)" "typed e (vm_Delete a vm)"
  unfolding vm_CreateOrUpdate_def vm_Delete_def vm_reapply_def Let_def vm_getFailedOperations_def
    case_prod_beta
  using assms
  by (auto intro!: typed_intros getAzureVm_typed vm_handle_failure_typed gauge_typed
      split: sum.split option.split)

end

section \<open>Reconciliation\<close>

fun wf_object :: "k8s_object \<Rightarrow> bool" where
  "wf_object (PublicIPAddress p) = wf_pip_status (pip_status p)"
| "wf_object (VirtualMachine vm) = wf_vm_status (vm_status vm)"
| "wf_object _ = True"

text \<open>
  The API server serves what was written: as long as all statuses written are well-formed, so
  are the ones of the objects it hands out.
\<close>

definition serves_well_typed :: "env \<Rightarrow> bool" where
  "serves_well_typed e \<longleftrightarrow> (\<forall>t. list_all (well_typed e) t \<longrightarrow>
     (\<forall>k key ob. kGet e t k key = Inr ob \<longrightarrow> wf_object ob) \<and>
     (\<forall>ob f ob'. wf_object ob \<longrightarrow> kAddFinalizer e t ob f = (None, ob') \<longrightarrow> wf_object ob'))"

lemma typed_run: "typed e m \<Longrightarrow> list_all (well_typed e) t \<Longrightarrow> list_all (well_typed e) (snd (m e t))"
  unfolding yields_def by (metis list_all_append)

lemma typed_seq_run:
  assumes "typed e m" "list_all (well_typed e) t"
    and "\<And>a t'. list_all (well_typed e) t' \<Longrightarrow> list_all (well_typed e) (snd (f a e t'))"
  shows "list_all (well_typed e) (snd (seq m f e t))"
  using typed_run [OF assms(1,2)] assms(3)
  by (auto simp: seq_def split: prod.split outcome.split)

lemma reconcileErr_typed: "typed e (reconcileErr err)"
  by (rule yields_reconcileErr) simp

lemma remove_finalizer_typed: "typed e (remove_finalizer rc ob res)"
  by (rule yields_remove_finalizer) simp

lemma wf_zero_object: "wf_object (zero_object k key)"
  by (cases k) (simp_all add: new_pip_def new_vm_def wf_pip_status_def wf_vm_status_def
      empty_pip_status_def empty_vm_status_def ops_of_types_def)

lemma Reconcile_typed:
  assumes ops: "\<And>ob. wf_object ob \<Longrightarrow> typed e (CreateOrUpdate (rc_actuator rc) ob)"
    "\<And>ob. wf_object ob \<Longrightarrow> typed e (Delete (rc_actuator rc) ob)"
    "\<And>ob. typed e (ShouldFinalize (rc_actuator rc) ob)"
    and serves: "serves_well_typed e"
    and start: "list_all (well_typed e) t"
  shows "list_all (well_typed e) (snd (Reconcile rc key e t))"
proof -
  let ?ok = "list_all (well_typed e)"
  note ends = typed_intros reconcileErr_typed remove_finalizer_typed
  have act: "typed e (actuator_CreateOrUpdate rc sf ob)" if "wf_object ob" for sf ob
    unfolding actuator_CreateOrUpdate_def
    by (auto intro!: ends ops that split: sum.split)
  have del: "typed e (delete rc ob)" if "wf_object ob" for ob
    unfolding delete_def by (auto intro!: ends ops that split: sum.split)
  have ens: "typed e (ensureDeleted rc ob)" if "wf_object ob" for ob
    unfolding ensureDeleted_def by (auto intro!: ends ops that split: sum.split)
  have create: "?ok (snd (createOrUpdate rc ob e u))" if "wf_object ob" "?ok u" for ob u
    unfolding createOrUpdate_def
  proof (rule typed_seq_run [OF ops(3) that(2)], goal_cases)
    case (1 sf t')
    obtain err ob' where add: "kAddFinalizer e t' ob (rc_finalizer rc) = (err, ob')" by fastforce
    with serves 1 that(1) have "err = None \<Longrightarrow> wf_object ob'"
      unfolding serves_well_typed_def by blast
    then show ?case
      using 1 add typed_run [OF act] that(1)
      by (auto simp: AddFinalizers_def run_simps split: sum.split option.split)
  qed
  let ?got = "kGet e t (rc_kind rc) key"
  have fetched: "?ok (t @ [KGet (rc_kind rc) key ?got])" using start by simp
  show ?thesis
  proof (cases ?got)
    case (Inl err)
    with typed_run [OF ens fetched] wf_zero_object start show ?thesis
      by (simp add: Reconcile_def client_Get_def run_simps)
  next
    case (Inr ob)
    with serves start have "wf_object ob" unfolding serves_well_typed_def by blast
    with Inr typed_run [OF del fetched] create [OF _ fetched] show ?thesis
      by (simp add: Reconcile_def client_Get_def run_simps)
  qed
qed

lemma on_pip_typed:
  "(\<And>p. ob = PublicIPAddress p \<Longrightarrow> typed e (f p)) \<Longrightarrow> typed e (on_pip f ob)"
  unfolding on_pip_def by (auto intro!: typed_intros split: k8s_object.split)

lemma on_vm_typed:
  "(\<And>vm. ob = VirtualMachine vm \<Longrightarrow> typed e (f vm)) \<Longrightarrow> typed e (on_vm f ob)"
  unfolding on_vm_def by (auto intro!: typed_intros split: k8s_object.split)

lemma pip_Reconcile_typed:
  assumes "patch_lawful e" "serves_well_typed e" "list_all (well_typed e) t"
  shows "list_all (well_typed e)
    (snd (Reconcile (pip_reconciler (NewPublicIPAddressUtils rg) cfg) key e t))"
  by (rule Reconcile_typed)
    (use assms azure_pips.pip_operations_typed in
      \<open>auto simp: pip_reconciler_def pip_NewActuator_def Let_def wf_pip_status_def
        intro!: on_pip_typed yields_ret\<close>)

lemma vm_Reconcile_typed:
  assumes "vm_patch_lawful e" "serves_well_typed e" "list_all (well_typed e) t"
  shows "list_all (well_typed e)
    (snd (Reconcile (vm_reconciler (NewVirtualMachineUtils rg) cfg) key e t))"
  by (rule Reconcile_typed)
    (use assms azure_vms.vm_operations_typed in
      \<open>auto simp: vm_reconciler_def vm_NewActuator_def Let_def wf_vm_status_def
        intro!: on_vm_typed yields_ret\<close>)

section \<open>The property\<close>

text \<open>C22: Well-formed statuses stay well-formed: if the API server serves what was written, and
  its patches are mutations of the resource, then after every reconciliation of a
  publicipaddress or virtualmachine all statuses ever written have at most one failed operation
  per type, only of the types of their kind of resource, and neither id nor name nor state if
  they say that nothing exists.\<close>

theorem statuses_stay_well_formed:
  assumes "patch_lawful e" "vm_patch_lawful e" "serves_well_typed e" "list_all (well_typed e) t"
    and "rc = pip_reconciler (NewPublicIPAddressUtils rg) cfg \<or>
      rc = vm_reconciler (NewVirtualMachineUtils rg) cfg'"
  shows "list_all (well_typed e) (snd (Reconcile rc key e t))"
  using assms pip_Reconcile_typed vm_Reconcile_typed by auto

text \<open>An instance: every lookup fails and is recorded; the API server serves well-formed objects.\<close>

definition typed_pip :: public_ip_address where
  "typed_pip = (new_pip ''ns'' ''ip-1'')
     \<lparr>pip_status := empty_pip_status\<lparr>ps_failed_operations :=
        [\<lparr>fo_type = OperationTypeCleanPublicIPAddress, fo_attempts = 1,
          fo_error_message = ''409'', fo_timestamp = 0\<rparr>]\<rparr>\<rparr>"

definition typed_env :: env where
  "typed_env = example_env\<lparr>
     kGet := (\<lambda>t k key. if k = PublicIPAddressKind then Inr (PublicIPAddress typed_pip)
        else Inl (ApiError ''NotFound'')),
     azPipList := (\<lambda>t rg. Inl (ExternalError ''429''))\<rparr>"

fun patched_types :: "event \<Rightarrow> operation_type list option" where
  "patched_types (KPatchPip _ _ p) = Some (map fo_type (ps_failed_operations (pip_status p)))"
| "patched_types _ = None"

lemma typed_env_facts:
  "patch_lawful typed_env" "vm_patch_lawful typed_env" "serves_well_typed typed_env"
  by (auto simp: typed_env_def patch_lawful_def vm_patch_lawful_def serves_well_typed_def
      typed_pip_def wf_pip_status_def empty_pip_status_def ops_of_types_def wf_ops_def)

theorem statuses_stay_well_formed_witness:
  "List.map_filter patched_types (snd (Reconcile
       (pip_reconciler (NewPublicIPAddressUtils ''shoot'') pip_default_config)
       \<lparr>key_namespace = ''ns'', key_name = ''ip-1''\<rparr> typed_env [])) =
     [[OperationTypeCleanPublicIPAddress, OperationTypeGetPublicIPAddress]] \<and>
   list_all (well_typed typed_env) (snd (Reconcile
       (pip_reconciler (NewPublicIPAddressUtils ''shoot'') pip_default_config)
       \<lparr>key_namespace = ''ns'', key_name = ''ip-1''\<rparr> typed_env []))"
proof (intro conjI statuses_stay_well_formed [OF typed_env_facts])
  show "List.map_filter patched_types (snd (Reconcile
       (pip_reconciler (NewPublicIPAddressUtils ''shoot'') pip_default_config)
       \<lparr>key_namespace = ''ns'', key_name = ''ip-1''\<rparr> typed_env [])) =
     [[OperationTypeCleanPublicIPAddress, OperationTypeGetPublicIPAddress]]"
    by code_simp
qed (simp, rule disjI1, rule refl)

end
