(* ===== verification/Duties.thy ===== *)
theory Duties
  imports Pip_Controller Vm_Controller Service_Controller
begin

text \<open>
  Which external calls each controller may issue at all: the vocabulary of the four
  reconcilers. It separates their duties, and the properties of the running system rest on it.
\<close>

section \<open>Vocabularies\<close>

fun pip_duty :: "event \<Rightarrow> bool" where
  "pip_duty (ClockNow _) = True"
| "pip_duty (CounterInc m) = (m \<noteq> ReappliedVMs)"
| "pip_duty (AzPipGet _ _ _) = True"
| "pip_duty (AzPipList _ _) = True"
| "pip_duty (AzPipNext _ _) = True"
| "pip_duty (AzPipDelete _ _ _) = True"
| "pip_duty (AzPipDeleteWait _) = True"
| "pip_duty (AzLbGet _ _ _) = True"
| "pip_duty (AzLbUpdate _ _ _ _) = True"
| "pip_duty (AzLbUpdateWait _) = True"
| "pip_duty (KPatchPip _ _ _) = True"
| "pip_duty _ = False"

fun vm_duty :: "event \<Rightarrow> bool" where
  "vm_duty (ClockNow _) = True"
| "vm_duty (CounterInc m) = (m \<noteq> CleanedIPs)"
| "vm_duty (GaugeSet _ _) = True"
| "vm_duty (GaugeDelete _) = True"
| "vm_duty (AzVmGet _ _ _) = True"
| "vm_duty (AzVmReapply _ _ _) = True"
| "vm_duty (AzVmReapplyWait _) = True"
| "vm_duty (KPatchVm _ _ _) = True"
| "vm_duty _ = False"

fun svc_duty :: "event \<Rightarrow> bool" where
  "svc_duty (KListPips _ _ _) = True"
| "svc_duty (KCreateOrUpdatePip _ _ _) = True"
| "svc_duty (KUpdatePip _ _ _) = True"
| "svc_duty (KDelete (PublicIPAddress _) _) = True"
| "svc_duty _ = False"

fun node_duty :: "event \<Rightarrow> bool" where
  "node_duty (KCreateOrUpdateVm _ _ _) = True"
| "node_duty (KDelete (VirtualMachine _) _) = True"
| "node_duty _ = False"

fun duty :: "kind \<Rightarrow> event \<Rightarrow> bool" where
  "duty PublicIPAddressKind = pip_duty"
| "duty VirtualMachineKind = vm_duty"
| "duty ServiceKind = svc_duty"
| "duty NodeKind = node_duty"

text \<open>The calls of the reconciler itself are the same for all.\<close>

fun may_issue :: "kind \<Rightarrow> event \<Rightarrow> bool" where
  "may_issue k (KGet k' _ _) = (k' = k)"
| "may_issue k (KAddFinalizer _ _ _) = True"
| "may_issue k (KRemoveFinalizer _ _ _) = True"
| "may_issue k ev = duty k ev"

lemma duty_may_issue: "duty k ev \<Longrightarrow> may_issue k ev"
  by (cases ev; cases k) auto

lemma duty_no_azure_write:
  "may_issue ServiceKind ev \<Longrightarrow> \<not> write_request ev" "may_issue NodeKind ev \<Longrightarrow> \<not> write_request ev"
  by (cases ev; simp)+

section \<open>Every operation keeps to its duties\<close>

lemma stays_Reconcile:
  assumes "\<And>ob. stays P (CreateOrUpdate (rc_actuator rc) ob)"
    and "\<And>ob. stays P (Delete (rc_actuator rc) ob)"
    and "\<And>ob. stays P (ShouldFinalize (rc_actuator rc) ob)"
    and "\<And>r. P (KGet (rc_kind rc) key r)" "\<And>ob f r. P (KAddFinalizer ob f r)"
    and "\<And>ob f r. P (KRemoveFinalizer ob f r)"
  shows "stays P (Reconcile rc key)"
  unfolding Reconcile_def client_Get_def createOrUpdate_def actuator_CreateOrUpdate_def delete_def
    ensureDeleted_def remove_finalizer_def AddFinalizers_def RemoveFinalizers_def reconcileErr_def
  using assms by (auto intro!: trace_rules split: sum.split option.split goerr.split)

lemma pip_frame_duty:
  "lookup_event ev \<Longrightarrow> pip_duty ev" "lb_event ids ev \<Longrightarrow> pip_duty ev"
  "pip_delete_event name ev \<Longrightarrow> pip_duty ev"
  by (cases ev; auto)+

lemma vm_frame_duty: "vm_lookup_event n ev \<Longrightarrow> vm_duty ev" "vm_reapply_event n ev \<Longrightarrow> vm_duty ev"
  by (cases ev; auto)+

lemma pip_parts_duty:
  "stays pip_duty (updatePublicIPAddressStatus p azip ops)" "stays pip_duty (within_grace a p)"
  "stays pip_duty (handle_failure a p azip ops ty mx err)"
  unfolding updatePublicIPAddressStatus_def CreateOrPatchPip_def within_grace_def now_def
    handle_failure_def Let_def
  by (auto intro!: trace_rules split: prod.split option.split)

lemma vm_parts_duty:
  "stays vm_duty (updateVirtualMachineStatus vm azvm ops)" "stays vm_duty (setVMStatesGauge azvm name)"
  "stays vm_duty finally \<Longrightarrow> stays vm_duty (vm_handle_failure a vm azvm ops ty mx finally err)"
  unfolding updateVirtualMachineStatus_def CreateOrPatchVm_def setVMStatesGauge_def now_def
    vm_handle_failure_def Let_def
  by (auto intro!: trace_rules split: prod.split option.split)

context pip_utils_contract
begin

lemma pip_operations_duty:
  assumes "pa_utils a = u"
  shows "stays pip_duty (pip_CreateOrUpdate a p)" "stays pip_duty (pip_Delete a p)"
proof -
  have get: "stays pip_duty (getAzurePublicIPAddress a p)" for p
    unfolding getAzurePublicIPAddress_def getByIPAndTag_def assms
    by (auto intro!: trace_rules stays_mono [OF by_name_reads pip_frame_duty(1)]
        stays_mono [OF by_ip_reads pip_frame_duty(1)] split: sum.split option.split)
  have clean: "stays pip_duty (cleanAzurePublicIPAddress a p)" for p
    unfolding cleanAzurePublicIPAddress_def assms
    by (auto intro!: trace_rules stays_mono [OF remove_only pip_frame_duty(2)]
        stays_mono [OF delete_only pip_frame_duty(3)] split: option.split)
  show "stays pip_duty (pip_CreateOrUpdate a p)" "stays pip_duty (pip_Delete a p)"
    unfolding pip_CreateOrUpdate_def pip_Delete_def pip_clean_def Let_def
    by (auto intro!: trace_rules get clean pip_parts_duty split: sum.split prod.split option.split)
qed

lemma pip_Reconcile_duty: "stays (may_issue PublicIPAddressKind) (Reconcile (pip_reconciler u cfg) key)"
  by (rule stays_Reconcile)
    (auto simp: pip_reconciler_def pip_NewActuator_def Let_def
      intro!: stays_on_pip stays_ret stays_mono [OF pip_operations_duty(1) duty_may_issue]
        stays_mono [OF pip_operations_duty(2) duty_may_issue])

end

context vm_utils_contract
begin

lemma vm_operations_duty:
  assumes "va_utils a = u"
  shows "stays vm_duty (vm_CreateOrUpdate a vm)" "stays vm_duty (vm_Delete a vm)"
proof -
  have get: "stays vm_duty (getAzureVirtualMachine a n)" "stays vm_duty (reapplyAzureVirtualMachine a n)" for n
    unfolding getAzureVirtualMachine_def reapplyAzureVirtualMachine_def assms
    by (auto intro!: trace_rules stays_mono [OF get_reads vm_frame_duty(1)]
        stays_mono [OF reapply_only vm_frame_duty(2)] split: sum.split option.split)
  show "stays vm_duty (vm_CreateOrUpdate a vm)" "stays vm_duty (vm_Delete a vm)"
    unfolding vm_CreateOrUpdate_def vm_Delete_def vm_reapply_def Let_def
    by (auto intro!: trace_rules get vm_parts_duty split: sum.split prod.split option.split)
qed

lemma vm_Reconcile_duty: "stays (may_issue VirtualMachineKind) (Reconcile (vm_reconciler u cfg) key)"
  by (rule stays_Reconcile)
    (auto simp: vm_reconciler_def vm_NewActuator_def Let_def
      intro!: stays_on_vm stays_ret stays_mono [OF vm_operations_duty(1) duty_may_issue]
        stays_mono [OF vm_operations_duty(2) duty_may_issue])

end

lemma delete_object_duty:
  "P (KDelete ob None) \<Longrightarrow> (\<And>err. P (KDelete ob (Some err))) \<Longrightarrow> stays P (delete_object msg ob)"
  unfolding delete_object_def client_Delete_def
  by (rule stays_seq [OF stays_ecall]) (auto intro!: trace_rules intro: option.induct)

lemma svc_operations_duty:
  "stays svc_duty (svc_CreateOrUpdate a svc)" "stays svc_duty (svc_Delete a svc)"
  unfolding svc_CreateOrUpdate_def svc_Delete_def create_for_ip_def CreateOrUpdatePip_def
    delete_listed_def delete_stale_def annotate_and_update_def client_Update_def client_List_def
  by (auto intro!: trace_rules delete_object_duty split: prod.split option.split sum.split)

lemma node_operations_duty:
  "stays node_duty (node_CreateOrUpdate a nd)" "stays node_duty (node_Delete a nd)"
  unfolding node_CreateOrUpdate_def node_Delete_def CreateOrUpdateVm_def
  by (auto intro!: trace_rules delete_object_duty split: prod.split option.split)

lemma svc_Reconcile_duty: "stays (may_issue ServiceKind) (Reconcile (svc_reconciler ns cfg) key)"
  by (rule stays_Reconcile)
    (auto simp: svc_reconciler_def svc_NewActuator_def Let_def svc_ShouldFinalize_def
      intro!: stays_on_service stays_ret stays_mono [OF svc_operations_duty(1) duty_may_issue]
        stays_mono [OF svc_operations_duty(2) duty_may_issue] split: k8s_object.split)

lemma node_Reconcile_duty: "stays (may_issue NodeKind) (Reconcile (node_reconciler ns cfg) key)"
  by (rule stays_Reconcile)
    (auto simp: node_reconciler_def node_NewActuator_def Let_def
      intro!: stays_on_node stays_ret stays_mono [OF node_operations_duty(1) duty_may_issue]
        stays_mono [OF node_operations_duty(2) duty_may_issue])

section \<open>Properties\<close>

text \<open>C20: The actuators run only under their finalizers, except to clean up after an object
  that does not exist. A reconciliation fetches the object once. An object that is not marked
  for deletion and is to be finalized (always, but for a service only while it has a load
  balancer IP and is not to be ignored) gets the finalizer first; only if that succeeds the
  actuator runs, and the finalizer stays. An object marked for deletion, and one no longer to
  be finalized, is left alone without the finalizer; with it the actuator runs, and exactly if
  it succeeds the finalizer is taken off the object it hands back, as the last call, the
  reconciliation being finished exactly if that call succeeded or found the object gone. For an
  object that does not exist the service and node controllers run the deletion without a
  finalizer, and the other two do nothing.\<close>

theorem finalizer_discipline:
  "yields e (Reconcile (pip_reconciler (NewPublicIPAddressUtils rg) cfg) key)
     (disciplined e (pip_reconciler (NewPublicIPAddressUtils rg) cfg) (\<lambda>_. Inr True) key) \<and>
   yields e (Reconcile (vm_reconciler (NewVirtualMachineUtils rg) vcfg) key)
     (disciplined e (vm_reconciler (NewVirtualMachineUtils rg) vcfg) (\<lambda>_. Inr True) key) \<and>
   yields e (Reconcile (svc_reconciler ns cfg) key)
     (disciplined e (svc_reconciler ns cfg) service_wants key) \<and>
   yields e (Reconcile (node_reconciler ns vcfg) key)
     (disciplined e (node_reconciler ns vcfg) (\<lambda>_. Inr True) key)"
  by (intro conjI azure_pips.pip_act.Reconcile_disciplined azure_vms.vm_act.Reconcile_disciplined
      svc_act.Reconcile_disciplined node_act.Reconcile_disciplined)
    (simp_all add: pip_reconciler_def vm_reconciler_def svc_reconciler_def node_reconciler_def)

text \<open>C21: The controllers keep to their duties, whatever the world answers: only the
  publicipaddress controller deletes addresses, writes load balancers and counts cleaned IPs,
  and of the Kubernetes API it only patches publicipaddresses; only the virtualmachine
  controller reapplies machines and sets the gauge; the service and node controllers never talk
  to Azure, and create, update and delete only publicipaddresses or only virtualmachines.\<close>

theorem controllers_keep_to_their_duties:
  "stays (may_issue PublicIPAddressKind) (Reconcile (pip_reconciler (NewPublicIPAddressUtils rg) cfg) key) \<and>
   stays (may_issue VirtualMachineKind) (Reconcile (vm_reconciler (NewVirtualMachineUtils rg) vcfg) key) \<and>
   stays (may_issue ServiceKind) (Reconcile (svc_reconciler ns cfg) key) \<and>
   stays (may_issue NodeKind) (Reconcile (node_reconciler ns vcfg) key)"
  by (simp add: azure_pips.pip_Reconcile_duty azure_vms.vm_Reconcile_duty svc_Reconcile_duty
      node_Reconcile_duty)

end
