(* ===== verification/Running_System.thy ===== *)
theory Running_System
  imports Duties Setup_Properties Pip_Properties
begin

text \<open>
  The command while it runs: any number of reconciliations of its controllers in parallel,
  their external calls interleaved in any order. A step of the system is the next call of one
  of them; the answers to it may depend on everything the others and the world have done, so a
  reconciliation goes on in an environment of its own.
\<close>

section \<open>Interleaved reconciliations\<close>

record job =
  job_reconciler :: reconciler
  job_key :: object_key

definition of_job :: "nat \<Rightarrow> (nat \<times> event) list \<Rightarrow> trace" where
  "of_job i h = map snd (filter (\<lambda>(j, _). j = i) h)"

lemma of_job_simps [simp]:
  "of_job i [] = []" "of_job i (xs @ ys) = of_job i xs @ of_job i ys"
  "of_job i ((j, ev) # h) = (if j = i then ev # of_job i h else of_job i h)"
  by (simp_all add: of_job_def)

lemma set_of_job: "set (of_job i h) \<subseteq> set (map snd h)"
  by (auto simp: of_job_def)

text \<open>After the calls \<open>es\<close> a reconciliation may issue the call \<open>ev\<close> next.\<close>

definition next_call :: "job \<Rightarrow> trace \<Rightarrow> event \<Rightarrow> bool" where
  "next_call j es ev \<longleftrightarrow>
     (\<exists>e t rest. snd (Reconcile (job_reconciler j) (job_key j) e t) = t @ es @ ev # rest)"

text \<open>The histories of a system whose \<open>i\<close>th reconciliation is \<open>jobs i\<close>.\<close>

inductive reachable :: "(nat \<Rightarrow> job) \<Rightarrow> (nat \<times> event) list \<Rightarrow> bool" for jobs where
  start: "reachable jobs []"
| step: "reachable jobs h \<Longrightarrow> next_call (jobs i) (of_job i h) ev \<Longrightarrow> reachable jobs (h @ [(i, ev)])"

inductive_simps reachable_snoc: "reachable jobs (h @ [x])"
inductive_cases reachable_cases: "reachable jobs h"

text \<open>What every whole reconciliation does is what any part of one has done.\<close>

lemma next_callD:
  assumes "next_call j es ev"
    and "\<And>e. yields e (Reconcile (job_reconciler j) (job_key j)) (\<lambda>_ xs. P xs)"
  shows "\<exists>rest. P (es @ ev # rest)"
proof -
  obtain e t rest where "snd (Reconcile (job_reconciler j) (job_key j) e t) = t @ es @ ev # rest"
    using assms(1) unfolding next_call_def by blast
  with assms(2) [of e] show ?thesis by (auto simp: yields_def dest!: spec [of _ t])
qed

lemma next_call_guarded:
  assumes "next_call j es ev"
    and "\<And>e. yields e (Reconcile (job_reconciler j) (job_key j)) (\<lambda>_ xs. guarded G xs)"
  shows "G es ev"
  using next_callD [OF assms] by (auto dest: guardedD)

lemma next_call_stays:
  "next_call j es ev \<Longrightarrow> stays P (Reconcile (job_reconciler j) (job_key j)) \<Longrightarrow> P ev"
  using next_callD [of j es ev "list_all P"] by (auto dest: staysD)

lemma reachable_job:
  "reachable jobs h \<Longrightarrow> of_job i h = [] \<or>
   (\<exists>e t rest. snd (Reconcile (job_reconciler (jobs i)) (job_key (jobs i)) e t) = t @ of_job i h @ rest)"
proof (induction rule: reachable.induct)
  case (step h j ev)
  show ?case
  proof (cases "j = i")
    case True
    with step.hyps(2) show ?thesis unfolding next_call_def by fastforce
  qed (use step.IH in simp)
qed simp

text \<open>Every interleaving of parts of reconciliations is a history of the system.\<close>

lemma reachableI:
  "(\<And>i. \<exists>e t rest. snd (Reconcile (job_reconciler (jobs i)) (job_key (jobs i)) e t) = t @ of_job i h @ rest)
   \<Longrightarrow> reachable jobs h"
proof (induction h rule: rev_induct)
  case Nil
  show ?case by (rule start)
next
  case (snoc x h)
  obtain i ev where x: "x = (i, ev)" by fastforce
  have "reachable jobs h"
  proof (rule snoc.IH)
    fix k
    obtain e t rest where "snd (Reconcile (job_reconciler (jobs k)) (job_key (jobs k)) e t) =
        t @ of_job k (h @ [x]) @ rest"
      using snoc.prems by blast
    then show "\<exists>e t rest. snd (Reconcile (job_reconciler (jobs k)) (job_key (jobs k)) e t) =
        t @ of_job k h @ rest"
      by (auto simp: x split: if_splits)
  qed
  moreover have "next_call (jobs i) (of_job i h) ev"
    using snoc.prems [of i] by (auto simp: x next_call_def)
  ultimately show ?case unfolding x by (rule step)
qed

lemma of_job_Pair [simp]: "of_job i (map (Pair j) es) = (if i = j then es else [])"
  by (induction es) auto

section \<open>Guards of one reconciliation are guards of the system\<close>

text \<open>
  A guard that a reconciliation keeps on its own calls, and that more history does not
  invalidate, is kept on the calls of all.
\<close>

locale local_guard =
  fixes G :: "trace \<Rightarrow> event \<Rightarrow> bool" and J :: "job \<Rightarrow> bool"
  assumes more: "G xs ev \<Longrightarrow> set xs \<subseteq> set ys \<Longrightarrow> G ys ev"
    and own: "J j \<Longrightarrow> next_call j es ev \<Longrightarrow> G es ev"
begin

text \<open>The calls of a job are justified by its own earlier calls, and so by those of all.\<close>

lemma reachable_own:
  "reachable jobs (pre @ (i, ev) # post) \<Longrightarrow> J (jobs i) \<Longrightarrow> G (of_job i pre) ev"
proof (induction post rule: rev_induct)
  case Nil
  then show ?case by (auto simp: reachable_snoc intro: own)
next
  case (snoc x post)
  from snoc.prems have "reachable jobs ((pre @ (i, ev) # post) @ [x])" by simp
  with snoc show ?case by (cases x) (simp add: reachable_snoc del: append_assoc)
qed

lemma reachable_allows:
  "reachable jobs (pre @ (i, ev) # post) \<Longrightarrow> J (jobs i) \<Longrightarrow> G (map snd pre) ev"
  by (rule more [OF reachable_own set_of_job])

end

section \<open>The jobs of the command\<close>

text \<open>The reconcilers of the four controllers, whatever resource groups and namespaces they have.\<close>

definition job_of :: "controller_configuration \<Rightarrow> job \<Rightarrow> bool" where
  "job_of cfg j \<longleftrightarrow>
     (\<exists>rg. job_reconciler j = pip_reconciler (NewPublicIPAddressUtils rg)
        (ApplyAzureOrphanedPublicIPRemedy cfg pip_default_config)) \<or>
     (\<exists>rg. job_reconciler j = vm_reconciler (NewVirtualMachineUtils rg)
        (ApplyAzureFailedVMRemedy cfg vm_default_config)) \<or>
     (\<exists>ns c. job_reconciler j = svc_reconciler ns c) \<or>
     (\<exists>ns c. job_reconciler j = node_reconciler ns c)"

text \<open>What has to have happened before a call of the system.\<close>

fun system_guard :: "pip_config \<Rightarrow> trace \<Rightarrow> event \<Rightarrow> bool" where
  "system_guard cfg pre (AzVmReapply rg n r) = reapply_guard pre (AzVmReapply rg n r)"
| "system_guard cfg pre (CounterInc m) =
     (delete_guard cfg pre (CounterInc m) \<and> reapply_guard pre (CounterInc m))"
| "system_guard cfg pre ev = delete_guard cfg pre ev"

lemma system_guard_mono:
  "system_guard cfg xs ev \<Longrightarrow> set xs \<subseteq> set ys \<Longrightarrow> system_guard cfg ys ev"
  by (cases ev) (auto simp del: delete_guard.simps reapply_guard.simps
      elim: delete_guard_mono reapply_guard_mono)

lemma delete_system_guard: "delete_guard cfg pre ev \<Longrightarrow> pip_duty ev \<Longrightarrow> system_guard cfg pre ev"
  by (cases ev) auto

lemma reapply_system_guard: "reapply_guard pre ev \<Longrightarrow> vm_duty ev \<Longrightarrow> system_guard cfg pre ev"
  by (cases ev) auto

lemma quiet_system_guard:
  "duty k ev \<Longrightarrow> k = ServiceKind \<or> k = NodeKind \<Longrightarrow> system_guard cfg pre ev"
  by (cases ev) auto

lemma own_call_system_guard: "\<not> actuator_event ev \<Longrightarrow> system_guard cfg pre ev"
  by (cases ev) auto

lemma may_issue_cases: "may_issue k ev \<Longrightarrow> duty k ev \<or> \<not> actuator_event ev"
  by (cases ev) auto

lemma job_system_guard:
  assumes "job_of cfg j" "next_call j es ev"
  shows "system_guard (ApplyAzureOrphanedPublicIPRemedy cfg pip_default_config) es ev"
proof -
  let ?cfg = "ApplyAzureOrphanedPublicIPRemedy cfg pip_default_config"
  note call = next_call_stays [OF assms(2)] next_call_guarded [OF assms(2)]
  consider
    (pip) rg where "job_reconciler j = pip_reconciler (NewPublicIPAddressUtils rg) ?cfg"
  | (vm) rg where "job_reconciler j = vm_reconciler (NewVirtualMachineUtils rg)
        (ApplyAzureFailedVMRemedy cfg vm_default_config)"
  | (svc) ns c where "job_reconciler j = svc_reconciler ns c"
  | (nd) ns c where "job_reconciler j = node_reconciler ns c"
    using assms(1) unfolding job_of_def by blast
  then show ?thesis
  proof cases
    case pip
    have "may_issue PublicIPAddressKind ev"
      by (rule call(1), unfold pip) (rule azure_pips.pip_Reconcile_duty)
    moreover have "delete_guard ?cfg es ev"
      by (rule call(2), unfold pip) (rule yields_mono [OF azure_pips.Reconcile_guarded_writes],
        simp add: guarded_writes_def)
    ultimately show ?thesis
      using may_issue_cases delete_system_guard own_call_system_guard by fastforce
  next
    case vm
    have "may_issue VirtualMachineKind ev"
      by (rule call(1), unfold vm) (rule azure_vms.vm_Reconcile_duty)
    moreover have "reapply_guard es ev"
      by (rule call(2), unfold vm) (rule yields_mono [OF azure_vms.Reconcile_guarded_reapply],
        simp add: guarded_reapply_def)
    ultimately show ?thesis
      using may_issue_cases reapply_system_guard own_call_system_guard by fastforce
  next
    case svc
    with call(1) [of "may_issue ServiceKind"] svc_Reconcile_duty show ?thesis
      using may_issue_cases quiet_system_guard own_call_system_guard by metis
  next
    case nd
    with call(1) [of "may_issue NodeKind"] node_Reconcile_duty show ?thesis
      using may_issue_cases quiet_system_guard own_call_system_guard by metis
  qed
qed

interpretation command_guard: local_guard
  "system_guard (ApplyAzureOrphanedPublicIPRemedy cfg pip_default_config)" "job_of cfg" for cfg
  by unfold_locales (rule system_guard_mono job_system_guard, assumption+)+

lemma duty_no_write: "may_issue k ev \<Longrightarrow> k = ServiceKind \<or> k = NodeKind \<Longrightarrow> \<not> write_request ev"
  using duty_no_azure_write by blast

lemma stays_no_writes:
  "stays P m \<Longrightarrow> (\<And>ev. P ev \<Longrightarrow> \<not> write_request ev) \<Longrightarrow>
   yields e m (\<lambda>_ es. occurrences write_request es \<le> 2)"
  by (rule yields_mono [OF staysD]) (auto simp: list_all_iff intro!: occurrences_none [THEN eq_imp_le, THEN le_trans])

lemma job_run_writes:
  assumes "job_of cfg j"
  shows "yields e (Reconcile (job_reconciler j) (job_key j)) (\<lambda>_ es. occurrences write_request es \<le> 2)"
  using assms unfolding job_of_def
proof (elim disjE exE)
  fix rg assume "job_reconciler j = pip_reconciler (NewPublicIPAddressUtils rg)
    (ApplyAzureOrphanedPublicIPRemedy cfg pip_default_config)"
  then show ?thesis
    using yields_mono [OF azure_pips.Reconcile_guarded_writes] by (simp add: guarded_writes_def)
next
  fix rg assume "job_reconciler j = vm_reconciler (NewVirtualMachineUtils rg)
    (ApplyAzureFailedVMRemedy cfg vm_default_config)"
  then show ?thesis
    using yields_mono [OF azure_vms.Reconcile_guarded_reapply] by (simp add: guarded_reapply_def)
next
  fix ns c assume "job_reconciler j = svc_reconciler ns c"
  then show ?thesis
    using stays_no_writes [OF svc_Reconcile_duty duty_no_azure_write(1)] by simp
next
  fix ns c assume "job_reconciler j = node_reconciler ns c"
  then show ?thesis
    using stays_no_writes [OF node_Reconcile_duty duty_no_azure_write(2)] by simp
qed

lemma job_writes:
  assumes "reachable jobs h" "job_of cfg (jobs i)"
  shows "occurrences write_request (of_job i h) \<le> 2"
  using reachable_job [OF assms(1), of i]
proof (elim disjE exE)
  fix e t rest
  assume run: "snd (Reconcile (job_reconciler (jobs i)) (job_key (jobs i)) e t) = t @ of_job i h @ rest"
  from job_run_writes [OF assms(2), of e] run show ?thesis
    unfolding yields_def by (auto dest!: spec [of _ t])
qed simp

section \<open>The load balancer all jobs share\<close>

text \<open>An accepted update replaces the whole load balancer: the last one wins.\<close>

fun lb_write :: "event \<Rightarrow> load_balancer option" where
  "lb_write (AzLbUpdate _ _ lb None) = Some lb"
| "lb_write _ = None"

definition lb_after :: "load_balancer \<Rightarrow> trace \<Rightarrow> load_balancer" where
  "lb_after lb es = foldl (\<lambda>lb ev. case lb_write ev of None \<Rightarrow> lb | Some lb' \<Rightarrow> lb') lb es"

lemma lb_after_simps [simp]:
  "lb_after lb [] = lb"
  "lb_after lb (es @ [ev]) = (case lb_write ev of None \<Rightarrow> lb_after lb es | Some lb' \<Rightarrow> lb')"
  unfolding lb_after_def by (simp_all split: option.split)

definition last_lb_writer :: "(nat \<times> event) list \<Rightarrow> (nat \<times> event) option" where
  "last_lb_writer h = find (\<lambda>(_, ev). lb_write ev \<noteq> None) (rev h)"

lemma last_lb_writer_lb:
  "last_lb_writer h = Some (i, ev) \<Longrightarrow>
   (i, ev) \<in> set h \<and> lb_write ev = Some (lb_after lb (map snd h))"
  by (induction h rule: rev_induct) (auto simp: last_lb_writer_def split: if_splits option.splits)

lemma detaches_lb_write: "detaches ids ev \<Longrightarrow> \<exists>lb. lb_write ev = Some lb \<and> detached ids lb"
  by (cases "(ids, ev)" rule: detaches.cases) auto

lemma lb_write_is_write: "lb_write ev = Some lb \<Longrightarrow> write_request ev"
  by (cases ev rule: lb_write.cases) auto

lemma occurrences_unique:
  assumes "occurrences P es \<le> 1" "x \<in> set es" "y \<in> set es" "P x" "P y"
  shows "x = y"
proof -
  have "x \<in> set (filter P es)" "y \<in> set (filter P es)" using assms by auto
  with assms(1) show ?thesis
    unfolding occurrences_def by (cases "filter P es") auto
qed

lemma delete_detached:
  assumes "reachable jobs (pre @ (i, AzPipDelete rg n r) # post)" "\<And>i. job_of cfg (jobs i)"
    and "last_lb_writer pre = Some (i, w)"
  shows "\<exists>p id. patched (of_job i pre) p \<and> ps_name (pip_status p) = Some n \<and>
    ps_id (pip_status p) = Some id \<and> detached [id] (lb_after lb (map snd pre))"
proof -
  from command_guard.reachable_own [OF assms(1,2)] obtain p id where p: "patched (of_job i pre) p"
    "ps_name (pip_status p) = Some n" "ps_id (pip_status p) = Some id"
    "list_ex (detaches [id]) (of_job i pre)"
    by (auto simp: clean_allowed_def)
  then obtain ev lb' where ev: "ev \<in> set (of_job i pre)" "lb_write ev = Some lb'" "detached [id] lb'"
    by (auto simp: list_ex_iff dest: detaches_lb_write)
  have w: "(i, w) \<in> set pre" "lb_write w = Some (lb_after lb (map snd pre))"
    using last_lb_writer_lb [OF assms(3)] by auto
  then have own: "w \<in> set (of_job i pre)" by (force simp: of_job_def)
  have "occurrences write_request (of_job i pre) \<le> 1"
    using job_writes [OF assms(1) assms(2), of i] by simp
  from occurrences_unique [OF this ev(1) own] ev(2) w(2) have "ev = w"
    by (auto dest: lb_write_is_write)
  with ev w p show ?thesis by (intro exI [of _ p] exI [of _ id]) simp
qed

section \<open>Properties\<close>

lemma started_jobs:
  assumes "switches_sound se" "run se fl = Running control target"
  shows "\<exists>cfg. buildConfig se (fl_config_file fl) = Some (Inr cfg) \<and>
    (\<forall>c j. c \<in> set control \<union> set target \<longrightarrow> job_reconciler j = ad_reconciler c \<longrightarrow> job_of cfg j)"
  by (rule control_added [OF assms]) (unfold job_of_def, metis UnE)

text \<open>C2: However the reconciliations of the started command are interleaved, and whatever the
  world answers to each: every Azure write is justified by earlier calls of the same
  reconciliation, and so by the history of the whole system - a deletion by a resource that is
  not exempt and past the grace period of the loaded configuration, whose address was detached
  before; a load balancer update by such a resource; a reapply by a machine seen failed - and no
  reconciliation sends more than two.\<close>

theorem running_system_writes_guarded:
  assumes "switches_sound se" "run se fl = Running control target"
    and "\<And>i. \<exists>c \<in> set control \<union> set target. job_reconciler (jobs i) = ad_reconciler c"
    and "reachable jobs h"
  shows "\<exists>cfg. buildConfig se (fl_config_file fl) = Some (Inr cfg) \<and>
    (\<forall>pre i ev post. h = pre @ (i, ev) # post \<longrightarrow>
       system_guard (ApplyAzureOrphanedPublicIPRemedy cfg pip_default_config) (of_job i pre) ev \<and>
       system_guard (ApplyAzureOrphanedPublicIPRemedy cfg pip_default_config) (map snd pre) ev) \<and>
    (\<forall>i. occurrences write_request (of_job i h) \<le> 2)"
proof -
  obtain cfg where cfg: "buildConfig se (fl_config_file fl) = Some (Inr cfg)"
    "\<And>i. job_of cfg (jobs i)"
    using started_jobs [OF assms(1,2)] assms(3) by blast
  then show ?thesis
    using assms(4) command_guard.reachable_own command_guard.reachable_allows job_writes by blast
qed

text \<open>One reconciliation of each controller of the example, of the first one to its end.\<close>

lemma first_job_reachable:
  "reachable jobs (map (Pair 0) (snd (Reconcile (job_reconciler (jobs 0)) (job_key (jobs 0)) e [])))"
proof (rule reachableI)
  fix i
  show "\<exists>e' t rest. snd (Reconcile (job_reconciler (jobs i)) (job_key (jobs i)) e' t) =
      t @ of_job i (map (Pair 0) (snd (Reconcile (job_reconciler (jobs 0)) (job_key (jobs 0)) e []))) @ rest"
    by (rule exI [of _ e], rule exI [of _ "[]"]) simp
qed

definition jobs_of :: "added_controller \<Rightarrow> nat \<Rightarrow> job" where
  "jobs_of c i = \<lparr>job_reconciler = ad_reconciler c,
     job_key = \<lparr>key_namespace = ''ns'', key_name = ''ip-1''\<rparr>\<rparr>"

theorem running_system_writes_guarded_witness:
  "\<exists>control target cfg. run example_setup example_flags = Running control target \<and>
     buildConfig example_setup ''/etc/config'' = Some (Inr cfg) \<and>
     (\<forall>i. occurrences write_request (of_job i (map (Pair 0)
        (snd (Reconcile (job_reconciler (jobs_of (hd control) 0)) (job_key (jobs_of (hd control) 0))
           expired_env [])))) \<le> 2)"
proof -
  obtain control target where r: "run example_setup example_flags = Running control target"
    and kinds: "map (\<lambda>c. rc_kind (ad_reconciler c)) control = [PublicIPAddressKind, VirtualMachineKind]"
    by (rule example_runs)
  then have "hd control \<in> set control" by (cases control) auto
  then have "\<exists>c \<in> set control \<union> set target. job_reconciler (jobs_of (hd control) i) = ad_reconciler c" for i
    by (auto simp: jobs_of_def)
  from running_system_writes_guarded [OF example_setup_sound r this
      first_job_reachable [of "jobs_of (hd control)" expired_env]] r
  show ?thesis by (fastforce simp: example_flags_def)
qed

text \<open>C13: If the load balancer was last written by the reconciliation that deletes an address,
  then at the moment of the deletion the load balancer no longer uses the address: what the
  reconciliation detached has not been overwritten.\<close>

theorem undisturbed_delete_is_detached:
  assumes "reachable jobs (pre @ (i, AzPipDelete rg n r) # post)" "\<And>i. job_of cfg (jobs i)"
    and "last_lb_writer pre = Some (i, w)"
  shows "\<exists>p id. patched (of_job i pre) p \<and> ps_name (pip_status p) = Some n \<and>
    ps_id (pip_status p) = Some id \<and> detached [id] (lb_after lb (map snd pre))"
  by (rule delete_detached [OF assms])

section \<open>Two cleanings at once\<close>

text \<open>Two addresses of one load balancer, both of resources past their grace period.\<close>

definition race_azip :: "string \<Rightarrow> az_public_ip" where
  "race_azip n = \<lparr>az_ip_id = Some (''/'' @ n), az_ip_name = Some n, az_ip_address = Some n,
     az_ip_provisioning_state = Some Succeeded, az_ip_tags = Map.empty\<rparr>"

definition race_lb :: load_balancer where
  "race_lb = \<lparr>lb_frontend_ip_configurations = Some
       [\<lparr>fc_id = Some ''/fc-1'', fc_public_ip = Some (race_azip ''ip-1''), fc_rest = ''''\<rparr>,
        \<lparr>fc_id = Some ''/fc-2'', fc_public_ip = Some (race_azip ''ip-2''), fc_rest = ''''\<rparr>],
     lb_rules = None, lb_probes = None, lb_rest = ''''\<rparr>"

definition race_pip :: "string \<Rightarrow> public_ip_address" where
  "race_pip n = (new_pip ''ns'' n)\<lparr>
     pip_meta := empty_meta\<lparr>meta_name := n, meta_finalizers := [pip_FinalizerName],
       meta_deletion_timestamp := Some (TimePtr 1 0)\<rparr>,
     pip_spec := \<lparr>ps_ip_address = n\<rparr>,
     pip_status := empty_pip_status\<lparr>ps_exists := True, ps_id := Some (''/'' @ n), ps_name := Some n\<rparr>\<rparr>"

definition race_env :: env where
  "race_env = example_env\<lparr>
     kGet := (\<lambda>t k key. Inr (PublicIPAddress (race_pip (key_name key)))),
     azPipGet := (\<lambda>t rg n. Inr (race_azip n)),
     azLbGet := (\<lambda>t rg n. Inr race_lb), clockNow := (\<lambda>t. 301 * 1000000000)\<rparr>"

definition race_jobs :: "nat \<Rightarrow> job" where
  "race_jobs i = \<lparr>job_reconciler = pip_reconciler (NewPublicIPAddressUtils ''shoot'') pip_default_config,
     job_key = \<lparr>key_namespace = ''ns'', key_name = (if i = 0 then ''ip-1'' else ''ip-2'')\<rparr>\<rparr>"

definition race_run :: "nat \<Rightarrow> trace" where
  "race_run i = snd (Reconcile (job_reconciler (race_jobs i)) (job_key (race_jobs i)) race_env [])"

text \<open>Both read the load balancer, both write it, then the first one deletes its address.\<close>

definition before_write :: "trace \<Rightarrow> trace" where
  "before_write es = takeWhile (\<lambda>ev. \<not> write_request ev) es"

definition from_write :: "trace \<Rightarrow> trace" where
  "from_write es = dropWhile (\<lambda>ev. \<not> write_request ev) es"

definition race_prefix :: "(nat \<times> event) list" where
  "race_prefix = map (Pair 0) (before_write (race_run 0)) @ map (Pair 1) (before_write (race_run 1)) @
     map (Pair 0) (take 4 (from_write (race_run 0))) @ map (Pair 1) (take 1 (from_write (race_run 1)))"

definition race_rest :: trace where
  "race_rest = drop 4 (from_write (race_run 0))"

lemma race_reachable: "reachable race_jobs (race_prefix @ map (Pair 0) race_rest)"
proof (rule reachableI)
  fix i
  have run: "\<exists>rest. race_run i = of_job i (race_prefix @ map (Pair 0) race_rest) @ rest"
  proof -
    consider "i = 0" | "i = 1" | "1 < i" by linarith
    then show ?thesis
    proof cases
      case 2
      then show ?thesis
        by (intro exI [of _ "drop 1 (from_write (race_run 1))"])
          (simp add: race_prefix_def before_write_def from_write_def)
    qed (simp_all add: race_prefix_def race_rest_def before_write_def from_write_def)
  qed
  then show "\<exists>e t rest. snd (Reconcile (job_reconciler (race_jobs i)) (job_key (race_jobs i)) e t) =
      t @ of_job i (race_prefix @ map (Pair 0) race_rest) @ rest"
    unfolding race_run_def by (rule_tac x = race_env in exI, rule_tac x = "[]" in exI) (simp only: append_Nil)
qed

text \<open>The frontends of a load balancer by their ids and the ids of their addresses.\<close>

definition frontends :: "load_balancer \<Rightarrow> (string option \<times> string option option) list option" where
  "frontends lb = map_option (map (\<lambda>fc. (fc_id fc, map_option az_ip_id (fc_public_ip fc))))
     (lb_frontend_ip_configurations lb)"

text \<open>Every read of the load balancer answers with the frontends of the last write.\<close>

fun reads_last_write :: "load_balancer \<Rightarrow> trace \<Rightarrow> bool" where
  "reads_last_write lb [] = True"
| "reads_last_write lb (ev # es) =
     ((case ev of AzLbGet _ _ (Inr lb') \<Rightarrow> frontends lb' = frontends lb | _ \<Rightarrow> True) \<and>
      reads_last_write (case lb_write ev of None \<Rightarrow> lb | Some lb' \<Rightarrow> lb') es)"

text \<open>C14: Cleanings at the same time undo each other: taking an address off the load balancer
  reads it, changes it and writes it back as a whole, without a lock or an etag. There is an
  interleaving of two reconciliations past their grace period, with a load balancer that
  answers every read with the last accepted write, in which the first one has detached its
  address, the second one then writes back the frontends it had read before, and the first one
  deletes its address while the load balancer uses it (again).\<close>

theorem concurrent_cleanings_undo_each_other:
  "\<exists>pre r post. reachable race_jobs (pre @ (0, AzPipDelete ''shoot'' ''ip-1'' r) # post) \<and>
     reads_last_write race_lb (map snd (pre @ (0, AzPipDelete ''shoot'' ''ip-1'' r) # post)) \<and>
     list_ex (detaches [''/ip-1'']) (of_job 0 pre) \<and>
     \<not> detached [''/ip-1''] (lb_after race_lb (map snd pre))"
proof -
  have "(case race_rest of AzPipDelete rg n r # _ \<Rightarrow> rg = ''shoot'' \<and> n = ''ip-1'' | _ \<Rightarrow> False)"
    by code_simp
  then obtain r rest where rest: "race_rest = AzPipDelete ''shoot'' ''ip-1'' r # rest"
    by (auto split: list.splits event.splits)
  have "reads_last_write race_lb (map snd (race_prefix @ map (Pair 0) race_rest))" by code_simp
  moreover have "list_ex (detaches [''/ip-1'']) (of_job 0 race_prefix)" by code_simp
  moreover have "\<not> detached [''/ip-1''] (lb_after race_lb (map snd race_prefix))" by code_simp
  ultimately show ?thesis
    using race_reachable unfolding rest
    by (intro exI [of _ race_prefix] exI [of _ r] exI [of _ "map (Pair 0) rest"]) simp
qed

text \<open>The first of the two alone: nobody else writes the load balancer.\<close>

lemma race_jobs_ok: "job_of empty_configuration (race_jobs i)"
  unfolding job_of_def
  by (rule disjI1, rule exI [of _ "''shoot''"])
    (simp add: race_jobs_def empty_configuration_def ApplyAzureOrphanedPublicIPRemedy_def)

theorem undisturbed_delete_is_detached_witness:
  "\<exists>pre r post w. reachable race_jobs (pre @ (0, AzPipDelete ''shoot'' ''ip-1'' r) # post) \<and>
     last_lb_writer pre = Some (0, w) \<and>
     (\<exists>p id. patched (of_job 0 pre) p \<and> ps_name (pip_status p) = Some ''ip-1'' \<and>
        ps_id (pip_status p) = Some id \<and> detached [id] (lb_after race_lb (map snd pre)))"
proof -
  let ?pre = "map (Pair 0) (takeWhile (\<lambda>ev. \<not> is_pip_delete ev) (race_run 0)) :: (nat \<times> event) list"
  have "(case dropWhile (\<lambda>ev. \<not> is_pip_delete ev) (race_run 0) of
      AzPipDelete rg n r # _ \<Rightarrow> rg = ''shoot'' \<and> n = ''ip-1'' | _ \<Rightarrow> False)"
    by code_simp
  then obtain r post where post: "dropWhile (\<lambda>ev. \<not> is_pip_delete ev) (race_run 0) =
      AzPipDelete ''shoot'' ''ip-1'' r # post"
    by (auto split: list.splits event.splits)
  have "(case last_lb_writer ?pre of Some (i, _) \<Rightarrow> i = 0 | None \<Rightarrow> False)" by code_simp
  then obtain w where w: "last_lb_writer ?pre = Some (0, w)" by (auto split: option.splits)
  have "race_run 0 = takeWhile (\<lambda>ev. \<not> is_pip_delete ev) (race_run 0) @
      AzPipDelete ''shoot'' ''ip-1'' r # post"
    by (metis takeWhile_dropWhile_id post)
  with first_job_reachable [of race_jobs race_env]
  have "reachable race_jobs (?pre @ (0, AzPipDelete ''shoot'' ''ip-1'' r) # map (Pair 0) post)"
    unfolding race_run_def [symmetric] by (metis list.map(2) map_append)
  with undisturbed_delete_is_detached [OF this race_jobs_ok w, of race_lb] w show ?thesis by blast
qed


end
