(* ===== verification/Simulators.thy ===== *)
theory Simulators
  imports Clients Effects
begin

text \<open>
  The two simulators for manual tests: \<open>cmd/failedvm-simulator-azure\<close> recreates a virtual machine
  so that it ends up failed, \<open>cmd/disknotfound-simulator-azure\<close> deletes a data disk while it is
  attached again. They talk to Azure through the SDK's own clients, so they have an environment
  and events of their own. A \<open>Printed\<close> event is one line on standard output.
\<close>

section \<open>The data of the SDKs they touch\<close>

record managed_disk =
  md_id :: "string option"
  md_rest :: string

record os_disk =
  od_managed_disk :: "managed_disk option"
  od_rest :: string

record data_disk =
  dd_name :: "string option"
  dd_rest :: string

record storage_profile =
  sp_os_disk :: "os_disk option"
  sp_data_disks :: "data_disk list option"
  sp_rest :: string

record os_profile =
  op_require_guest_provision_signal :: "bool option"
  op_rest :: string

record vm_properties =
  vp_vm_id :: "string option"
  vp_storage_profile :: "storage_profile option"
  vp_os_profile :: "os_profile option"
  vp_rest :: string

text \<open>\<open>compute.VirtualMachine\<close> embeds a pointer to its properties.\<close>

record sim_vm =
  sv_properties :: "vm_properties option"
  sv_rest :: string

datatype pod_phase = PodPending | PodRunning | OtherPhase string

record container_port =
  cp_name :: string
  cp_container_port :: nat

record volume_mount =
  vo_name :: string
  vo_mount_path :: string

record container =
  co_name :: string
  co_image :: string
  co_ports :: "container_port list"
  co_volume_mounts :: "volume_mount list"

record volume =
  vl_name :: string
  vl_claim_name :: string

record pod =
  pod_name :: string
  pod_containers :: "container list"
  pod_volumes :: "volume list"
  pod_phase :: pod_phase

record pvc =
  pvc_name :: string
  pvc_access_modes :: "string list"
  pvc_storage :: string
  pvc_storage_class_name :: "string option"

section \<open>Events and environment\<close>

datatype sim_event =
    Printed string
  | SimVmGet azure_client string string "goerr + sim_vm"
  | SimVmDelete azure_client string string "goerr option"
  | SimVmDeleteWait "goerr option"
  | SimVmPut azure_client string string sim_vm "goerr option"
  | SimVmPutWait "goerr option"
  | SimVmPutResult "goerr option"
  | SimDiskDelete azure_client string string "goerr option"
  | SimDiskDeleteWait "goerr option"
  | SimDiskDeleteResult "goerr option"
  | SimCreatePvc string pvc "goerr option"
  | SimCreatePod string pod "goerr + pod"
  | SimGetPod string string "goerr + pod"
  | SimSleep duration

type_synonym sim_trace = "sim_event list"

text \<open>
  \<open>simChoice\<close> is the Go scheduler: whether the first of two runnable goroutines goes on.
\<close>

record sim_env = client_env +
  simErrorText :: "goerr \<Rightarrow> string"
  jsonMarshalVm :: "sim_vm \<Rightarrow> goerr + string"
  formatDisks :: "data_disk list option \<Rightarrow> string"
  formatInt :: "int \<Rightarrow> string"
  osGetenv :: "string \<Rightarrow> string"
  buildConfigFromFlags :: "string \<Rightarrow> string \<Rightarrow> goerr + string"
  newForConfig :: "string \<Rightarrow> goerr + string"
  randIntn :: "sim_trace \<Rightarrow> nat"
  simChoice :: "sim_trace \<Rightarrow> bool"
  simVmGet :: "sim_trace \<Rightarrow> azure_client \<Rightarrow> string \<Rightarrow> string \<Rightarrow> goerr + sim_vm"
  simVmDelete :: "sim_trace \<Rightarrow> azure_client \<Rightarrow> string \<Rightarrow> string \<Rightarrow> goerr option"
  simVmDeleteWait :: "sim_trace \<Rightarrow> goerr option"
  simVmPut :: "sim_trace \<Rightarrow> azure_client \<Rightarrow> string \<Rightarrow> string \<Rightarrow> sim_vm \<Rightarrow> goerr option"
  simVmPutWait :: "sim_trace \<Rightarrow> goerr option"
  simVmPutResult :: "sim_trace \<Rightarrow> goerr option"
  simDiskDelete :: "sim_trace \<Rightarrow> azure_client \<Rightarrow> string \<Rightarrow> string \<Rightarrow> goerr option"
  simDiskDeleteWait :: "sim_trace \<Rightarrow> goerr option"
  simDiskDeleteResult :: "sim_trace \<Rightarrow> goerr option"
  simCreatePvc :: "sim_trace \<Rightarrow> string \<Rightarrow> pvc \<Rightarrow> goerr option"
  simCreatePod :: "sim_trace \<Rightarrow> string \<Rightarrow> pod \<Rightarrow> goerr + pod"
  simGetPod :: "sim_trace \<Rightarrow> string \<Rightarrow> string \<Rightarrow> goerr + pod"

type_synonym 'a sim = "(sim_env, sim_event, 'a) effect"

abbreviation print_line :: "string \<Rightarrow> unit sim" where
  "print_line s \<equiv> emit (Printed s)"

definition VmClient_Get :: "azure_client \<Rightarrow> string \<Rightarrow> string \<Rightarrow> (goerr + sim_vm) sim" where
  "VmClient_Get c rg n = ecall (\<lambda>e t. simVmGet e t c rg n) (SimVmGet c rg n)"

definition VmClient_Delete :: "azure_client \<Rightarrow> string \<Rightarrow> string \<Rightarrow> goerr option sim" where
  "VmClient_Delete c rg n = ecall (\<lambda>e t. simVmDelete e t c rg n) (SimVmDelete c rg n)"

definition VmClient_CreateOrUpdate ::
  "azure_client \<Rightarrow> string \<Rightarrow> string \<Rightarrow> sim_vm \<Rightarrow> goerr option sim" where
  "VmClient_CreateOrUpdate c rg n vm = ecall (\<lambda>e t. simVmPut e t c rg n vm) (SimVmPut c rg n vm)"

definition DiskClient_Delete :: "azure_client \<Rightarrow> string \<Rightarrow> string \<Rightarrow> goerr option sim" where
  "DiskClient_Delete c rg n = ecall (\<lambda>e t. simDiskDelete e t c rg n) (SimDiskDelete c rg n)"

lemmas sim_client_defs =
  VmClient_Get_def VmClient_Delete_def VmClient_CreateOrUpdate_def DiskClient_Delete_def

text \<open>\<open>if err != nil { return err }\<close>.\<close>

definition return_on :: "goerr option \<Rightarrow> goerr option sim \<Rightarrow> goerr option sim" where
  "return_on err rest = (case err of Some e \<Rightarrow> ret (Some e) | None \<Rightarrow> rest)"

definition value_or_return :: "goerr + 'a \<Rightarrow> ('a \<Rightarrow> goerr option sim) \<Rightarrow> goerr option sim" where
  "value_or_return r f = (case r of Inl e \<Rightarrow> ret (Some e) | Inr a \<Rightarrow> f a)"

text \<open>The first steps of both: credentials and token; the simulators only know the secret.\<close>

definition sim_token :: "sim_env \<Rightarrow> credentials \<Rightarrow> goerr + sp_token" where
  "sim_token e cred =
     (case newOAuthConfig e (activeDirectoryEndpoint e) (cr_tenant_id cred) of
        Inl err \<Rightarrow> Inl err
      | Inr oauthConfig \<Rightarrow>
          newToken e oauthConfig (cr_client_id cred) (cr_client_secret cred) (resourceManagerEndpoint e))"

section \<open>The failed VM simulator\<close>

text \<open>\<open>fmt.Println(err.Error()); os.Exit(1)\<close>: the value is the exit code.\<close>

definition exit_on :: "goerr option \<Rightarrow> nat sim \<Rightarrow> nat sim" where
  "exit_on err rest =
     (case err of
        Some err \<Rightarrow> seq (ask (\<lambda>e. simErrorText e err)) (\<lambda>msg. seq (print_line msg) (\<lambda>_. ret 1))
      | None \<Rightarrow> rest)"

definition value_or_exit :: "goerr + 'a \<Rightarrow> ('a \<Rightarrow> nat sim) \<Rightarrow> nat sim" where
  "value_or_exit r f = (case r of Inl err \<Rightarrow> exit_on (Some err) (ret 0) | Inr a \<Rightarrow> f a)"

text \<open>The name of the machine is the first argument: \<open>args\<close> is \<open>os.Args\<close>.\<close>

definition arg_name :: "string list \<Rightarrow> string" where
  "arg_name args = (if length args > 1 then args ! 1 else '''')"

text \<open>\<open>vm.VMID = nil\<close> and the two fields after it: every pointer on the way is followed.\<close>

definition reset_vm :: "sim_vm \<Rightarrow> sim_vm sim" where
  "reset_vm vm =
     seq (deref (sv_properties vm)) (\<lambda>p.
     let p = p\<lparr>vp_vm_id := None\<rparr> in
     seq (deref (vp_storage_profile p)) (\<lambda>sp.
     seq (deref (sp_os_disk sp)) (\<lambda>od.
     seq (deref (od_managed_disk od)) (\<lambda>md.
     let p = p\<lparr>vp_storage_profile :=
       Some (sp\<lparr>sp_os_disk := Some (od\<lparr>od_managed_disk := Some (md\<lparr>md_id := None\<rparr>)\<rparr>)\<rparr>)\<rparr> in
     seq (deref (vp_os_profile p)) (\<lambda>op.
     ret (vm\<lparr>sv_properties := Some (p\<lparr>vp_os_profile :=
       Some (op\<lparr>op_require_guest_provision_signal := None\<rparr>)\<rparr>)\<rparr>))))))"

text \<open>Reading the machine and printing it as JSON, at the beginning and at the end.\<close>

definition show_vm :: "azure_client \<Rightarrow> string \<Rightarrow> string \<Rightarrow> (sim_vm \<Rightarrow> nat sim) \<Rightarrow> nat sim" where
  "show_vm client rg vmName rest =
     seq (print_line (''Getting VM '' @ vmName @ ''...'')) (\<lambda>_.
     seq (VmClient_Get client rg vmName) (\<lambda>r.
     value_or_exit r (\<lambda>vm.
     seq (ask (\<lambda>e. jsonMarshalVm e vm)) (\<lambda>r.
     value_or_exit r (\<lambda>vmData.
     seq (print_line (''VM '' @ vmName @ '' data: '' @ vmData)) (\<lambda>_.
     rest vm))))))"

text \<open>From the deleted machine on: write it again; an error of the last wait is only printed.\<close>

definition rewrite_vm :: "azure_client \<Rightarrow> string \<Rightarrow> string \<Rightarrow> sim_vm \<Rightarrow> nat sim" where
  "rewrite_vm client rg vmName vm =
     seq (print_line (''Creating or updating VM '' @ vmName @ ''...'')) (\<lambda>_.
     seq (reset_vm vm) (\<lambda>vm.
     seq (VmClient_CreateOrUpdate client rg vmName vm) (\<lambda>err.
     exit_on err (
     seq (print_line (''Waiting for VM '' @ vmName @ '' to be created or updated...'')) (\<lambda>_.
     seq (ecall simVmPutWait SimVmPutWait) (\<lambda>err.
     seq (case err of
            Some err \<Rightarrow> seq (ask (\<lambda>e. simErrorText e err)) print_line
          | None \<Rightarrow> ret ()) (\<lambda>_.
     show_vm client rg vmName (\<lambda>_. ret 0))))))))"

definition recreate_vm :: "azure_client \<Rightarrow> string \<Rightarrow> string \<Rightarrow> nat sim" where
  "recreate_vm client rg vmName =
     show_vm client rg vmName (\<lambda>vm.
     seq (print_line (''Deleting VM '' @ vmName @ ''...'')) (\<lambda>_.
     seq (VmClient_Delete client rg vmName) (\<lambda>err.
     exit_on err (
     seq (print_line (''Waiting for VM '' @ vmName @ '' to be deleted...'')) (\<lambda>_.
     seq (ecall simVmDeleteWait SimVmDeleteWait) (\<lambda>err.
     exit_on err (rewrite_vm client rg vmName vm)))))))"

definition failedvm_main :: "string list \<Rightarrow> nat sim" where
  "failedvm_main args =
     (let vmName = arg_name args in
      if vmName = '''' then seq (print_line ''VM name not specified'') (\<lambda>_. ret 1)
      else
        seq (ask (\<lambda>e. ReadConfig e ''dev/credentials.yaml'')) (\<lambda>r.
        value_or_exit r (\<lambda>cred.
        seq (ask (\<lambda>e. sim_token e cred)) (\<lambda>r.
        value_or_exit r (\<lambda>authorizer.
        recreate_vm \<lparr>ac_subscription = cr_subscription_id cred, ac_authorizer = authorizer\<rparr>
          (cr_resource_group cred) vmName)))))"

section \<open>The disk-not-found simulator\<close>

text \<open>
  \<open>retry(n, t, f)\<close>: at most \<open>n\<close> calls, a pause after each failed one, the last error wrapped.
  The closure works on the variable \<open>pod\<close> of its caller, which is passed along as \<open>s\<close>. \<open>err\<close> is nil
  after no iteration at all, which \<open>%w\<close> prints as it does.
\<close>

fun retry_loop :: "nat \<Rightarrow> duration \<Rightarrow> ('s \<Rightarrow> (goerr option \<times> 's) sim) \<Rightarrow> goerr option \<Rightarrow> 's \<Rightarrow>
    (goerr option \<times> 's) sim" where
  "retry_loop 0 t f err s =
     ret (Some (case err of None \<Rightarrow> NewError ''timed out: %!w(<nil>)''
                | Some e \<Rightarrow> Errorf ''timed out'' e), s)"
| "retry_loop (Suc n) t f err s =
     seq (f s) (\<lambda>(err, s).
     if err = None then ret (None, s)
     else seq (emit (SimSleep t)) (\<lambda>_. retry_loop n t f err s))"

definition retry :: "go_int \<Rightarrow> duration \<Rightarrow> ('s \<Rightarrow> (goerr option \<times> 's) sim) \<Rightarrow> 's \<Rightarrow>
    (goerr option \<times> 's) sim" where
  "retry n t f s = retry_loop (nat (sint n)) t f None s"

definition dnfsim_pvc :: pvc where
  "dnfsim_pvc = \<lparr>pvc_name = ''dnfsim'', pvc_access_modes = [''ReadWriteOnce''], pvc_storage = ''2Gi'',
     pvc_storage_class_name = Some ''managed-standard-ssd''\<rparr>"

definition dnfsim_pod :: pod where
  "dnfsim_pod = \<lparr>pod_name = ''dnfsim'',
     pod_containers = [\<lparr>co_name = ''nginx'', co_image = ''nginx'',
       co_ports = [\<lparr>cp_name = ''http'', cp_container_port = 80\<rparr>],
       co_volume_mounts = [\<lparr>vo_name = ''dnfsim'', vo_mount_path = ''/usr/share/nginx/html''\<rparr>]\<rparr>],
     pod_volumes = [\<lparr>vl_name = ''dnfsim'', vl_claim_name = ''dnfsim''\<rparr>],
     pod_phase = OtherPhase ''''\<rparr>"

text \<open>The closure that waits for the pod; a failed read leaves the variable alone here, as nothing reads it then.\<close>

definition poll_pod :: "pod \<Rightarrow> (goerr option \<times> pod) sim" where
  "poll_pod p =
     seq (ecall (\<lambda>e t. simGetPod e t ''default'' ''dnfsim'') (SimGetPod ''default'' ''dnfsim'')) (\<lambda>r.
     case r of
       Inl err \<Rightarrow> ret (Some err, p)
     | Inr p' \<Rightarrow>
         if pod_phase p' = PodPending then ret (Some (NewError ''pod is still pending''), p')
         else ret (None, p'))"

definition phase_text :: "pod_phase \<Rightarrow> string" where
  "phase_text ph = (case ph of PodPending \<Rightarrow> ''Pending'' | PodRunning \<Rightarrow> ''Running'' | OtherPhase s \<Rightarrow> s)"

text \<open>The data disks of a machine, read and replaced through its pointers.\<close>

definition vm_data_disks :: "sim_vm \<Rightarrow> data_disk list option sim" where
  "vm_data_disks vm =
     seq (deref (sv_properties vm)) (\<lambda>p.
     seq (deref (vp_storage_profile p)) (\<lambda>sp. ret (sp_data_disks sp)))"

definition set_data_disks :: "sim_vm \<Rightarrow> data_disk list \<Rightarrow> sim_vm sim" where
  "set_data_disks vm disks =
     seq (deref (sv_properties vm)) (\<lambda>p.
     seq (deref (vp_storage_profile p)) (\<lambda>sp.
     ret (vm\<lparr>sv_properties := Some (p\<lparr>vp_storage_profile := Some (sp\<lparr>sp_data_disks := Some disks\<rparr>)\<rparr>)\<rparr>)))"

definition first_disk :: "data_disk list \<Rightarrow> data_disk sim" where
  "first_disk disks = (case disks of [] \<Rightarrow> panic ''index out of range'' | d # _ \<Rightarrow> ret d)"

definition show_disks :: "azure_client \<Rightarrow> string \<Rightarrow> string \<Rightarrow>
    (sim_vm \<Rightarrow> data_disk list option \<Rightarrow> goerr option sim) \<Rightarrow> goerr option sim" where
  "show_disks client rg vmName rest =
     seq (print_line (''Getting VM '' @ vmName)) (\<lambda>_.
     seq (VmClient_Get client rg vmName) (\<lambda>r.
     value_or_return r (\<lambda>vm.
     seq (vm_data_disks vm) (\<lambda>disks.
     seq (ask (\<lambda>e. formatDisks e disks)) (\<lambda>txt.
     seq (print_line (''Disks: '' @ txt)) (\<lambda>_.
     rest vm disks))))))"

text \<open>Writing the machine with other disks and waiting for the result.\<close>

definition put_disks :: "azure_client \<Rightarrow> string \<Rightarrow> string \<Rightarrow> sim_vm \<Rightarrow> data_disk list \<Rightarrow>
    goerr option sim \<Rightarrow> goerr option sim" where
  "put_disks client rg vmName vm disks rest =
     seq (set_data_disks vm disks) (\<lambda>vm.
     seq (VmClient_CreateOrUpdate client rg vmName vm) (\<lambda>err.
     return_on err (
     seq (ecall simVmPutWait SimVmPutWait) (\<lambda>err.
     return_on err (
     seq (ecall simVmPutResult SimVmPutResult) (\<lambda>err.
     return_on err rest))))))"

subsection \<open>The two goroutines\<close>

text \<open>
  What both goroutines know: the clients, the names, the machine read last and the disk. A
  goroutine is at one of its external calls; a step is that call with what leads up to it.
\<close>

record group_vars =
  gv_vm_client :: azure_client
  gv_disk_client :: azure_client
  gv_resource_group :: string
  gv_vm_name :: string
  gv_vm :: sim_vm
  gv_disk :: data_disk

datatype reattach_pc = AtReattachPrint | AtPut | AtPutWait | AtPutResult | ReattachDone "goerr option"

definition reattach_next :: "goerr option \<Rightarrow> reattach_pc \<Rightarrow> reattach_pc" where
  "reattach_next err pc = (case err of Some e \<Rightarrow> ReattachDone (Some e) | None \<Rightarrow> pc)"

fun reattach_step :: "group_vars \<Rightarrow> reattach_pc \<Rightarrow> reattach_pc sim" where
  "reattach_step g AtReattachPrint = seq (print_line ''Reattaching disk'') (\<lambda>_. ret AtPut)"
| "reattach_step g AtPut =
     seq (set_data_disks (gv_vm g) [gv_disk g]) (\<lambda>vm.
     seq (VmClient_CreateOrUpdate (gv_vm_client g) (gv_resource_group g) (gv_vm_name g) vm) (\<lambda>err.
     ret (reattach_next err AtPutWait)))"
| "reattach_step g AtPutWait =
     seq (ecall simVmPutWait SimVmPutWait) (\<lambda>err. ret (reattach_next err AtPutResult))"
| "reattach_step g AtPutResult =
     seq (ecall simVmPutResult SimVmPutResult) (\<lambda>err. ret (ReattachDone err))"
| "reattach_step g (ReattachDone r) = ret (ReattachDone r)"

datatype disk_pc = AtDelay | AtSleep nat | AtDeletePrint | AtDelete | AtDeleteWait | AtDeleteResult
  | DiskDone "goerr option"

definition disk_next :: "goerr option \<Rightarrow> disk_pc \<Rightarrow> disk_pc" where
  "disk_next err pc = (case err of Some e \<Rightarrow> DiskDone (Some e) | None \<Rightarrow> pc)"

text \<open>\<open>rand.Intn(1001)\<close> is a number below 1001; a millisecond is a million nanoseconds.\<close>

fun disk_step :: "group_vars \<Rightarrow> disk_pc \<Rightarrow> disk_pc sim" where
  "disk_step g AtDelay =
     seq (ask_at (\<lambda>e t. randIntn e t mod 1001 + 500)) (\<lambda>ms.
     seq (ask (\<lambda>e. formatInt e (int ms))) (\<lambda>txt.
     seq (print_line (''Waiting for '' @ txt @ '' milliseconds'')) (\<lambda>_. ret (AtSleep ms))))"
| "disk_step g (AtSleep ms) =
     seq (emit (SimSleep (of_nat ms * 1000000))) (\<lambda>_. ret AtDeletePrint)"
| "disk_step g AtDeletePrint = seq (print_line ''Deleting disk'') (\<lambda>_. ret AtDelete)"
| "disk_step g AtDelete =
     seq (deref (dd_name (gv_disk g))) (\<lambda>name.
     seq (DiskClient_Delete (gv_disk_client g) (gv_resource_group g) name) (\<lambda>err.
     ret (disk_next err AtDeleteWait)))"
| "disk_step g AtDeleteWait =
     seq (ecall simDiskDeleteWait SimDiskDeleteWait) (\<lambda>err. ret (disk_next err AtDeleteResult))"
| "disk_step g AtDeleteResult =
     seq (ecall simDiskDeleteResult SimDiskDeleteResult) (\<lambda>err. ret (DiskDone err))"
| "disk_step g (DiskDone r) = ret (DiskDone r)"

text \<open>
  \<open>errgroup\<close>: both goroutines run to their ends in any order of steps; \<open>Wait\<close> returns the error
  that was returned first, if any. A panic of one of them ends the program. \<open>fuel\<close> bounds the steps.
\<close>

definition reattach_error :: "reattach_pc \<Rightarrow> goerr option" where
  "reattach_error pc = (case pc of ReattachDone r \<Rightarrow> r | _ \<Rightarrow> None)"

definition disk_error :: "disk_pc \<Rightarrow> goerr option" where
  "disk_error pc = (case pc of DiskDone r \<Rightarrow> r | _ \<Rightarrow> None)"

definition first_error :: "goerr option \<Rightarrow> goerr option \<Rightarrow> goerr option" where
  "first_error first err = (case first of Some e \<Rightarrow> Some e | None \<Rightarrow> err)"

fun reattach_running :: "reattach_pc \<Rightarrow> bool" where
  "reattach_running (ReattachDone _) = False"
| "reattach_running _ = True"

fun disk_running :: "disk_pc \<Rightarrow> bool" where
  "disk_running (DiskDone _) = False"
| "disk_running _ = True"

fun run_group :: "nat \<Rightarrow> group_vars \<Rightarrow> reattach_pc \<Rightarrow> disk_pc \<Rightarrow> goerr option \<Rightarrow> goerr option sim" where
  "run_group 0 g p q first = out_of_fuel"
| "run_group (Suc fuel) g p q first =
     (if \<not> reattach_running p \<and> \<not> disk_running q then ret first
      else
        seq (ask_at (\<lambda>e t. simChoice e t)) (\<lambda>choice.
        if reattach_running p \<and> (choice \<or> \<not> disk_running q)
        then seq (reattach_step g p) (\<lambda>p'.
             run_group fuel g p' q (first_error first (reattach_error p')))
        else seq (disk_step g q) (\<lambda>q'.
             run_group fuel g p q' (first_error first (disk_error q')))))"

definition errgroup_wait :: "group_vars \<Rightarrow> goerr option sim" where
  "errgroup_wait g = run_group 11 g AtReattachPrint AtDelay None"

subsection \<open>The whole simulation\<close>

text \<open>From the running pod on: detach the disks, then reattach and delete the first one at once.\<close>

definition lose_disk :: "azure_client \<Rightarrow> azure_client \<Rightarrow> string \<Rightarrow> string \<Rightarrow> goerr option sim" where
  "lose_disk vmClient diskClient rg vmName =
     show_disks vmClient rg vmName (\<lambda>vm disks.
     seq (print_line ''Detaching disks'') (\<lambda>_.
     seq (deref disks) (\<lambda>disks.
     seq (first_disk disks) (\<lambda>disk.
     put_disks vmClient rg vmName vm [] (
     show_disks vmClient rg vmName (\<lambda>vm _.
     seq (errgroup_wait \<lparr>gv_vm_client = vmClient, gv_disk_client = diskClient,
            gv_resource_group = rg, gv_vm_name = vmName, gv_vm = vm, gv_disk = disk\<rparr>) (\<lambda>err.
     return_on err (
     show_disks vmClient rg vmName (\<lambda>_ _. ret None)))))))))"

definition simulate :: "string \<Rightarrow> goerr option sim" where
  "simulate vmName =
     seq (ask (\<lambda>e. ReadConfig e ''dev/credentials.yaml'')) (\<lambda>r. value_or_return r (\<lambda>cred.
     seq (ask (\<lambda>e. sim_token e cred)) (\<lambda>r. value_or_return r (\<lambda>authorizer.
     (let client = \<lparr>ac_subscription = cr_subscription_id cred, ac_authorizer = authorizer\<rparr> in
     seq (ask (\<lambda>e. buildConfigFromFlags e '''' (osGetenv e ''KUBECONFIG''))) (\<lambda>r. value_or_return r (\<lambda>kubeConfig.
     seq (ask (\<lambda>e. newForConfig e kubeConfig)) (\<lambda>r. value_or_return r (\<lambda>clientset.
     seq (print_line ''Creating PVC'') (\<lambda>_.
     seq (ecall (\<lambda>e t. simCreatePvc e t ''default'' dnfsim_pvc) (SimCreatePvc ''default'' dnfsim_pvc)) (\<lambda>err.
     return_on err (
     seq (print_line ''Creating pod'') (\<lambda>_.
     seq (ecall (\<lambda>e t. simCreatePod e t ''default'' dnfsim_pod) (SimCreatePod ''default'' dnfsim_pod)) (\<lambda>r.
     value_or_return r (\<lambda>pod.
     seq (retry 60 (6 * second) poll_pod pod) (\<lambda>(err, pod).
     return_on err (
     if pod_phase pod \<noteq> PodRunning then ret (Some (NewError (''pod status: '' @ phase_text (pod_phase pod))))
     else lose_disk client client (cr_resource_group cred) vmName)))))))))))))))))"

definition disknotfound_main :: "string list \<Rightarrow> nat sim" where
  "disknotfound_main args =
     (let vmName = arg_name args in
      if vmName = '''' then seq (print_line ''Error: VM name not specified'') (\<lambda>_. ret 1)
      else
        seq (simulate vmName) (\<lambda>err.
        case err of
          Some err \<Rightarrow> seq (ask (\<lambda>e. simErrorText e err)) (\<lambda>msg.
            seq (print_line (''Error: '' @ msg)) (\<lambda>_. ret 1))
        | None \<Rightarrow> ret 0))"

end
