(* ===== verification/Simulator_Properties.thy ===== *)
theory Simulator_Properties
  imports Simulators
begin

text \<open>
  What the simulators do to the machine and its disk, whatever Azure and Kubernetes answer, and
  that they end.
\<close>

section \<open>The failed VM simulator\<close>

text \<open>What \<open>reset_vm\<close> changes of a machine whose pointers are all there.\<close>

definition reset_of :: "sim_vm \<Rightarrow> sim_vm \<Rightarrow> bool" where
  "reset_of vm vm' \<longleftrightarrow>
     (\<exists>p sp od md op. sv_properties vm = Some p \<and> vp_storage_profile p = Some sp \<and>
        sp_os_disk sp = Some od \<and> od_managed_disk od = Some md \<and> vp_os_profile p = Some op \<and>
        vm' = vm\<lparr>sv_properties := Some (p\<lparr>vp_vm_id := None,
          vp_storage_profile := Some (sp\<lparr>sp_os_disk :=
            Some (od\<lparr>od_managed_disk := Some (md\<lparr>md_id := None\<rparr>)\<rparr>)\<rparr>),
          vp_os_profile := Some (op\<lparr>op_require_guest_provision_signal := None\<rparr>)\<rparr>)\<rparr>)"

lemma yields_deref:
  "Q (Panicked ''nil pointer dereference'') [] \<Longrightarrow> (\<And>a. p = Some a \<Longrightarrow> Q (Returned a) []) \<Longrightarrow>
   yields e (deref p) Q"
  by (cases p) (auto intro!: yields_intros)

lemma yields_seq_deref:
  "Q (Panicked ''nil pointer dereference'') [] \<Longrightarrow> (\<And>a. p = Some a \<Longrightarrow> yields e (f a) Q) \<Longrightarrow>
   yields e (seq (deref p) f) Q"
  by (cases p) (auto intro!: yields_intros)

lemma reset_vm_spec:
  "yields e (reset_vm vm) (\<lambda>r es. es = [] \<and> r \<noteq> OutOfFuel \<and> (\<forall>vm'. r = Returned vm' \<longrightarrow> reset_of vm vm'))"
  unfolding reset_vm_def Let_def reset_of_def
  by (auto intro!: yields_seq_deref yields_ret)

text \<open>What has to have happened before the machine is deleted and before it is written.\<close>

fun recreate_guard :: "string \<Rightarrow> sim_trace \<Rightarrow> sim_event \<Rightarrow> bool" where
  "recreate_guard n pre (SimVmDelete c rg n' _) =
     (n' = n \<and> (\<exists>vm. SimVmGet c rg n (Inr vm) \<in> set pre))"
| "recreate_guard n pre (SimVmPut c rg n' vm' _) =
     (n' = n \<and> (\<exists>vm. SimVmGet c rg n (Inr vm) \<in> set pre \<and> reset_of vm vm') \<and>
      SimVmDelete c rg n None \<in> set pre \<and> SimVmDeleteWait None \<in> set pre)"
| "recreate_guard n pre (SimDiskDelete _ _ _ _) = False"
| "recreate_guard n pre _ = True"

fun accepted_put :: "sim_event \<Rightarrow> bool" where
  "accepted_put (SimVmPut _ _ _ _ None) = True"
| "accepted_put _ = False"

text \<open>The exit code 0 says that the machine was written and read again.\<close>

definition recreate_ok :: "string \<Rightarrow> nat outcome \<Rightarrow> sim_trace \<Rightarrow> bool" where
  "recreate_ok n r es \<longleftrightarrow> guarded (recreate_guard n) es \<and>
     (r = Returned 0 \<longrightarrow> list_ex accepted_put es) \<and> r \<noteq> OutOfFuel"

lemma yields_exit_on:
  "(\<And>msg. Q (Returned 1) [Printed msg]) \<Longrightarrow> (err = None \<Longrightarrow> yields e rest Q) \<Longrightarrow>
   yields e (exit_on err rest) Q"
  unfolding exit_on_def by (auto intro!: yields_intros split: option.split)

lemma yields_show_vm:
  assumes "\<And>s r s'. Q (Returned 1) [Printed s, SimVmGet c rg n r, Printed s']"
    and "\<And>s vm s'. yields e (rest vm) (\<lambda>r es. Q r (Printed s # SimVmGet c rg n (Inr vm) # Printed s' # es))"
  shows "yields e (show_vm c rg n rest) Q"
  unfolding show_vm_def value_or_exit_def sim_client_defs
  using assms by (auto intro!: yields_intros yields_exit_on split: sum.split)

lemma rewrite_vm_spec:
  assumes "guarded (recreate_guard n) pre" "SimVmGet c rg n (Inr vm) \<in> set pre"
    and "SimVmDelete c rg n None \<in> set pre" "SimVmDeleteWait None \<in> set pre"
  shows "yields e (rewrite_vm c rg n vm) (\<lambda>r es. recreate_ok n r (pre @ es))"
proof -
  have got: "\<exists>vm. SimVmGet c rg n (Inr vm) \<in> set pre \<and> reset_of vm vm'" if "reset_of vm vm'" for vm'
    using assms(2) that by blast
  have "yields e (seq (reset_vm vm) (\<lambda>vm.
     seq (VmClient_CreateOrUpdate c rg n vm) (\<lambda>err.
     exit_on err (
     seq (print_line (''Waiting for VM '' @ n @ '' to be created or updated...'')) (\<lambda>_.
     seq (ecall simVmPutWait SimVmPutWait) (\<lambda>err.
     seq (case err of
            Some err \<Rightarrow> seq (ask (\<lambda>e. simErrorText e err)) print_line
          | None \<Rightarrow> ret ()) (\<lambda>_.
     show_vm c rg n (\<lambda>_. ret 0)))))))) (\<lambda>r es. recreate_ok n r (pre @ Printed s # es))" for s
    by (rule yields_seq [OF reset_vm_spec])
      (use assms got in \<open>auto simp: sim_client_defs(3) recreate_ok_def
        intro!: yields_intros yields_exit_on yields_show_vm split: option.split\<close>)
  then show ?thesis
    unfolding rewrite_vm_def by (rule yields_seq_emit)
qed

lemma recreate_vm_spec: "yields e (recreate_vm c rg n) (recreate_ok n)"
  unfolding recreate_vm_def sim_client_defs
proof (rule yields_show_vm, goal_cases)
  case (2 s vm s')
  have rewrite: "yields e (rewrite_vm c rg n vm) (\<lambda>r es. recreate_ok n r (Printed s #
      SimVmGet c rg n (Inr vm) # Printed s' # Printed a # SimVmDelete c rg n None # Printed b #
      SimVmDeleteWait None # es))" for a b
    using rewrite_vm_spec [of n "[Printed s, SimVmGet c rg n (Inr vm), Printed s', Printed a,
        SimVmDelete c rg n None, Printed b, SimVmDeleteWait None]" c rg vm e] by simp
  show ?case
    by (intro yields_intros yields_exit_on) (auto simp: recreate_ok_def intro!: yields_mono [OF rewrite])
qed (simp add: recreate_ok_def)

section \<open>The disk-not-found simulator\<close>

definition data_disks_of :: "sim_vm \<Rightarrow> data_disk list option" where
  "data_disks_of vm = Option.bind (Option.bind (sv_properties vm) vp_storage_profile) sp_data_disks"

lemma vm_data_disks_spec:
  "yields e (vm_data_disks vm) (\<lambda>r es. es = [] \<and> r \<noteq> OutOfFuel \<and>
     (\<forall>ds. r = Returned ds \<longrightarrow> ds = data_disks_of vm))"
  unfolding vm_data_disks_def data_disks_of_def
  by (auto intro!: yields_seq_deref yields_ret)

lemma set_data_disks_spec:
  "yields e (set_data_disks vm ds) (\<lambda>r es. es = [] \<and> r \<noteq> OutOfFuel \<and>
     (\<forall>vm'. r = Returned vm' \<longrightarrow> data_disks_of vm' = Some ds))"
  unfolding set_data_disks_def data_disks_of_def
  by (auto intro!: yields_seq_deref yields_ret)

subsection \<open>The goroutines\<close>

text \<open>The calls of the two goroutines, and how many steps each has left.\<close>

fun group_event :: "group_vars \<Rightarrow> sim_event \<Rightarrow> bool" where
  "group_event g (SimVmPut c rg n vm _) =
     (c = gv_vm_client g \<and> rg = gv_resource_group g \<and> n = gv_vm_name g \<and> data_disks_of vm = Some [gv_disk g])"
| "group_event g (SimDiskDelete c rg name _) =
     (c = gv_disk_client g \<and> rg = gv_resource_group g \<and> dd_name (gv_disk g) = Some name)"
| "group_event g (SimVmPutWait _) = True"
| "group_event g (SimVmPutResult _) = True"
| "group_event g (SimDiskDeleteWait _) = True"
| "group_event g (SimDiskDeleteResult _) = True"
| "group_event g (Printed _) = True"
| "group_event g (SimSleep _) = True"
| "group_event g _ = False"

fun reattach_rank :: "reattach_pc \<Rightarrow> nat" where
  "reattach_rank AtReattachPrint = 4"
| "reattach_rank AtPut = 3"
| "reattach_rank AtPutWait = 2"
| "reattach_rank AtPutResult = 1"
| "reattach_rank (ReattachDone _) = 0"

fun disk_rank :: "disk_pc \<Rightarrow> nat" where
  "disk_rank AtDelay = 6"
| "disk_rank (AtSleep _) = 5"
| "disk_rank AtDeletePrint = 4"
| "disk_rank AtDelete = 3"
| "disk_rank AtDeleteWait = 2"
| "disk_rank AtDeleteResult = 1"
| "disk_rank (DiskDone _) = 0"

lemma reattach_step_spec:
  assumes "reattach_running p"
  shows "yields e (reattach_step g p) (\<lambda>r es. list_all (group_event g) es \<and> r \<noteq> OutOfFuel \<and>
    (\<forall>p'. r = Returned p' \<longrightarrow> reattach_rank p' < reattach_rank p))"
proof (cases p)
  case AtPut
  show ?thesis
    unfolding AtPut reattach_step.simps VmClient_CreateOrUpdate_def
    by (rule yields_seq [OF set_data_disks_spec])
      (auto simp: reattach_next_def intro!: yields_intros split: option.split)
qed (use assms in \<open>auto simp: reattach_next_def intro!: yields_intros split: option.split\<close>)

lemma disk_step_spec:
  assumes "disk_running q"
  shows "yields e (disk_step g q) (\<lambda>r es. list_all (group_event g) es \<and> r \<noteq> OutOfFuel \<and>
    (\<forall>q'. r = Returned q' \<longrightarrow> disk_rank q' < disk_rank q))"
  using assms
  by (cases q) (auto simp: disk_next_def DiskClient_Delete_def
      intro!: yields_intros yields_seq_deref split: option.split)

lemma run_group_spec:
  "reattach_rank p + disk_rank q < fuel \<Longrightarrow>
   yields e (run_group fuel g p q first) (\<lambda>r es. list_all (group_event g) es \<and> r \<noteq> OutOfFuel)"
proof (induction fuel arbitrary: p q first)
  case (Suc fuel)
  have one: "yields e (seq (reattach_step g p) (\<lambda>p'. run_group fuel g p' q (f p')))
      (\<lambda>r es. list_all (group_event g) es \<and> r \<noteq> OutOfFuel)" if "reattach_running p" for f
    by (rule yields_seq [OF reattach_step_spec [OF that]])
      (use Suc in \<open>auto intro!: yields_mono [OF Suc.IH]\<close>)
  have two: "yields e (seq (disk_step g q) (\<lambda>q'. run_group fuel g p q' (f q')))
      (\<lambda>r es. list_all (group_event g) es \<and> r \<noteq> OutOfFuel)" if "disk_running q" for f
    by (rule yields_seq [OF disk_step_spec [OF that]])
      (use Suc in \<open>auto intro!: yields_mono [OF Suc.IH]\<close>)
  show ?case
    using one two by (auto intro!: yields_intros)
qed simp

text \<open>Every interleaving ends within the steps \<open>errgroup_wait\<close> allows.\<close>

lemma errgroup_wait_spec:
  "yields e (errgroup_wait g) (\<lambda>r es. list_all (group_event g) es \<and> r \<noteq> OutOfFuel)"
  unfolding errgroup_wait_def by (rule run_group_spec) simp

subsection \<open>Guards\<close>

text \<open>
  A disk is deleted only after it was read as the first data disk of the machine and the machine
  was written without any disks; only such a disk is attached again.
\<close>

definition disk_detached :: "string \<Rightarrow> string \<Rightarrow> data_disk \<Rightarrow> sim_trace \<Rightarrow> bool" where
  "disk_detached rg n d pre \<longleftrightarrow>
     (\<exists>c vm ds vm'. SimVmGet c rg n (Inr vm) \<in> set pre \<and> data_disks_of vm = Some (d # ds) \<and>
        SimVmPut c rg n vm' None \<in> set pre \<and> data_disks_of vm' = Some []) \<and>
     SimVmPutWait None \<in> set pre \<and> SimVmPutResult None \<in> set pre"

fun disk_guard :: "string \<Rightarrow> sim_trace \<Rightarrow> sim_event \<Rightarrow> bool" where
  "disk_guard n pre (SimDiskDelete c rg name _) =
     (\<exists>d. dd_name d = Some name \<and> disk_detached rg n d pre)"
| "disk_guard n pre (SimVmPut c rg n' vm _) =
     (n' = n \<and> (data_disks_of vm = Some [] \<or>
        (\<exists>d. data_disks_of vm = Some [d] \<and> disk_detached rg n d pre)))"
| "disk_guard n pre (SimVmDelete _ _ _ _) = False"
| "disk_guard n pre _ = True"

lemma disk_detached_mono: "disk_detached rg n d xs \<Longrightarrow> set xs \<subseteq> set ys \<Longrightarrow> disk_detached rg n d ys"
  unfolding disk_detached_def by blast

lemma group_guarded:
  assumes "list_all (group_event g) es" "disk_detached (gv_resource_group g) (gv_vm_name g) (gv_disk g) pre"
  shows "guarded (\<lambda>xs. disk_guard (gv_vm_name g) (pre @ xs)) es"
proof (rule guarded_all [OF assms(1)])
  fix xs ev
  assume "group_event g ev"
  moreover have "disk_detached (gv_resource_group g) (gv_vm_name g) (gv_disk g) (pre @ xs)"
    using assms(2) by (rule disk_detached_mono) simp
  ultimately show "disk_guard (gv_vm_name g) (pre @ xs) ev" by (cases ev) auto
qed

definition disk_ok :: "string \<Rightarrow> 'a outcome \<Rightarrow> sim_trace \<Rightarrow> bool" where
  "disk_ok n r es \<longleftrightarrow> guarded (disk_guard n) es \<and> r \<noteq> OutOfFuel"

lemma disk_ok_Nil: "disk_ok n r [] \<longleftrightarrow> r \<noteq> OutOfFuel"
  by (simp add: disk_ok_def)

lemma disk_guard_mono: "disk_guard n xs ev \<Longrightarrow> set xs \<subseteq> set ys \<Longrightarrow> disk_guard n ys ev"
  by (cases ev) (auto; blast intro: disk_detached_mono)+

lemma guarded_shift:
  "guarded (disk_guard n) es \<Longrightarrow> guarded (\<lambda>xs. disk_guard n (pre @ xs)) es"
  unfolding guarded_def by (auto elim!: disk_guard_mono)

lemma yields_show_disks:
  assumes "\<And>s err. Q (Returned (Some err)) [Printed s, SimVmGet c rg n (Inl err)]"
    and "\<And>s vm msg. Q (Panicked msg) [Printed s, SimVmGet c rg n (Inr vm)]"
    and "\<And>s vm s'. yields e (rest vm (data_disks_of vm))
      (\<lambda>r es. Q r (Printed s # SimVmGet c rg n (Inr vm) # Printed s' # es))"
  shows "yields e (show_disks c rg n rest) Q"
proof -
  have "yields e (seq (vm_data_disks vm) (\<lambda>disks.
      seq (ask (\<lambda>e. formatDisks e disks)) (\<lambda>txt.
      seq (print_line (''Disks: '' @ txt)) (\<lambda>_.
      rest vm disks)))) (\<lambda>r es. Q r (Printed s # SimVmGet c rg n (Inr vm) # es))" for s vm
    by (rule yields_seq [OF vm_data_disks_spec]) (use assms in \<open>auto intro!: yields_intros\<close>)
  then show ?thesis
    unfolding show_disks_def value_or_return_def sim_client_defs
    using assms(1) by (auto intro!: yields_intros split: sum.split)
qed

lemma yields_put_disks:
  assumes "\<And>msg. Q (Panicked msg) []"
    and "\<And>vm' err. data_disks_of vm' = Some ds \<Longrightarrow> Q (Returned (Some err)) [SimVmPut c rg n vm' (Some err)]"
    and "\<And>vm' err. data_disks_of vm' = Some ds \<Longrightarrow>
      Q (Returned (Some err)) [SimVmPut c rg n vm' None, SimVmPutWait (Some err)]"
    and "\<And>vm' err. data_disks_of vm' = Some ds \<Longrightarrow>
      Q (Returned (Some err)) [SimVmPut c rg n vm' None, SimVmPutWait None, SimVmPutResult (Some err)]"
    and "\<And>vm'. data_disks_of vm' = Some ds \<Longrightarrow> yields e rest
      (\<lambda>r es. Q r (SimVmPut c rg n vm' None # SimVmPutWait None # SimVmPutResult None # es))"
  shows "yields e (put_disks c rg n vm ds rest) Q"
  unfolding put_disks_def return_on_def sim_client_defs
  by (rule yields_seq [OF set_data_disks_spec])
    (use assms in \<open>auto intro!: yields_intros split: option.split\<close>)

text \<open>Reattaching and deleting, once the disk is detached, up to the end.\<close>

lemma group_and_show_spec:
  assumes "disk_detached rg n d pre" "guarded (disk_guard n) pre"
    and "gv_resource_group g = rg" "gv_vm_name g = n" "gv_disk g = d"
  shows "yields e (seq (errgroup_wait g) (\<lambda>err. return_on err (show_disks c rg n (\<lambda>_ _. ret None))))
    (\<lambda>r es. disk_ok n r (pre @ es))"
proof (rule yields_seq [OF errgroup_wait_spec], goal_cases)
  case (1 err es)
  then have "guarded (disk_guard n) (pre @ es)"
    using group_guarded [of g es pre] assms by simp
  then show ?case
    by (cases err) (auto simp: return_on_def disk_ok_def intro!: yields_ret yields_show_disks)
next
  case (2 msg es)
  then show ?case using group_guarded [of g es pre] assms by (simp add: disk_ok_def)
qed simp

lemma lose_disk_spec: "yields e (lose_disk c d rg n) (disk_ok n)"
  unfolding lose_disk_def
proof (rule yields_show_disks, goal_cases)
  case (3 s vm s')
  let ?pre = "[Printed s, SimVmGet c rg n (Inr vm), Printed s', Printed ''Detaching disks'']"
  have put: "yields e (put_disks c rg n vm [] (show_disks c rg n (\<lambda>vm _.
      seq (errgroup_wait \<lparr>gv_vm_client = c, gv_disk_client = d, gv_resource_group = rg,
        gv_vm_name = n, gv_vm = vm, gv_disk = disk\<rparr>) (\<lambda>err.
      return_on err (show_disks c rg n (\<lambda>_ _. ret None)))))) (\<lambda>r es. disk_ok n r (?pre @ es))"
    if "data_disks_of vm = Some (disk # ds)" for disk ds
  proof (rule yields_put_disks, goal_cases)
    case (5 vm')
    have rest: "yields e (seq (errgroup_wait \<lparr>gv_vm_client = c, gv_disk_client = d,
        gv_resource_group = rg, gv_vm_name = n, gv_vm = vm2, gv_disk = disk\<rparr>) (\<lambda>err.
      return_on err (show_disks c rg n (\<lambda>_ _. ret None)))) (\<lambda>r es. disk_ok n r ((?pre @
        [SimVmPut c rg n vm' None, SimVmPutWait None, SimVmPutResult None,
         Printed u, SimVmGet c rg n (Inr vm2), Printed u']) @ es))" for vm2 u u'
      by (rule group_and_show_spec [where d = disk])
        (use 5 that in \<open>auto simp: disk_detached_def\<close>)
    show ?case
      by (rule yields_show_disks)
        (use 5 in \<open>auto simp: disk_ok_def intro!: yields_mono [OF rest [unfolded disk_ok_def]]\<close>)
  qed (auto simp: disk_ok_def)
  show ?case
    by (rule yields_seq_emit, rule yields_seq_deref)
      (auto simp: disk_ok_def first_disk_def intro!: yields_panic
        yields_mono [OF put [unfolded disk_ok_def]] split: list.split)
qed (auto simp: disk_ok_def)

subsection \<open>Polling\<close>

fun quiet_sim :: "sim_event \<Rightarrow> bool" where
  "quiet_sim (Printed _) = True"
| "quiet_sim (SimSleep _) = True"
| "quiet_sim (SimGetPod _ _ _) = True"
| "quiet_sim (SimCreatePvc _ _ _) = True"
| "quiet_sim (SimCreatePod _ _ _) = True"
| "quiet_sim _ = False"

fun is_poll :: "sim_event \<Rightarrow> bool" where
  "is_poll (SimGetPod _ _ _) = True"
| "is_poll _ = False"

lemma poll_pod_spec:
  "yields e (poll_pod p) (\<lambda>r es. list_all quiet_sim es \<and> r \<noteq> OutOfFuel \<and> occurrences is_poll es = 1 \<and>
     (\<forall>p'. r = Returned (None, p') \<longrightarrow> pod_phase p' \<noteq> PodPending))"
  unfolding poll_pod_def by (auto intro!: yields_intros split: sum.split)

text \<open>What a bounded number of tries does, for any operation that is tried.\<close>

lemma retry_loop_spec:
  assumes step: "\<And>s. yields e (f s) (\<lambda>r es. list_all P es \<and> r \<noteq> OutOfFuel \<and> occurrences C es = 1 \<and>
      (\<forall>s'. r = Returned (None, s') \<longrightarrow> D s'))"
    and sleep: "P (SimSleep t)" "\<not> C (SimSleep t)"
  shows "yields e (retry_loop n t f err s) (\<lambda>r es. list_all P es \<and> r \<noteq> OutOfFuel \<and>
      occurrences C es \<le> n \<and> (\<forall>s'. r = Returned (None, s') \<longrightarrow> D s'))"
proof (induction n arbitrary: err s)
  case (Suc n)
  show ?case
    unfolding retry_loop.simps
    by (rule yields_seq [OF step])
      (use sleep in \<open>auto intro!: yields_intros yields_mono [OF Suc.IH]\<close>)
qed (simp add: yields_ret)

lemma poll_spec:
  "yields e (retry n t poll_pod p) (\<lambda>r es. list_all quiet_sim es \<and> r \<noteq> OutOfFuel \<and>
     occurrences is_poll es \<le> nat (sint n) \<and> (\<forall>p'. r = Returned (None, p') \<longrightarrow> pod_phase p' \<noteq> PodPending))"
  unfolding retry_def by (rule retry_loop_spec [OF poll_pod_spec]) simp_all

lemma quiet_disk_ok: "list_all quiet_sim es \<Longrightarrow> guarded (disk_guard n) es"
  by (erule guarded_all) (auto elim: quiet_sim.elims)

lemma disk_ok_after: "list_all quiet_sim pre \<Longrightarrow> disk_ok n r es \<Longrightarrow> disk_ok n r (pre @ es)"
  by (simp add: disk_ok_def quiet_disk_ok guarded_shift)

lemma lose_disk_no_polls: "yields e (lose_disk c d rg n) (\<lambda>r es. list_all (\<lambda>ev. \<not> is_poll ev) es)"
proof -
  have group: "list_all (\<lambda>ev. \<not> is_poll ev) es" if "list_all (group_event g) es" for g es
    using that by (rule list.pred_mono_strong) (auto elim: is_poll.elims)
  have wait: "yields e (errgroup_wait g) (\<lambda>_ es. list_all (\<lambda>ev. \<not> is_poll ev) es)" for g
    by (rule yields_mono [OF errgroup_wait_spec]) (blast intro: group)
  show ?thesis
    unfolding lose_disk_def return_on_def first_disk_def
    by (auto intro!: yields_show_disks yields_put_disks yields_seq_emit yields_seq_deref
        yields_seq [OF wait] yields_ret yields_panic split: list.split option.split)
qed

definition simulation_ok :: "string \<Rightarrow> 'a outcome \<Rightarrow> sim_trace \<Rightarrow> bool" where
  "simulation_ok n r es \<longleftrightarrow> disk_ok n r es \<and> occurrences is_poll es \<le> 60"

lemma simulation_ok_quiet:
  "list_all quiet_sim es \<Longrightarrow> occurrences is_poll es \<le> 60 \<Longrightarrow> r \<noteq> OutOfFuel \<Longrightarrow> simulation_ok n r es"
  by (simp add: simulation_ok_def disk_ok_def quiet_disk_ok)

lemma lose_disk_after:
  assumes "list_all quiet_sim pre" "occurrences is_poll pre \<le> 60"
  shows "yields e (lose_disk c d rg n) (\<lambda>r es. simulation_ok n r (pre @ es))"
  by (rule yields_mono [OF yields_conj [OF lose_disk_spec lose_disk_no_polls]])
    (use assms disk_ok_after in \<open>auto simp: simulation_ok_def occurrences_none\<close>)

lemma simulate_spec: "yields e (simulate n) (simulation_ok n)"
proof -
  have poll: "yields e (seq (retry 60 w poll_pod p) (\<lambda>(err, pod).
     return_on err (
     if pod_phase pod \<noteq> PodRunning then ret (Some (NewError (''pod status: '' @ phase_text (pod_phase pod))))
     else lose_disk client client rg n))) (\<lambda>r es. simulation_ok n r (pre @ es))"
    if "list_all quiet_sim pre" "occurrences is_poll pre = 0" for p client rg w pre
  proof (rule yields_seq [OF poll_spec], goal_cases)
    case (1 a es)
    then have "list_all quiet_sim (pre @ es)" "occurrences is_poll (pre @ es) \<le> 60"
      using that by auto
    then show ?case
      using lose_disk_after [of "pre @ es"]
      by (auto simp: return_on_def intro!: yields_ret simulation_ok_quiet split: option.split prod.split)
  qed (use that in \<open>auto intro!: simulation_ok_quiet\<close>)
  have polled: "yields e (seq (retry 60 w poll_pod p) (\<lambda>(err, pod).
     return_on err (
     if pod_phase pod \<noteq> PodRunning then ret (Some (NewError (''pod status: '' @ phase_text (pod_phase pod))))
     else lose_disk client client rg n))) (\<lambda>r es. simulation_ok n r
       (Printed s # SimCreatePvc ns v r1 # Printed s' # SimCreatePod ns' v' r2 # es))"
    for p client rg w s ns v r1 s' ns' v' r2
    using poll [of "[Printed s, SimCreatePvc ns v r1, Printed s', SimCreatePod ns' v' r2]"] by simp
  show ?thesis
    unfolding simulate_def Let_def
    by (auto simp: value_or_return_def return_on_def [of _ "seq (print_line _) _"]
        intro!: polled yields_intros simulation_ok_quiet split: sum.split option.split)
qed

section \<open>Properties\<close>

lemma recreate_ok_exit: "recreate_ok n (Returned (Suc 0)) [Printed s]"
  by (simp add: recreate_ok_def)

lemma failedvm_main_spec: "yields e (failedvm_main args) (recreate_ok (arg_name args))"
  unfolding failedvm_main_def Let_def value_or_exit_def
  by (auto simp: recreate_ok_exit
      intro!: yields_intros yields_exit_on recreate_vm_spec split: sum.split)

lemma simulation_ok_exit:
  "simulation_ok n (Returned a) [Printed s]"
  "simulation_ok n r es \<Longrightarrow> simulation_ok n (Returned a) es"
  "simulation_ok n r es \<Longrightarrow> simulation_ok n (Returned a) (es @ [Printed s])"
  by (simp_all add: simulation_ok_def disk_ok_def)

lemma disknotfound_main_spec: "yields e (disknotfound_main args) (simulation_ok (arg_name args))"
proof -
  have sim: "yields e (seq (simulate n) (\<lambda>err.
        case err of
          Some err \<Rightarrow> seq (ask (\<lambda>e. simErrorText e err)) (\<lambda>msg.
            seq (print_line (''Error: '' @ msg)) (\<lambda>_. ret 1))
        | None \<Rightarrow> ret 0)) (simulation_ok n)" for n
  proof (rule yields_seq [OF simulate_spec], goal_cases)
    case (1 err es)
    then show ?case
      by (cases err) (auto intro!: yields_intros intro: simulation_ok_exit(2,3))
  qed (auto simp: simulation_ok_def disk_ok_def)
  have name: "yields e (if n = [] then seq (print_line m) (\<lambda>_. ret 1) else seq (simulate n) (\<lambda>err.
        case err of
          Some err \<Rightarrow> seq (ask (\<lambda>e. simErrorText e err)) (\<lambda>msg.
            seq (print_line (''Error: '' @ msg)) (\<lambda>_. ret 1))
        | None \<Rightarrow> ret 0)) (simulation_ok n)" for n m
    by (cases n) (simp add: simulation_ok_exit(1) yields_seq_emit yields_ret, simp only: list.distinct if_False sim)
  show ?thesis
    unfolding disknotfound_main_def Let_def by (rule name)
qed

text \<open>The failed VM simulator, whatever Azure answers: it deletes only the named machine and
  only after reading it, and writes a machine only after that deletion was accepted and waited
  for, namely the one it read with nothing but the VM id, the id of the managed disk and the
  provision signal reset; it touches no disk, it ends, and the exit code 0 means that the machine
  was accepted.\<close>

lemma failedvm_recreates_after_deletion:
  "yields e (failedvm_main args) (\<lambda>r es. guarded (recreate_guard (arg_name args)) es \<and>
     (r = Returned 0 \<longrightarrow> list_ex accepted_put es) \<and> r \<noteq> OutOfFuel)"
  using failedvm_main_spec [of e args] unfolding recreate_ok_def .

text \<open>C40: The disk-not-found simulator, whatever Azure, Kubernetes and the scheduler do: it deletes
  only a disk that it read as the first data disk of the machine, after an accepted update that
  detached all data disks was waited for; all it attaches again is that disk; it polls the pod at
  most 60 times, and both goroutines end under every interleaving.\<close>

theorem disk_is_detached_before_deletion:
  "yields e (disknotfound_main args) (\<lambda>r es. guarded (disk_guard (arg_name args)) es \<and>
     occurrences is_poll es \<le> 60 \<and> r \<noteq> OutOfFuel)"
  by (rule yields_mono [OF disknotfound_main_spec]) (simp add: simulation_ok_def disk_ok_def)

text \<open>A machine with one data disk, and an Azure that accepts everything.\<close>

definition example_sim_vm :: sim_vm where
  "example_sim_vm = \<lparr>sv_properties = Some
     \<lparr>vp_vm_id = Some ''id'', vp_storage_profile = Some
       \<lparr>sp_os_disk = Some \<lparr>od_managed_disk = Some \<lparr>md_id = Some ''os'', md_rest = ''''\<rparr>, od_rest = ''''\<rparr>,
        sp_data_disks = Some [\<lparr>dd_name = Some ''disk-1'', dd_rest = ''''\<rparr>], sp_rest = ''''\<rparr>,
      vp_os_profile = Some \<lparr>op_require_guest_provision_signal = Some True, op_rest = ''''\<rparr>,
      vp_rest = ''''\<rparr>, sv_rest = ''''\<rparr>"

definition example_sim :: sim_env where
  "example_sim =
     \<lparr>readFile = (\<lambda>f. Inr ''''), decodeConfig = (\<lambda>_. Inl (ExternalError ''unused'')), openFile = (\<lambda>f. Inr f),
      decodeCredentials = (\<lambda>_. Inr \<lparr>cr_client_id = ''c'', cr_client_secret = ''s'',
        cr_federated_token_file = '''', cr_tenant_id = ''t'', cr_subscription_id = ''sub'',
        cr_resource_group = ''shoot''\<rparr>),
      activeDirectoryEndpoint = ''ad'', resourceManagerEndpoint = ''rm'',
      newOAuthConfig = (\<lambda>ep tn. Inr tn),
      newTokenFromFederatedTokenCallback = (\<lambda>_ _ f _. f ()), newToken = (\<lambda>_ _ secret _. Inr secret),
      loadKubeconfig = (\<lambda>s. Inr (Some s)), newClientConfig = (\<lambda>s. Inr (Some s)),
      newClientSet = (\<lambda>s. Inr (Some s)),
      simErrorText = (\<lambda>_. ''error''), jsonMarshalVm = (\<lambda>_. Inr ''json''),
      formatDisks = (\<lambda>_. ''disks''), formatInt = (\<lambda>_. ''500''), osGetenv = (\<lambda>_. ''kubeconfig''),
      buildConfigFromFlags = (\<lambda>_ s. Inr s), newForConfig = Inr, randIntn = (\<lambda>_. 0),
      simChoice = (\<lambda>t. even (length t)),
      simVmGet = (\<lambda>_ _ _ _. Inr example_sim_vm), simVmDelete = (\<lambda>_ _ _ _. None),
      simVmDeleteWait = (\<lambda>_. None), simVmPut = (\<lambda>_ _ _ _ _. None),
      simVmPutWait = (\<lambda>_. None), simVmPutResult = (\<lambda>_. None), simDiskDelete = (\<lambda>_ _ _ _. None),
      simDiskDeleteWait = (\<lambda>_. None), simDiskDeleteResult = (\<lambda>_. None),
      simCreatePvc = (\<lambda>_ _ _. None), simCreatePod = (\<lambda>_ _ p. Inr p),
      simGetPod = (\<lambda>_ _ _. Inr (dnfsim_pod\<lparr>pod_phase := PodRunning\<rparr>))\<rparr>"

fun deleted_disk :: "sim_event \<Rightarrow> string option" where
  "deleted_disk (SimDiskDelete _ _ name _) = Some name"
| "deleted_disk _ = None"

lemma example_simulation:
  "fst (disknotfound_main [''simulator'', ''vm-1''] example_sim []) = Returned 0"
  "List.map_filter deleted_disk (snd (disknotfound_main [''simulator'', ''vm-1''] example_sim [])) = [''disk-1'']"
  by code_simp+

end
