(* ===== verification/Go_Memory.thy ===== *)
theory Go_Memory
  imports Remedy_Prelude
begin

text \<open>
  Memory with pointers and slices, for the code whose point is sharing: the generated deep
  copies. Everywhere else a resource is a value that is passed along. A cell is a variable a
  pointer leads to or an array a slice leads to; what kinds of cells there are is a parameter.
\<close>

section \<open>Cells\<close>

record 'k memory =
  next_addr :: nat
  cells :: "nat \<Rightarrow> 'k"

text \<open>
  \<open>new\<close> and \<open>make\<close> take the next address; the zero value the new cell starts with is overwritten
  before anybody reads it.
\<close>

definition reserve :: "'k memory \<Rightarrow> nat \<times> 'k memory" where
  "reserve m = (next_addr m, m\<lparr>next_addr := Suc (next_addr m)\<rparr>)"

definition store :: "nat \<Rightarrow> 'k \<Rightarrow> 'k memory \<Rightarrow> 'k memory" where
  "store a c m = m\<lparr>cells := (cells m)(a := c)\<rparr>"

lemma store_simps [simp]:
  "next_addr (store a c m) = next_addr m"
  "cells (store a c m) = (cells m)(a := c)"
  by (simp_all add: store_def)

text \<open>Two memories have the same contents at some addresses.\<close>

definition agree :: "nat set \<Rightarrow> 'k memory \<Rightarrow> 'k memory \<Rightarrow> bool" where
  "agree A m m' \<longleftrightarrow> (\<forall>a\<in>A. cells m' a = cells m a)"

lemma agree_refl [simp, intro]: "agree A m m"
  by (simp add: agree_def)

lemma agree_next [simp]:
  "agree A (m\<lparr>next_addr := n\<rparr>) m' = agree A m m'" "agree A m (m'\<lparr>next_addr := n\<rparr>) = agree A m m'"
  by (simp_all add: agree_def)

lemma agree_subset: "agree B m m' \<Longrightarrow> A \<subseteq> B \<Longrightarrow> agree A m m'"
  by (auto simp: agree_def)

lemma agree_trans: "agree A m m' \<Longrightarrow> agree A m' m'' \<Longrightarrow> agree A m m''"
  by (simp add: agree_def)

lemma agree_store: "agree A m m' \<Longrightarrow> b \<notin> A \<Longrightarrow> agree A m (store b c m')"
  by (auto simp: agree_def)

abbreviation allocated :: "'k memory \<Rightarrow> nat set" where
  "allocated m \<equiv> {..<next_addr m}"

section \<open>Deep copies\<close>

text \<open>
  The contract of a deep copy. \<open>value\<close> is what a piece of data stands for, with all pointers
  followed, \<open>reach\<close> the cells it is spread over. The copy stands for the same value, lies in new cells
  only, and nothing that existed is written.
\<close>

locale deep_copy =
  fixes copy :: "'a \<Rightarrow> 'k memory \<Rightarrow> 'a \<times> 'k memory"
    and "value" :: "'a \<Rightarrow> 'k memory \<Rightarrow> 'v"
    and reach :: "'a \<Rightarrow> 'k memory \<Rightarrow> nat set"
  assumes frame: "copy x m = (y, m') \<Longrightarrow> next_addr m \<le> next_addr m' \<and> agree (allocated m) m m'"
    and same: "copy x m = (y, m') \<Longrightarrow> reach x m \<subseteq> allocated m \<Longrightarrow> value y m' = value x m"
    and fresh: "copy x m = (y, m') \<Longrightarrow> reach x m \<subseteq> allocated m \<Longrightarrow>
      reach y m' \<subseteq> {next_addr m..<next_addr m'}"
    and local: "agree (reach x m) m m' \<Longrightarrow> value x m' = value x m \<and> reach x m' = reach x m"
begin

lemma kept:
  assumes "reach x m \<subseteq> allocated m" "agree (allocated m) m m'"
  shows "value x m' = value x m \<and> reach x m' = reach x m"
  by (rule local) (rule agree_subset [OF assms(2,1)])

lemma original_kept:
  assumes "copy x m = (y, m')" "reach x m \<subseteq> allocated m"
  shows "value x m' = value x m \<and> reach x m' = reach x m"
  using kept [OF assms(2)] frame [OF assms(1)] by blast

lemma disjoint:
  assumes "copy x m = (y, m')" "reach x m \<subseteq> allocated m"
  shows "reach x m' \<inter> reach y m' = {}"
  using original_kept [OF assms] fresh [OF assms] assms(2) by fastforce

text \<open>Writing to cells of one of the two does not change the other one.\<close>

lemma independent:
  assumes "copy x m = (y, m')" "reach x m \<subseteq> allocated m"
  shows "value y m' = value x m"
    and "agree (- reach x m') m' m'' \<Longrightarrow> value y m'' = value x m"
    and "agree (- reach y m') m' m'' \<Longrightarrow> value x m'' = value x m"
proof -
  note disj = disjoint [OF assms] and kept' = original_kept [OF assms]
  show eq: "value y m' = value x m" by (rule same [OF assms])
  { assume "agree (- reach x m') m' m''"
    then have "agree (reach y m') m' m''" by (rule agree_subset) (use disj in blast)
    then show "value y m'' = value x m" using local eq by metis }
  { assume "agree (- reach y m') m' m''"
    then have "agree (reach x m') m' m''" by (rule agree_subset) (use disj in blast)
    then show "value x m'' = value x m" using local kept' by metis }
qed

end

text \<open>Data without pointers: \<open>*out = *in\<close>.\<close>

definition plain_copy :: "'a \<Rightarrow> 'k memory \<Rightarrow> 'a \<times> 'k memory" where
  "plain_copy x m = (x, m)"

definition plain_value :: "'a \<Rightarrow> 'k memory \<Rightarrow> 'a" where
  "plain_value x m = x"

definition plain_reach :: "'a \<Rightarrow> 'k memory \<Rightarrow> nat set" where
  "plain_reach x m = {}"

interpretation plain: deep_copy plain_copy plain_value plain_reach
  by unfold_locales (auto simp: plain_copy_def plain_value_def plain_reach_def)

section \<open>Structs\<close>

definition copy_both :: "('a \<Rightarrow> 'k memory \<Rightarrow> 'a \<times> 'k memory) \<Rightarrow> ('b \<Rightarrow> 'k memory \<Rightarrow> 'b \<times> 'k memory) \<Rightarrow>
    'a \<times> 'b \<Rightarrow> 'k memory \<Rightarrow> ('a \<times> 'b) \<times> 'k memory" where
  "copy_both c d p m = (let (y, m) = c (fst p) m; (z, m) = d (snd p) m in ((y, z), m))"

definition both_values :: "('a \<Rightarrow> 'k memory \<Rightarrow> 'v) \<Rightarrow> ('b \<Rightarrow> 'k memory \<Rightarrow> 'w) \<Rightarrow>
    'a \<times> 'b \<Rightarrow> 'k memory \<Rightarrow> 'v \<times> 'w" where
  "both_values v w p m = (v (fst p) m, w (snd p) m)"

definition both_reach :: "('a \<Rightarrow> 'k memory \<Rightarrow> nat set) \<Rightarrow> ('b \<Rightarrow> 'k memory \<Rightarrow> nat set) \<Rightarrow>
    'a \<times> 'b \<Rightarrow> 'k memory \<Rightarrow> nat set" where
  "both_reach r s p m = r (fst p) m \<union> s (snd p) m"

lemma deep_copy_both:
  assumes "deep_copy c v r" "deep_copy d w s"
  shows "deep_copy (copy_both c d) (both_values v w) (both_reach r s)"
proof -
  note cf = deep_copy.frame [OF assms(1)] deep_copy.frame [OF assms(2)]
  show ?thesis
  proof
    fix x y m m'
    assume *: "copy_both c d x m = (y, m')"
    then obtain y1 m1 y2 where y: "c (fst x) m = (y1, m1)" "d (snd x) m1 = (y2, m')" "y = (y1, y2)"
      by (auto simp: copy_both_def split: prod.splits)
    note f1 = cf(1) [OF y(1)] and f2 = cf(2) [OF y(2)]
    have le: "allocated m \<subseteq> allocated m1" using f1 by auto
    show "next_addr m \<le> next_addr m' \<and> agree (allocated m) m m'"
      using f1 f2 agree_subset [OF _ le] agree_trans by fastforce
    assume "both_reach r s x m \<subseteq> allocated m"
    then have r: "r (fst x) m \<subseteq> allocated m" "s (snd x) m \<subseteq> allocated m"
      by (auto simp: both_reach_def)
    have k2: "w (snd x) m1 = w (snd x) m" "s (snd x) m1 = s (snd x) m"
      using deep_copy.kept [OF assms(2), OF r(2), of m1] f1 by simp_all
    have r2: "s (snd x) m1 \<subseteq> allocated m1" using subset_trans [OF r(2) le] k2(2) by simp
    have k1: "r y1 m1 \<subseteq> allocated m1" using deep_copy.fresh [OF assms(1), OF y(1) r(1)] by auto
    have k1': "v y1 m' = v y1 m1" "r y1 m' = r y1 m1"
      using deep_copy.kept [OF assms(1), OF k1, of m'] f2 by simp_all
    show "both_values v w y m' = both_values v w x m"
      using deep_copy.same [OF assms(1), OF y(1) r(1)] deep_copy.same [OF assms(2), OF y(2) r2] k1' k2 y(3)
      by (simp add: both_values_def)
    show "both_reach r s y m' \<subseteq> {next_addr m..<next_addr m'}"
      using deep_copy.fresh [OF assms(1), OF y(1) r(1)] deep_copy.fresh [OF assms(2), OF y(2) r2] k1' k2 y(3)
        f1 f2 by (fastforce simp: both_reach_def)
  next
    fix x m m'
    assume "agree (both_reach r s x m) m m'"
    then have "agree (r (fst x) m) m m'" "agree (s (snd x) m) m m'"
      by (auto elim: agree_subset simp: both_reach_def)
    from deep_copy.local [OF assms(1), OF this(1)] deep_copy.local [OF assms(2), OF this(2)]
    show "both_values v w x m' = both_values v w x m \<and> both_reach r s x m' = both_reach r s x m"
      by (simp add: both_values_def both_reach_def)
  qed
qed

text \<open>
  A struct: the fields that lead to other cells are copied, the others are assigned. \<open>build\<close> puts
  copied fields into a struct.
\<close>

lemma deep_copy_fields:
  assumes "deep_copy c v r"
    and "\<And>x y. parts (build x y) = y" "\<And>x y w. f (build x y) w = f x w"
    and "\<And>x m. copy x m = (let (y, m) = c (parts x) m in (build x y, m))"
    and "\<And>x m. val x m = f x (v (parts x) m)" "\<And>x m. reach x m = r (parts x) m"
  shows "deep_copy copy val reach"
proof -
  note [simp] = assms(2,3,5,6)
  show ?thesis
  proof
    fix x y m m' assume "copy x m = (y, m')"
    then obtain z where z: "c (parts x) m = (z, m')" "y = build x z"
      by (auto simp: assms(4) split: prod.splits)
    show "next_addr m \<le> next_addr m' \<and> agree (allocated m) m m'"
      by (rule deep_copy.frame [OF assms(1), OF z(1)])
    assume "reach x m \<subseteq> allocated m"
    then have r: "r (parts x) m \<subseteq> allocated m" by simp
    show "val y m' = val x m" using deep_copy.same [OF assms(1), OF z(1) r] z(2) by simp
    show "reach y m' \<subseteq> {next_addr m..<next_addr m'}"
      using deep_copy.fresh [OF assms(1), OF z(1) r] z(2) by simp
  next
    fix x m m' assume "agree (reach x m) m m'"
    then show "val x m' = val x m \<and> reach x m' = reach x m"
      using deep_copy.local [OF assms(1), of "parts x" m m'] by simp
  qed
qed

section \<open>Pointers\<close>

text \<open>A kind of cell: how the contents of a variable are put into a cell and read from it.\<close>

locale cell_type =
  fixes put :: "'a \<Rightarrow> 'k" and get :: "'k \<Rightarrow> 'a"
  assumes get_put: "get (put x) = x"

definition target_of :: "('k \<Rightarrow> 'a) \<Rightarrow> nat \<Rightarrow> 'k memory \<Rightarrow> 'a" where
  "target_of get a m = get (cells m a)"

text \<open>
  The \<open>DeepCopy\<close> of a type, and the copying of a pointer field: nil stays nil, else a new variable
  is made and \<open>into\<close> fills it.
\<close>

definition copy_pointer :: "('a \<Rightarrow> 'k) \<Rightarrow> ('k \<Rightarrow> 'a) \<Rightarrow> ('a \<Rightarrow> 'k memory \<Rightarrow> 'a \<times> 'k memory) \<Rightarrow>
    nat option \<Rightarrow> 'k memory \<Rightarrow> nat option \<times> 'k memory" where
  "copy_pointer put get into p m =
     (case p of
        None \<Rightarrow> (None, m)
      | Some a \<Rightarrow>
          (let (b, m) = reserve m; (y, m) = into (target_of get a m) m
           in (Some b, store b (put y) m)))"

definition pointer_value :: "('k \<Rightarrow> 'a) \<Rightarrow> ('a \<Rightarrow> 'k memory \<Rightarrow> 'v) \<Rightarrow> nat option \<Rightarrow> 'k memory \<Rightarrow> 'v option" where
  "pointer_value get v p m = map_option (\<lambda>a. v (target_of get a m) m) p"

definition pointer_reach :: "('k \<Rightarrow> 'a) \<Rightarrow> ('a \<Rightarrow> 'k memory \<Rightarrow> nat set) \<Rightarrow> nat option \<Rightarrow> 'k memory \<Rightarrow> nat set" where
  "pointer_reach get r p m = (case p of None \<Rightarrow> {} | Some a \<Rightarrow> insert a (r (target_of get a m) m))"

section \<open>Slices\<close>

text \<open>A slice leads to a part of an array; \<open>None\<close> is the nil slice.\<close>

record slice =
  sl_array :: nat
  sl_from :: nat
  sl_length :: nat

definition slice_elements :: "('k \<Rightarrow> 'a list) \<Rightarrow> slice \<Rightarrow> 'k memory \<Rightarrow> 'a list" where
  "slice_elements get s m = take (sl_length s) (drop (sl_from s) (target_of get (sl_array s) m))"

fun copy_each :: "('a \<Rightarrow> 'k memory \<Rightarrow> 'a \<times> 'k memory) \<Rightarrow> 'a list \<Rightarrow> 'k memory \<Rightarrow> 'a list \<times> 'k memory" where
  "copy_each into [] m = ([], m)"
| "copy_each into (x # xs) m =
     (let (y, m) = into x m; (ys, m) = copy_each into xs m in (y # ys, m))"

text \<open>
  The copying of a slice field: a new array of the same length, filled element by element; what
  the copying of an element writes is neither the old array nor the new one.
\<close>

definition copy_slice :: "('a list \<Rightarrow> 'k) \<Rightarrow> ('k \<Rightarrow> 'a list) \<Rightarrow> ('a \<Rightarrow> 'k memory \<Rightarrow> 'a \<times> 'k memory) \<Rightarrow>
    slice option \<Rightarrow> 'k memory \<Rightarrow> slice option \<times> 'k memory" where
  "copy_slice put get into p m =
     (case p of
        None \<Rightarrow> (None, m)
      | Some s \<Rightarrow>
          (let (b, m) = reserve m; (ys, m) = copy_each into (slice_elements get s m) m
           in (Some \<lparr>sl_array = b, sl_from = 0, sl_length = sl_length s\<rparr>, store b (put ys) m)))"

definition slice_value :: "('k \<Rightarrow> 'a list) \<Rightarrow> ('a \<Rightarrow> 'k memory \<Rightarrow> 'v) \<Rightarrow> slice option \<Rightarrow> 'k memory \<Rightarrow> 'v list" where
  "slice_value get v p m =
     (case p of None \<Rightarrow> [] | Some s \<Rightarrow> map (\<lambda>x. v x m) (slice_elements get s m))"

definition slice_reach :: "('k \<Rightarrow> 'a list) \<Rightarrow> ('a \<Rightarrow> 'k memory \<Rightarrow> nat set) \<Rightarrow> slice option \<Rightarrow> 'k memory \<Rightarrow> nat set" where
  "slice_reach get r p m =
     (case p of
        None \<Rightarrow> {}
      | Some s \<Rightarrow> insert (sl_array s) (\<Union>x\<in>set (slice_elements get s m). r x m))"

section \<open>Copied pointers and slices are deep copies\<close>

lemma cells_reserve [simp]: "cells (snd (reserve m)) = cells m"
  by (simp add: reserve_def)

lemma target_agree: "agree A m m' \<Longrightarrow> a \<in> A \<Longrightarrow> target_of get a m' = target_of get a m"
  by (simp add: agree_def target_of_def)

lemma target_next [simp]: "target_of get a (m\<lparr>next_addr := n\<rparr>) = target_of get a m"
  by (simp add: target_of_def)


context deep_copy
begin

lemma kept_set:
  assumes "(\<Union>x\<in>X. reach x m) \<subseteq> allocated m" "agree (allocated m) m m'"
  shows "(\<Union>x\<in>X. reach x m') = (\<Union>x\<in>X. reach x m)" and "x \<in> X \<Longrightarrow> value x m' = value x m"
proof -
  have k: "value x m' = value x m \<and> reach x m' = reach x m" if "x \<in> X" for x
    by (rule kept) (use assms that in auto)
  then show "(\<Union>x\<in>X. reach x m') = (\<Union>x\<in>X. reach x m)" by simp
  show "x \<in> X \<Longrightarrow> value x m' = value x m" using k by simp
qed

lemma copy_each_frame:
  "copy_each copy xs m = (ys, m') \<Longrightarrow> next_addr m \<le> next_addr m' \<and> agree (allocated m) m m'"
proof (induction xs arbitrary: m ys)
  case (Cons x xs)
  then obtain y m1 zs where y: "copy x m = (y, m1)" "copy_each copy xs m1 = (zs, m')"
    by (auto split: prod.splits)
  from frame [OF y(1)] Cons.IH [OF y(2)] show ?case
    by (auto intro: agree_trans elim: agree_subset)
qed simp

lemma copy_each_spec:
  assumes "copy_each copy xs m = (ys, m')" "(\<Union>x\<in>set xs. reach x m) \<subseteq> allocated m"
  shows "map (\<lambda>y. value y m') ys = map (\<lambda>x. value x m) xs \<and>
    (\<Union>y\<in>set ys. reach y m') \<subseteq> {next_addr m..<next_addr m'} \<and> length ys = length xs"
  using assms
proof (induction xs arbitrary: m ys)
  case (Cons x xs)
  then obtain y m1 zs where y: "copy x m = (y, m1)" "copy_each copy xs m1 = (zs, m')" "ys = y # zs"
    by (auto split: prod.splits)
  from Cons.prems(2) have rx: "reach x m \<subseteq> allocated m"
    and rxs: "(\<Union>x\<in>set xs. reach x m) \<subseteq> allocated m" by auto
  have f1: "next_addr m \<le> next_addr m1" "agree (allocated m) m m1" using frame [OF y(1)] by auto
  have f2: "next_addr m1 \<le> next_addr m'" "agree (allocated m1) m1 m'"
    using copy_each_frame [OF y(2)] by auto
  note k = kept_set [OF rxs f1(2)]
  have "(\<Union>x\<in>set xs. reach x m1) \<subseteq> allocated m1" unfolding k(1) using rxs f1(1) by auto
  from Cons.IH [OF y(2) this] have IH: "map (\<lambda>y. value y m') zs = map (\<lambda>x. value x m1) xs"
      "(\<Union>y\<in>set zs. reach y m') \<subseteq> {next_addr m1..<next_addr m'}" "length zs = length xs" by auto
  have fy: "reach y m1 \<subseteq> {next_addr m..<next_addr m1}" by (rule fresh [OF y(1) rx])
  then have "reach y m1 \<subseteq> allocated m1" by auto
  from kept [OF this f2(2)] have ky: "value y m' = value y m1" "reach y m' = reach y m1" by auto
  have "map (\<lambda>x. value x m1) xs = map (\<lambda>x. value x m) xs" using k(2) by simp
  moreover have "reach y m' \<subseteq> {next_addr m..<next_addr m'}" using ky(2) fy f2(1) by fastforce
  moreover have "(\<Union>y\<in>set zs. reach y m') \<subseteq> {next_addr m..<next_addr m'}" using IH(2) f1(1) by fastforce
  ultimately show ?case using IH(1,3) same [OF y(1) rx] ky(1) y(3) by simp
qed simp

end

context cell_type
begin

text \<open>What holds after a copy into the cell that was reserved for it.\<close>

lemma target_store [simp]: "target_of get b (store b (put x) m) = x"
  by (simp add: target_of_def get_put)

lemma copy_pointer_frame:
  assumes "deep_copy into v r" and copied: "copy_pointer put get into p m = (q, m')"
  shows "next_addr m \<le> next_addr m' \<and> agree (allocated m) m m'"
proof (cases p)
  case (Some a)
  then obtain y m1 where y: "into (target_of get a m) (m\<lparr>next_addr := Suc (next_addr m)\<rparr>) = (y, m1)"
    "m' = store (next_addr m) (put y) m1"
    using copied by (auto simp: copy_pointer_def reserve_def split: prod.splits)
  from deep_copy.frame [OF assms(1), OF y(1)] show ?thesis
    by (auto simp: y(2) intro!: agree_store elim: agree_subset)
qed (use copied in \<open>simp add: copy_pointer_def\<close>)

lemma copy_pointer_copied:
  assumes "deep_copy into v r" and copied: "copy_pointer put get into p m = (q, m')"
    and inside: "pointer_reach get r p m \<subseteq> allocated m"
  shows "pointer_value get v q m' = pointer_value get v p m \<and>
    pointer_reach get r q m' \<subseteq> {next_addr m..<next_addr m'}"
proof (cases p)
  case (Some a)
  let ?m = "m\<lparr>next_addr := Suc (next_addr m)\<rparr>" and ?b = "next_addr m"
  obtain y m1 where y: "into (target_of get a m) ?m = (y, m1)" "m' = store ?b (put y) m1" "q = Some ?b"
    using copied Some by (auto simp: copy_pointer_def reserve_def split: prod.splits)
  let ?x = "target_of get a m"
  have rx: "r ?x m \<subseteq> allocated m" using inside Some by (simp add: pointer_reach_def)
  have kx: "v ?x ?m = v ?x m" "r ?x ?m = r ?x m"
    using deep_copy.kept [OF assms(1), OF rx, of ?m] by simp_all
  have "r ?x ?m \<subseteq> allocated ?m" unfolding kx using rx by auto
  note this [THEN deep_copy.same [OF assms(1), OF y(1)]] this [THEN deep_copy.fresh [OF assms(1), OF y(1)]]
  then have vy: "v y m1 = v ?x m" and ry: "r y m1 \<subseteq> {Suc ?b..<next_addr m1}" using kx by auto
  have "agree (r y m1) m1 m'" unfolding y(2) by (rule agree_store) (use ry in auto)
  note ky = deep_copy.local [OF assms(1), OF this]
  have "Suc ?b \<le> next_addr m1" using deep_copy.frame [OF assms(1), OF y(1)] by simp
  then show ?thesis using Some vy ry ky y(2,3)
    by (auto simp: pointer_value_def pointer_reach_def)
qed (use copied in \<open>simp add: copy_pointer_def pointer_value_def pointer_reach_def\<close>)

lemma pointer_local:
  assumes "deep_copy into v r" and same: "agree (pointer_reach get r p m) m m'"
  shows "pointer_value get v p m' = pointer_value get v p m \<and> pointer_reach get r p m' = pointer_reach get r p m"
proof (cases p)
  case (Some a)
  have "target_of get a m' = target_of get a m" "agree (r (target_of get a m) m) m m'"
    using same Some by (auto intro: target_agree elim: agree_subset simp: pointer_reach_def)
  then show ?thesis using Some deep_copy.local [OF assms(1), of "target_of get a m" m m']
    by (simp add: pointer_value_def pointer_reach_def)
qed (simp add: pointer_value_def pointer_reach_def)

lemma deep_copy_pointer:
  assumes "deep_copy into v r"
  shows "deep_copy (copy_pointer put get into) (pointer_value get v) (pointer_reach get r)"
  by unfold_locales (use copy_pointer_frame [OF assms] copy_pointer_copied [OF assms] pointer_local [OF assms] in blast)+

end

text \<open>A kind of cell that holds an array.\<close>

locale array_cell = cell_type put get
  for put :: "'a list \<Rightarrow> 'k" and get :: "'k \<Rightarrow> 'a list"
begin

lemma slice_elements_cong:
  "target_of get (sl_array s) m' = target_of get (sl_array s) m \<Longrightarrow> slice_elements get s m' = slice_elements get s m"
  by (simp add: slice_elements_def)

lemma slice_elements_store:
  "length ys \<le> n \<Longrightarrow>
   slice_elements get \<lparr>sl_array = b, sl_from = 0, sl_length = n\<rparr> (store b (put ys) m) = ys"
  by (simp add: slice_elements_def)

lemma copy_slice_frame:
  assumes "deep_copy into v r" and copied: "copy_slice put get into p m = (q, m')"
  shows "next_addr m \<le> next_addr m' \<and> agree (allocated m) m m'"
proof (cases p)
  case (Some s)
  then obtain ys m1 where y: "copy_each into (slice_elements get s m) (m\<lparr>next_addr := Suc (next_addr m)\<rparr>) = (ys, m1)"
    "m' = store (next_addr m) (put ys) m1"
    using copied by (auto simp: copy_slice_def reserve_def slice_elements_def split: prod.splits)
  from deep_copy.copy_each_frame [OF assms(1), OF y(1)] show ?thesis
    by (auto simp: y(2) intro!: agree_store elim: agree_subset)
qed (use copied in \<open>simp add: copy_slice_def\<close>)

lemma copy_slice_copied:
  assumes "deep_copy into v r" and copied: "copy_slice put get into p m = (q, m')"
    and inside: "slice_reach get r p m \<subseteq> allocated m"
  shows "slice_value get v q m' = slice_value get v p m \<and>
    slice_reach get r q m' \<subseteq> {next_addr m..<next_addr m'}"
proof (cases p)
  case (Some s)
  let ?m = "m\<lparr>next_addr := Suc (next_addr m)\<rparr>" and ?b = "next_addr m"
  let ?xs = "slice_elements get s m"
  obtain ys m1 where y: "copy_each into ?xs ?m = (ys, m1)" "m' = store ?b (put ys) m1"
    "q = Some \<lparr>sl_array = ?b, sl_from = 0, sl_length = sl_length s\<rparr>"
    using copied Some by (auto simp: copy_slice_def reserve_def slice_elements_def split: prod.splits)
  have rx: "(\<Union>x\<in>set ?xs. r x m) \<subseteq> allocated m" using inside Some by (simp add: slice_reach_def)
  note kx = deep_copy.kept_set [OF assms(1), OF rx, of ?m, simplified]
  have "(\<Union>x\<in>set ?xs. r x ?m) \<subseteq> allocated ?m" unfolding kx(1) using rx by auto
  from deep_copy.copy_each_spec [OF assms(1), OF y(1) this]
  have vy: "map (\<lambda>y. v y m1) ys = map (\<lambda>x. v x ?m) ?xs"
    and ry: "(\<Union>y\<in>set ys. r y m1) \<subseteq> {Suc ?b..<next_addr m1}" and len: "length ys = length ?xs" by simp_all
  have ky: "v y m' = v y m1 \<and> r y m' = r y m1" if "y \<in> set ys" for y
    by (rule deep_copy.local [OF assms(1)], unfold y(2), rule agree_store) (use ry that in auto)
  have le: "Suc ?b \<le> next_addr m1" using deep_copy.copy_each_frame [OF assms(1), OF y(1)] by simp
  have "length ?xs \<le> sl_length s" by (simp add: slice_elements_def)
  then have el: "slice_elements get \<lparr>sl_array = ?b, sl_from = 0, sl_length = sl_length s\<rparr> m' = ys"
    unfolding y(2) using len by (intro slice_elements_store) simp
  have "map (\<lambda>y. v y m') ys = map (\<lambda>y. v y m1) ys" "map (\<lambda>x. v x ?m) ?xs = map (\<lambda>x. v x m) ?xs"
    using ky kx(2) by simp_all
  then have "map (\<lambda>y. v y m') ys = map (\<lambda>x. v x m) ?xs" using vy by simp
  moreover have "r y m' \<subseteq> {?b..<next_addr m'}" if "y \<in> set ys" for y
  proof -
    have "r y m' \<subseteq> {Suc ?b..<next_addr m1}" using ry ky [OF that] that by blast
    then show ?thesis unfolding y(2) by auto
  qed
  moreover have "?b \<in> {?b..<next_addr m'}" using le unfolding y(2) by simp
  ultimately have
    "map (\<lambda>y. v y m') ys = map (\<lambda>x. v x m) ?xs"
    "insert ?b (\<Union>y\<in>set ys. r y m') \<subseteq> {?b..<next_addr m'}" by blast+
  then show ?thesis
    unfolding Some y(3) slice_value_def slice_reach_def option.case el by (simp del: set_map map_eq_conv)
qed (use copied in \<open>simp add: copy_slice_def slice_value_def slice_reach_def\<close>)

lemma slice_local:
  assumes "deep_copy into v r" and same: "agree (slice_reach get r p m) m m'"
  shows "slice_value get v p m' = slice_value get v p m \<and> slice_reach get r p m' = slice_reach get r p m"
proof (cases p)
  case (Some s)
  let ?xs = "slice_elements get s m"
  have el: "slice_elements get s m' = ?xs"
    by (rule slice_elements_cong, rule target_agree [OF same]) (simp add: Some slice_reach_def)
  have "v x m' = v x m \<and> r x m' = r x m" if "x \<in> set ?xs" for x
    by (rule deep_copy.local [OF assms(1)], rule agree_subset [OF same])
      (use that Some in \<open>auto simp: slice_reach_def\<close>)
  then show ?thesis using Some el by (simp add: slice_value_def slice_reach_def)
qed (simp add: slice_value_def slice_reach_def)

lemma deep_copy_slice:
  assumes "deep_copy into v r"
  shows "deep_copy (copy_slice put get into) (slice_value get v) (slice_reach get r)"
  by unfold_locales (use copy_slice_frame [OF assms] copy_slice_copied [OF assms] slice_local [OF assms] in blast)+

end

end
