(* ===== verification/Api_Conversions.thy ===== *)
theory Api_Conversions
  imports Configuration
begin

text \<open>
  The internal form of the custom resources (\<open>pkg/apis/azure\<close>) and the conversions from and to
  version \<open>v1alpha1\<close> (\<open>zz_generated.conversion.go\<close>), which are registered for the API scheme.
  Casting a slice or pointer to the other version's type keeps its elements as they are. An
  object carries its type information (\<open>TypeMeta\<close>) beside its contents: a conversion leaves the one
  of the object it writes to alone, and a cast keeps the one of every element of a list.
\<close>

section \<open>Internal types\<close>

datatype int_operation_type =
    IntOperationTypeGetPublicIPAddress
  | IntOperationTypeCleanPublicIPAddress
  | IntOperationTypeGetVirtualMachine
  | IntOperationTypeReapplyVirtualMachine

record int_failed_operation =
  if_type :: int_operation_type
  if_attempts :: go_int
  if_error_message :: string
  if_timestamp :: instant

record int_pip_spec =
  ips_ip_address :: string

record int_pip_status =
  ips_exists :: bool
  ips_id :: "string option"
  ips_name :: "string option"
  ips_provisioning_state :: "provisioning_state option"
  ips_failed_operations :: "int_failed_operation list"

record int_public_ip_address =
  ipip_meta :: object_meta
  ipip_spec :: int_pip_spec
  ipip_status :: int_pip_status

record int_vm_spec =
  ivs_hostname :: string
  ivs_provider_id :: string
  ivs_not_ready_or_unreachable :: bool

record int_vm_status =
  ivs_exists :: bool
  ivs_id :: "string option"
  ivs_name :: "string option"
  ivs_provisioning_state :: "provisioning_state option"
  ivs_failed_operations :: "int_failed_operation list"

record int_virtual_machine =
  ivm_meta :: object_meta
  ivm_spec :: int_vm_spec
  ivm_status :: int_vm_status

text \<open>
  An object with its type information, as \<open>TypeMeta\<close> is embedded in the structs of resources and
  of lists. The resources of the other theories are the contents: only the decoder and the
  library look at the type information. Lists have metadata of their own, an opaque text.
\<close>

record 'a api_object =
  ty_meta :: type_meta
  ty_body :: 'a

definition cast :: "('a \<Rightarrow> 'b) \<Rightarrow> 'a api_object \<Rightarrow> 'b api_object" where
  "cast f x = \<lparr>ty_meta = ty_meta x, ty_body = f (ty_body x)\<rparr>"

record 'a resource_list =
  rl_meta :: string
  rl_items :: "'a api_object list"

section \<open>Failed operations\<close>

fun Convert_v1_operation_type :: "operation_type \<Rightarrow> int_operation_type" where
  "Convert_v1_operation_type OperationTypeGetPublicIPAddress = IntOperationTypeGetPublicIPAddress"
| "Convert_v1_operation_type OperationTypeCleanPublicIPAddress = IntOperationTypeCleanPublicIPAddress"
| "Convert_v1_operation_type OperationTypeGetVirtualMachine = IntOperationTypeGetVirtualMachine"
| "Convert_v1_operation_type OperationTypeReapplyVirtualMachine = IntOperationTypeReapplyVirtualMachine"

fun Convert_operation_type_v1 :: "int_operation_type \<Rightarrow> operation_type" where
  "Convert_operation_type_v1 IntOperationTypeGetPublicIPAddress = OperationTypeGetPublicIPAddress"
| "Convert_operation_type_v1 IntOperationTypeCleanPublicIPAddress = OperationTypeCleanPublicIPAddress"
| "Convert_operation_type_v1 IntOperationTypeGetVirtualMachine = OperationTypeGetVirtualMachine"
| "Convert_operation_type_v1 IntOperationTypeReapplyVirtualMachine = OperationTypeReapplyVirtualMachine"

definition Convert_v1_failed_operation :: "failed_operation \<Rightarrow> int_failed_operation" where
  "Convert_v1_failed_operation f = \<lparr>if_type = Convert_v1_operation_type (fo_type f),
     if_attempts = fo_attempts f, if_error_message = fo_error_message f,
     if_timestamp = fo_timestamp f\<rparr>"

definition Convert_failed_operation_v1 :: "int_failed_operation \<Rightarrow> failed_operation" where
  "Convert_failed_operation_v1 f = \<lparr>fo_type = Convert_operation_type_v1 (if_type f),
     fo_attempts = if_attempts f, fo_error_message = if_error_message f,
     fo_timestamp = if_timestamp f\<rparr>"

section \<open>Public IP addresses and virtual machines\<close>

definition Convert_v1_pip_spec :: "pip_spec \<Rightarrow> int_pip_spec" where
  "Convert_v1_pip_spec s = \<lparr>ips_ip_address = ps_ip_address s\<rparr>"

definition Convert_v1_pip_status :: "pip_status \<Rightarrow> int_pip_status" where
  "Convert_v1_pip_status s = \<lparr>ips_exists = ps_exists s, ips_id = ps_id s, ips_name = ps_name s,
     ips_provisioning_state = ps_provisioning_state s,
     ips_failed_operations = map Convert_v1_failed_operation (ps_failed_operations s)\<rparr>"

definition pip_v1_contents :: "public_ip_address \<Rightarrow> int_public_ip_address" where
  "pip_v1_contents x = \<lparr>ipip_meta = pip_meta x, ipip_spec = Convert_v1_pip_spec (pip_spec x),
     ipip_status = Convert_v1_pip_status (pip_status x)\<rparr>"

definition Convert_v1_public_ip_address :: "public_ip_address api_object \<Rightarrow> int_public_ip_address api_object \<Rightarrow> int_public_ip_address api_object" where
  "Convert_v1_public_ip_address x out = out\<lparr>ty_body := pip_v1_contents (ty_body x)\<rparr>"

definition Convert_v1_public_ip_address_list ::
  "public_ip_address resource_list api_object \<Rightarrow> int_public_ip_address resource_list api_object \<Rightarrow> int_public_ip_address resource_list api_object" where
  "Convert_v1_public_ip_address_list l out = out\<lparr>ty_body := \<lparr>rl_meta = rl_meta (ty_body l),
     rl_items = map (cast pip_v1_contents) (rl_items (ty_body l))\<rparr>\<rparr>"

definition Convert_pip_spec_v1 :: "int_pip_spec \<Rightarrow> pip_spec" where
  "Convert_pip_spec_v1 s = \<lparr>ps_ip_address = ips_ip_address s\<rparr>"

definition Convert_pip_status_v1 :: "int_pip_status \<Rightarrow> pip_status" where
  "Convert_pip_status_v1 s = \<lparr>ps_exists = ips_exists s, ps_id = ips_id s, ps_name = ips_name s,
     ps_provisioning_state = ips_provisioning_state s,
     ps_failed_operations = map Convert_failed_operation_v1 (ips_failed_operations s)\<rparr>"

definition pip_contents_v1 :: "int_public_ip_address \<Rightarrow> public_ip_address" where
  "pip_contents_v1 x = \<lparr>pip_meta = ipip_meta x, pip_spec = Convert_pip_spec_v1 (ipip_spec x),
     pip_status = Convert_pip_status_v1 (ipip_status x)\<rparr>"

definition Convert_public_ip_address_v1 :: "int_public_ip_address api_object \<Rightarrow> public_ip_address api_object \<Rightarrow> public_ip_address api_object" where
  "Convert_public_ip_address_v1 x out = out\<lparr>ty_body := pip_contents_v1 (ty_body x)\<rparr>"

definition Convert_public_ip_address_list_v1 ::
  "int_public_ip_address resource_list api_object \<Rightarrow> public_ip_address resource_list api_object \<Rightarrow> public_ip_address resource_list api_object" where
  "Convert_public_ip_address_list_v1 l out = out\<lparr>ty_body := \<lparr>rl_meta = rl_meta (ty_body l),
     rl_items = map (cast pip_contents_v1) (rl_items (ty_body l))\<rparr>\<rparr>"

definition Convert_v1_vm_spec :: "vm_spec \<Rightarrow> int_vm_spec" where
  "Convert_v1_vm_spec s = \<lparr>ivs_hostname = vs_hostname s,
     ivs_provider_id = vs_provider_id s,
     ivs_not_ready_or_unreachable = vs_not_ready_or_unreachable s\<rparr>"

definition Convert_v1_vm_status :: "vm_status \<Rightarrow> int_vm_status" where
  "Convert_v1_vm_status s = \<lparr>ivs_exists = vs_exists s, ivs_id = vs_id s, ivs_name = vs_name s,
     ivs_provisioning_state = vs_provisioning_state s,
     ivs_failed_operations = map Convert_v1_failed_operation (vs_failed_operations s)\<rparr>"

definition vm_v1_contents :: "virtual_machine \<Rightarrow> int_virtual_machine" where
  "vm_v1_contents x = \<lparr>ivm_meta = vm_meta x, ivm_spec = Convert_v1_vm_spec (vm_spec x),
     ivm_status = Convert_v1_vm_status (vm_status x)\<rparr>"

definition Convert_v1_virtual_machine :: "virtual_machine api_object \<Rightarrow> int_virtual_machine api_object \<Rightarrow> int_virtual_machine api_object" where
  "Convert_v1_virtual_machine x out = out\<lparr>ty_body := vm_v1_contents (ty_body x)\<rparr>"

definition Convert_v1_virtual_machine_list ::
  "virtual_machine resource_list api_object \<Rightarrow> int_virtual_machine resource_list api_object \<Rightarrow> int_virtual_machine resource_list api_object" where
  "Convert_v1_virtual_machine_list l out = out\<lparr>ty_body := \<lparr>rl_meta = rl_meta (ty_body l),
     rl_items = map (cast vm_v1_contents) (rl_items (ty_body l))\<rparr>\<rparr>"

definition Convert_vm_spec_v1 :: "int_vm_spec \<Rightarrow> vm_spec" where
  "Convert_vm_spec_v1 s = \<lparr>vs_hostname = ivs_hostname s,
     vs_provider_id = ivs_provider_id s,
     vs_not_ready_or_unreachable = ivs_not_ready_or_unreachable s\<rparr>"

definition Convert_vm_status_v1 :: "int_vm_status \<Rightarrow> vm_status" where
  "Convert_vm_status_v1 s = \<lparr>vs_exists = ivs_exists s, vs_id = ivs_id s, vs_name = ivs_name s,
     vs_provisioning_state = ivs_provisioning_state s,
     vs_failed_operations = map Convert_failed_operation_v1 (ivs_failed_operations s)\<rparr>"

definition vm_contents_v1 :: "int_virtual_machine \<Rightarrow> virtual_machine" where
  "vm_contents_v1 x = \<lparr>vm_meta = ivm_meta x, vm_spec = Convert_vm_spec_v1 (ivm_spec x),
     vm_status = Convert_vm_status_v1 (ivm_status x)\<rparr>"

definition Convert_virtual_machine_v1 :: "int_virtual_machine api_object \<Rightarrow> virtual_machine api_object \<Rightarrow> virtual_machine api_object" where
  "Convert_virtual_machine_v1 x out = out\<lparr>ty_body := vm_contents_v1 (ty_body x)\<rparr>"

definition Convert_virtual_machine_list_v1 ::
  "int_virtual_machine resource_list api_object \<Rightarrow> virtual_machine resource_list api_object \<Rightarrow> virtual_machine resource_list api_object" where
  "Convert_virtual_machine_list_v1 l out = out\<lparr>ty_body := \<lparr>rl_meta = rl_meta (ty_body l),
     rl_items = map (cast vm_contents_v1) (rl_items (ty_body l))\<rparr>\<rparr>"

section \<open>Inverses\<close>

lemma operation_type_inverse [simp]:
  "Convert_v1_operation_type (Convert_operation_type_v1 i) = i"
  "Convert_operation_type_v1 (Convert_v1_operation_type t) = t"
  by (cases i; simp) (cases t; simp)

lemma failed_operation_inverse [simp]:
  "Convert_v1_failed_operation (Convert_failed_operation_v1 i) = i"
  "Convert_failed_operation_v1 (Convert_v1_failed_operation f) = f"
  by (simp_all add: Convert_v1_failed_operation_def Convert_failed_operation_v1_def)

lemma failed_operations_inverse [simp]:
  "Convert_v1_failed_operation \<circ> Convert_failed_operation_v1 = id"
  "Convert_failed_operation_v1 \<circ> Convert_v1_failed_operation = id"
  by (simp_all add: fun_eq_iff)

lemma contents_inverse [simp]:
  "pip_v1_contents (pip_contents_v1 i) = i" "pip_contents_v1 (pip_v1_contents p) = p"
  "vm_v1_contents (vm_contents_v1 j) = j" "vm_contents_v1 (vm_v1_contents v) = v"
  by (simp_all add: pip_v1_contents_def pip_contents_v1_def vm_v1_contents_def vm_contents_v1_def
      Convert_v1_pip_spec_def Convert_pip_spec_v1_def Convert_v1_pip_status_def Convert_pip_status_v1_def
      Convert_v1_vm_spec_def Convert_vm_spec_v1_def Convert_v1_vm_status_def Convert_vm_status_v1_def)

lemma cast_inverse: "(\<And>x. g (f x) = x) \<Longrightarrow> cast g (cast f x) = x"
  by (simp add: cast_def)

lemma resources_inverse [simp]:
  "Convert_v1_public_ip_address (Convert_public_ip_address_v1 i out) out' = i\<lparr>ty_meta := ty_meta out'\<rparr>"
  "Convert_public_ip_address_v1 (Convert_v1_public_ip_address p out') out = p\<lparr>ty_meta := ty_meta out\<rparr>"
  "Convert_v1_virtual_machine (Convert_virtual_machine_v1 j vout) vout' = j\<lparr>ty_meta := ty_meta vout'\<rparr>"
  "Convert_virtual_machine_v1 (Convert_v1_virtual_machine v vout') vout = v\<lparr>ty_meta := ty_meta vout\<rparr>"
  by (simp_all add: Convert_v1_public_ip_address_def Convert_public_ip_address_v1_def
      Convert_v1_virtual_machine_def Convert_virtual_machine_v1_def)

lemma resource_lists_inverse [simp]:
  "Convert_v1_public_ip_address_list (Convert_public_ip_address_list_v1 is out) out' = is\<lparr>ty_meta := ty_meta out'\<rparr>"
  "Convert_public_ip_address_list_v1 (Convert_v1_public_ip_address_list ps out') out = ps\<lparr>ty_meta := ty_meta out\<rparr>"
  "Convert_v1_virtual_machine_list (Convert_virtual_machine_list_v1 js vout) vout' = js\<lparr>ty_meta := ty_meta vout'\<rparr>"
  "Convert_virtual_machine_list_v1 (Convert_v1_virtual_machine_list vs vout') vout = vs\<lparr>ty_meta := ty_meta vout\<rparr>"
  by (simp_all add: Convert_v1_public_ip_address_list_def Convert_public_ip_address_list_v1_def
      Convert_v1_virtual_machine_list_def Convert_virtual_machine_list_v1_def map_idI cast_inverse)

end
