(* ===== verification/Deep_Copies.thy ===== *)
theory Deep_Copies
  imports Go_Memory Configuration Api_Conversions
begin

text \<open>
  The resources and the configuration of both versions in a memory with pointers, and the
  generated deep copies of the resources of \<open>v1alpha1\<close> and of the internal configuration
  (\<open>pkg/apis/azure/v1alpha1/zz_generated.deepcopy.go\<close>, \<open>pkg/apis/config/zz_generated.deepcopy.go\<close>).
  \<open>Deep_Copies_Internal\<close> has those of the other two files.
\<close>

section \<open>Resources in memory\<close>

text \<open>
  The metadata of objects and lists are structs of the API machinery, \<open>'m\<close> and \<open>'l\<close>, spread over
  cells \<open>'c\<close> of its own. Both resources have metadata, a spec \<open>'s\<close> and a status; their statuses
  have the same fields, in both versions.
\<close>

record mem_status =
  ms_exists :: bool
  ms_id :: "nat option"
  ms_name :: "nat option"
  ms_provisioning_state :: "nat option"
  ms_failed_operations :: "slice option"

record ('m, 's) mem_object =
  mo_type_meta :: type_meta
  mo_meta :: 'm
  mo_spec :: 's
  mo_status :: mem_status

type_synonym 'm mem_pip = "('m, pip_spec) mem_object"
type_synonym 'm mem_vm = "('m, vm_spec) mem_object"
type_synonym 'm int_mem_pip = "('m, int_pip_spec) mem_object"
type_synonym 'm int_mem_vm = "('m, int_vm_spec) mem_object"

record 'l mem_list =
  ml_type_meta :: type_meta
  ml_meta :: 'l
  ml_items :: "slice option"

record mem_azure_configuration =
  ma_orphaned_public_ip_remedy :: "nat option"
  ma_failed_vm_remedy :: "nat option"

record mem_controller_configuration =
  mc_type_meta :: type_meta
  mc_client_connection :: "nat option"
  mc_azure :: "nat option"

text \<open>
  A cell holds a value of one type. That a pointer leads to a cell of its type is what Go's type
  system sees to.
\<close>

datatype ('m, 'l, 'c) cell =
    TextCell (text_of: string)
  | OpCell (op_of: failed_operation)
  | OpsCell (ops_of: "failed_operation list")
  | PipSpecCell (pip_spec_of: pip_spec)
  | VmSpecCell (vm_spec_of: vm_spec)
  | StatusCell (status_of: mem_status)
  | PipCell (pip_of: "'m mem_pip")
  | PipsCell (pips_of: "'m mem_pip list")
  | VmCell (vm_of: "'m mem_vm")
  | VmsCell (vms_of: "'m mem_vm list")
  | IntOpCell (int_op_of: int_failed_operation)
  | IntOpsCell (int_ops_of: "int_failed_operation list")
  | IntPipSpecCell (int_pip_spec_of: int_pip_spec)
  | IntVmSpecCell (int_vm_spec_of: int_vm_spec)
  | IntPipCell (int_pip_of: "'m int_mem_pip")
  | IntPipsCell (int_pips_of: "'m int_mem_pip list")
  | IntVmCell (int_vm_of: "'m int_mem_vm")
  | IntVmsCell (int_vms_of: "'m int_mem_vm list")
  | ListCell (list_of: "'l mem_list")
  | PipConfigCell (pip_config_of: pip_config)
  | VmConfigCell (vm_config_of: vm_config)
  | V1PipConfigCell (v1_pip_config_of: v1_pip_config)
  | V1VmConfigCell (v1_vm_config_of: v1_vm_config)
  | ClientConnectionCell (client_connection_of: string)
  | AzureConfigurationCell (azure_configuration_of: mem_azure_configuration)
  | ControllerConfigurationCell (controller_configuration_of: mem_controller_configuration)
  | LibraryCell (library_of: 'c)

interpretation text_cell: cell_type TextCell text_of by unfold_locales simp
interpretation op_cell: cell_type OpCell op_of by unfold_locales simp
interpretation ops_cell: array_cell OpsCell ops_of by unfold_locales simp
interpretation pip_spec_cell: cell_type PipSpecCell pip_spec_of by unfold_locales simp
interpretation vm_spec_cell: cell_type VmSpecCell vm_spec_of by unfold_locales simp
interpretation status_cell: cell_type StatusCell status_of by unfold_locales simp
interpretation pip_cell: cell_type PipCell pip_of by unfold_locales simp
interpretation pips_cell: array_cell PipsCell pips_of by unfold_locales simp
interpretation vm_cell: cell_type VmCell vm_of by unfold_locales simp
interpretation vms_cell: array_cell VmsCell vms_of by unfold_locales simp
interpretation int_op_cell: cell_type IntOpCell int_op_of by unfold_locales simp
interpretation int_ops_cell: array_cell IntOpsCell int_ops_of by unfold_locales simp
interpretation int_pip_spec_cell: cell_type IntPipSpecCell int_pip_spec_of by unfold_locales simp
interpretation int_vm_spec_cell: cell_type IntVmSpecCell int_vm_spec_of by unfold_locales simp
interpretation int_pip_cell: cell_type IntPipCell int_pip_of by unfold_locales simp
interpretation int_pips_cell: array_cell IntPipsCell int_pips_of by unfold_locales simp
interpretation int_vm_cell: cell_type IntVmCell int_vm_of by unfold_locales simp
interpretation int_vms_cell: array_cell IntVmsCell int_vms_of by unfold_locales simp
interpretation list_cell: cell_type ListCell list_of by unfold_locales simp
interpretation pip_config_cell: cell_type PipConfigCell pip_config_of by unfold_locales simp
interpretation vm_config_cell: cell_type VmConfigCell vm_config_of by unfold_locales simp
interpretation v1_pip_config_cell: cell_type V1PipConfigCell v1_pip_config_of by unfold_locales simp
interpretation v1_vm_config_cell: cell_type V1VmConfigCell v1_vm_config_of by unfold_locales simp
interpretation client_connection_cell: cell_type ClientConnectionCell client_connection_of
  by unfold_locales simp
interpretation azure_configuration_cell: cell_type AzureConfigurationCell azure_configuration_of
  by unfold_locales simp
interpretation controller_configuration_cell:
  cell_type ControllerConfigurationCell controller_configuration_of by unfold_locales simp

type_synonym ('m, 'l, 'c) mem = "('m, 'l, 'c) cell memory"

text \<open>
  The deep copies of the API machinery, with what its structs stand for: \<open>metav1.Time\<close>,
  \<open>metav1.ObjectMeta\<close>, \<open>metav1.ListMeta\<close> (whose value is left as a text).
\<close>

record ('m, 'l, 'c) copy_library =
  Time_DeepCopy :: "instant \<Rightarrow> instant"
  ObjectMeta_DeepCopy :: "'m \<Rightarrow> ('m, 'l, 'c) mem \<Rightarrow> 'm \<times> ('m, 'l, 'c) mem"
  object_meta_value :: "'m \<Rightarrow> ('m, 'l, 'c) mem \<Rightarrow> object_meta"
  object_meta_reach :: "'m \<Rightarrow> ('m, 'l, 'c) mem \<Rightarrow> nat set"
  ListMeta_DeepCopy :: "'l \<Rightarrow> ('m, 'l, 'c) mem \<Rightarrow> 'l \<times> ('m, 'l, 'c) mem"
  list_meta_value :: "'l \<Rightarrow> ('m, 'l, 'c) mem \<Rightarrow> string"
  list_meta_reach :: "'l \<Rightarrow> ('m, 'l, 'c) mem \<Rightarrow> nat set"

text \<open>The documented behaviour of the library: its deep copies are deep copies.\<close>

definition lawful_library :: "('m, 'l, 'c) copy_library \<Rightarrow> bool" where
  "lawful_library L \<longleftrightarrow> (\<forall>t. Time_DeepCopy L t = t) \<and>
     deep_copy (ObjectMeta_DeepCopy L) (object_meta_value L) (object_meta_reach L) \<and>
     deep_copy (ListMeta_DeepCopy L) (list_meta_value L) (list_meta_reach L)"

lemma lawful_libraryD:
  assumes "lawful_library L"
  shows "Time_DeepCopy L t = t"
    "deep_copy (ObjectMeta_DeepCopy L) (object_meta_value L) (object_meta_reach L)"
    "deep_copy (ListMeta_DeepCopy L) (list_meta_value L) (list_meta_reach L)"
  using assms by (simp_all add: lawful_library_def)

section \<open>\<open>v1alpha1/zz_generated.deepcopy.go\<close>\<close>

subsection \<open>Failed operations\<close>

definition FailedOperation_DeepCopyInto :: "('m, 'l, 'c) copy_library \<Rightarrow> failed_operation \<Rightarrow>
    ('m, 'l, 'c) mem \<Rightarrow> failed_operation \<times> ('m, 'l, 'c) mem" where
  "FailedOperation_DeepCopyInto L x m =
     (x\<lparr>fo_timestamp := Time_DeepCopy L (fo_timestamp x)\<rparr>, m)"

definition FailedOperation_DeepCopy :: "('m, 'l, 'c) copy_library \<Rightarrow> nat option \<Rightarrow>
    ('m, 'l, 'c) mem \<Rightarrow> nat option \<times> ('m, 'l, 'c) mem" where
  "FailedOperation_DeepCopy L = copy_pointer OpCell op_of (FailedOperation_DeepCopyInto L)"

subsection \<open>Statuses\<close>

text \<open>A pointer to a string is copied with \<open>**out = **in\<close>.\<close>

definition copy_text :: "nat option \<Rightarrow> ('m, 'l, 'c) mem \<Rightarrow> nat option \<times> ('m, 'l, 'c) mem" where
  "copy_text = copy_pointer TextCell text_of plain_copy"

definition copy_failed_operations :: "('m, 'l, 'c) copy_library \<Rightarrow> slice option \<Rightarrow>
    ('m, 'l, 'c) mem \<Rightarrow> slice option \<times> ('m, 'l, 'c) mem" where
  "copy_failed_operations L = copy_slice OpsCell ops_of (FailedOperation_DeepCopyInto L)"

definition PublicIPAddressStatus_DeepCopyInto :: "('m, 'l, 'c) copy_library \<Rightarrow> mem_status \<Rightarrow>
    ('m, 'l, 'c) mem \<Rightarrow> mem_status \<times> ('m, 'l, 'c) mem" where
  "PublicIPAddressStatus_DeepCopyInto L x m =
     (let (i, m) = copy_text (ms_id x) m;
          (n, m) = copy_text (ms_name x) m;
          (p, m) = copy_text (ms_provisioning_state x) m;
          (f, m) = copy_failed_operations L (ms_failed_operations x) m
      in (x\<lparr>ms_id := i, ms_name := n, ms_provisioning_state := p, ms_failed_operations := f\<rparr>, m))"

definition PublicIPAddressStatus_DeepCopy :: "('m, 'l, 'c) copy_library \<Rightarrow> nat option \<Rightarrow>
    ('m, 'l, 'c) mem \<Rightarrow> nat option \<times> ('m, 'l, 'c) mem" where
  "PublicIPAddressStatus_DeepCopy L = copy_pointer StatusCell status_of (PublicIPAddressStatus_DeepCopyInto L)"

definition VirtualMachineStatus_DeepCopyInto :: "('m, 'l, 'c) copy_library \<Rightarrow> mem_status \<Rightarrow>
    ('m, 'l, 'c) mem \<Rightarrow> mem_status \<times> ('m, 'l, 'c) mem" where
  "VirtualMachineStatus_DeepCopyInto L x m =
     (let (i, m) = copy_text (ms_id x) m;
          (n, m) = copy_text (ms_name x) m;
          (p, m) = copy_text (ms_provisioning_state x) m;
          (f, m) = copy_failed_operations L (ms_failed_operations x) m
      in (x\<lparr>ms_id := i, ms_name := n, ms_provisioning_state := p, ms_failed_operations := f\<rparr>, m))"

definition VirtualMachineStatus_DeepCopy :: "('m, 'l, 'c) copy_library \<Rightarrow> nat option \<Rightarrow>
    ('m, 'l, 'c) mem \<Rightarrow> nat option \<times> ('m, 'l, 'c) mem" where
  "VirtualMachineStatus_DeepCopy L = copy_pointer StatusCell status_of (VirtualMachineStatus_DeepCopyInto L)"

subsection \<open>Resources\<close>

definition PublicIPAddressSpec_DeepCopyInto :: "pip_spec \<Rightarrow> ('m, 'l, 'c) mem \<Rightarrow> pip_spec \<times> ('m, 'l, 'c) mem" where
  "PublicIPAddressSpec_DeepCopyInto = plain_copy"

definition PublicIPAddressSpec_DeepCopy :: "nat option \<Rightarrow> ('m, 'l, 'c) mem \<Rightarrow> nat option \<times> ('m, 'l, 'c) mem" where
  "PublicIPAddressSpec_DeepCopy = copy_pointer PipSpecCell pip_spec_of PublicIPAddressSpec_DeepCopyInto"

definition PublicIPAddress_DeepCopyInto :: "('m, 'l, 'c) copy_library \<Rightarrow> 'm mem_pip \<Rightarrow>
    ('m, 'l, 'c) mem \<Rightarrow> 'm mem_pip \<times> ('m, 'l, 'c) mem" where
  "PublicIPAddress_DeepCopyInto L x m =
     (let (meta, m) = ObjectMeta_DeepCopy L (mo_meta x) m;
          (st, m) = PublicIPAddressStatus_DeepCopyInto L (mo_status x) m
      in (x\<lparr>mo_meta := meta, mo_status := st\<rparr>, m))"

definition PublicIPAddress_DeepCopy :: "('m, 'l, 'c) copy_library \<Rightarrow> nat option \<Rightarrow>
    ('m, 'l, 'c) mem \<Rightarrow> nat option \<times> ('m, 'l, 'c) mem" where
  "PublicIPAddress_DeepCopy L = copy_pointer PipCell pip_of (PublicIPAddress_DeepCopyInto L)"

definition VirtualMachineSpec_DeepCopyInto :: "vm_spec \<Rightarrow> ('m, 'l, 'c) mem \<Rightarrow> vm_spec \<times> ('m, 'l, 'c) mem" where
  "VirtualMachineSpec_DeepCopyInto = plain_copy"

definition VirtualMachineSpec_DeepCopy :: "nat option \<Rightarrow> ('m, 'l, 'c) mem \<Rightarrow> nat option \<times> ('m, 'l, 'c) mem" where
  "VirtualMachineSpec_DeepCopy = copy_pointer VmSpecCell vm_spec_of VirtualMachineSpec_DeepCopyInto"

definition VirtualMachine_DeepCopyInto :: "('m, 'l, 'c) copy_library \<Rightarrow> 'm mem_vm \<Rightarrow>
    ('m, 'l, 'c) mem \<Rightarrow> 'm mem_vm \<times> ('m, 'l, 'c) mem" where
  "VirtualMachine_DeepCopyInto L x m =
     (let (meta, m) = ObjectMeta_DeepCopy L (mo_meta x) m;
          (st, m) = VirtualMachineStatus_DeepCopyInto L (mo_status x) m
      in (x\<lparr>mo_meta := meta, mo_status := st\<rparr>, m))"

definition VirtualMachine_DeepCopy :: "('m, 'l, 'c) copy_library \<Rightarrow> nat option \<Rightarrow>
    ('m, 'l, 'c) mem \<Rightarrow> nat option \<times> ('m, 'l, 'c) mem" where
  "VirtualMachine_DeepCopy L = copy_pointer VmCell vm_of (VirtualMachine_DeepCopyInto L)"

subsection \<open>Lists of resources\<close>

definition PublicIPAddressList_DeepCopyInto :: "('m, 'l, 'c) copy_library \<Rightarrow> 'l mem_list \<Rightarrow>
    ('m, 'l, 'c) mem \<Rightarrow> 'l mem_list \<times> ('m, 'l, 'c) mem" where
  "PublicIPAddressList_DeepCopyInto L x m =
     (let (meta, m) = ListMeta_DeepCopy L (ml_meta x) m;
          (items, m) = copy_slice PipsCell pips_of (PublicIPAddress_DeepCopyInto L) (ml_items x) m
      in (x\<lparr>ml_meta := meta, ml_items := items\<rparr>, m))"

definition PublicIPAddressList_DeepCopy :: "('m, 'l, 'c) copy_library \<Rightarrow> nat option \<Rightarrow>
    ('m, 'l, 'c) mem \<Rightarrow> nat option \<times> ('m, 'l, 'c) mem" where
  "PublicIPAddressList_DeepCopy L = copy_pointer ListCell list_of (PublicIPAddressList_DeepCopyInto L)"

definition VirtualMachineList_DeepCopyInto :: "('m, 'l, 'c) copy_library \<Rightarrow> 'l mem_list \<Rightarrow>
    ('m, 'l, 'c) mem \<Rightarrow> 'l mem_list \<times> ('m, 'l, 'c) mem" where
  "VirtualMachineList_DeepCopyInto L x m =
     (let (meta, m) = ListMeta_DeepCopy L (ml_meta x) m;
          (items, m) = copy_slice VmsCell vms_of (VirtualMachine_DeepCopyInto L) (ml_items x) m
      in (x\<lparr>ml_meta := meta, ml_items := items\<rparr>, m))"

definition VirtualMachineList_DeepCopy :: "('m, 'l, 'c) copy_library \<Rightarrow> nat option \<Rightarrow>
    ('m, 'l, 'c) mem \<Rightarrow> nat option \<times> ('m, 'l, 'c) mem" where
  "VirtualMachineList_DeepCopy L = copy_pointer ListCell list_of (VirtualMachineList_DeepCopyInto L)"

section \<open>\<open>config/zz_generated.deepcopy.go\<close>\<close>

text \<open>Durations are numbers, so assigning them once more changes nothing.\<close>

definition AzureOrphanedPublicIPRemedyConfiguration_DeepCopyInto :: "pip_config \<Rightarrow> ('m, 'l, 'c) mem \<Rightarrow>
    pip_config \<times> ('m, 'l, 'c) mem" where
  "AzureOrphanedPublicIPRemedyConfiguration_DeepCopyInto = plain_copy"

definition AzureOrphanedPublicIPRemedyConfiguration_DeepCopy :: "nat option \<Rightarrow> ('m, 'l, 'c) mem \<Rightarrow>
    nat option \<times> ('m, 'l, 'c) mem" where
  "AzureOrphanedPublicIPRemedyConfiguration_DeepCopy =
     copy_pointer PipConfigCell pip_config_of AzureOrphanedPublicIPRemedyConfiguration_DeepCopyInto"

definition AzureFailedVMRemedyConfiguration_DeepCopyInto :: "vm_config \<Rightarrow> ('m, 'l, 'c) mem \<Rightarrow>
    vm_config \<times> ('m, 'l, 'c) mem" where
  "AzureFailedVMRemedyConfiguration_DeepCopyInto = plain_copy"

definition AzureFailedVMRemedyConfiguration_DeepCopy :: "nat option \<Rightarrow> ('m, 'l, 'c) mem \<Rightarrow>
    nat option \<times> ('m, 'l, 'c) mem" where
  "AzureFailedVMRemedyConfiguration_DeepCopy =
     copy_pointer VmConfigCell vm_config_of AzureFailedVMRemedyConfiguration_DeepCopyInto"

definition AzureConfiguration_DeepCopyInto :: "mem_azure_configuration \<Rightarrow> ('m, 'l, 'c) mem \<Rightarrow>
    mem_azure_configuration \<times> ('m, 'l, 'c) mem" where
  "AzureConfiguration_DeepCopyInto x m =
     (let (p, m) = copy_pointer PipConfigCell pip_config_of plain_copy (ma_orphaned_public_ip_remedy x) m;
          (v, m) = copy_pointer VmConfigCell vm_config_of plain_copy (ma_failed_vm_remedy x) m
      in (x\<lparr>ma_orphaned_public_ip_remedy := p, ma_failed_vm_remedy := v\<rparr>, m))"

definition AzureConfiguration_DeepCopy :: "nat option \<Rightarrow> ('m, 'l, 'c) mem \<Rightarrow> nat option \<times> ('m, 'l, 'c) mem" where
  "AzureConfiguration_DeepCopy =
     copy_pointer AzureConfigurationCell azure_configuration_of AzureConfiguration_DeepCopyInto"

definition ControllerConfiguration_DeepCopyInto :: "mem_controller_configuration \<Rightarrow> ('m, 'l, 'c) mem \<Rightarrow>
    mem_controller_configuration \<times> ('m, 'l, 'c) mem" where
  "ControllerConfiguration_DeepCopyInto x m =
     (let (c, m) = copy_pointer ClientConnectionCell client_connection_of plain_copy (mc_client_connection x) m;
          (a, m) = copy_pointer AzureConfigurationCell azure_configuration_of
                     AzureConfiguration_DeepCopyInto (mc_azure x) m
      in (x\<lparr>mc_client_connection := c, mc_azure := a\<rparr>, m))"

definition ControllerConfiguration_DeepCopy :: "nat option \<Rightarrow> ('m, 'l, 'c) mem \<Rightarrow> nat option \<times> ('m, 'l, 'c) mem" where
  "ControllerConfiguration_DeepCopy =
     copy_pointer ControllerConfigurationCell controller_configuration_of ControllerConfiguration_DeepCopyInto"

section \<open>\<open>runtime.Object\<close>\<close>

text \<open>
  An interface value: the type of the object and the pointer to it. \<open>DeepCopyObject\<close> of a nil
  pointer is the nil interface.
\<close>

datatype runtime_object =
    PublicIPAddressObject "nat option"
  | PublicIPAddressListObject "nat option"
  | VirtualMachineObject "nat option"
  | VirtualMachineListObject "nat option"
  | ControllerConfigurationObject "nat option"
  | IntPublicIPAddressObject "nat option"
  | IntPublicIPAddressListObject "nat option"
  | IntVirtualMachineObject "nat option"
  | IntVirtualMachineListObject "nat option"
  | V1ControllerConfigurationObject "nat option"

definition copied_object :: "(nat option \<Rightarrow> runtime_object) \<Rightarrow> nat option \<times> 'k memory \<Rightarrow>
    runtime_object option \<times> 'k memory" where
  "copied_object ty r = (case fst r of None \<Rightarrow> None | Some c \<Rightarrow> Some (ty (Some c)), snd r)"

definition PublicIPAddress_DeepCopyObject where
  "PublicIPAddress_DeepCopyObject L p m = copied_object PublicIPAddressObject (PublicIPAddress_DeepCopy L p m)"

definition PublicIPAddressList_DeepCopyObject where
  "PublicIPAddressList_DeepCopyObject L p m =
     copied_object PublicIPAddressListObject (PublicIPAddressList_DeepCopy L p m)"

definition VirtualMachine_DeepCopyObject where
  "VirtualMachine_DeepCopyObject L p m = copied_object VirtualMachineObject (VirtualMachine_DeepCopy L p m)"

definition VirtualMachineList_DeepCopyObject where
  "VirtualMachineList_DeepCopyObject L p m =
     copied_object VirtualMachineListObject (VirtualMachineList_DeepCopy L p m)"

definition ControllerConfiguration_DeepCopyObject :: "nat option \<Rightarrow> ('m, 'l, 'c) mem \<Rightarrow>
    runtime_object option \<times> ('m, 'l, 'c) mem" where
  "ControllerConfiguration_DeepCopyObject p m =
     copied_object ControllerConfigurationObject (ControllerConfiguration_DeepCopy p m)"

end
