(* ===== verification/Deep_Copies_Internal.thy ===== *)
theory Deep_Copies_Internal
  imports Deep_Copies
begin

text \<open>
  The other two files of generated deep copies: of the internal resources
  (\<open>pkg/apis/azure/zz_generated.deepcopy.go\<close>) and of the configuration of version \<open>v1alpha1\<close>
  (\<open>pkg/apis/config/v1alpha1/zz_generated.deepcopy.go\<close>); and the dispatch of \<open>DeepCopyObject\<close> on all
  registered types.
\<close>

section \<open>\<open>azure/zz_generated.deepcopy.go\<close>\<close>

subsection \<open>Failed operations\<close>

definition int_FailedOperation_DeepCopyInto :: "('m, 'l, 'c) copy_library \<Rightarrow> int_failed_operation \<Rightarrow>
    ('m, 'l, 'c) mem \<Rightarrow> int_failed_operation \<times> ('m, 'l, 'c) mem" where
  "int_FailedOperation_DeepCopyInto L x m =
     (x\<lparr>if_timestamp := Time_DeepCopy L (if_timestamp x)\<rparr>, m)"

definition int_FailedOperation_DeepCopy :: "('m, 'l, 'c) copy_library \<Rightarrow> nat option \<Rightarrow>
    ('m, 'l, 'c) mem \<Rightarrow> nat option \<times> ('m, 'l, 'c) mem" where
  "int_FailedOperation_DeepCopy L = copy_pointer IntOpCell int_op_of (int_FailedOperation_DeepCopyInto L)"

subsection \<open>Statuses\<close>

definition int_copy_failed_operations :: "('m, 'l, 'c) copy_library \<Rightarrow> slice option \<Rightarrow>
    ('m, 'l, 'c) mem \<Rightarrow> slice option \<times> ('m, 'l, 'c) mem" where
  "int_copy_failed_operations L = copy_slice IntOpsCell int_ops_of (int_FailedOperation_DeepCopyInto L)"

definition int_PublicIPAddressStatus_DeepCopyInto :: "('m, 'l, 'c) copy_library \<Rightarrow> mem_status \<Rightarrow>
    ('m, 'l, 'c) mem \<Rightarrow> mem_status \<times> ('m, 'l, 'c) mem" where
  "int_PublicIPAddressStatus_DeepCopyInto L x m =
     (let (i, m) = copy_text (ms_id x) m;
          (n, m) = copy_text (ms_name x) m;
          (p, m) = copy_text (ms_provisioning_state x) m;
          (f, m) = int_copy_failed_operations L (ms_failed_operations x) m
      in (x\<lparr>ms_id := i, ms_name := n, ms_provisioning_state := p, ms_failed_operations := f\<rparr>, m))"

definition int_PublicIPAddressStatus_DeepCopy :: "('m, 'l, 'c) copy_library \<Rightarrow> nat option \<Rightarrow>
    ('m, 'l, 'c) mem \<Rightarrow> nat option \<times> ('m, 'l, 'c) mem" where
  "int_PublicIPAddressStatus_DeepCopy L = copy_pointer StatusCell status_of (int_PublicIPAddressStatus_DeepCopyInto L)"

definition int_VirtualMachineStatus_DeepCopyInto :: "('m, 'l, 'c) copy_library \<Rightarrow> mem_status \<Rightarrow>
    ('m, 'l, 'c) mem \<Rightarrow> mem_status \<times> ('m, 'l, 'c) mem" where
  "int_VirtualMachineStatus_DeepCopyInto L x m =
     (let (i, m) = copy_text (ms_id x) m;
          (n, m) = copy_text (ms_name x) m;
          (p, m) = copy_text (ms_provisioning_state x) m;
          (f, m) = int_copy_failed_operations L (ms_failed_operations x) m
      in (x\<lparr>ms_id := i, ms_name := n, ms_provisioning_state := p, ms_failed_operations := f\<rparr>, m))"

definition int_VirtualMachineStatus_DeepCopy :: "('m, 'l, 'c) copy_library \<Rightarrow> nat option \<Rightarrow>
    ('m, 'l, 'c) mem \<Rightarrow> nat option \<times> ('m, 'l, 'c) mem" where
  "int_VirtualMachineStatus_DeepCopy L = copy_pointer StatusCell status_of (int_VirtualMachineStatus_DeepCopyInto L)"

subsection \<open>Resources\<close>

definition int_PublicIPAddressSpec_DeepCopyInto :: "int_pip_spec \<Rightarrow> ('m, 'l, 'c) mem \<Rightarrow> int_pip_spec \<times> ('m, 'l, 'c) mem" where
  "int_PublicIPAddressSpec_DeepCopyInto = plain_copy"

definition int_PublicIPAddressSpec_DeepCopy :: "nat option \<Rightarrow> ('m, 'l, 'c) mem \<Rightarrow> nat option \<times> ('m, 'l, 'c) mem" where
  "int_PublicIPAddressSpec_DeepCopy = copy_pointer IntPipSpecCell int_pip_spec_of int_PublicIPAddressSpec_DeepCopyInto"

definition int_PublicIPAddress_DeepCopyInto :: "('m, 'l, 'c) copy_library \<Rightarrow> 'm int_mem_pip \<Rightarrow>
    ('m, 'l, 'c) mem \<Rightarrow> 'm int_mem_pip \<times> ('m, 'l, 'c) mem" where
  "int_PublicIPAddress_DeepCopyInto L x m =
     (let (meta, m) = ObjectMeta_DeepCopy L (mo_meta x) m;
          (st, m) = int_PublicIPAddressStatus_DeepCopyInto L (mo_status x) m
      in (x\<lparr>mo_meta := meta, mo_status := st\<rparr>, m))"

definition int_PublicIPAddress_DeepCopy :: "('m, 'l, 'c) copy_library \<Rightarrow> nat option \<Rightarrow>
    ('m, 'l, 'c) mem \<Rightarrow> nat option \<times> ('m, 'l, 'c) mem" where
  "int_PublicIPAddress_DeepCopy L = copy_pointer IntPipCell int_pip_of (int_PublicIPAddress_DeepCopyInto L)"

definition int_VirtualMachineSpec_DeepCopyInto :: "int_vm_spec \<Rightarrow> ('m, 'l, 'c) mem \<Rightarrow> int_vm_spec \<times> ('m, 'l, 'c) mem" where
  "int_VirtualMachineSpec_DeepCopyInto = plain_copy"

definition int_VirtualMachineSpec_DeepCopy :: "nat option \<Rightarrow> ('m, 'l, 'c) mem \<Rightarrow> nat option \<times> ('m, 'l, 'c) mem" where
  "int_VirtualMachineSpec_DeepCopy = copy_pointer IntVmSpecCell int_vm_spec_of int_VirtualMachineSpec_DeepCopyInto"

definition int_VirtualMachine_DeepCopyInto :: "('m, 'l, 'c) copy_library \<Rightarrow> 'm int_mem_vm \<Rightarrow>
    ('m, 'l, 'c) mem \<Rightarrow> 'm int_mem_vm \<times> ('m, 'l, 'c) mem" where
  "int_VirtualMachine_DeepCopyInto L x m =
     (let (meta, m) = ObjectMeta_DeepCopy L (mo_meta x) m;
          (st, m) = int_VirtualMachineStatus_DeepCopyInto L (mo_status x) m
      in (x\<lparr>mo_meta := meta, mo_status := st\<rparr>, m))"

definition int_VirtualMachine_DeepCopy :: "('m, 'l, 'c) copy_library \<Rightarrow> nat option \<Rightarrow>
    ('m, 'l, 'c) mem \<Rightarrow> nat option \<times> ('m, 'l, 'c) mem" where
  "int_VirtualMachine_DeepCopy L = copy_pointer IntVmCell int_vm_of (int_VirtualMachine_DeepCopyInto L)"

subsection \<open>Lists of resources\<close>

definition int_PublicIPAddressList_DeepCopyInto :: "('m, 'l, 'c) copy_library \<Rightarrow> 'l mem_list \<Rightarrow>
    ('m, 'l, 'c) mem \<Rightarrow> 'l mem_list \<times> ('m, 'l, 'c) mem" where
  "int_PublicIPAddressList_DeepCopyInto L x m =
     (let (meta, m) = ListMeta_DeepCopy L (ml_meta x) m;
          (items, m) = copy_slice IntPipsCell int_pips_of (int_PublicIPAddress_DeepCopyInto L) (ml_items x) m
      in (x\<lparr>ml_meta := meta, ml_items := items\<rparr>, m))"

definition int_PublicIPAddressList_DeepCopy :: "('m, 'l, 'c) copy_library \<Rightarrow> nat option \<Rightarrow>
    ('m, 'l, 'c) mem \<Rightarrow> nat option \<times> ('m, 'l, 'c) mem" where
  "int_PublicIPAddressList_DeepCopy L = copy_pointer ListCell list_of (int_PublicIPAddressList_DeepCopyInto L)"

definition int_VirtualMachineList_DeepCopyInto :: "('m, 'l, 'c) copy_library \<Rightarrow> 'l mem_list \<Rightarrow>
    ('m, 'l, 'c) mem \<Rightarrow> 'l mem_list \<times> ('m, 'l, 'c) mem" where
  "int_VirtualMachineList_DeepCopyInto L x m =
     (let (meta, m) = ListMeta_DeepCopy L (ml_meta x) m;
          (items, m) = copy_slice IntVmsCell int_vms_of (int_VirtualMachine_DeepCopyInto L) (ml_items x) m
      in (x\<lparr>ml_meta := meta, ml_items := items\<rparr>, m))"

definition int_VirtualMachineList_DeepCopy :: "('m, 'l, 'c) copy_library \<Rightarrow> nat option \<Rightarrow>
    ('m, 'l, 'c) mem \<Rightarrow> nat option \<times> ('m, 'l, 'c) mem" where
  "int_VirtualMachineList_DeepCopy L = copy_pointer ListCell list_of (int_VirtualMachineList_DeepCopyInto L)"

section \<open>\<open>config/v1alpha1/zz_generated.deepcopy.go\<close>\<close>

definition v1_AzureOrphanedPublicIPRemedyConfiguration_DeepCopyInto :: "v1_pip_config \<Rightarrow> ('m, 'l, 'c) mem \<Rightarrow>
    v1_pip_config \<times> ('m, 'l, 'c) mem" where
  "v1_AzureOrphanedPublicIPRemedyConfiguration_DeepCopyInto = plain_copy"

definition v1_AzureOrphanedPublicIPRemedyConfiguration_DeepCopy :: "nat option \<Rightarrow> ('m, 'l, 'c) mem \<Rightarrow>
    nat option \<times> ('m, 'l, 'c) mem" where
  "v1_AzureOrphanedPublicIPRemedyConfiguration_DeepCopy =
     copy_pointer V1PipConfigCell v1_pip_config_of v1_AzureOrphanedPublicIPRemedyConfiguration_DeepCopyInto"

definition v1_AzureFailedVMRemedyConfiguration_DeepCopyInto :: "v1_vm_config \<Rightarrow> ('m, 'l, 'c) mem \<Rightarrow>
    v1_vm_config \<times> ('m, 'l, 'c) mem" where
  "v1_AzureFailedVMRemedyConfiguration_DeepCopyInto = plain_copy"

definition v1_AzureFailedVMRemedyConfiguration_DeepCopy :: "nat option \<Rightarrow> ('m, 'l, 'c) mem \<Rightarrow>
    nat option \<times> ('m, 'l, 'c) mem" where
  "v1_AzureFailedVMRemedyConfiguration_DeepCopy =
     copy_pointer V1VmConfigCell v1_vm_config_of v1_AzureFailedVMRemedyConfiguration_DeepCopyInto"

definition v1_AzureConfiguration_DeepCopyInto :: "mem_azure_configuration \<Rightarrow> ('m, 'l, 'c) mem \<Rightarrow>
    mem_azure_configuration \<times> ('m, 'l, 'c) mem" where
  "v1_AzureConfiguration_DeepCopyInto x m =
     (let (p, m) = copy_pointer V1PipConfigCell v1_pip_config_of plain_copy (ma_orphaned_public_ip_remedy x) m;
          (v, m) = copy_pointer V1VmConfigCell v1_vm_config_of plain_copy (ma_failed_vm_remedy x) m
      in (x\<lparr>ma_orphaned_public_ip_remedy := p, ma_failed_vm_remedy := v\<rparr>, m))"

definition v1_AzureConfiguration_DeepCopy :: "nat option \<Rightarrow> ('m, 'l, 'c) mem \<Rightarrow> nat option \<times> ('m, 'l, 'c) mem" where
  "v1_AzureConfiguration_DeepCopy =
     copy_pointer AzureConfigurationCell azure_configuration_of v1_AzureConfiguration_DeepCopyInto"

definition v1_ControllerConfiguration_DeepCopyInto :: "mem_controller_configuration \<Rightarrow> ('m, 'l, 'c) mem \<Rightarrow>
    mem_controller_configuration \<times> ('m, 'l, 'c) mem" where
  "v1_ControllerConfiguration_DeepCopyInto x m =
     (let (c, m) = copy_pointer ClientConnectionCell client_connection_of plain_copy (mc_client_connection x) m;
          (a, m) = copy_pointer AzureConfigurationCell azure_configuration_of
                     v1_AzureConfiguration_DeepCopyInto (mc_azure x) m
      in (x\<lparr>mc_client_connection := c, mc_azure := a\<rparr>, m))"

definition v1_ControllerConfiguration_DeepCopy :: "nat option \<Rightarrow> ('m, 'l, 'c) mem \<Rightarrow> nat option \<times> ('m, 'l, 'c) mem" where
  "v1_ControllerConfiguration_DeepCopy =
     copy_pointer ControllerConfigurationCell controller_configuration_of v1_ControllerConfiguration_DeepCopyInto"

section \<open>\<open>runtime.Object\<close>\<close>

definition int_PublicIPAddress_DeepCopyObject where
  "int_PublicIPAddress_DeepCopyObject L p m = copied_object IntPublicIPAddressObject (int_PublicIPAddress_DeepCopy L p m)"

definition int_PublicIPAddressList_DeepCopyObject where
  "int_PublicIPAddressList_DeepCopyObject L p m =
     copied_object IntPublicIPAddressListObject (int_PublicIPAddressList_DeepCopy L p m)"

definition int_VirtualMachine_DeepCopyObject where
  "int_VirtualMachine_DeepCopyObject L p m = copied_object IntVirtualMachineObject (int_VirtualMachine_DeepCopy L p m)"

definition int_VirtualMachineList_DeepCopyObject where
  "int_VirtualMachineList_DeepCopyObject L p m =
     copied_object IntVirtualMachineListObject (int_VirtualMachineList_DeepCopy L p m)"

definition v1_ControllerConfiguration_DeepCopyObject :: "nat option \<Rightarrow> ('m, 'l, 'c) mem \<Rightarrow>
    runtime_object option \<times> ('m, 'l, 'c) mem" where
  "v1_ControllerConfiguration_DeepCopyObject p m =
     copied_object V1ControllerConfigurationObject (v1_ControllerConfiguration_DeepCopy p m)"

text \<open>The dispatch on the type of the object.\<close>

fun DeepCopyObject :: "('m, 'l, 'c) copy_library \<Rightarrow> runtime_object \<Rightarrow> ('m, 'l, 'c) mem \<Rightarrow>
    runtime_object option \<times> ('m, 'l, 'c) mem" where
  "DeepCopyObject L (PublicIPAddressObject p) m = PublicIPAddress_DeepCopyObject L p m"
| "DeepCopyObject L (PublicIPAddressListObject p) m = PublicIPAddressList_DeepCopyObject L p m"
| "DeepCopyObject L (VirtualMachineObject p) m = VirtualMachine_DeepCopyObject L p m"
| "DeepCopyObject L (VirtualMachineListObject p) m = VirtualMachineList_DeepCopyObject L p m"
| "DeepCopyObject L (ControllerConfigurationObject p) m = ControllerConfiguration_DeepCopyObject p m"
| "DeepCopyObject L (IntPublicIPAddressObject p) m = int_PublicIPAddress_DeepCopyObject L p m"
| "DeepCopyObject L (IntPublicIPAddressListObject p) m = int_PublicIPAddressList_DeepCopyObject L p m"
| "DeepCopyObject L (IntVirtualMachineObject p) m = int_VirtualMachine_DeepCopyObject L p m"
| "DeepCopyObject L (IntVirtualMachineListObject p) m = int_VirtualMachineList_DeepCopyObject L p m"
| "DeepCopyObject L (V1ControllerConfigurationObject p) m = v1_ControllerConfiguration_DeepCopyObject p m"

end
