(* ===== verification/Deep_Copy_Properties.thy ===== *)
theory Deep_Copy_Properties
  imports Deep_Copies_Internal
begin

text \<open>
  What the data in memory stands for, and that the generated deep copies are deep copies:
  afterwards there are two objects of the same value, and writing to one leaves the other.
\<close>

section \<open>Values and the cells they are spread over\<close>

definition state_of_text :: "string \<Rightarrow> provisioning_state" where
  "state_of_text s =
     (if s = ''Succeeded'' then Succeeded else if s = ''Failed'' then Failed else OtherState s)"

abbreviation text_value :: "nat option \<Rightarrow> ('m, 'l, 'c) mem \<Rightarrow> string option" where
  "text_value \<equiv> pointer_value text_of plain_value"

abbreviation text_reach :: "nat option \<Rightarrow> ('m, 'l, 'c) mem \<Rightarrow> nat set" where
  "text_reach \<equiv> pointer_reach text_of plain_reach"

text \<open>
  The statuses, with the array the failed operations are read from; \<open>mk\<close> is the status' type.
\<close>

definition mem_status_value :: "(bool \<Rightarrow> string option \<Rightarrow> string option \<Rightarrow> provisioning_state option \<Rightarrow> 'o list \<Rightarrow> 'a) \<Rightarrow>
    (('m, 'l, 'c) cell \<Rightarrow> 'o list) \<Rightarrow> mem_status \<Rightarrow> ('m, 'l, 'c) mem \<Rightarrow> 'a" where
  "mem_status_value mk get x m = mk (ms_exists x) (text_value (ms_id x) m) (text_value (ms_name x) m)
     (map_option state_of_text (text_value (ms_provisioning_state x) m))
     (slice_value get plain_value (ms_failed_operations x) m)"

definition status_reach :: "(('m, 'l, 'c) cell \<Rightarrow> 'o list) \<Rightarrow> mem_status \<Rightarrow> ('m, 'l, 'c) mem \<Rightarrow> nat set" where
  "status_reach get x m = text_reach (ms_id x) m \<union> (text_reach (ms_name x) m \<union>
     (text_reach (ms_provisioning_state x) m \<union> slice_reach get plain_reach (ms_failed_operations x) m))"

abbreviation pip_status_value :: "mem_status \<Rightarrow> ('m, 'l, 'c) mem \<Rightarrow> pip_status" where
  "pip_status_value \<equiv> mem_status_value pip_status.make ops_of"

abbreviation vm_status_value :: "mem_status \<Rightarrow> ('m, 'l, 'c) mem \<Rightarrow> vm_status" where
  "vm_status_value \<equiv> mem_status_value vm_status.make ops_of"

abbreviation int_pip_status_value :: "mem_status \<Rightarrow> ('m, 'l, 'c) mem \<Rightarrow> int_pip_status" where
  "int_pip_status_value \<equiv> mem_status_value int_pip_status.make int_ops_of"

abbreviation int_vm_status_value :: "mem_status \<Rightarrow> ('m, 'l, 'c) mem \<Rightarrow> int_vm_status" where
  "int_vm_status_value \<equiv> mem_status_value int_vm_status.make int_ops_of"

text \<open>The resources, with what their status stands for; \<open>mk\<close> is the resource's type.\<close>

definition mem_object_value :: "('m, 'l, 'c) copy_library \<Rightarrow> (object_meta \<Rightarrow> 's \<Rightarrow> 'st \<Rightarrow> 'a) \<Rightarrow>
    (mem_status \<Rightarrow> ('m, 'l, 'c) mem \<Rightarrow> 'st) \<Rightarrow> ('m, 's) mem_object \<Rightarrow> ('m, 'l, 'c) mem \<Rightarrow> type_meta \<times> 'a" where
  "mem_object_value L mk v x m =
     (mo_type_meta x, mk (object_meta_value L (mo_meta x) m) (mo_spec x) (v (mo_status x) m))"

definition mem_object_reach :: "('m, 'l, 'c) copy_library \<Rightarrow> (mem_status \<Rightarrow> ('m, 'l, 'c) mem \<Rightarrow> nat set) \<Rightarrow>
    ('m, 's) mem_object \<Rightarrow> ('m, 'l, 'c) mem \<Rightarrow> nat set" where
  "mem_object_reach L r x m = object_meta_reach L (mo_meta x) m \<union> r (mo_status x) m"

abbreviation mem_pip_value where
  "mem_pip_value L \<equiv> mem_object_value L public_ip_address.make pip_status_value"

abbreviation mem_vm_value where
  "mem_vm_value L \<equiv> mem_object_value L virtual_machine.make vm_status_value"

abbreviation int_mem_pip_value where
  "int_mem_pip_value L \<equiv> mem_object_value L int_public_ip_address.make int_pip_status_value"

abbreviation int_mem_vm_value where
  "int_mem_vm_value L \<equiv> mem_object_value L int_virtual_machine.make int_vm_status_value"

abbreviation mem_resource_reach where
  "mem_resource_reach L \<equiv> mem_object_reach L (status_reach ops_of)"

abbreviation int_mem_resource_reach where
  "int_mem_resource_reach L \<equiv> mem_object_reach L (status_reach int_ops_of)"

definition mem_list_value :: "('m, 'l, 'c) copy_library \<Rightarrow> (('m, 'l, 'c) cell \<Rightarrow> 'a list) \<Rightarrow>
    ('a \<Rightarrow> ('m, 'l, 'c) mem \<Rightarrow> 'v) \<Rightarrow> 'l mem_list \<Rightarrow> ('m, 'l, 'c) mem \<Rightarrow> type_meta \<times> string \<times> 'v list" where
  "mem_list_value L get v x m =
     (ml_type_meta x, list_meta_value L (ml_meta x) m, slice_value get v (ml_items x) m)"

definition mem_list_reach :: "('m, 'l, 'c) copy_library \<Rightarrow> (('m, 'l, 'c) cell \<Rightarrow> 'a list) \<Rightarrow>
    ('a \<Rightarrow> ('m, 'l, 'c) mem \<Rightarrow> nat set) \<Rightarrow> 'l mem_list \<Rightarrow> ('m, 'l, 'c) mem \<Rightarrow> nat set" where
  "mem_list_reach L get r x m = list_meta_reach L (ml_meta x) m \<union> slice_reach get r (ml_items x) m"

text \<open>The configuration, with the cells its sections are read from.\<close>

definition mem_azure_value :: "('p option \<Rightarrow> 'v option \<Rightarrow> 'a) \<Rightarrow> (('m, 'l, 'c) cell \<Rightarrow> 'p) \<Rightarrow>
    (('m, 'l, 'c) cell \<Rightarrow> 'v) \<Rightarrow> mem_azure_configuration \<Rightarrow> ('m, 'l, 'c) mem \<Rightarrow> 'a" where
  "mem_azure_value mk pget vget x m =
     mk (pointer_value pget plain_value (ma_orphaned_public_ip_remedy x) m)
       (pointer_value vget plain_value (ma_failed_vm_remedy x) m)"

definition azure_reach :: "(('m, 'l, 'c) cell \<Rightarrow> 'p) \<Rightarrow> (('m, 'l, 'c) cell \<Rightarrow> 'v) \<Rightarrow>
    mem_azure_configuration \<Rightarrow> ('m, 'l, 'c) mem \<Rightarrow> nat set" where
  "azure_reach pget vget x m = pointer_reach pget plain_reach (ma_orphaned_public_ip_remedy x) m \<union>
     pointer_reach vget plain_reach (ma_failed_vm_remedy x) m"

definition mem_configuration_value :: "(type_meta \<Rightarrow> string option \<Rightarrow> 'z option \<Rightarrow> 'a) \<Rightarrow>
    (mem_azure_configuration \<Rightarrow> ('m, 'l, 'c) mem \<Rightarrow> 'z) \<Rightarrow> mem_controller_configuration \<Rightarrow> ('m, 'l, 'c) mem \<Rightarrow> 'a" where
  "mem_configuration_value mk v x m = mk (mc_type_meta x)
     (pointer_value client_connection_of plain_value (mc_client_connection x) m)
     (pointer_value azure_configuration_of v (mc_azure x) m)"

definition configuration_reach :: "(mem_azure_configuration \<Rightarrow> ('m, 'l, 'c) mem \<Rightarrow> nat set) \<Rightarrow>
    mem_controller_configuration \<Rightarrow> ('m, 'l, 'c) mem \<Rightarrow> nat set" where
  "configuration_reach r x m = pointer_reach client_connection_of plain_reach (mc_client_connection x) m \<union>
     pointer_reach azure_configuration_of r (mc_azure x) m"

abbreviation controller_configuration_value where
  "controller_configuration_value \<equiv> mem_configuration_value controller_configuration.make
     (mem_azure_value azure_configuration.make pip_config_of vm_config_of)"

abbreviation v1_controller_configuration_value where
  "v1_controller_configuration_value \<equiv> mem_configuration_value v1_controller_configuration.make
     (mem_azure_value v1_azure_configuration.make v1_pip_config_of v1_vm_config_of)"

section \<open>The configuration\<close>

interpretation text_copy: deep_copy copy_text text_value text_reach
  unfolding copy_text_def by (rule text_cell.deep_copy_pointer [OF plain.deep_copy_axioms])

lemma azure_copy:
  assumes "cell_type pput pget" "cell_type vput vget"
    and "\<And>x m. copy x m =
     (let (p, m) = copy_pointer pput pget plain_copy (ma_orphaned_public_ip_remedy x) m;
          (v, m) = copy_pointer vput vget plain_copy (ma_failed_vm_remedy x) m
      in (x\<lparr>ma_orphaned_public_ip_remedy := p, ma_failed_vm_remedy := v\<rparr>, m))"
  shows "deep_copy copy (mem_azure_value mk pget vget) (azure_reach pget vget)"
  by (rule deep_copy_fields [OF deep_copy_both
        [OF cell_type.deep_copy_pointer [OF assms(1) plain.deep_copy_axioms]
            cell_type.deep_copy_pointer [OF assms(2) plain.deep_copy_axioms]],
        where parts = "\<lambda>x. (ma_orphaned_public_ip_remedy x, ma_failed_vm_remedy x)"
          and build = "\<lambda>x y. x\<lparr>ma_orphaned_public_ip_remedy := fst y, ma_failed_vm_remedy := snd y\<rparr>"
          and f = "\<lambda>x v. mk (fst v) (snd v)"])
    (simp_all add: assms(3) mem_azure_value_def azure_reach_def copy_both_def both_values_def
      both_reach_def split_beta Let_def)

lemma configuration_copy:
  assumes "deep_copy into v r"
    and "\<And>x m. copy x m =
     (let (c, m) = copy_pointer ClientConnectionCell client_connection_of plain_copy (mc_client_connection x) m;
          (a, m) = copy_pointer AzureConfigurationCell azure_configuration_of into (mc_azure x) m
      in (x\<lparr>mc_client_connection := c, mc_azure := a\<rparr>, m))"
  shows "deep_copy copy (mem_configuration_value mk v) (configuration_reach r)"
  by (rule deep_copy_fields [OF deep_copy_both
        [OF client_connection_cell.deep_copy_pointer [OF plain.deep_copy_axioms]
            azure_configuration_cell.deep_copy_pointer [OF assms(1)]],
        where parts = "\<lambda>x. (mc_client_connection x, mc_azure x)"
          and build = "\<lambda>x y. x\<lparr>mc_client_connection := fst y, mc_azure := snd y\<rparr>"
          and f = "\<lambda>x v. mk (mc_type_meta x) (fst v) (snd v)"])
    (simp_all add: assms(2) mem_configuration_value_def configuration_reach_def copy_both_def
      both_values_def both_reach_def split_beta Let_def)

lemma controller_configuration_copy:
  "deep_copy ControllerConfiguration_DeepCopyInto controller_configuration_value
     (configuration_reach (azure_reach pip_config_of vm_config_of))"
  by (rule configuration_copy [OF azure_copy [OF pip_config_cell.cell_type_axioms
        vm_config_cell.cell_type_axioms AzureConfiguration_DeepCopyInto_def]
        ControllerConfiguration_DeepCopyInto_def])

lemma v1_controller_configuration_copy:
  "deep_copy v1_ControllerConfiguration_DeepCopyInto v1_controller_configuration_value
     (configuration_reach (azure_reach v1_pip_config_of v1_vm_config_of))"
  by (rule configuration_copy [OF azure_copy [OF v1_pip_config_cell.cell_type_axioms
        v1_vm_config_cell.cell_type_axioms v1_AzureConfiguration_DeepCopyInto_def]
        v1_ControllerConfiguration_DeepCopyInto_def])

section \<open>The resources\<close>

lemma failed_operations_copy:
  assumes "lawful_library L"
  shows "deep_copy (copy_failed_operations L) (slice_value ops_of plain_value) (slice_reach ops_of plain_reach)"
    "deep_copy (int_copy_failed_operations L) (slice_value int_ops_of plain_value) (slice_reach int_ops_of plain_reach)"
proof -
  have "FailedOperation_DeepCopyInto L = plain_copy" "int_FailedOperation_DeepCopyInto L = plain_copy"
    by (intro ext, simp add: FailedOperation_DeepCopyInto_def int_FailedOperation_DeepCopyInto_def
        plain_copy_def lawful_libraryD [OF assms])+
  then show "deep_copy (copy_failed_operations L) (slice_value ops_of plain_value) (slice_reach ops_of plain_reach)"
    "deep_copy (int_copy_failed_operations L) (slice_value int_ops_of plain_value) (slice_reach int_ops_of plain_reach)"
    unfolding copy_failed_operations_def int_copy_failed_operations_def
    using ops_cell.deep_copy_slice [OF plain.deep_copy_axioms]
      int_ops_cell.deep_copy_slice [OF plain.deep_copy_axioms] by simp_all
qed

text \<open>The fields of a status that lead to other cells.\<close>

lemma status_copy:
  assumes "deep_copy ops (slice_value get plain_value) (slice_reach get plain_reach)"
    and "\<And>x m. copy x m =
     (let (i, m) = copy_text (ms_id x) m;
          (n, m) = copy_text (ms_name x) m;
          (p, m) = copy_text (ms_provisioning_state x) m;
          (f, m) = ops (ms_failed_operations x) m
      in (x\<lparr>ms_id := i, ms_name := n, ms_provisioning_state := p, ms_failed_operations := f\<rparr>, m))"
  shows "deep_copy copy (mem_status_value mk get) (status_reach get)"
  by (rule deep_copy_fields [OF deep_copy_both [OF text_copy.deep_copy_axioms
          deep_copy_both [OF text_copy.deep_copy_axioms
            deep_copy_both [OF text_copy.deep_copy_axioms assms(1)]]],
        where parts = "\<lambda>x. (ms_id x, ms_name x, ms_provisioning_state x, ms_failed_operations x)"
          and build = "\<lambda>x (i, n, p, f). x\<lparr>ms_id := i, ms_name := n, ms_provisioning_state := p, ms_failed_operations := f\<rparr>"
          and f = "\<lambda>x (i, n, p, f). mk (ms_exists x) i n (map_option state_of_text p) f"])
    (simp_all add: assms(2) mem_status_value_def status_reach_def copy_both_def both_values_def
      both_reach_def split_beta Let_def)

lemma object_copy:
  assumes "lawful_library L" "deep_copy st v r"
    and "\<And>x m. copy x m =
     (let (meta, m) = ObjectMeta_DeepCopy L (mo_meta x) m;
          (s, m) = st (mo_status x) m
      in (x\<lparr>mo_meta := meta, mo_status := s\<rparr>, m))"
  shows "deep_copy copy (mem_object_value L mk v) (mem_object_reach L r)"
  by (rule deep_copy_fields [OF deep_copy_both [OF lawful_libraryD(2) [OF assms(1)] assms(2)],
        where parts = "\<lambda>x. (mo_meta x, mo_status x)"
          and build = "\<lambda>x y. x\<lparr>mo_meta := fst y, mo_status := snd y\<rparr>"
          and f = "\<lambda>x v. (mo_type_meta x, mk (fst v) (mo_spec x) (snd v))"])
    (simp_all add: assms(3) mem_object_value_def mem_object_reach_def copy_both_def both_values_def
      both_reach_def split_beta Let_def)

lemma pip_copy:
  "lawful_library L \<Longrightarrow> deep_copy (PublicIPAddress_DeepCopyInto L) (mem_pip_value L) (mem_resource_reach L)"
  by (rule object_copy [OF _ status_copy [OF failed_operations_copy(1) PublicIPAddressStatus_DeepCopyInto_def]
        PublicIPAddress_DeepCopyInto_def])

lemma vm_copy:
  "lawful_library L \<Longrightarrow> deep_copy (VirtualMachine_DeepCopyInto L) (mem_vm_value L) (mem_resource_reach L)"
  by (rule object_copy [OF _ status_copy [OF failed_operations_copy(1) VirtualMachineStatus_DeepCopyInto_def]
        VirtualMachine_DeepCopyInto_def])

lemma int_pip_copy:
  "lawful_library L \<Longrightarrow> deep_copy (int_PublicIPAddress_DeepCopyInto L) (int_mem_pip_value L) (int_mem_resource_reach L)"
  by (rule object_copy [OF _ status_copy [OF failed_operations_copy(2) int_PublicIPAddressStatus_DeepCopyInto_def]
        int_PublicIPAddress_DeepCopyInto_def])

lemma int_vm_copy:
  "lawful_library L \<Longrightarrow> deep_copy (int_VirtualMachine_DeepCopyInto L) (int_mem_vm_value L) (int_mem_resource_reach L)"
  by (rule object_copy [OF _ status_copy [OF failed_operations_copy(2) int_VirtualMachineStatus_DeepCopyInto_def]
        int_VirtualMachine_DeepCopyInto_def])

section \<open>Objects\<close>

datatype runtime_value =
    PublicIPAddressValue "(type_meta \<times> public_ip_address) option"
  | PublicIPAddressListValue "(type_meta \<times> string \<times> (type_meta \<times> public_ip_address) list) option"
  | VirtualMachineValue "(type_meta \<times> virtual_machine) option"
  | VirtualMachineListValue "(type_meta \<times> string \<times> (type_meta \<times> virtual_machine) list) option"
  | ControllerConfigurationValue "controller_configuration option"
  | IntPublicIPAddressValue "(type_meta \<times> int_public_ip_address) option"
  | IntPublicIPAddressListValue "(type_meta \<times> string \<times> (type_meta \<times> int_public_ip_address) list) option"
  | IntVirtualMachineValue "(type_meta \<times> int_virtual_machine) option"
  | IntVirtualMachineListValue "(type_meta \<times> string \<times> (type_meta \<times> int_virtual_machine) list) option"
  | V1ControllerConfigurationValue "v1_controller_configuration option"

fun object_value :: "('m, 'l, 'c) copy_library \<Rightarrow> runtime_object \<Rightarrow> ('m, 'l, 'c) mem \<Rightarrow> runtime_value" where
  "object_value L (PublicIPAddressObject p) m =
     PublicIPAddressValue (pointer_value pip_of (mem_pip_value L) p m)"
| "object_value L (PublicIPAddressListObject p) m =
     PublicIPAddressListValue (pointer_value list_of (mem_list_value L pips_of (mem_pip_value L)) p m)"
| "object_value L (VirtualMachineObject p) m =
     VirtualMachineValue (pointer_value vm_of (mem_vm_value L) p m)"
| "object_value L (VirtualMachineListObject p) m =
     VirtualMachineListValue (pointer_value list_of (mem_list_value L vms_of (mem_vm_value L)) p m)"
| "object_value L (ControllerConfigurationObject p) m =
     ControllerConfigurationValue (pointer_value controller_configuration_of controller_configuration_value p m)"
| "object_value L (IntPublicIPAddressObject p) m =
     IntPublicIPAddressValue (pointer_value int_pip_of (int_mem_pip_value L) p m)"
| "object_value L (IntPublicIPAddressListObject p) m =
     IntPublicIPAddressListValue (pointer_value list_of (mem_list_value L int_pips_of (int_mem_pip_value L)) p m)"
| "object_value L (IntVirtualMachineObject p) m =
     IntVirtualMachineValue (pointer_value int_vm_of (int_mem_vm_value L) p m)"
| "object_value L (IntVirtualMachineListObject p) m =
     IntVirtualMachineListValue (pointer_value list_of (mem_list_value L int_vms_of (int_mem_vm_value L)) p m)"
| "object_value L (V1ControllerConfigurationObject p) m =
     V1ControllerConfigurationValue
       (pointer_value controller_configuration_of v1_controller_configuration_value p m)"

fun object_reach :: "('m, 'l, 'c) copy_library \<Rightarrow> runtime_object \<Rightarrow> ('m, 'l, 'c) mem \<Rightarrow> nat set" where
  "object_reach L (PublicIPAddressObject p) m = pointer_reach pip_of (mem_resource_reach L) p m"
| "object_reach L (PublicIPAddressListObject p) m =
     pointer_reach list_of (mem_list_reach L pips_of (mem_resource_reach L)) p m"
| "object_reach L (VirtualMachineObject p) m = pointer_reach vm_of (mem_resource_reach L) p m"
| "object_reach L (VirtualMachineListObject p) m =
     pointer_reach list_of (mem_list_reach L vms_of (mem_resource_reach L)) p m"
| "object_reach L (ControllerConfigurationObject p) m =
     pointer_reach controller_configuration_of (configuration_reach (azure_reach pip_config_of vm_config_of)) p m"
| "object_reach L (IntPublicIPAddressObject p) m = pointer_reach int_pip_of (int_mem_resource_reach L) p m"
| "object_reach L (IntPublicIPAddressListObject p) m =
     pointer_reach list_of (mem_list_reach L int_pips_of (int_mem_resource_reach L)) p m"
| "object_reach L (IntVirtualMachineObject p) m = pointer_reach int_vm_of (int_mem_resource_reach L) p m"
| "object_reach L (IntVirtualMachineListObject p) m =
     pointer_reach list_of (mem_list_reach L int_vms_of (int_mem_resource_reach L)) p m"
| "object_reach L (V1ControllerConfigurationObject p) m =
     pointer_reach controller_configuration_of (configuration_reach (azure_reach v1_pip_config_of v1_vm_config_of)) p m"

fun object_pointer :: "runtime_object \<Rightarrow> nat option" where
  "object_pointer (PublicIPAddressObject p) = p"
| "object_pointer (PublicIPAddressListObject p) = p"
| "object_pointer (VirtualMachineObject p) = p"
| "object_pointer (VirtualMachineListObject p) = p"
| "object_pointer (ControllerConfigurationObject p) = p"
| "object_pointer (IntPublicIPAddressObject p) = p"
| "object_pointer (IntPublicIPAddressListObject p) = p"
| "object_pointer (IntVirtualMachineObject p) = p"
| "object_pointer (IntVirtualMachineListObject p) = p"
| "object_pointer (V1ControllerConfigurationObject p) = p"

lemma list_copy:
  assumes "lawful_library L" "array_cell put get" "deep_copy into v r"
    and "\<And>x m. copy x m = (let (meta, m) = ListMeta_DeepCopy L (ml_meta x) m;
          (items, m) = copy_slice put get into (ml_items x) m
      in (x\<lparr>ml_meta := meta, ml_items := items\<rparr>, m))"
  shows "deep_copy copy (mem_list_value L get v) (mem_list_reach L get r)"
  by (rule deep_copy_fields [OF deep_copy_both [OF lawful_libraryD(3) [OF assms(1)]
          array_cell.deep_copy_slice [OF assms(2) assms(3)]],
        where parts = "\<lambda>x. (ml_meta x, ml_items x)"
          and build = "\<lambda>x y. x\<lparr>ml_meta := fst y, ml_items := snd y\<rparr>"
          and f = "\<lambda>x v. (ml_type_meta x, fst v, snd v)"])
    (simp_all add: assms(4) mem_list_value_def mem_list_reach_def
      copy_both_def both_values_def both_reach_def split_beta Let_def)

lemmas pip_list_copy = list_copy [OF _ pips_cell.array_cell_axioms pip_copy PublicIPAddressList_DeepCopyInto_def]
lemmas vm_list_copy = list_copy [OF _ vms_cell.array_cell_axioms vm_copy VirtualMachineList_DeepCopyInto_def]
lemmas int_pip_list_copy = list_copy
  [OF _ int_pips_cell.array_cell_axioms int_pip_copy int_PublicIPAddressList_DeepCopyInto_def]
lemmas int_vm_list_copy = list_copy
  [OF _ int_vms_cell.array_cell_axioms int_vm_copy int_VirtualMachineList_DeepCopyInto_def]

text \<open>
  \<open>DeepCopyObject\<close> of every type is the copying of a pointer, so what \<open>deep_copy.independent\<close> says of it
  holds for objects.
\<close>

definition independent_copy :: "('m, 'l, 'c) copy_library \<Rightarrow> runtime_object \<Rightarrow> ('m, 'l, 'c) mem \<Rightarrow>
    runtime_object \<Rightarrow> ('m, 'l, 'c) mem \<Rightarrow> bool" where
  "independent_copy L ob m c m' \<longleftrightarrow>
     agree (allocated m) m m' \<and> object_value L c m' = object_value L ob m \<and>
     (\<forall>m''. agree (- object_reach L ob m') m' m'' \<longrightarrow> object_value L c m'' = object_value L ob m) \<and>
     (\<forall>m''. agree (- object_reach L c m') m' m'' \<longrightarrow> object_value L ob m'' = object_value L ob m)"

lemma independent_pointer:
  assumes "deep_copy (copy_pointer put get into) (pointer_value get v) (pointer_reach get r)"
    and "\<And>p m. object_value L (ty p) m = w (pointer_value get v p m)"
      "\<And>p m. object_reach L (ty p) m = pointer_reach get r p m"
    and "object_reach L (ty (Some a)) m \<subseteq> allocated m"
  shows "\<exists>c m'. copied_object ty (copy_pointer put get into (Some a) m) = (Some c, m') \<and>
    independent_copy L (ty (Some a)) m c m'"
proof -
  obtain q m' where q: "copy_pointer put get into (Some a) m = (q, m')" by fastforce
  then obtain b where b: "q = Some b" by (auto simp: copy_pointer_def split: prod.splits)
  have in_m: "pointer_reach get r (Some a) m \<subseteq> allocated m" using assms(3,4) by simp
  note ind = deep_copy.independent [OF assms(1), OF q in_m]
  have "independent_copy L (ty (Some a)) m (ty q) m'"
    using deep_copy.frame [OF assms(1), OF q] ind by (simp add: independent_copy_def assms(2,3))
  then show ?thesis using q b by (simp add: copied_object_def)
qed

lemmas DeepCopyObject_pointer =
  PublicIPAddress_DeepCopyObject_def PublicIPAddress_DeepCopy_def
  PublicIPAddressList_DeepCopyObject_def PublicIPAddressList_DeepCopy_def
  VirtualMachine_DeepCopyObject_def VirtualMachine_DeepCopy_def
  VirtualMachineList_DeepCopyObject_def VirtualMachineList_DeepCopy_def
  ControllerConfiguration_DeepCopyObject_def ControllerConfiguration_DeepCopy_def
  int_PublicIPAddress_DeepCopyObject_def int_PublicIPAddress_DeepCopy_def
  int_PublicIPAddressList_DeepCopyObject_def int_PublicIPAddressList_DeepCopy_def
  int_VirtualMachine_DeepCopyObject_def int_VirtualMachine_DeepCopy_def
  int_VirtualMachineList_DeepCopyObject_def int_VirtualMachineList_DeepCopy_def
  v1_ControllerConfiguration_DeepCopyObject_def v1_ControllerConfiguration_DeepCopy_def

text \<open>C39: A deep copy of a resource, of a list of resources or of the configuration, in either version, stands for the
  same value as the original, and neither can be changed through the other: whatever is
  written afterwards to cells the original is spread over, the copy keeps its value, and the
  other way round. Nothing that existed before the copy is written. The reconciler takes such a
  copy of its prototype for every request, so reconciliations running at the same time do not
  share an object. That the copies of the library's metadata are deep copies is a hypothesis.\<close>

theorem deep_copies_are_independent:
  assumes L: "lawful_library L" and "object_pointer ob \<noteq> None" "object_reach L ob m \<subseteq> allocated m"
  shows "\<exists>c m'. DeepCopyObject L ob m = (Some c, m') \<and> independent_copy L ob m c m'"
proof -
  obtain a where a: "object_pointer ob = Some a" using assms(2) by blast
  show ?thesis
  proof (cases ob)
    case (PublicIPAddressObject p)
    then show ?thesis
      using a assms(3) independent_pointer [OF pip_cell.deep_copy_pointer [OF pip_copy [OF L]],
        of L PublicIPAddressObject PublicIPAddressValue a m]
      by (simp add: DeepCopyObject_pointer)
  next
    case (PublicIPAddressListObject p)
    then show ?thesis
      using a assms(3) independent_pointer [OF list_cell.deep_copy_pointer [OF pip_list_copy [OF L L]],
        of L PublicIPAddressListObject PublicIPAddressListValue a m]
      by (simp add: DeepCopyObject_pointer)
  next
    case (VirtualMachineObject p)
    then show ?thesis
      using a assms(3) independent_pointer [OF vm_cell.deep_copy_pointer [OF vm_copy [OF L]],
        of L VirtualMachineObject VirtualMachineValue a m]
      by (simp add: DeepCopyObject_pointer)
  next
    case (VirtualMachineListObject p)
    then show ?thesis
      using a assms(3) independent_pointer [OF list_cell.deep_copy_pointer [OF vm_list_copy [OF L L]],
        of L VirtualMachineListObject VirtualMachineListValue a m]
      by (simp add: DeepCopyObject_pointer)
  next
    case (ControllerConfigurationObject p)
    then show ?thesis
      using a assms(3) independent_pointer [OF controller_configuration_cell.deep_copy_pointer [OF controller_configuration_copy],
        of L ControllerConfigurationObject ControllerConfigurationValue a m]
      by (simp add: DeepCopyObject_pointer)
  next
    case (IntPublicIPAddressObject p)
    then show ?thesis
      using a assms(3) independent_pointer [OF int_pip_cell.deep_copy_pointer [OF int_pip_copy [OF L]],
        of L IntPublicIPAddressObject IntPublicIPAddressValue a m]
      by (simp add: DeepCopyObject_pointer)
  next
    case (IntPublicIPAddressListObject p)
    then show ?thesis
      using a assms(3) independent_pointer [OF list_cell.deep_copy_pointer [OF int_pip_list_copy [OF L L]],
        of L IntPublicIPAddressListObject IntPublicIPAddressListValue a m]
      by (simp add: DeepCopyObject_pointer)
  next
    case (IntVirtualMachineObject p)
    then show ?thesis
      using a assms(3) independent_pointer [OF int_vm_cell.deep_copy_pointer [OF int_vm_copy [OF L]],
        of L IntVirtualMachineObject IntVirtualMachineValue a m]
      by (simp add: DeepCopyObject_pointer)
  next
    case (IntVirtualMachineListObject p)
    then show ?thesis
      using a assms(3) independent_pointer [OF list_cell.deep_copy_pointer [OF int_vm_list_copy [OF L L]],
        of L IntVirtualMachineListObject IntVirtualMachineListValue a m]
      by (simp add: DeepCopyObject_pointer)
  next
    case (V1ControllerConfigurationObject p)
    then show ?thesis
      using a assms(3) independent_pointer [OF controller_configuration_cell.deep_copy_pointer [OF v1_controller_configuration_copy],
        of L V1ControllerConfigurationObject V1ControllerConfigurationValue a m]
      by (simp add: DeepCopyObject_pointer)
  qed
qed

text \<open>A library whose metadata is a pointer to one cell.\<close>

interpretation library_cell: cell_type LibraryCell library_of by unfold_locales simp

definition example_meta_value :: "nat option \<Rightarrow> (nat option, string, object_meta) mem \<Rightarrow> object_meta" where
  "example_meta_value p m = (case pointer_value library_of plain_value p m of None \<Rightarrow> empty_meta | Some x \<Rightarrow> x)"

definition example_library :: "(nat option, string, object_meta) copy_library" where
  "example_library =
     \<lparr>Time_DeepCopy = \<lambda>t. t,
      ObjectMeta_DeepCopy = copy_pointer LibraryCell library_of plain_copy,
      object_meta_value = example_meta_value,
      object_meta_reach = pointer_reach library_of plain_reach,
      ListMeta_DeepCopy = plain_copy, list_meta_value = plain_value, list_meta_reach = plain_reach\<rparr>"

interpretation example_meta_copy: deep_copy "copy_pointer LibraryCell library_of plain_copy"
    example_meta_value "pointer_reach library_of plain_reach"
  by (rule deep_copy_fields [OF library_cell.deep_copy_pointer [OF plain.deep_copy_axioms],
        where parts = "\<lambda>x. x" and build = "\<lambda>x y. y"
          and f = "\<lambda>x v. (case v of None \<Rightarrow> empty_meta | Some x \<Rightarrow> x)"])
    (simp_all add: example_meta_value_def split_beta Let_def)

lemma example_library_lawful: "lawful_library example_library"
  by (simp add: lawful_library_def example_library_def example_meta_copy.deep_copy_axioms
      plain.deep_copy_axioms)

definition example_memory :: "(nat option, string, object_meta) mem" where
  "example_memory =
     \<lparr>next_addr = 4,
      cells = (\<lambda>_. TextCell '''')
        (0 := PipCell \<lparr>mo_type_meta = \<lparr>tm_kind = ''PublicIPAddress'', tm_api_version = ''v1alpha1''\<rparr>,
            mo_meta = Some 1, mo_spec = \<lparr>ps_ip_address = ''1.2.3.4''\<rparr>,
            mo_status = \<lparr>ms_exists = True, ms_id = Some 2, ms_name = Some 2, ms_provisioning_state = None,
              ms_failed_operations = Some \<lparr>sl_array = 3, sl_from = 0, sl_length = 1\<rparr>\<rparr>\<rparr>,
         1 := LibraryCell (empty_meta\<lparr>meta_name := ''ip-1''\<rparr>),
         2 := TextCell ''id'',
         3 := OpsCell [\<lparr>fo_type = OperationTypeGetPublicIPAddress, fo_attempts = 1,
                fo_error_message = ''no'', fo_timestamp = 0\<rparr>])\<rparr>"

theorem deep_copies_are_independent_witness:
  "\<exists>c m'. DeepCopyObject example_library (PublicIPAddressObject (Some 0)) example_memory = (Some c, m') \<and>
    independent_copy example_library (PublicIPAddressObject (Some 0)) example_memory c m'"
  by (rule deep_copies_are_independent [OF example_library_lawful])
    (simp_all add: example_library_def example_memory_def pointer_reach_def mem_object_reach_def status_reach_def
      slice_reach_def slice_elements_def target_of_def plain_reach_def)

end
