(* ===== verification/Scheme_Registration.thy ===== *)
theory Scheme_Registration
  imports Api_Conversions Configuration
begin

text \<open>
  Registration of the types and conversions with a scheme of the API machinery
  (\<open>register.go\<close>, \<open>install.go\<close> and the first function of \<open>zz_generated.conversion.go\<close> in
  \<open>pkg/apis/azure\<close> and \<open>pkg/apis/config\<close>). The scheme is the library's: what the code does is a sequence of
  calls, each of which may be refused.
\<close>

section \<open>Types and values\<close>

datatype api_version = V1alpha1 | InternalVersion

datatype api_struct =
    FailedOperationStruct
  | PublicIPAddressStruct
  | PublicIPAddressListStruct
  | PublicIPAddressSpecStruct
  | PublicIPAddressStatusStruct
  | VirtualMachineStruct
  | VirtualMachineListStruct
  | VirtualMachineSpecStruct
  | VirtualMachineStatusStruct
  | AzureConfigurationStruct
  | AzureFailedVMRemedyConfigurationStruct
  | AzureOrphanedPublicIPRemedyConfigurationStruct
  | ControllerConfigurationStruct

text \<open>A value of any of the types of both versions: what the \<open>interface{}\<close> arguments of a conversion hold.\<close>

datatype api_value =
    V1FailedOperationValue "failed_operation"
  | IntFailedOperationValue "int_failed_operation"
  | V1PublicIPAddressValue "public_ip_address api_object"
  | IntPublicIPAddressValue "int_public_ip_address api_object"
  | V1PublicIPAddressListValue "public_ip_address resource_list api_object"
  | IntPublicIPAddressListValue "int_public_ip_address resource_list api_object"
  | V1PublicIPAddressSpecValue "pip_spec"
  | IntPublicIPAddressSpecValue "int_pip_spec"
  | V1PublicIPAddressStatusValue "pip_status"
  | IntPublicIPAddressStatusValue "int_pip_status"
  | V1VirtualMachineValue "virtual_machine api_object"
  | IntVirtualMachineValue "int_virtual_machine api_object"
  | V1VirtualMachineListValue "virtual_machine resource_list api_object"
  | IntVirtualMachineListValue "int_virtual_machine resource_list api_object"
  | V1VirtualMachineSpecValue "vm_spec"
  | IntVirtualMachineSpecValue "int_vm_spec"
  | V1VirtualMachineStatusValue "vm_status"
  | IntVirtualMachineStatusValue "int_vm_status"
  | V1AzureConfigurationValue "v1_azure_configuration"
  | IntAzureConfigurationValue "azure_configuration"
  | V1AzureFailedVMRemedyConfigurationValue "v1_vm_config"
  | IntAzureFailedVMRemedyConfigurationValue "vm_config"
  | V1AzureOrphanedPublicIPRemedyConfigurationValue "v1_pip_config"
  | IntAzureOrphanedPublicIPRemedyConfigurationValue "pip_config"
  | V1ControllerConfigurationValue "v1_controller_configuration"
  | IntControllerConfigurationValue "controller_configuration"

fun type_of :: "api_value \<Rightarrow> api_version \<times> api_struct" where
  "type_of (V1FailedOperationValue _) = (V1alpha1, FailedOperationStruct)"
| "type_of (IntFailedOperationValue _) = (InternalVersion, FailedOperationStruct)"
| "type_of (V1PublicIPAddressValue _) = (V1alpha1, PublicIPAddressStruct)"
| "type_of (IntPublicIPAddressValue _) = (InternalVersion, PublicIPAddressStruct)"
| "type_of (V1PublicIPAddressListValue _) = (V1alpha1, PublicIPAddressListStruct)"
| "type_of (IntPublicIPAddressListValue _) = (InternalVersion, PublicIPAddressListStruct)"
| "type_of (V1PublicIPAddressSpecValue _) = (V1alpha1, PublicIPAddressSpecStruct)"
| "type_of (IntPublicIPAddressSpecValue _) = (InternalVersion, PublicIPAddressSpecStruct)"
| "type_of (V1PublicIPAddressStatusValue _) = (V1alpha1, PublicIPAddressStatusStruct)"
| "type_of (IntPublicIPAddressStatusValue _) = (InternalVersion, PublicIPAddressStatusStruct)"
| "type_of (V1VirtualMachineValue _) = (V1alpha1, VirtualMachineStruct)"
| "type_of (IntVirtualMachineValue _) = (InternalVersion, VirtualMachineStruct)"
| "type_of (V1VirtualMachineListValue _) = (V1alpha1, VirtualMachineListStruct)"
| "type_of (IntVirtualMachineListValue _) = (InternalVersion, VirtualMachineListStruct)"
| "type_of (V1VirtualMachineSpecValue _) = (V1alpha1, VirtualMachineSpecStruct)"
| "type_of (IntVirtualMachineSpecValue _) = (InternalVersion, VirtualMachineSpecStruct)"
| "type_of (V1VirtualMachineStatusValue _) = (V1alpha1, VirtualMachineStatusStruct)"
| "type_of (IntVirtualMachineStatusValue _) = (InternalVersion, VirtualMachineStatusStruct)"
| "type_of (V1AzureConfigurationValue _) = (V1alpha1, AzureConfigurationStruct)"
| "type_of (IntAzureConfigurationValue _) = (InternalVersion, AzureConfigurationStruct)"
| "type_of (V1AzureFailedVMRemedyConfigurationValue _) = (V1alpha1, AzureFailedVMRemedyConfigurationStruct)"
| "type_of (IntAzureFailedVMRemedyConfigurationValue _) = (InternalVersion, AzureFailedVMRemedyConfigurationStruct)"
| "type_of (V1AzureOrphanedPublicIPRemedyConfigurationValue _) = (V1alpha1, AzureOrphanedPublicIPRemedyConfigurationStruct)"
| "type_of (IntAzureOrphanedPublicIPRemedyConfigurationValue _) = (InternalVersion, AzureOrphanedPublicIPRemedyConfigurationStruct)"
| "type_of (V1ControllerConfigurationValue _) = (V1alpha1, ControllerConfigurationStruct)"
| "type_of (IntControllerConfigurationValue _) = (InternalVersion, ControllerConfigurationStruct)"

section \<open>Calls of a scheme\<close>

record group_version =
  gv_group :: string
  gv_version :: string

text \<open>
  The function given to \<open>AddGeneratedConversionFunc\<close> converts its first argument into its second;
  \<open>None\<close> is the panic of a type assertion.
\<close>

type_synonym conversion = "api_value \<Rightarrow> api_value \<Rightarrow> api_value option"

datatype scheme_call =
    AddKnownTypes group_version "api_struct list"
  | AddToGroupVersion group_version
  | AddGeneratedConversionFunc "api_version \<times> api_struct" "api_version \<times> api_struct" conversion
  | SetVersionPriority "group_version list"

text \<open>
  A function that registers something: which calls the scheme refuses to the calls it makes and
  the error it returns.
\<close>

type_synonym registration = "(scheme_call \<Rightarrow> goerr option) \<Rightarrow> scheme_call list \<times> goerr option"

text \<open>Calls whose error is returned at once.\<close>

fun call_each :: "scheme_call list \<Rightarrow> registration" where
  "call_each [] refuse = ([], None)"
| "call_each (c # cs) refuse =
     (case refuse c of
        Some err \<Rightarrow> ([c], Some err)
      | None \<Rightarrow> (case call_each cs refuse of (done_calls, res) \<Rightarrow> (c # done_calls, res)))"

text \<open>Calls that return nothing.\<close>

definition just_call :: "scheme_call list \<Rightarrow> registration" where
  "just_call cs refuse = (cs, None)"

text \<open>
  \<open>SchemeBuilder.AddToScheme\<close> of the library is a parameter. Its documentation: it applies all the stored
  functions, and an error indicates that one of them failed and the attempt was abandoned.
\<close>

type_synonym scheme_builder = "registration list \<Rightarrow> registration"

fun apply_stored :: scheme_builder where
  "apply_stored [] refuse = ([], None)"
| "apply_stored (f # fs) refuse =
     (case f refuse of
        (cs, Some err) \<Rightarrow> (cs, Some err)
      | (cs, None) \<Rightarrow> (case apply_stored fs refuse of (ds, res) \<Rightarrow> (cs @ ds, res)))"

definition lawful_builder :: "scheme_builder \<Rightarrow> bool" where
  "lawful_builder AddToScheme \<longleftrightarrow> (\<forall>fs refuse. AddToScheme fs refuse = apply_stored fs refuse)"

section \<open>The conversion functions by the type of their argument\<close>

text \<open>
  The second argument is the value \<open>out\<close> points to, the result what it holds afterwards; of
  another type it is left alone, which the type assertions below exclude.
\<close>

fun Convert_value :: "api_value \<Rightarrow> api_value \<Rightarrow> api_value" where
  "Convert_value (V1FailedOperationValue x) _ = IntFailedOperationValue (Convert_v1_failed_operation x)"
| "Convert_value (IntFailedOperationValue x) _ = V1FailedOperationValue (Convert_failed_operation_v1 x)"
| "Convert_value (V1PublicIPAddressValue x) b =
     (case b of IntPublicIPAddressValue y \<Rightarrow> IntPublicIPAddressValue (Convert_v1_public_ip_address x y) | _ \<Rightarrow> b)"
| "Convert_value (IntPublicIPAddressValue x) b =
     (case b of V1PublicIPAddressValue y \<Rightarrow> V1PublicIPAddressValue (Convert_public_ip_address_v1 x y) | _ \<Rightarrow> b)"
| "Convert_value (V1PublicIPAddressListValue x) b =
     (case b of IntPublicIPAddressListValue y \<Rightarrow> IntPublicIPAddressListValue (Convert_v1_public_ip_address_list x y) | _ \<Rightarrow> b)"
| "Convert_value (IntPublicIPAddressListValue x) b =
     (case b of V1PublicIPAddressListValue y \<Rightarrow> V1PublicIPAddressListValue (Convert_public_ip_address_list_v1 x y) | _ \<Rightarrow> b)"
| "Convert_value (V1PublicIPAddressSpecValue x) _ = IntPublicIPAddressSpecValue (Convert_v1_pip_spec x)"
| "Convert_value (IntPublicIPAddressSpecValue x) _ = V1PublicIPAddressSpecValue (Convert_pip_spec_v1 x)"
| "Convert_value (V1PublicIPAddressStatusValue x) _ = IntPublicIPAddressStatusValue (Convert_v1_pip_status x)"
| "Convert_value (IntPublicIPAddressStatusValue x) _ = V1PublicIPAddressStatusValue (Convert_pip_status_v1 x)"
| "Convert_value (V1VirtualMachineValue x) b =
     (case b of IntVirtualMachineValue y \<Rightarrow> IntVirtualMachineValue (Convert_v1_virtual_machine x y) | _ \<Rightarrow> b)"
| "Convert_value (IntVirtualMachineValue x) b =
     (case b of V1VirtualMachineValue y \<Rightarrow> V1VirtualMachineValue (Convert_virtual_machine_v1 x y) | _ \<Rightarrow> b)"
| "Convert_value (V1VirtualMachineListValue x) b =
     (case b of IntVirtualMachineListValue y \<Rightarrow> IntVirtualMachineListValue (Convert_v1_virtual_machine_list x y) | _ \<Rightarrow> b)"
| "Convert_value (IntVirtualMachineListValue x) b =
     (case b of V1VirtualMachineListValue y \<Rightarrow> V1VirtualMachineListValue (Convert_virtual_machine_list_v1 x y) | _ \<Rightarrow> b)"
| "Convert_value (V1VirtualMachineSpecValue x) _ = IntVirtualMachineSpecValue (Convert_v1_vm_spec x)"
| "Convert_value (IntVirtualMachineSpecValue x) _ = V1VirtualMachineSpecValue (Convert_vm_spec_v1 x)"
| "Convert_value (V1VirtualMachineStatusValue x) _ = IntVirtualMachineStatusValue (Convert_v1_vm_status x)"
| "Convert_value (IntVirtualMachineStatusValue x) _ = V1VirtualMachineStatusValue (Convert_vm_status_v1 x)"
| "Convert_value (V1AzureConfigurationValue x) _ = IntAzureConfigurationValue (Convert_v1_azure x)"
| "Convert_value (IntAzureConfigurationValue x) _ = V1AzureConfigurationValue (Convert_azure_v1 x)"
| "Convert_value (V1AzureFailedVMRemedyConfigurationValue x) _ = IntAzureFailedVMRemedyConfigurationValue (Convert_v1_vm_config x)"
| "Convert_value (IntAzureFailedVMRemedyConfigurationValue x) _ = V1AzureFailedVMRemedyConfigurationValue (Convert_vm_config_v1 x)"
| "Convert_value (V1AzureOrphanedPublicIPRemedyConfigurationValue x) _ = IntAzureOrphanedPublicIPRemedyConfigurationValue (Convert_v1_pip_config x)"
| "Convert_value (IntAzureOrphanedPublicIPRemedyConfigurationValue x) _ = V1AzureOrphanedPublicIPRemedyConfigurationValue (Convert_pip_config_v1 x)"
| "Convert_value (V1ControllerConfigurationValue x) b =
     (case b of IntControllerConfigurationValue y \<Rightarrow> IntControllerConfigurationValue (Convert_v1_configuration x y) | _ \<Rightarrow> b)"
| "Convert_value (IntControllerConfigurationValue x) b =
     (case b of V1ControllerConfigurationValue y \<Rightarrow> V1ControllerConfigurationValue (Convert_configuration_v1 x y) | _ \<Rightarrow> b)"

text \<open>
  One registration of a conversion: the given function asserts the types of its arguments and
  calls the conversion of these types.
\<close>

definition asserting :: "api_version \<times> api_struct \<Rightarrow> api_version \<times> api_struct \<Rightarrow> conversion" where
  "asserting ta tb a b = (if type_of a = ta \<and> type_of b = tb then Some (Convert_value a b) else None)"

definition generated :: "api_version \<Rightarrow> api_version \<Rightarrow> api_struct \<Rightarrow> scheme_call" where
  "generated v w s = AddGeneratedConversionFunc (v, s) (w, s) (asserting (v, s) (w, s))"

section \<open>\<open>pkg/apis/azure\<close>\<close>

definition azure_conversions :: "scheme_call list" where
  "azure_conversions =
     [generated V1alpha1 InternalVersion FailedOperationStruct,
      generated InternalVersion V1alpha1 FailedOperationStruct,
      generated V1alpha1 InternalVersion PublicIPAddressStruct,
      generated InternalVersion V1alpha1 PublicIPAddressStruct,
      generated V1alpha1 InternalVersion PublicIPAddressListStruct,
      generated InternalVersion V1alpha1 PublicIPAddressListStruct,
      generated V1alpha1 InternalVersion PublicIPAddressSpecStruct,
      generated InternalVersion V1alpha1 PublicIPAddressSpecStruct,
      generated V1alpha1 InternalVersion PublicIPAddressStatusStruct,
      generated InternalVersion V1alpha1 PublicIPAddressStatusStruct,
      generated V1alpha1 InternalVersion VirtualMachineStruct,
      generated InternalVersion V1alpha1 VirtualMachineStruct,
      generated V1alpha1 InternalVersion VirtualMachineListStruct,
      generated InternalVersion V1alpha1 VirtualMachineListStruct,
      generated V1alpha1 InternalVersion VirtualMachineSpecStruct,
      generated InternalVersion V1alpha1 VirtualMachineSpecStruct,
      generated V1alpha1 InternalVersion VirtualMachineStatusStruct,
      generated InternalVersion V1alpha1 VirtualMachineStatusStruct]"

definition azure_RegisterConversions :: registration where
  "azure_RegisterConversions = call_each azure_conversions"

definition azure_GroupVersion :: group_version where
  "azure_GroupVersion = \<lparr>gv_group = ''azure.remedy.gardener.cloud'', gv_version = ''v1alpha1''\<rparr>"

definition azure_InternalGroupVersion :: group_version where
  "azure_InternalGroupVersion = \<lparr>gv_group = ''azure.remedy.gardener.cloud'', gv_version = ''__internal''\<rparr>"

definition azure_v1_addKnownTypes :: registration where
  "azure_v1_addKnownTypes = just_call
     [AddKnownTypes azure_GroupVersion
        [PublicIPAddressStruct, PublicIPAddressListStruct, VirtualMachineStruct, VirtualMachineListStruct],
      AddToGroupVersion azure_GroupVersion]"

definition azure_addKnownTypes :: registration where
  "azure_addKnownTypes = just_call
     [AddKnownTypes azure_InternalGroupVersion
        [PublicIPAddressStruct, PublicIPAddressListStruct, VirtualMachineStruct, VirtualMachineListStruct]]"

definition azure_RegisterDefaults :: registration where
  "azure_RegisterDefaults = just_call []"

text \<open>
  The \<open>init\<close> functions of a package run in the order of its file names; \<open>AddToScheme\<close> is bound to the
  address of the builder, so it runs what they register.
\<close>

definition azure_v1_localSchemeBuilder :: "registration list" where
  "azure_v1_localSchemeBuilder = [azure_RegisterDefaults, azure_v1_addKnownTypes, azure_RegisterConversions]"

definition azure_SchemeBuilder :: "registration list" where
  "azure_SchemeBuilder = [azure_addKnownTypes]"

definition azure_setVersionPriority :: registration where
  "azure_setVersionPriority = call_each [SetVersionPriority [azure_GroupVersion]]"

definition azure_install :: "scheme_builder \<Rightarrow> registration" where
  "azure_install AddToScheme = AddToScheme
     [AddToScheme azure_v1_localSchemeBuilder, AddToScheme azure_SchemeBuilder, azure_setVersionPriority]"

section \<open>\<open>pkg/apis/config\<close>\<close>

definition config_conversions :: "scheme_call list" where
  "config_conversions =
     [generated V1alpha1 InternalVersion AzureConfigurationStruct,
      generated InternalVersion V1alpha1 AzureConfigurationStruct,
      generated V1alpha1 InternalVersion AzureFailedVMRemedyConfigurationStruct,
      generated InternalVersion V1alpha1 AzureFailedVMRemedyConfigurationStruct,
      generated V1alpha1 InternalVersion AzureOrphanedPublicIPRemedyConfigurationStruct,
      generated InternalVersion V1alpha1 AzureOrphanedPublicIPRemedyConfigurationStruct,
      generated V1alpha1 InternalVersion ControllerConfigurationStruct,
      generated InternalVersion V1alpha1 ControllerConfigurationStruct]"

definition config_RegisterConversions :: registration where
  "config_RegisterConversions = call_each config_conversions"

definition config_GroupVersion :: group_version where
  "config_GroupVersion = \<lparr>gv_group = ''remedy.config.gardener.cloud'', gv_version = ''v1alpha1''\<rparr>"

definition config_InternalGroupVersion :: group_version where
  "config_InternalGroupVersion = \<lparr>gv_group = ''remedy.config.gardener.cloud'', gv_version = ''__internal''\<rparr>"

definition config_v1_addKnownTypes :: registration where
  "config_v1_addKnownTypes = just_call
     [AddKnownTypes config_GroupVersion
        [ControllerConfigurationStruct]]"

definition config_addKnownTypes :: registration where
  "config_addKnownTypes = just_call
     [AddKnownTypes config_InternalGroupVersion
        [ControllerConfigurationStruct]]"

definition config_RegisterDefaults :: registration where
  "config_RegisterDefaults = just_call []"

text \<open>
  The \<open>init\<close> functions of a package run in the order of its file names; \<open>AddToScheme\<close> is bound to the
  address of the builder, so it runs what they register.
\<close>

definition config_v1_localSchemeBuilder :: "registration list" where
  "config_v1_localSchemeBuilder = [config_RegisterDefaults, config_v1_addKnownTypes, config_RegisterConversions]"

definition config_SchemeBuilder :: "registration list" where
  "config_SchemeBuilder = [config_addKnownTypes]"

definition config_setVersionPriority :: registration where
  "config_setVersionPriority = call_each [SetVersionPriority [config_GroupVersion]]"

definition config_install :: "scheme_builder \<Rightarrow> registration" where
  "config_install AddToScheme = AddToScheme
     [AddToScheme config_v1_localSchemeBuilder, AddToScheme config_SchemeBuilder, config_setVersionPriority]"

section \<open>Converting through a scheme\<close>

text \<open>
  \<open>Scheme.Convert\<close> of the library, after these calls, is a parameter. Its documentation: it calls the
  function that was registered last for the types of its arguments.
\<close>

fun conversion_of :: "scheme_call \<Rightarrow> api_version \<times> api_struct \<Rightarrow> api_version \<times> api_struct \<Rightarrow> conversion option" where
  "conversion_of (AddGeneratedConversionFunc a b f) ta tb = (if a = ta \<and> b = tb then Some f else None)"
| "conversion_of _ _ _ = None"

fun registered_conversion :: "scheme_call list \<Rightarrow> api_version \<times> api_struct \<Rightarrow> api_version \<times> api_struct \<Rightarrow>
    conversion option" where
  "registered_conversion [] ta tb = None"
| "registered_conversion (c # cs) ta tb =
     (case registered_conversion cs ta tb of None \<Rightarrow> conversion_of c ta tb | Some f \<Rightarrow> Some f)"

definition lawful_convert :: "(scheme_call list \<Rightarrow> conversion) \<Rightarrow> bool" where
  "lawful_convert Convert \<longleftrightarrow>
     (\<forall>cs a b f. registered_conversion cs (type_of a) (type_of b) = Some f \<longrightarrow> Convert cs a b = f a b)"

text \<open>
  The type information that resources, lists and configurations carry, which no conversion
  touches, and a value with the one of another.
\<close>

fun type_info :: "api_value \<Rightarrow> type_meta option" where
  "type_info (V1PublicIPAddressValue x) = Some (ty_meta x)"
| "type_info (IntPublicIPAddressValue x) = Some (ty_meta x)"
| "type_info (V1PublicIPAddressListValue x) = Some (ty_meta x)"
| "type_info (IntPublicIPAddressListValue x) = Some (ty_meta x)"
| "type_info (V1VirtualMachineValue x) = Some (ty_meta x)"
| "type_info (IntVirtualMachineValue x) = Some (ty_meta x)"
| "type_info (V1VirtualMachineListValue x) = Some (ty_meta x)"
| "type_info (IntVirtualMachineListValue x) = Some (ty_meta x)"
| "type_info (V1ControllerConfigurationValue x) = Some (v1_cc_type_meta x)"
| "type_info (IntControllerConfigurationValue x) = Some (cc_type_meta x)"
| "type_info _ = None"

fun with_type_info :: "type_meta option \<Rightarrow> api_value \<Rightarrow> api_value" where
  "with_type_info (Some m) (V1PublicIPAddressValue x) = V1PublicIPAddressValue (x\<lparr>ty_meta := m\<rparr>)"
| "with_type_info (Some m) (IntPublicIPAddressValue x) = IntPublicIPAddressValue (x\<lparr>ty_meta := m\<rparr>)"
| "with_type_info (Some m) (V1PublicIPAddressListValue x) = V1PublicIPAddressListValue (x\<lparr>ty_meta := m\<rparr>)"
| "with_type_info (Some m) (IntPublicIPAddressListValue x) = IntPublicIPAddressListValue (x\<lparr>ty_meta := m\<rparr>)"
| "with_type_info (Some m) (V1VirtualMachineValue x) = V1VirtualMachineValue (x\<lparr>ty_meta := m\<rparr>)"
| "with_type_info (Some m) (IntVirtualMachineValue x) = IntVirtualMachineValue (x\<lparr>ty_meta := m\<rparr>)"
| "with_type_info (Some m) (V1VirtualMachineListValue x) = V1VirtualMachineListValue (x\<lparr>ty_meta := m\<rparr>)"
| "with_type_info (Some m) (IntVirtualMachineListValue x) = IntVirtualMachineListValue (x\<lparr>ty_meta := m\<rparr>)"
| "with_type_info (Some m) (V1ControllerConfigurationValue x) = V1ControllerConfigurationValue (x\<lparr>v1_cc_type_meta := m\<rparr>)"
| "with_type_info (Some m) (IntControllerConfigurationValue x) = IntControllerConfigurationValue (x\<lparr>cc_type_meta := m\<rparr>)"
| "with_type_info _ x = x"

lemma type_of_iff:
  "type_of b = (V1alpha1, FailedOperationStruct) \<longleftrightarrow> (\<exists>x. b = V1FailedOperationValue x)"
  "type_of b = (InternalVersion, FailedOperationStruct) \<longleftrightarrow> (\<exists>x. b = IntFailedOperationValue x)"
  "type_of b = (V1alpha1, PublicIPAddressStruct) \<longleftrightarrow> (\<exists>x. b = V1PublicIPAddressValue x)"
  "type_of b = (InternalVersion, PublicIPAddressStruct) \<longleftrightarrow> (\<exists>x. b = IntPublicIPAddressValue x)"
  "type_of b = (V1alpha1, PublicIPAddressListStruct) \<longleftrightarrow> (\<exists>x. b = V1PublicIPAddressListValue x)"
  "type_of b = (InternalVersion, PublicIPAddressListStruct) \<longleftrightarrow> (\<exists>x. b = IntPublicIPAddressListValue x)"
  "type_of b = (V1alpha1, PublicIPAddressSpecStruct) \<longleftrightarrow> (\<exists>x. b = V1PublicIPAddressSpecValue x)"
  "type_of b = (InternalVersion, PublicIPAddressSpecStruct) \<longleftrightarrow> (\<exists>x. b = IntPublicIPAddressSpecValue x)"
  "type_of b = (V1alpha1, PublicIPAddressStatusStruct) \<longleftrightarrow> (\<exists>x. b = V1PublicIPAddressStatusValue x)"
  "type_of b = (InternalVersion, PublicIPAddressStatusStruct) \<longleftrightarrow> (\<exists>x. b = IntPublicIPAddressStatusValue x)"
  "type_of b = (V1alpha1, VirtualMachineStruct) \<longleftrightarrow> (\<exists>x. b = V1VirtualMachineValue x)"
  "type_of b = (InternalVersion, VirtualMachineStruct) \<longleftrightarrow> (\<exists>x. b = IntVirtualMachineValue x)"
  "type_of b = (V1alpha1, VirtualMachineListStruct) \<longleftrightarrow> (\<exists>x. b = V1VirtualMachineListValue x)"
  "type_of b = (InternalVersion, VirtualMachineListStruct) \<longleftrightarrow> (\<exists>x. b = IntVirtualMachineListValue x)"
  "type_of b = (V1alpha1, VirtualMachineSpecStruct) \<longleftrightarrow> (\<exists>x. b = V1VirtualMachineSpecValue x)"
  "type_of b = (InternalVersion, VirtualMachineSpecStruct) \<longleftrightarrow> (\<exists>x. b = IntVirtualMachineSpecValue x)"
  "type_of b = (V1alpha1, VirtualMachineStatusStruct) \<longleftrightarrow> (\<exists>x. b = V1VirtualMachineStatusValue x)"
  "type_of b = (InternalVersion, VirtualMachineStatusStruct) \<longleftrightarrow> (\<exists>x. b = IntVirtualMachineStatusValue x)"
  "type_of b = (V1alpha1, AzureConfigurationStruct) \<longleftrightarrow> (\<exists>x. b = V1AzureConfigurationValue x)"
  "type_of b = (InternalVersion, AzureConfigurationStruct) \<longleftrightarrow> (\<exists>x. b = IntAzureConfigurationValue x)"
  "type_of b = (V1alpha1, AzureFailedVMRemedyConfigurationStruct) \<longleftrightarrow> (\<exists>x. b = V1AzureFailedVMRemedyConfigurationValue x)"
  "type_of b = (InternalVersion, AzureFailedVMRemedyConfigurationStruct) \<longleftrightarrow> (\<exists>x. b = IntAzureFailedVMRemedyConfigurationValue x)"
  "type_of b = (V1alpha1, AzureOrphanedPublicIPRemedyConfigurationStruct) \<longleftrightarrow> (\<exists>x. b = V1AzureOrphanedPublicIPRemedyConfigurationValue x)"
  "type_of b = (InternalVersion, AzureOrphanedPublicIPRemedyConfigurationStruct) \<longleftrightarrow> (\<exists>x. b = IntAzureOrphanedPublicIPRemedyConfigurationValue x)"
  "type_of b = (V1alpha1, ControllerConfigurationStruct) \<longleftrightarrow> (\<exists>x. b = V1ControllerConfigurationValue x)"
  "type_of b = (InternalVersion, ControllerConfigurationStruct) \<longleftrightarrow> (\<exists>x. b = IntControllerConfigurationValue x)"
  by (cases b; simp)+

definition azure_structs :: "api_struct set" where
  "azure_structs =
     {FailedOperationStruct, PublicIPAddressStruct, PublicIPAddressListStruct,
      PublicIPAddressSpecStruct, PublicIPAddressStatusStruct, VirtualMachineStruct,
      VirtualMachineListStruct, VirtualMachineSpecStruct, VirtualMachineStatusStruct}"

definition config_structs :: "api_struct set" where
  "config_structs =
     {AzureConfigurationStruct, AzureFailedVMRemedyConfigurationStruct, AzureOrphanedPublicIPRemedyConfigurationStruct,
      ControllerConfigurationStruct}"

end
