(* ===== verification/Scheme_Properties.thy ===== *)
theory Scheme_Properties
  imports Scheme_Registration
begin

text \<open>
  What the registrations achieve: which types a scheme knows afterwards, that every pair of
  versions of a type converts there and back, and what happens when the scheme refuses a call.
\<close>

section \<open>The calls of an installation\<close>

lemma call_each_accepted:
  "(\<forall>c\<in>set cs. refuse c = None) \<Longrightarrow> call_each cs refuse = (cs, None)"
  by (induction cs) auto

text \<open>A refused call is the last one, and its error is returned.\<close>

definition stops_at_refusal :: "registration \<Rightarrow> bool" where
  "stops_at_refusal f \<longleftrightarrow>
     (\<forall>refuse cs err. f refuse = (cs, Some err) \<longrightarrow> (\<exists>ds c. cs = ds @ [c] \<and> refuse c = Some err))"

lemma call_each_stops: "stops_at_refusal (call_each cs)"
proof -
  have "call_each cs refuse = (ds, Some err) \<Longrightarrow> \<exists>es c. ds = es @ [c] \<and> refuse c = Some err" for refuse ds err
    by (induction cs arbitrary: ds) (fastforce split: option.splits prod.splits)+
  then show ?thesis by (simp add: stops_at_refusal_def)
qed

lemma just_call_stops: "stops_at_refusal (just_call cs)"
  by (simp add: stops_at_refusal_def just_call_def)

lemma AddToScheme_stops:
  assumes "lawful_builder AddToScheme" "\<forall>f\<in>set fs. stops_at_refusal f"
  shows "stops_at_refusal (AddToScheme fs)"
proof -
  have "apply_stored fs refuse = (cs, Some err) \<Longrightarrow> \<exists>ds c. cs = ds @ [c] \<and> refuse c = Some err" for refuse cs err
    using assms(2)
    by (induction fs arbitrary: cs) (fastforce simp: stops_at_refusal_def split: option.splits prod.splits)+
  then show ?thesis using assms(1) by (simp add: stops_at_refusal_def lawful_builder_def)
qed

lemma installs_stop:
  assumes "lawful_builder AddToScheme"
  shows "stops_at_refusal (azure_install AddToScheme)" "stops_at_refusal (config_install AddToScheme)"
  by (auto simp: azure_install_def azure_v1_localSchemeBuilder_def azure_SchemeBuilder_def
      azure_setVersionPriority_def azure_RegisterConversions_def azure_RegisterDefaults_def
      azure_v1_addKnownTypes_def azure_addKnownTypes_def config_install_def
      config_v1_localSchemeBuilder_def config_SchemeBuilder_def config_setVersionPriority_def
      config_RegisterConversions_def config_RegisterDefaults_def config_v1_addKnownTypes_def
      config_addKnownTypes_def intro!: AddToScheme_stops [OF assms] call_each_stops just_call_stops)

definition azure_calls :: "scheme_call list" where
  "azure_calls =
     fst (azure_v1_addKnownTypes (\<lambda>_. None)) @ azure_conversions @ fst (azure_addKnownTypes (\<lambda>_. None)) @
     [SetVersionPriority [azure_GroupVersion]]"

definition config_calls :: "scheme_call list" where
  "config_calls =
     fst (config_v1_addKnownTypes (\<lambda>_. None)) @ config_conversions @ fst (config_addKnownTypes (\<lambda>_. None)) @
     [SetVersionPriority [config_GroupVersion]]"

lemma azure_install_accepted:
  assumes "lawful_builder AddToScheme" "\<And>c. refuse c = None"
  shows "azure_install AddToScheme refuse = (azure_calls, None)"
  using assms by (simp add: azure_install_def azure_v1_localSchemeBuilder_def azure_SchemeBuilder_def
      azure_setVersionPriority_def azure_RegisterConversions_def azure_RegisterDefaults_def
      azure_v1_addKnownTypes_def azure_addKnownTypes_def just_call_def call_each_accepted azure_calls_def
      lawful_builder_def)

lemma config_install_accepted:
  assumes "lawful_builder AddToScheme" "\<And>c. refuse c = None"
  shows "config_install AddToScheme refuse = (config_calls, None)"
  using assms by (simp add: config_install_def config_v1_localSchemeBuilder_def config_SchemeBuilder_def
      config_setVersionPriority_def config_RegisterConversions_def config_RegisterDefaults_def
      config_v1_addKnownTypes_def config_addKnownTypes_def just_call_def call_each_accepted config_calls_def
      lawful_builder_def)

section \<open>There and back\<close>

text \<open>Each direction of each type, evaluated.\<close>

definition converts_back :: "conversion \<Rightarrow> api_value \<Rightarrow> api_value \<Rightarrow> api_value \<Rightarrow> bool" where
  "converts_back Convert a b a' \<longleftrightarrow>
     (case Convert a b of
        None \<Rightarrow> False
      | Some c \<Rightarrow> type_of c = type_of b \<and> type_info c = type_info b \<and>
          Convert c a' = Some (with_type_info (type_info a') a))"

lemma other_resources_inverse [simp]:
  "Convert_pip_spec_v1 (Convert_v1_pip_spec s) = s" "Convert_v1_pip_spec (Convert_pip_spec_v1 s') = s'"
  "Convert_pip_status_v1 (Convert_v1_pip_status t) = t" "Convert_v1_pip_status (Convert_pip_status_v1 t') = t'"
  "Convert_vm_spec_v1 (Convert_v1_vm_spec u) = u" "Convert_v1_vm_spec (Convert_vm_spec_v1 u') = u'"
  "Convert_vm_status_v1 (Convert_v1_vm_status w) = w" "Convert_v1_vm_status (Convert_vm_status_v1 w') = w'"
  by (simp_all add: Convert_pip_spec_v1_def Convert_v1_pip_spec_def Convert_pip_status_v1_def
      Convert_v1_pip_status_def Convert_vm_spec_v1_def Convert_v1_vm_spec_def Convert_vm_status_v1_def
      Convert_v1_vm_status_def)

lemma configuration_back:
  "Convert_v1_configuration (Convert_configuration_v1 c v) out = c\<lparr>cc_type_meta := cc_type_meta out\<rparr>"
  "Convert_configuration_v1 (Convert_v1_configuration v out) v' = v\<lparr>v1_cc_type_meta := v1_cc_type_meta v'\<rparr>"
  by (cases c; cases v; auto simp: Convert_v1_configuration_def Convert_configuration_v1_def
      option.map_comp comp_def option.map_ident)+

lemma resources_type_info [simp]:
  "ty_meta (Convert_v1_public_ip_address p out) = ty_meta out"
  "ty_meta (Convert_public_ip_address_v1 i out') = ty_meta out'"
  "ty_meta (Convert_v1_public_ip_address_list ps outs) = ty_meta outs"
  "ty_meta (Convert_public_ip_address_list_v1 is outs') = ty_meta outs'"
  "ty_meta (Convert_v1_virtual_machine v vout) = ty_meta vout"
  "ty_meta (Convert_virtual_machine_v1 j vout') = ty_meta vout'"
  "ty_meta (Convert_v1_virtual_machine_list vs vouts) = ty_meta vouts"
  "ty_meta (Convert_virtual_machine_list_v1 js vouts') = ty_meta vouts'"
  by (simp_all add: Convert_v1_public_ip_address_def Convert_public_ip_address_v1_def
      Convert_v1_public_ip_address_list_def Convert_public_ip_address_list_v1_def
      Convert_v1_virtual_machine_def Convert_virtual_machine_v1_def
      Convert_v1_virtual_machine_list_def Convert_virtual_machine_list_v1_def)

lemma configuration_type_info [simp]:
  "cc_type_meta (Convert_v1_configuration v out) = cc_type_meta out"
  "v1_cc_type_meta (Convert_configuration_v1 c out') = v1_cc_type_meta out'"
  by (simp_all add: Convert_v1_configuration_def Convert_configuration_v1_def)

lemma Convert_value_type:
  assumes "type_of a = (v, s)" "type_of b = (w, s)" "v \<noteq> w"
  shows "type_of (Convert_value a b) = (w, s) \<and> type_info (Convert_value a b) = type_info b"
  using assms by (cases v; cases w; cases s) (auto simp: type_of_iff)

lemma Convert_value_back:
  assumes "type_of a = (v, s)" "type_of b = (w, s)" "v \<noteq> w" "type_of a' = (v, s)"
  shows "Convert_value (Convert_value a b) a' = with_type_info (type_info a') a"
  using assms by (cases v; cases w; cases s) (auto simp: type_of_iff configuration_back)

lemma conversion_of_generated [simp]:
  "conversion_of (generated v w s) ta tb =
     (if (v, s) = ta \<and> (w, s) = tb then Some (asserting ta tb) else None)"
  by (auto simp: generated_def)

lemma azure_registered:
  "s \<in> azure_structs \<Longrightarrow> v \<noteq> w \<Longrightarrow>
   registered_conversion azure_calls (v, s) (w, s) = Some (asserting (v, s) (w, s))"
  by (cases v; cases w)
    (auto simp: azure_calls_def azure_structs_def azure_v1_addKnownTypes_def azure_addKnownTypes_def
      just_call_def azure_conversions_def)

lemma config_registered:
  "s \<in> config_structs \<Longrightarrow> v \<noteq> w \<Longrightarrow>
   registered_conversion config_calls (v, s) (w, s) = Some (asserting (v, s) (w, s))"
  by (cases v; cases w)
    (auto simp: config_calls_def config_structs_def config_v1_addKnownTypes_def config_addKnownTypes_def
      just_call_def config_conversions_def)

lemma registered_converts_back:
  assumes convert: "lawful_convert Convert"
    and registered: "\<And>v w. v \<noteq> w \<Longrightarrow> registered_conversion calls (v, s) (w, s) = Some (asserting (v, s) (w, s))"
    and "type_of a = (v, s)" "type_of b = (w, s)" "v \<noteq> w" "type_of a' = (v, s)"
  shows "converts_back (Convert calls) a b a'"
proof -
  have step: "Convert calls x y = asserting (v, s) (w, s) x y"
    if "type_of x = (v, s)" "type_of y = (w, s)" "v \<noteq> w" for v w x y
    using convert registered [OF that(3)] that by (simp add: lawful_convert_def)
  show ?thesis
    using assms(3-) Convert_value_type [OF assms(3-5)] Convert_value_back [OF assms(3-6)]
    by (simp add: converts_back_def step asserting_def)
qed

text \<open>C38: A scheme the packages are installed in converts every type of the program between its
  versions: whatever value of a type is given, and whatever value of the other version it is
  converted into, no type assertion fails, the result is of the other version, and
  converting it back gives the contents one started with. The type information of resources,
  lists and configurations (\<open>TypeMeta\<close>) is not converted: the result has the one of the value it
  was written to, there and back. The hypotheses on the library: the builder applies
  what it stores, the scheme refuses no call and converts by the function that was registered
  last for the types of its arguments.\<close>

theorem installed_conversions_round_trip:
  assumes "lawful_builder AddToScheme" "lawful_convert Convert" "\<And>c. refuse c = None"
    and "(install, structs) = (azure_install, azure_structs) \<or> (install, structs) = (config_install, config_structs)"
    and "s \<in> structs" "v \<noteq> w" "type_of a = (v, s)" "type_of b = (w, s)" "type_of a' = (v, s)"
  shows "snd (install AddToScheme refuse) = None \<and>
    converts_back (Convert (fst (install AddToScheme refuse))) a b a'"
  using assms(4)
proof
  assume "(install, structs) = (azure_install, azure_structs)"
  then show ?thesis using assms(5-) azure_install_accepted [OF assms(1,3)]
    by (auto intro: registered_converts_back [OF assms(2) azure_registered])
next
  assume "(install, structs) = (config_install, config_structs)"
  then show ?thesis using assms(5-) config_install_accepted [OF assms(1,3)]
    by (auto intro: registered_converts_back [OF assms(2) config_registered])
qed

definition example_Convert :: "scheme_call list \<Rightarrow> conversion" where
  "example_Convert cs a b =
     (case registered_conversion cs (type_of a) (type_of b) of None \<Rightarrow> None | Some f \<Rightarrow> f a b)"

text \<open>A list of one resource: the types of the list are those of the targets, the resource keeps its own.\<close>

definition typed_as :: "string \<Rightarrow> 'a \<Rightarrow> 'a api_object" where
  "typed_as k x = \<lparr>ty_meta = \<lparr>tm_kind = k, tm_api_version = ''v''\<rparr>, ty_body = x\<rparr>"

definition one_pip_list :: "public_ip_address api_object list \<Rightarrow> api_value" where
  "one_pip_list ps = V1PublicIPAddressListValue (typed_as ''a'' \<lparr>rl_meta = ''7'', rl_items = ps\<rparr>)"

theorem installed_conversions_round_trip_witness:
  "snd (azure_install apply_stored (\<lambda>_. None)) = None \<and>
   converts_back (example_Convert (fst (azure_install apply_stored (\<lambda>_. None))))
     (one_pip_list [typed_as ''pip'' (new_pip ''ns'' ''ip-1'')])
     (IntPublicIPAddressListValue (typed_as ''b'' \<lparr>rl_meta = '''', rl_items = []\<rparr>))
     (one_pip_list [])"
  by (rule installed_conversions_round_trip
      [where install = azure_install and structs = azure_structs and s = PublicIPAddressListStruct
        and v = V1alpha1 and w = InternalVersion])
    (simp_all add: azure_structs_def lawful_builder_def lawful_convert_def example_Convert_def one_pip_list_def)

end
