(* ===== verification/Change_Propagation.thy ===== *)
theory Change_Propagation
  imports Predicate_Properties Service_Controller Example_Env
begin

text \<open>
  The service filter and the service actuator together: what the filter keeps from the actuator
  would not have changed anything the actuator is responsible for, as long as the service has
  load balancer IPs.
\<close>

section \<open>What the actuator depends on\<close>

text \<open>Two versions of a service that lead to the same publicipaddress resources.\<close>

definition same_demand :: "service \<Rightarrow> service \<Rightarrow> bool" where
  "same_demand svc svc' \<longleftrightarrow>
     meta_namespace (svc_meta svc) = meta_namespace (svc_meta svc') \<and>
     meta_name (svc_meta svc) = meta_name (svc_meta svc') \<and>
     set (getServiceLoadBalancerIPs svc) = set (getServiceLoadBalancerIPs svc') \<and>
     shouldIgnoreService svc = shouldIgnoreService svc'"

lemma same_labels:
  "meta_namespace (svc_meta svc) = meta_namespace (svc_meta svc') \<Longrightarrow>
   meta_name (svc_meta svc) = meta_name (svc_meta svc') \<Longrightarrow> pubip_labels svc = pubip_labels svc'"
  by (simp add: pubip_labels_def service_ObjectLabeler_def NewNamespacedObjectLabeler_def
      namespaced_GetLabelValue_def)

lemma in_step_same_demand:
  assumes "same_demand svc svc'" "in_step e a svc es"
  shows "in_step e a svc' es"
proof -
  have labels: "pubip_labels svc = pubip_labels svc'"
    using assms(1) by (intro same_labels) (simp_all add: same_demand_def)
  have "published e a svc ip es = published e a svc' ip es" for ip
    using assms(1) by (simp add: published_def labels pip_for_ip_def same_demand_def)
  moreover have "released e svc p es = released e svc' p es" for p
    using assms(1) by (simp add: released_def same_demand_def)
  ultimately show ?thesis
    using assms by (simp add: in_step_def labels same_demand_def)
qed

text \<open>C28: A dropped update leaves a service in step. Whatever events the watch delivered and
  whatever the cache forgot: if the actuator has succeeded for the version of the service that was
  let through last, and the filter drops an update to a newer version that has load balancer
  IPs, then all that success means holds for the newer version already, without another run:
  if it is not to be ignored, each of its IPs has its publicipaddress and every listed resource
  with another IP is gone, and if it is to be ignored every listed resource was marked and is
  gone. A newer version without load balancer IPs is excepted: of such a version a change of
  the ignore flag is dropped, so its resources need not have been treated as the flag asks for. (Versions are of one service here: the cache does not tell services of
  the same name in different namespaces apart.)\<close>

theorem dropped_update_leaves_service_in_step:
  assumes "watch svc_NewPredicate svc_proj evs = (c, passed)"
    and "svc_pred_Update c (Some (Service old)) (Some (Service new)) = (False, c')"
    and "passed (meta_name (svc_meta new)) = Some (svc_NewProjection seen)"
    and "meta_name (svc_meta seen) = meta_name (svc_meta new)"
      "meta_namespace (svc_meta seen) = meta_namespace (svc_meta new)"
    and "getServiceLoadBalancerIPs new \<noteq> []"
    and "svc_CreateOrUpdate a seen e t = (Returned (Inr d), t @ es)"
  shows "(\<forall>ip \<in> set (getServiceLoadBalancerIPs new). shouldIgnoreService new \<or> published e a new ip es) \<and>
    (\<exists>pubips. KListPips (sa_namespace a) (pubip_labels new) (Inr pubips) \<in> set es \<and>
       (\<forall>p \<in> set pubips. released e new p es))"
proof -
  have "svc_same (svc_NewProjection seen) (svc_NewProjection new)"
    using svc_filter.nothing_new_dropped [OF assms(1), of "Service old" "Service new" c'] assms(2,3) by simp
  then have "same_demand seen new"
    using assms(4-6) by (simp add: svc_same_def svc_NewProjection_def same_ips_def same_demand_def)
  moreover have "in_step e a seen es"
    using yields_run [OF svc_create_spec assms(7)] by blast
  ultimately have "in_step e a new es" by (rule in_step_same_demand)
  then show ?thesis by (auto simp: in_step_def)
qed

definition served_env :: env where
  "served_env = example_env\<lparr>kListPips := (\<lambda>t ns ls. Inr [])\<rparr>"

abbreviation served_actuator :: service_actuator where
  "served_actuator \<equiv> \<lparr>sa_namespace = ''shoot'', sa_sync_period = 4 * hour\<rparr>"

theorem dropped_update_leaves_service_in_step_witness:
  "\<exists>d es. svc_CreateOrUpdate served_actuator (watched_service ''a'' [''1.1.1.1'']) served_env [] =
      (Returned (Inr d), [] @ es) \<and>
    (\<forall>ip \<in> set (getServiceLoadBalancerIPs (watched_service ''a'' [''1.1.1.1''])).
       shouldIgnoreService (watched_service ''a'' [''1.1.1.1'']) \<or>
       published served_env served_actuator (watched_service ''a'' [''1.1.1.1'']) ip es) \<and>
    (\<exists>pubips. KListPips (sa_namespace served_actuator) (pubip_labels (watched_service ''a'' [''1.1.1.1'']))
         (Inr pubips) \<in> set es \<and>
       (\<forall>p \<in> set pubips. released served_env (watched_service ''a'' [''1.1.1.1'']) p es))"
proof -
  let ?s = "watched_service ''a'' [''1.1.1.1'']"
  let ?r = "svc_CreateOrUpdate served_actuator ?s served_env []"
  have "case fst ?r of Returned (Inr d) \<Rightarrow> True | _ \<Rightarrow> False" by code_simp
  then obtain d where run: "?r = (Returned (Inr d), [] @ snd ?r)"
    by (cases ?r) (auto split: outcome.splits sum.splits)
  have seen: "snd one_service_watched (meta_name (svc_meta ?s)) = Some (svc_NewProjection ?s)"
    by (simp add: one_service_watched_def watch_def svc_pred_Create_def)
  have watched: "watch svc_NewPredicate svc_proj [Created (Service ?s)] =
      (fst one_service_watched, snd one_service_watched)" by (simp add: one_service_watched_def)
  obtain pass c' where drop: "svc_pred_Update (fst one_service_watched) (Some (Service ?s)) (Some (Service ?s)) = (pass, c')"
    by fastforce
  have "fst (svc_pred_Update (fst one_service_watched) (Some (Service ?s)) (Some (Service ?s))) = False"
    by code_simp
  then have dropped: "svc_pred_Update (fst one_service_watched) (Some (Service ?s)) (Some (Service ?s)) = (False, c')"
    using drop by simp
  have ips: "getServiceLoadBalancerIPs ?s \<noteq> []" by code_simp
  from dropped_update_leaves_service_in_step [OF watched dropped seen refl refl ips run] run
  show ?thesis by blast
qed

end
