(* ===== verification/Outages.thy ===== *)
theory Outages
  imports Pip_Properties
begin

text \<open>
  Azure is out of reach for a while: the same resource is reconciled again and again, each time
  as the API server has it stored. What the outage does to the address depends on whether it
  lasts for fewer reconciliations than the configured number of attempts.
\<close>

section \<open>A resource that is reconciled again and again\<close>

text \<open>The API server serves what is stored.\<close>

definition serving :: "env \<Rightarrow> public_ip_address \<Rightarrow> env" where
  "serving e p = e\<lparr>kGet := (\<lambda>t k key. Inr (PublicIPAddress p))\<rparr>"

text \<open>
  What an accepted call makes of a stored resource that is being deleted: a patch replaces it,
  and taking its finalizer off removes it.
\<close>

fun store_event :: "public_ip_address option \<Rightarrow> event \<Rightarrow> public_ip_address option" where
  "store_event s (KPatchPip p None p') = map_option (\<lambda>_. p') s"
| "store_event s (KRemoveFinalizer ob f None) = None"
| "store_event s ev = s"

definition stored :: "public_ip_address \<Rightarrow> trace \<Rightarrow> public_ip_address option" where
  "stored p es = foldl store_event (Some p) es"

text \<open>
  Reconciliations of the stored resource, one per environment, until it is gone: what is left,
  and the history.
\<close>

fun deliveries :: "reconciler \<Rightarrow> object_key \<Rightarrow> env list \<Rightarrow> public_ip_address \<Rightarrow> trace \<Rightarrow>
    public_ip_address option \<times> trace" where
  "deliveries rc key [] p t = (Some p, t)"
| "deliveries rc key (e # es) p t =
     (case stored p (drop (length t) (snd (Reconcile rc key (serving e p) t))) of
        None \<Rightarrow> (None, snd (Reconcile rc key (serving e p) t))
      | Some p' \<Rightarrow> deliveries rc key es p' (snd (Reconcile rc key (serving e p) t)))"

lemma store_lookups: "list_all lookup_event es \<Longrightarrow> foldl store_event s es = s"
proof (induction es arbitrary: s)
  case (Cons ev es)
  then show ?case by (cases ev) auto
qed simp

lemma serving_facts [simp]:
  "pip_lookups_fail (serving e p) rg = pip_lookups_fail e rg"
  "accepts_patches (serving e p) = accepts_patches e"
  "azure_knows (serving e p) rg q z = azure_knows e rg q z"
  "azure_accepts_cleaning (serving e p) rg = azure_accepts_cleaning e rg"
  "releases_finalizers (serving e p) = releases_finalizers e"
  "grace_elapsed (serving e p) cfg q = grace_elapsed e cfg q"
  "containsFinalizer (serving e p) = containsFinalizer e"
  "errorsCause (serving e p) = errorsCause e"
  "kGet (serving e p) t k key = Inr (PublicIPAddress p)"
  by (simp_all add: serving_def pip_lookups_fail_def accepts_patches_def azure_knows_def
      azure_accepts_cleaning_def releases_finalizers_def grace_elapsed_def split: option.split)

section \<open>During the outage\<close>

text \<open>
  No lookup is answered, the API server takes patches and removals of finalizers, the resource
  has its finalizer, and the error that asks for a requeue is found under its wrapping.
\<close>

definition outage :: "env \<Rightarrow> string \<Rightarrow> public_ip_address \<Rightarrow> bool" where
  "outage e rg p \<longleftrightarrow> pip_lookups_fail e rg \<and> accepts_patches e \<and> releases_finalizers e \<and>
     (\<forall>q. pip_meta q = pip_meta p \<longrightarrow> containsFinalizer e (PublicIPAddress q) pip_FinalizerName) \<and>
     (\<forall>msg err d. errorsCause e (Wrap msg (RequeueAfterError err d)) = RequeueAfterError err d)"

lemma Reconcile_deletes:
  assumes "meta_deletion_timestamp (pip_meta p) \<noteq> None"
  shows "Reconcile (pip_reconciler u cfg) key (serving e p) t =
    delete (pip_reconciler u cfg) (PublicIPAddress p) (serving e p)
      (t @ [KGet PublicIPAddressKind key (Inr (PublicIPAddress p))])"
  using assms by (simp add: Reconcile_def client_Get_def run_simps pip_reconciler_def)

text \<open>One reconciliation: another attempt is counted, or it was the last one and the resource is gone.\<close>

lemma outage_delivery:
  assumes out: "outage e rg p" and deleting: "meta_deletion_timestamp (pip_meta p) \<noteq> None"
    and k: "get_attempts p = of_nat k" "k < 2 ^ 62"
  shows "\<exists>p' zs. snd (Reconcile (pip_reconciler (NewPublicIPAddressUtils rg) cfg) key (serving e p) t) = t @ zs \<and>
    list_all (\<lambda>ev. \<not> write_request ev) zs \<and> pip_meta p' = pip_meta p \<and> pip_spec p' = pip_spec p \<and>
    ps_name (pip_status p') = None \<and> get_attempts p' = of_nat (Suc k) \<and>
    stored p zs = (if go_less (of_nat (Suc k)) (pc_max_get_attempts cfg) then Some p' else None)"
proof -
  let ?rc = "pip_reconciler (NewPublicIPAddressUtils rg) cfg" and ?e = "serving e p"
  let ?get = "KGet PublicIPAddressKind key (Inr (PublicIPAddress p))"
  have env: "pip_lookups_fail ?e rg" "accepts_patches ?e" "releases_finalizers ?e"
    and fin: "containsFinalizer ?e (PublicIPAddress p) pip_FinalizerName"
    and cause: "errorsCause ?e (Wrap msg (RequeueAfterError err d)) = RequeueAfterError err d" for msg err d
    using out by (simp_all add: outage_def)
  obtain ops res look now where
    run: "pip_Delete (azure_pip_actuator rg cfg) p ?e (t @ [?get]) =
      (Returned (res, p\<lparr>pip_status := build_status None ops\<rparr>),
       (t @ [?get]) @ look @ [ClockNow now, KPatchPip p None (p\<lparr>pip_status := build_status None ops\<rparr>)])"
    and outcome: "retry_outcome (pc_requeue_interval cfg) (pc_sync_period cfg) (pc_max_get_attempts cfg) k res"
    and att: "get_attempts (p\<lparr>pip_status := build_status None ops\<rparr>) = of_nat (Suc k)"
    and look: "list_all lookup_event look"
    using get_failure_calls [OF env(1,2) k, of _ cfg "t @ [?get]"] by blast
  let ?p = "p\<lparr>pip_status := build_status None ops\<rparr>"
  let ?zs = "?get # look @ [ClockNow now, KPatchPip p None ?p]"
  have act: "Delete (rc_actuator ?rc) (PublicIPAddress p) ?e (t @ [?get]) =
      (Returned (res, PublicIPAddress ?p), t @ ?zs)"
    using run by (simp add: pip_reconciler_def pip_NewActuator_def on_pip_def Let_def
        seq_run_Returned run_ret)
  have quiet: "list_all (\<lambda>ev. \<not> write_request ev) ?zs"
  proof -
    have "\<not> write_request ev" if "lookup_event ev" for ev using that by (cases ev) simp_all
    with look show ?thesis by (auto simp: list_all_iff)
  qed
  have "list_all lookup_event look \<Longrightarrow> stored p ?zs = Some ?p"
    by (simp add: stored_def store_lookups)
  then have st: "stored p ?zs = Some ?p" using look by blast
  have name: "ps_name (pip_status ?p) = None" by (simp add: build_status_def empty_pip_status_def Let_def)
  note rec = Reconcile_deletes [OF deleting, of "NewPublicIPAddressUtils rg" cfg key e t]
  show ?thesis
  proof (cases "go_less (of_nat (Suc k)) (pc_max_get_attempts cfg)")
    case True
    with outcome obtain err d where res: "res = Inl (RequeueAfterError err d)"
      by (auto simp: retry_outcome_def)
    have "delete ?rc (PublicIPAddress p) ?e (t @ [?get]) = reconcileErr
        (Wrap ''could not reconcile object deletion'' res') ?e (t @ ?zs)"
      if "res = Inl res'" for res'
      using delete_actuator_error [OF _ act [unfolded that]] fin by (simp add: pip_reconciler_def)
    then have "snd (delete ?rc (PublicIPAddress p) ?e (t @ [?get])) = t @ ?zs"
      using res reconcileErr_requeue [OF cause] by simp
    then show ?thesis using rec quiet st True att name
      by (intro exI [of _ ?p] exI [of _ ?zs]) simp
  next
    case False
    with outcome have res: "res = Inr (pc_sync_period cfg)" by (simp add: retry_outcome_def)
    let ?rm = "KRemoveFinalizer (PublicIPAddress ?p) pip_FinalizerName None"
    have "snd (delete ?rc (PublicIPAddress p) ?e (t @ [?get])) = (t @ ?zs) @ [?rm]"
      using delete_actuator_ok [OF _ act [unfolded res]] fin env(3)
      by (simp add: pip_reconciler_def Let_def releases_finalizers_def)
    then have "snd (Reconcile ?rc key ?e t) = t @ ?zs @ [?rm]" using rec by simp
    moreover have "stored p (?zs @ [?rm]) = None" using st by (simp add: stored_def)
    ultimately show ?thesis using quiet False att name
      by (intro exI [of _ ?p] exI [of _ "?zs @ [?rm]"]) simp
  qed
qed

lemma outage_cong: "pip_meta q = pip_meta p \<Longrightarrow> outage e rg q = outage e rg p"
  by (simp add: outage_def)

lemma attempts_left:
  assumes "k < m" "m < 2 ^ 62"
  shows "go_less (of_nat (Suc k)) (of_nat m) \<longleftrightarrow> Suc k < m"
  using assms sint_of_nat_small [of "Suc k"] sint_of_nat_small [of m]
  by (simp add: go_less_def del: of_nat_Suc)

text \<open>Fewer reconciliations than there are attempts left: nothing is lost but the recorded name.\<close>

lemma outage_survived:
  assumes "\<forall>e \<in> set es. outage e rg p" "meta_deletion_timestamp (pip_meta p) \<noteq> None"
    and "get_attempts p = of_nat k" "pc_max_get_attempts cfg = of_nat m" "k + length es < m" "m < 2 ^ 62"
  shows "\<exists>p' zs. deliveries (pip_reconciler (NewPublicIPAddressUtils rg) cfg) key (es @ rest) p t =
      deliveries (pip_reconciler (NewPublicIPAddressUtils rg) cfg) key rest p' (t @ zs) \<and>
    list_all (\<lambda>ev. \<not> write_request ev) zs \<and> pip_meta p' = pip_meta p \<and> pip_spec p' = pip_spec p \<and>
    (p' = p \<or> ps_name (pip_status p') = None)"
  using assms
proof (induction es arbitrary: p k t)
  case Nil
  then show ?case by (intro exI [of _ p] exI [of _ "[]"]) simp
next
  case (Cons e es)
  let ?rc = "pip_reconciler (NewPublicIPAddressUtils rg) cfg"
  have e: "outage e rg p" and k: "k < 2 ^ 62" and less: "go_less (of_nat (Suc k)) (pc_max_get_attempts cfg)"
    using Cons.prems attempts_left [of k m] by auto
  obtain p' zs where one: "snd (Reconcile ?rc key (serving e p) t) = t @ zs"
      "list_all (\<lambda>ev. \<not> write_request ev) zs" "pip_meta p' = pip_meta p" "pip_spec p' = pip_spec p"
      "ps_name (pip_status p') = None" "get_attempts p' = of_nat (Suc k)" "stored p zs = Some p'"
    using outage_delivery [OF e Cons.prems(2,3) k, of cfg key t] less by auto
  have "\<forall>e \<in> set es. outage e rg p'" "meta_deletion_timestamp (pip_meta p') \<noteq> None" "Suc k + length es < m"
    using Cons.prems(1,2,5) outage_cong [OF one(3)] one(3) by auto
  from Cons.IH [OF this(1,2) one(6) Cons.prems(4) this(3) Cons.prems(6), of "t @ zs"]
  obtain p'' zs' where "deliveries ?rc key (es @ rest) p' (t @ zs) = deliveries ?rc key rest p'' ((t @ zs) @ zs')"
    "list_all (\<lambda>ev. \<not> write_request ev) zs'" "pip_meta p'' = pip_meta p'" "pip_spec p'' = pip_spec p'"
    "p'' = p' \<or> ps_name (pip_status p'') = None" by blast
  with one show ?case by (intro exI [of _ p''] exI [of _ "zs @ zs'"]) auto
qed

text \<open>As many reconciliations as there are attempts left: the resource is gone without a write.\<close>

lemma outage_gives_up:
  assumes "\<forall>e \<in> set es. outage e rg p" "meta_deletion_timestamp (pip_meta p) \<noteq> None"
    and "get_attempts p = of_nat k" "pc_max_get_attempts cfg = of_nat m" "k < m" "m \<le> k + length es" "m < 2 ^ 62"
  shows "\<exists>zs. deliveries (pip_reconciler (NewPublicIPAddressUtils rg) cfg) key (es @ rest) p t = (None, t @ zs) \<and>
    list_all (\<lambda>ev. \<not> write_request ev) zs"
  using assms
proof (induction es arbitrary: p k t)
  case (Cons e es)
  let ?rc = "pip_reconciler (NewPublicIPAddressUtils rg) cfg"
  have e: "outage e rg p" and k: "k < 2 ^ 62"
    and less: "go_less (of_nat (Suc k)) (pc_max_get_attempts cfg) \<longleftrightarrow> Suc k < m"
    using Cons.prems attempts_left [of k m] by auto
  obtain p' zs where one: "snd (Reconcile ?rc key (serving e p) t) = t @ zs"
      "list_all (\<lambda>ev. \<not> write_request ev) zs" "pip_meta p' = pip_meta p"
      "get_attempts p' = of_nat (Suc k)" "stored p zs = (if Suc k < m then Some p' else None)"
    using outage_delivery [OF e Cons.prems(2,3) k, of cfg key t] less by auto
  show ?case
  proof (cases "Suc k < m")
    case True
    have "\<forall>e \<in> set es. outage e rg p'" "meta_deletion_timestamp (pip_meta p') \<noteq> None" "m \<le> Suc k + length es"
      using Cons.prems(1,2,6) outage_cong [OF one(3)] one(3) by auto
    from Cons.IH [OF this(1,2) one(4) Cons.prems(4) True this(3) Cons.prems(7), of "t @ zs"]
    obtain zs' where "deliveries ?rc key (es @ rest) p' (t @ zs) = (None, (t @ zs) @ zs')"
      "list_all (\<lambda>ev. \<not> write_request ev) zs'" by blast
    with one True show ?thesis by (intro exI [of _ "zs @ zs'"]) auto
  qed (use one in \<open>intro exI [of _ zs]; simp\<close>)
qed simp

section \<open>After the outage\<close>

lemma azure_knows_cong:
  "pip_meta q = pip_meta p \<Longrightarrow> pip_spec q = pip_spec p \<Longrightarrow> ps_name (pip_status q) = ps_name (pip_status p) \<Longrightarrow>
   azure_knows e rg q z = azure_knows e rg p z"
  by (simp add: azure_knows_def cong: option.case_cong)

text \<open>Azure and the API server answer again, and the address can be found by name and by listing.\<close>

definition back_again :: "env \<Rightarrow> string \<Rightarrow> pip_config \<Rightarrow> public_ip_address \<Rightarrow> az_public_ip \<Rightarrow> bool" where
  "back_again e rg cfg p z \<longleftrightarrow>
     azure_knows e rg p z \<and> azure_knows e rg (p\<lparr>pip_status := empty_pip_status\<rparr>) z \<and>
     azure_accepts_cleaning e rg \<and> accepts_patches e \<and> releases_finalizers e \<and> grace_elapsed e cfg p \<and>
     (\<forall>q. pip_meta q = pip_meta p \<longrightarrow> containsFinalizer e (PublicIPAddress q) pip_FinalizerName)"

lemma back_again_delivery:
  assumes again: "back_again e rg cfg p z" "az_ip_id z = Some i" "az_ip_name z = Some n"
    and deleting: "meta_deletion_timestamp (pip_meta p) \<noteq> None" "\<not> shouldNotClean p"
    and q: "pip_meta q = pip_meta p" "pip_spec q = pip_spec p" "q = p \<or> ps_name (pip_status q) = None"
  shows "\<exists>zs. deliveries (pip_reconciler (NewPublicIPAddressUtils rg) cfg) key [e] q t = (None, t @ zs) \<and>
    cleans rg i n zs"
proof -
  let ?rc = "pip_reconciler (NewPublicIPAddressUtils rg) cfg"
  have knows: "azure_knows e rg q z"
    using q(3)
  proof
    assume "ps_name (pip_status q) = None"
    then show ?thesis
      using azure_knows_cong [of q "p\<lparr>pip_status := empty_pip_status\<rparr>" e rg z] again(1) q(1,2)
      by (simp add: back_again_def empty_pip_status_def)
  qed (use again(1) in \<open>simp add: back_again_def\<close>)
  have q': "meta_deletion_timestamp (pip_meta q) \<noteq> None" "\<not> shouldNotClean q" "grace_elapsed e cfg q"
    using deleting q(1) again(1) by (simp_all add: back_again_def grace_elapsed_def shouldNotClean_def)
  have "\<exists>p' es. Reconcile ?rc key (serving e q) t = (Returned (Inr empty_result),
      t @ es @ [KRemoveFinalizer (PublicIPAddress p') pip_FinalizerName None]) \<and> cleans rg i n es \<and>
      \<not> ps_exists (pip_status p')"
    using again q' q(1) knows by (intro Reconcile_cleans [where z = z]) (simp_all add: back_again_def)
  then obtain p' es where run: "Reconcile ?rc key (serving e q) t = (Returned (Inr empty_result),
      t @ es @ [KRemoveFinalizer (PublicIPAddress p') pip_FinalizerName None])" "cleans rg i n es"
    by blast
  have "cleans rg i n (es @ ys)" for ys using cleans_around [OF run(2), of "[]"] by simp
  then show ?thesis using run(1) by (auto simp: stored_def)
qed

text \<open>C12: An outage of Azure decides whether an address leaks. A resource that is being deleted,
  past its grace period, is reconciled while no lookup is answered, and again when Azure is back.
  If the outage lasts for fewer reconciliations than the configured maximum of attempts, the address is
  taken off the load balancer and deleted by the first reconciliation after it, although the
  failed ones have forgotten its name; if it lasts for as many or more, the resource is gone when
  Azure is back and no write was ever sent: the address stays in Azure and nothing refers to it.\<close>

theorem outage_decides_the_leak:
  assumes "\<forall>e \<in> set es. outage e rg p" "back_again e' rg cfg p z" "az_ip_id z = Some i" "az_ip_name z = Some n"
    and "meta_deletion_timestamp (pip_meta p) \<noteq> None" "\<not> shouldNotClean p" "get_attempts p = 0"
    and "pc_max_get_attempts cfg = of_nat m" "0 < m" "m < 2 ^ 62"
  shows "\<exists>zs. deliveries (pip_reconciler (NewPublicIPAddressUtils rg) cfg) key (es @ [e']) p t = (None, t @ zs) \<and>
    (if length es < m then cleans rg i n zs else list_all (\<lambda>ev. \<not> write_request ev) zs)"
proof (cases "length es < m")
  case True
  let ?rc = "pip_reconciler (NewPublicIPAddressUtils rg) cfg"
  obtain q zs where q: "deliveries ?rc key (es @ [e']) p t = deliveries ?rc key [e'] q (t @ zs)"
    "pip_meta q = pip_meta p" "pip_spec q = pip_spec p" "q = p \<or> ps_name (pip_status q) = None"
    using outage_survived [OF assms(1,5), of 0 cfg m key "[e']" t] assms(7,8,10) True by auto
  from back_again_delivery [OF assms(2-6) q(2-4), of key "t @ zs"]
  obtain ys where ys: "deliveries ?rc key [e'] q (t @ zs) = (None, (t @ zs) @ ys)" "cleans rg i n ys" by blast
  have "cleans rg i n (zs @ ys)" using cleans_around [OF ys(2), of zs "[]"] by simp
  then show ?thesis using q(1) ys(1) True by auto
next
  case False
  then show ?thesis
    using outage_gives_up [OF assms(1,5), of 0 cfg m key "[e']" t] assms(7-10) by auto
qed

text \<open>Azure answers no lookup; apart from that, the environment of a cleaning that succeeds.\<close>

definition cut_off_env :: env where
  "cut_off_env = expired_env\<lparr>
     azPipGet := (\<lambda>t rg n. Inl (ExternalError ''429'')), azPipList := (\<lambda>t rg. Inl (ExternalError ''429''))\<rparr>"

lemma cut_off: "outage cut_off_env rg deleted_pip"
  by (simp add: outage_def cut_off_env_def expired_env_def orphan_env_def pip_lookups_fail_def
      accepts_patches_def releases_finalizers_def deleted_pip_def)

lemma expired_back_again:
  "back_again expired_env rg pip_default_config deleted_pip (orphan_ip\<lparr>az_ip_tags := [ServiceTag \<mapsto> Some ''/'']\<rparr>)"
proof -
  have "deleted_pip\<lparr>pip_status := empty_pip_status\<rparr> = deleted_pip"
    by (simp add: deleted_pip_def new_pip_def)
  moreover have "containsFinalizer expired_env (PublicIPAddress q) pip_FinalizerName"
    if "pip_meta q = pip_meta deleted_pip" for q
    using that deleted_pip_facts(3) by (simp add: expired_env_def orphan_env_def)
  ultimately show ?thesis
    using expired_env_facts expired_known by (simp add: back_again_def)
qed

abbreviation deleted_key :: object_key where
  "deleted_key \<equiv> \<lparr>key_namespace = ''shoot'', key_name = ''ip-1''\<rparr>"

theorem outage_decides_the_leak_witness:
  "(\<exists>zs. deliveries (pip_reconciler (NewPublicIPAddressUtils ''shoot'') pip_default_config) deleted_key
      (replicate 3 cut_off_env @ [expired_env]) deleted_pip [] = (None, [] @ zs) \<and> cleans ''shoot'' ''/ip-1'' ''ip-1'' zs) \<and>
   (\<exists>zs. deliveries (pip_reconciler (NewPublicIPAddressUtils ''shoot'') pip_default_config) deleted_key
      (replicate 5 cut_off_env @ [expired_env]) deleted_pip [] = (None, [] @ zs) \<and>
      list_all (\<lambda>ev. \<not> write_request ev) zs)"
proof -
  have none: "get_attempts deleted_pip = 0"
    by (simp add: deleted_pip_def new_pip_def get_attempts_def getFailedOperations_def attempts_of_def empty_pip_status_def)
  have mx: "pc_max_get_attempts pip_default_config = of_nat 5" by (simp add: pip_default_config_def)
  have ip: "az_ip_id (orphan_ip\<lparr>az_ip_tags := [ServiceTag \<mapsto> Some ''/'']\<rparr>) = Some ''/ip-1''"
    "az_ip_name (orphan_ip\<lparr>az_ip_tags := [ServiceTag \<mapsto> Some ''/'']\<rparr>) = Some ''ip-1''"
    by (simp_all add: orphan_ip_def)
  have out: "\<forall>e \<in> set (replicate n cut_off_env). outage e ''shoot'' deleted_pip" for n
    using cut_off by simp
  note leak = outage_decides_the_leak [OF out expired_back_again ip deleted_pip_facts(1,2) none mx,
      where key = deleted_key and t = "[]"]
  from leak [of 3] leak [of 5] show ?thesis by simp
qed

end
