(* ===== verification/Node_Lifecycle.thy ===== *)
theory Node_Lifecycle
  imports Service_Properties Vm_Properties
begin

text \<open>
  The repair of a node's machine across the two controllers that share a virtualmachine
  resource: the node controller writes the node's provider id into the resource, the
  virtualmachine controller finds the machine by it and reapplies it when it has failed. What
  joins the two steps is the API server, and the recovery itself is Azure's; both are
  hypotheses on the environment.
\<close>

section \<open>A failed machine that a reapply repairs\<close>

fun reapply_accepted :: "event \<Rightarrow> bool" where
  "reapply_accepted (AzVmReapply _ _ None) = True"
| "reapply_accepted _ = False"

text \<open>
  From the given history on, Azure reports \<open>v\<close> until it has accepted a reapply and \<open>v'\<close> after
  it, and it accepts one.
\<close>

definition repaired_by_reapply :: "env \<Rightarrow> string \<Rightarrow> string \<Rightarrow> trace \<Rightarrow> az_vm \<Rightarrow> az_vm \<Rightarrow> bool" where
  "repaired_by_reapply e rg n t v v' \<longleftrightarrow>
     vm_getProvisioningState v = Failed \<and> vm_getProvisioningState v' = Succeeded \<and>
     (\<forall>es. azVmGet e (t @ es) rg n = Inr (if list_ex reapply_accepted es then v' else v) \<and>
        azVmReapply e (t @ es) rg n = None \<and> azVmReapplyWait e (t @ es) = None)"

text \<open>The API server puts a finalizer on a virtualmachine: only its metadata change.\<close>

definition finalizes_vms :: "env \<Rightarrow> bool" where
  "finalizes_vms e \<longleftrightarrow>
     (\<forall>t vm f. \<exists>m. kAddFinalizer e t (VirtualMachine vm) f =
        (None, VirtualMachine (vm\<lparr>vm_meta := m\<rparr>)))"

text \<open>
  The resource is served with the spec that was written, not being deleted, and with a status
  that names no other machine.
\<close>

definition vm_served :: "env \<Rightarrow> trace \<Rightarrow> string \<Rightarrow> virtual_machine \<Rightarrow> bool" where
  "vm_served e t n vm' \<longleftrightarrow>
     (\<exists>vm. kGet e t VirtualMachineKind (obj_key (VirtualMachine vm')) = Inr (VirtualMachine vm) \<and>
        meta_deletion_timestamp (vm_meta vm) = None \<and> vm_spec vm = vm_spec vm' \<and>
        (vs_name (vm_status vm) = None \<or> vs_name (vm_status vm) = Some n))"

lemma served_name:
  assumes "vm_spec vm = vm_spec vm'" "vs_name (vm_status vm) = None \<or> vs_name (vm_status vm) = Some n"
    and "vs_provider_id (vm_spec vm') = u @ CHR ''/'' # n" "u \<noteq> []" "CHR ''/'' \<notin> set n"
  shows "getVirtualMachineName (vm\<lparr>vm_meta := m\<rparr>) = n"
  using assms vm_name_is_last_segment [of "vm\<lparr>vm_meta := m\<rparr>" n u]
  by (auto simp: getVirtualMachineName_def [of "vm\<lparr>vm_meta := m\<rparr>"])

text \<open>The run of the actuator: the machine is reapplied once and found Succeeded.\<close>

lemma vm_create_repairs:
  assumes "repaired_by_reapply e rg (getVirtualMachineName vm) t v v'" "accepts_vm_patches e"
  shows "\<exists>vm1 vm2. vm_CreateOrUpdate (azure_vm_actuator rg cfg) vm e t =
    (Returned (Inr (vc_sync_period cfg), vm2),
     t @ [CounterInc ReadRequests, AzVmGet rg (getVirtualMachineName vm) (Inr v),
       KPatchVm vm None vm1, GaugeSet (getVirtualMachineName vm) VMStateFailedWillReapply,
       CounterInc WriteRequests, AzVmReapply rg (getVirtualMachineName vm) None,
       CounterInc ReadRequests, AzVmReapplyWait None,
       CounterInc ReadRequests, AzVmGet rg (getVirtualMachineName vm) (Inr v'),
       CounterInc ReappliedVMs, GaugeSet (getVirtualMachineName vm) VMStateOK,
       KPatchVm vm1 None vm2]) \<and>
    vs_exists (vm_status vm2) \<and> vs_provisioning_state (vm_status vm2) = Some Succeeded"
proof -
  have azure: "azVmGet e (t @ es) rg (getVirtualMachineName vm) =
        Inr (if list_ex reapply_accepted es then v' else v)"
      "azVmReapply e (t @ es) rg (getVirtualMachineName vm) = None"
      "azVmReapplyWait e (t @ es) = None" for es
    using assms(1) unfolding repaired_by_reapply_def by simp_all
  have st: "vm_getProvisioningState v = Failed" "vm_getProvisioningState v' = Succeeded"
    using assms(1) unfolding repaired_by_reapply_def by simp_all
  have up: "updateVirtualMachineStatus w z ops e t' =
      (Returned (None, w\<lparr>vm_status := vm_build_status z ops\<rparr>),
       t' @ [KPatchVm w None (w\<lparr>vm_status := vm_build_status z ops\<rparr>)])" for w z ops t'
    using assms(2) by (simp add: run_update_vm_status accepts_vm_patches_def)
  have st': "vs_exists (vm_build_status (Some v') ops) \<and>
      vs_provisioning_state (vm_build_status (Some v') ops) = Some Succeeded" for ops
    using st(2) by (auto simp: vm_build_status_def vm_getProvisioningState_def Let_def split: option.splits)
  have get: "getAzureVirtualMachine (azure_vm_actuator rg cfg) (getVirtualMachineName vm) e t =
      (Returned (Inr (Some v)), t @ [CounterInc ReadRequests, AzVmGet rg (getVirtualMachineName vm) (Inr v)])"
    using azure(1) by (simp add: getAzureVirtualMachine_def VmGet_impl_def vm_client_defs run_simps)
  show ?thesis
    using azure st
    by (simp add: vm_CreateOrUpdate_def Let_def seq_run_Returned get up vm_reapply_def seq_emit
        reapplyAzureVirtualMachine_def VmReapply_impl_def VmGet_impl_def vm_client_defs run_simps
        setVMStatesGauge_def vm_transient_def st')
qed
lemma repaired_later:
  assumes "repaired_by_reapply e rg n t v v'" "\<not> list_ex reapply_accepted xs"
  shows "repaired_by_reapply e rg n (t @ xs) v v'"
  unfolding repaired_by_reapply_def
proof (intro conjI allI)
  fix es
  show "azVmGet e ((t @ xs) @ es) rg n = Inr (if list_ex reapply_accepted es then v' else v)"
    "azVmReapply e ((t @ xs) @ es) rg n = None" "azVmReapplyWait e ((t @ xs) @ es) = None"
    using assms unfolding repaired_by_reapply_def by simp_all
qed (use assms(1) in \<open>simp_all add: repaired_by_reapply_def\<close>)

text \<open>The reconciliation that repairs the machine, as its effects and its result show.\<close>

definition machine_repaired :: "env \<Rightarrow> string \<Rightarrow> vm_config \<Rightarrow> trace \<Rightarrow> object_key \<Rightarrow> string \<Rightarrow> bool" where
  "machine_repaired e rg cfg t key n \<longleftrightarrow>
     (\<exists>es vm vm'. Reconcile (vm_reconciler (NewVirtualMachineUtils rg) cfg) key e t =
        (Returned (Inr (requeue_result (vc_sync_period cfg))), t @ es @ [KPatchVm vm None vm']) \<and>
        filter write_request es = [AzVmReapply rg n None] \<and> last_gauge es = Some (GaugeSet n VMStateOK) \<and>
        vs_exists (vm_status vm') \<and> vs_provisioning_state (vm_status vm') = Some Succeeded)"

lemma served_machine_is_repaired:
  assumes "vm_served e t n vm'" "finalizes_vms e" "accepts_vm_patches e"
    and "vs_provider_id (vm_spec vm') = u @ CHR ''/'' # n" "u \<noteq> []" "CHR ''/'' \<notin> set n"
    and "repaired_by_reapply e rg n t v v'"
  shows "machine_repaired e rg cfg t (obj_key (VirtualMachine vm')) n"
proof -
  obtain vm where vm: "kGet e t VirtualMachineKind (obj_key (VirtualMachine vm')) = Inr (VirtualMachine vm)"
      "meta_deletion_timestamp (vm_meta vm) = None" "vm_spec vm = vm_spec vm'"
      "vs_name (vm_status vm) = None \<or> vs_name (vm_status vm) = Some n"
    using assms(1) unfolding vm_served_def by blast
  let ?got = "KGet VirtualMachineKind (obj_key (VirtualMachine vm')) (Inr (VirtualMachine vm))"
  obtain m where m: "kAddFinalizer e (t @ [?got]) (VirtualMachine vm) vm_FinalizerName =
      (None, VirtualMachine (vm\<lparr>vm_meta := m\<rparr>))"
    using assms(2) unfolding finalizes_vms_def by blast
  let ?vm = "vm\<lparr>vm_meta := m\<rparr>"
  let ?pre = "[?got, KAddFinalizer (VirtualMachine vm) vm_FinalizerName None]"
  have n: "getVirtualMachineName ?vm = n"
    by (rule served_name [OF vm(3,4) assms(4-6)])
  have "repaired_by_reapply e rg (getVirtualMachineName ?vm) (t @ ?pre) v v'"
    unfolding n by (rule repaired_later [OF assms(7)]) simp
  from vm_create_repairs [OF this assms(3), of cfg, unfolded n]
  obtain vm1 vm2 where run: "vm_CreateOrUpdate (azure_vm_actuator rg cfg) ?vm e (t @ ?pre) =
    (Returned (Inr (vc_sync_period cfg), vm2),
     (t @ ?pre) @ [CounterInc ReadRequests, AzVmGet rg n (Inr v), KPatchVm ?vm None vm1,
       GaugeSet n VMStateFailedWillReapply, CounterInc WriteRequests, AzVmReapply rg n None,
       CounterInc ReadRequests, AzVmReapplyWait None, CounterInc ReadRequests, AzVmGet rg n (Inr v'),
       CounterInc ReappliedVMs, GaugeSet n VMStateOK, KPatchVm vm1 None vm2])"
    and st: "vs_exists (vm_status vm2)" "vs_provisioning_state (vm_status vm2) = Some Succeeded"
    by blast
  show ?thesis
    unfolding machine_repaired_def
    using st vm(1,2) m run
    by (simp add: Reconcile_def client_Get_def createOrUpdate_def AddFinalizers_def
        actuator_CreateOrUpdate_def vm_reconciler_def vm_NewActuator_def on_vm_def Let_def run_simps
        seq_run_Returned)
qed

section \<open>Properties\<close>

text \<open>C9: From a node to its repaired machine, across both controllers: once \<open>CreateOrUpdate\<close> of a
  node whose provider id ends in a machine's name has succeeded, the resource it wrote leads the
  virtualmachine controller to that machine. If the API server then serves the resource,
  and Azure reports the machine as failed, accepts a reapply and reports it as succeeded
  afterwards, then, whatever happened in between, the next reconciliation sends exactly one
  request that changes Azure, the reapply of that machine; it ends with the gauge at OK and
  the status Succeeded, and is due again after the sync period.\<close>

theorem failed_node_is_repaired:
  assumes "node_CreateOrUpdate a nd e t = (Returned (Inr d), t @ es)" "create_vm_lawful e"
    and "node_provider_id nd = u @ CHR ''/'' # n" "u \<noteq> []" "CHR ''/'' \<notin> set n"
    and "\<And>vm vm'. KCreateOrUpdateVm vm None vm' \<in> set es \<Longrightarrow> vm_served e (t @ es @ mid) n vm'"
    and "repaired_by_reapply e rg n (t @ es @ mid) v v'" "finalizes_vms e" "accepts_vm_patches e"
  shows "\<exists>vm vm'. KCreateOrUpdateVm vm None vm' \<in> set es \<and> mirrors_node nd vm' \<and>
    machine_repaired e rg cfg (t @ es @ mid) (obj_key (VirtualMachine vm')) n"
proof -
  obtain es' where "t @ es = t @ es'" "mirrored e nd es'"
    using yields_run [OF node_create_spec assms(1)] by auto
  then obtain vm vm' where vm': "KCreateOrUpdateVm vm None vm' \<in> set es" "mirrors_node nd vm'"
    using assms(2) unfolding mirrored_def by auto
  then have "vs_provider_id (vm_spec vm') = u @ CHR ''/'' # n"
    using assms(3) by (simp add: mirrors_node_def)
  with vm' served_machine_is_repaired [OF assms(6) assms(8,9) _ assms(4,5,7)]
  show ?thesis by blast
qed
text \<open>
  An instance: the example node's machine has failed, and a reapply repairs it.
\<close>

definition node_machine :: virtual_machine where
  "node_machine = mutate_vm example_node (new_vm ''shoot'' ''node-1'')"

definition node_written :: trace where
  "node_written = [KCreateOrUpdateVm (new_vm ''shoot'' ''node-1'') None node_machine]"

definition repairing_env :: env where
  "repairing_env = example_env\<lparr>
     kGet := (\<lambda>t k key. Inr (VirtualMachine node_machine)),
     azVmGet := (\<lambda>t rg n. Inr (vm_in_state (if list_ex reapply_accepted t then Succeeded else Failed)))\<rparr>"

lemma repairing_env_facts:
  "create_vm_lawful repairing_env" "finalizes_vms repairing_env" "accepts_vm_patches repairing_env"
  "repaired_by_reapply repairing_env rg n (node_written @ []) (vm_in_state Failed) (vm_in_state Succeeded)"
proof -
  have "\<exists>m. vm = vm\<lparr>vm_meta := m\<rparr>" for vm :: virtual_machine
    by (rule exI [of _ "vm_meta vm"]) simp
  then show "finalizes_vms repairing_env" by (simp add: finalizes_vms_def repairing_env_def)
qed (auto simp: create_vm_lawful_def accepts_vm_patches_def repairing_env_def
    repaired_by_reapply_def node_written_def vm_in_state_def vm_getProvisioningState_def)

lemma repairing_env_serves:
  "KCreateOrUpdateVm vm None vm' \<in> set node_written \<Longrightarrow> vm_served repairing_env t n vm'"
  by (simp add: node_written_def vm_served_def repairing_env_def node_machine_def mutate_vm_def
      new_vm_def empty_meta_def empty_vm_status_def)

lemma node_written_run:
  "node_CreateOrUpdate \<lparr>na_namespace = ''shoot'', na_sync_period = 4 * hour\<rparr> example_node repairing_env [] =
    (Returned (Inr (4 * hour)), [] @ node_written)"
  by (simp add: node_CreateOrUpdate_def RetryOnConflict_def CreateOrUpdateVm_def run_simps
      repairing_env_def node_written_def node_machine_def vm_for_def example_node_def empty_meta_def
      numeral_3_eq_3)

theorem failed_node_is_repaired_witness:
  "\<exists>vm vm'. KCreateOrUpdateVm vm None vm' \<in> set node_written \<and> mirrors_node example_node vm' \<and>
    machine_repaired repairing_env ''shoot'' vm_default_config ([] @ node_written @ [])
      (obj_key (VirtualMachine vm')) ''node-1''"
proof (rule failed_node_is_repaired [OF node_written_run repairing_env_facts(1)])
  show "node_provider_id example_node = ''azure://'' @ CHR ''/'' # ''node-1''"
    by (simp add: example_node_def)
  show "repaired_by_reapply repairing_env ''shoot'' ''node-1'' ([] @ node_written @ [])
      (vm_in_state Failed) (vm_in_state Succeeded)"
    using repairing_env_facts(4) by simp
qed (simp_all add: repairing_env_facts repairing_env_serves)
end
