(* ===== verification/Command_Line.thy ===== *)
theory Command_Line
  imports Setup Orphan_Properties
begin

text \<open>
  The two programs as they are started: the flags they define, what parsing the arguments hands
  to the commands of \<open>Setup\<close>, the metrics they register, and how the processes end
  (\<open>main.go\<close> of both commands, \<open>commands/root.go\<close>, \<open>commands/version.go\<close>, \<open>pkg/version\<close>, the \<open>AddFlags\<close> methods
  of \<open>pkg/cmd\<close>). The command library, its flags and the metrics registry are parameters.
\<close>

section \<open>Flags\<close>

record cli_flag =
  cf_name :: string
  cf_default :: string
  cf_required :: bool

definition StringVar :: "string \<Rightarrow> string \<Rightarrow> cli_flag" where
  "StringVar name val = \<lparr>cf_name = name, cf_default = val, cf_required = False\<rparr>"

definition MarkFlagRequired :: "string \<Rightarrow> cli_flag list \<Rightarrow> cli_flag list" where
  "MarkFlagRequired name = map (\<lambda>f. if cf_name f = name then f\<lparr>cf_required := True\<rparr> else f)"

text \<open>A command: its name, its flags and the names of its subcommands.\<close>

record cli_command =
  cmd_use :: string
  cmd_flags :: "cli_flag list"
  cmd_commands :: "string list"

text \<open>What the library makes of the arguments: it runs a command with a value for every flag, or prints help.\<close>

datatype invocation = RunCommand string "string \<Rightarrow> string" | ShowHelp

text \<open>
  The libraries: the flags that the options of the extensions library define, by the manager, the
  number of workers or the names of the switches; the prefixing of flags; \<open>Execute\<close> of the command
  library, and the value the arguments give a flag, if any.
\<close>

record cli_env = setup_env +
  restFlags :: "cli_flag list"
  managerFlags :: "cluster \<Rightarrow> cli_flag list"
  controllerFlags :: "int \<Rightarrow> cli_flag list"
  switchFlags :: "string list \<Rightarrow> cli_flag list"
  prefixOption :: "string \<Rightarrow> cli_flag list \<Rightarrow> cli_flag list"
  execute :: "cli_command \<Rightarrow> string list \<Rightarrow> goerr + invocation"
  flagGiven :: "string list \<Rightarrow> string \<Rightarrow> string option"

section \<open>The controller command\<close>

definition NamespaceFlag :: string where "NamespaceFlag = ''namespace''"

definition InfraConfigPathFlag :: string where "InfraConfigPathFlag = ''infrastructure-config''"

definition config_AddFlags :: "cli_flag list" where
  "config_AddFlags = [StringVar ''config-file'' '''']"

definition reconciler_AddFlags :: "reconciler_options \<Rightarrow> cli_flag list" where
  "reconciler_AddFlags c = [StringVar InfraConfigPathFlag (ro_infra_config_path c)]"

definition manager_AddFlags :: "('a cli_env_scheme) \<Rightarrow> cluster \<Rightarrow> string \<Rightarrow> cli_flag list" where
  "manager_AddFlags le mgr namespace = managerFlags le mgr @ [StringVar NamespaceFlag namespace]"

definition NewControllerManagerCommand :: "('a cli_env_scheme) \<Rightarrow> cli_command" where
  "NewControllerManagerCommand le =
     \<lparr>cmd_use = ''remedy-controller-azure'',
      cmd_flags = restFlags le @ manager_AddFlags le ControlCluster ''kube-system'' @
        prefixOption le ''target-'' (restFlags le) @
        prefixOption le ''target-'' (manager_AddFlags le TargetCluster '''') @
        prefixOption le ''publicipaddress-'' (controllerFlags le 5) @
        prefixOption le ''virtualmachine-'' (controllerFlags le 5) @
        prefixOption le ''service-'' (controllerFlags le 5) @
        prefixOption le ''node-'' (controllerFlags le 5) @
        config_AddFlags @ switchFlags le [pip_ControllerName, vm_ControllerName] @
        prefixOption le ''target-'' (switchFlags le [svc_ControllerName, node_ControllerName]) @
        reconciler_AddFlags \<lparr>ro_infra_config_path = '''', ro_config = None\<rparr>,
      cmd_commands = []\<rparr>"

text \<open>\<open>Config.Apply\<close> and \<open>Config.Options\<close>, which the command does not use: the whole configuration.\<close>

definition config_Apply :: "controller_configuration \<Rightarrow> controller_configuration \<Rightarrow> controller_configuration" where
  "config_Apply c cfg = c"

definition config_Options :: "controller_configuration \<Rightarrow> controller_configuration" where
  "config_Options c = config_Apply c empty_configuration"

text \<open>The flags the code reads itself.\<close>

definition flags_of :: "(string \<Rightarrow> string) \<Rightarrow> flags" where
  "flags_of vals =
     \<lparr>fl_config_file = vals ''config-file'', fl_infrastructure_config = vals InfraConfigPathFlag,
      fl_namespace = vals NamespaceFlag, fl_target_namespace = vals (''target-'' @ NamespaceFlag)\<rparr>"

text \<open>The exit code of \<open>main\<close>, \<open>None\<close> while the managers run; \<open>ends\<close> is how they have ended so far.\<close>

definition controller_main :: "('a cli_env_scheme) \<Rightarrow> string list \<Rightarrow> goerr option list \<Rightarrow> nat option" where
  "controller_main le args ends =
     (case execute le (NewControllerManagerCommand le) args of
        Inl err \<Rightarrow> Some 1
      | Inr ShowHelp \<Rightarrow> Some 0
      | Inr (RunCommand use vals) \<Rightarrow> command_exit (run le (flags_of vals)) ends)"

section \<open>The applier command\<close>

definition getVersionCommand :: cli_command where
  "getVersionCommand = \<lparr>cmd_use = ''version'', cmd_flags = [], cmd_commands = []\<rparr>"

definition GetRootCommand :: cli_command where
  "GetRootCommand =
     \<lparr>cmd_use = ''azure-remedy-applier'',
      cmd_flags = MarkFlagRequired ''infrastructure-config'' (MarkFlagRequired ''kubeconfig''
        [StringVar ''kubeconfig'' '''', StringVar ''infrastructure-config'' '''', StringVar ''log-level'' ''info'']),
      cmd_commands = [cmd_use getVersionCommand]\<rparr>"

text \<open>\<open>version.Get\<close>, over the variables the build sets and those of the Go runtime.\<close>

record version_info =
  Version :: string
  GitCommit :: string
  BuildDate :: string
  GoVersion :: string
  GoCompiler :: string
  GOOS :: string
  GOARCH :: string

definition newline :: string where "newline = [CHR 0x0A]"

definition version_Get :: "version_info \<Rightarrow> string" where
  "version_Get v =
     ''version : '' @ Version v @ newline @
     ''git commit  : '' @ GitCommit v @ newline @
     ''build date  : '' @ BuildDate v @ newline @
     ''go version  : '' @ GoVersion v @ newline @
     ''go compiler : '' @ GoCompiler v @ newline @
     ''platform    : '' @ GOOS v @ ''/'' @ GOARCH v"

text \<open>
  The process: what it has done so far and its exit code, \<open>None\<close> while it runs. The loop runs in the
  background and \<open>main\<close> waits for a signal, so the process also goes on when the loop has returned.
  A signal, which the environment's \<open>ctxDone\<close> shows to the loop, ends the process after five seconds, wherever
  the loop is then; a panic of the loop ends it at once.
\<close>

inductive applier_process :: "('a cli_env_scheme) \<Rightarrow> string list \<Rightarrow> env \<Rightarrow> trace \<Rightarrow> nat option \<Rightarrow> bool"
  for le args e where
  refused: "execute le GetRootCommand args = Inl err \<Longrightarrow> applier_process le args e [] (Some 1)"
| helped: "execute le GetRootCommand args = Inr ShowHelp \<Longrightarrow> applier_process le args e [] (Some 0)"
| versioned: "execute le GetRootCommand args = Inr (RunCommand use vals) \<Longrightarrow> use = cmd_use getVersionCommand \<Longrightarrow>
    applier_process le args e [] (Some 0)"
| unconnected: "execute le GetRootCommand args = Inr (RunCommand use vals) \<Longrightarrow> use = cmd_use GetRootCommand \<Longrightarrow>
    applier_run le (vals ''kubeconfig'') (vals ''infrastructure-config'') = Inl err \<Longrightarrow>
    applier_process le args e [] (Some 1)"
| working: "execute le GetRootCommand args = Inr (RunCommand use vals) \<Longrightarrow> use = cmd_use GetRootCommand \<Longrightarrow>
    applier_run le (vals ''kubeconfig'') (vals ''infrastructure-config'') = Inr loop \<Longrightarrow>
    applier_process le args e (take n (snd (loop fuel e []))) None"
| stopped: "execute le GetRootCommand args = Inr (RunCommand use vals) \<Longrightarrow> use = cmd_use GetRootCommand \<Longrightarrow>
    applier_run le (vals ''kubeconfig'') (vals ''infrastructure-config'') = Inr loop \<Longrightarrow>
    applier_process le args e (take n (snd (loop fuel e []))) (Some 0)"
| crashed: "execute le GetRootCommand args = Inr (RunCommand use vals) \<Longrightarrow> use = cmd_use GetRootCommand \<Longrightarrow>
    applier_run le (vals ''kubeconfig'') (vals ''infrastructure-config'') = Inr loop \<Longrightarrow>
    loop fuel e [] = (Panicked msg, es) \<Longrightarrow> applier_process le args e es (Some 2)"

section \<open>Metrics\<close>

text \<open>
  The names of the collectors, which the \<open>init\<close> functions of three packages register.
\<close>

definition ReadRequestsCounter_name :: string where
  "ReadRequestsCounter_name = ''azure_read_requests_total''"

definition WriteRequestsCounter_name :: string where
  "WriteRequestsCounter_name = ''azure_write_requests_total''"

definition CleanedIPsCounter_name :: string where
  "CleanedIPsCounter_name = ''cleaned_azure_public_ips_total''"

definition ReappliedVMsCounter_name :: string where
  "ReappliedVMsCounter_name = ''reapplied_azure_virtual_machines_total''"

definition VMStatesGaugeVec_name :: string where
  "VMStatesGaugeVec_name = ''azure_virtual_machine_states''"

lemmas metric_names = ReadRequestsCounter_name_def WriteRequestsCounter_name_def CleanedIPsCounter_name_def
  ReappliedVMsCounter_name_def VMStatesGaugeVec_name_def

text \<open>
  The registry is the library's: \<open>must_register\<close> registers collectors by their names, \<open>None\<close> is its
  panic. Its documented behaviour: names that differ and are not taken are registered.
\<close>

type_synonym 'r registry = "string list \<Rightarrow> 'r \<Rightarrow> 'r option"

definition lawful_registry :: "'r registry \<Rightarrow> ('r \<Rightarrow> string set) \<Rightarrow> bool" where
  "lawful_registry must_register names \<longleftrightarrow> (\<forall>ns r. distinct ns \<and> set ns \<inter> names r = {} \<longrightarrow>
     (\<exists>r'. must_register ns r = Some r' \<and> names r' = names r \<union> set ns))"

definition utils_init :: "'r registry \<Rightarrow> 'r \<Rightarrow> 'r option" where
  "utils_init must_register = must_register [ReadRequestsCounter_name, WriteRequestsCounter_name]"

definition pip_init :: "'r registry \<Rightarrow> 'r \<Rightarrow> 'r option" where
  "pip_init must_register = must_register [CleanedIPsCounter_name]"

definition vm_init :: "'r registry \<Rightarrow> 'r \<Rightarrow> 'r option" where
  "vm_init must_register r =
     Option.bind (must_register [ReappliedVMsCounter_name] r) (must_register [VMStatesGaugeVec_name])"

text \<open>
  Whatever the libraries have registered under other names, no registration of the controller
  command panics, and afterwards all five names are taken.
\<close>

lemma registrations_succeed:
  assumes lawful: "lawful_registry reg names"
    and "{ReadRequestsCounter_name, WriteRequestsCounter_name, CleanedIPsCounter_name,
      ReappliedVMsCounter_name, VMStatesGaugeVec_name} \<inter> names r = {}"
  shows "\<exists>r'. Option.bind (utils_init reg r) (\<lambda>r. Option.bind (pip_init reg r) (vm_init reg)) = Some r' \<and>
    names r' = names r \<union> {ReadRequestsCounter_name, WriteRequestsCounter_name, CleanedIPsCounter_name,
      ReappliedVMsCounter_name, VMStatesGaugeVec_name}"
proof -
  have step: "\<exists>r'. reg ns r = Some r' \<and> names r' = names r \<union> set ns"
    if "distinct ns" "set ns \<inter> names r = {}" for ns r
    using lawful that unfolding lawful_registry_def by blast
  obtain r1 where r1: "reg [ReadRequestsCounter_name, WriteRequestsCounter_name] r = Some r1"
      "names r1 = names r \<union> {ReadRequestsCounter_name, WriteRequestsCounter_name}"
    using step [of "[ReadRequestsCounter_name, WriteRequestsCounter_name]" r] assms(2)
    by (auto simp: metric_names)
  obtain r2 where r2: "reg [CleanedIPsCounter_name] r1 = Some r2" "names r2 = names r1 \<union> {CleanedIPsCounter_name}"
    using step [of "[CleanedIPsCounter_name]" r1] assms(2) r1(2) by (auto simp: metric_names)
  obtain r3 where r3: "reg [ReappliedVMsCounter_name] r2 = Some r3" "names r3 = names r2 \<union> {ReappliedVMsCounter_name}"
    using step [of "[ReappliedVMsCounter_name]" r2] assms(2) r1(2) r2(2) by (auto simp: metric_names)
  obtain r4 where r4: "reg [VMStatesGaugeVec_name] r3 = Some r4" "names r4 = names r3 \<union> {VMStatesGaugeVec_name}"
    using step [of "[VMStatesGaugeVec_name]" r3] assms(2) r1(2) r2(2) r3(2) by (auto simp: metric_names)
  show ?thesis
    using r1 r2 r3 r4 by (auto simp: utils_init_def pip_init_def vm_init_def)
qed

section \<open>Missing flags\<close>

text \<open>
  The documented behaviour of the command library, which refuses two flags of the same name: a
  command that runs is one of those it was given, every flag has the value of the arguments, and
  else its default, and the arguments give every required flag.
\<close>

definition lawful_cli :: "('a cli_env_scheme) \<Rightarrow> bool" where
  "lawful_cli le \<longleftrightarrow> (\<forall>cmd args use vals. execute le cmd args = Inr (RunCommand use vals) \<longrightarrow>
     use \<in> insert (cmd_use cmd) (set (cmd_commands cmd)) \<and>
     (use = cmd_use cmd \<and> distinct (map cf_name (cmd_flags cmd)) \<longrightarrow> (\<forall>f \<in> set (cmd_flags cmd).
        case flagGiven le args (cf_name f) of
          Some v \<Rightarrow> vals (cf_name f) = v
        | None \<Rightarrow> vals (cf_name f) = cf_default f \<and> \<not> cf_required f)))"

lemma flag_value:
  assumes "lawful_cli le" "execute le cmd args = Inr (RunCommand use vals)" "use = cmd_use cmd"
    and "distinct (map cf_name (cmd_flags cmd))" "f \<in> set (cmd_flags cmd)" "cf_name f = n"
  shows "flagGiven le args n = Some v \<Longrightarrow> vals n = v"
    and "flagGiven le args n = None \<Longrightarrow> vals n = cf_default f \<and> \<not> cf_required f"
proof -
  have "(case flagGiven le args n of Some v \<Rightarrow> vals n = v
        | None \<Rightarrow> vals n = cf_default f \<and> \<not> cf_required f)"
    using assms unfolding lawful_cli_def by fastforce
  then show "flagGiven le args n = Some v \<Longrightarrow> vals n = v"
    "flagGiven le args n = None \<Longrightarrow> vals n = cf_default f \<and> \<not> cf_required f" by simp_all
qed

text \<open>Without a path of a configuration file the controller command ends before it makes a manager.\<close>

lemma config_file_flag: "StringVar ''config-file'' '''' \<in> set (cmd_flags (NewControllerManagerCommand le))"
  by (simp add: NewControllerManagerCommand_def config_AddFlags_def)

lemma run_without_config_file:
  assumes "\<And>errs. aggregateComplete le errs = None \<Longrightarrow> list_all (\<lambda>err. err = None) errs"
    and "fl_config_file fl = ''''"
  shows "\<exists>err. run le fl = Exited err ''Could not complete options''"
proof -
  have "\<exists>err. aggregateComplete le errs = Some err" if "Some err' \<in> set errs" for err' errs
    using assms(1) [of errs] that by (cases "aggregateComplete le errs") (auto simp: list_all_iff)
  then have exits: "\<exists>err. or_exit msg (aggregateComplete le errs) res = Exited err msg"
    if "Some err' \<in> set errs" for err' errs msg res
    using that by (fastforce simp: or_exit_def)
  show ?thesis
    unfolding run_def Let_def buildConfig_def assms(2) simp_thms if_True option.case
    by (rule exits [of "NewError ''config file path not set''"]) (simp add: err_of_def)
qed

lemma no_config_file_exits:
  assumes "lawful_cli le" "flagGiven le args ''config-file'' \<in> {None, Some ''''}"
    and "\<And>errs. aggregateComplete le errs = None \<Longrightarrow> list_all (\<lambda>err. err = None) errs"
    and run: "execute le (NewControllerManagerCommand le) args = Inr (RunCommand use vals)"
    and "distinct (map cf_name (cmd_flags (NewControllerManagerCommand le)))"
  shows "controller_main le args ends = Some 1"
proof -
  have "use = cmd_use (NewControllerManagerCommand le)"
    using assms(1) run unfolding lawful_cli_def by (force simp: NewControllerManagerCommand_def)
  from flag_value [OF assms(1) run this assms(5) config_file_flag] assms(2)
  have "fl_config_file (flags_of vals) = ''''" by (auto simp: StringVar_def flags_of_def)
  from run_without_config_file [of le, OF assms(3) this] show ?thesis
    using run by (auto simp: controller_main_def command_exit_def)
qed

lemma applier_needs_its_paths:
  assumes "lawful_cli le" "execute le GetRootCommand args = Inr (RunCommand use vals)"
    and "use = cmd_use GetRootCommand" "n \<in> {''kubeconfig'', ''infrastructure-config''}"
  shows "\<exists>v. flagGiven le args n = Some v \<and> vals n = v"
proof -
  obtain f where f: "f \<in> set (cmd_flags GetRootCommand)" "cf_name f = n" "cf_required f"
    using assms(4) by (fastforce simp: GetRootCommand_def StringVar_def MarkFlagRequired_def)
  show ?thesis
    using flag_value [OF assms(1-3) _ f(1,2)] f(3) by (cases "flagGiven le args n")
      (auto simp: GetRootCommand_def StringVar_def MarkFlagRequired_def)
qed
end
