(* ===== verification/Applier_Process.thy ===== *)
theory Applier_Process
  imports Command_Line Setup_Properties
begin

text \<open>
  What a process of the \<open>remedy-applier-azure\<close> command does between its start and its end, over any
  number of cleanings and wherever in a cleaning a signal or a panic ends it.
\<close>

section \<open>The cleaning in progress\<close>

text \<open>Every cleaning begins with listing the services; what was done since the last listing.\<close>

definition since_step :: "trace \<Rightarrow> event \<Rightarrow> trace" where
  "since_step acc ev = (if neutral ev then acc @ [ev] else [ev])"

definition since_listing :: "trace \<Rightarrow> trace" where
  "since_listing es = foldl since_step [] es"

lemma since_neutral: "list_all neutral es \<Longrightarrow> foldl since_step acc es = acc @ es"
  by (induction es arbitrary: acc) (auto simp: since_step_def)

lemma since_listing_start: "list_all neutral es \<Longrightarrow> since_listing (xs @ KListServices r # es) = KListServices r # es"
  by (simp add: since_listing_def since_neutral since_step_def [of _ "KListServices r"])

text \<open>The guard of a cleaning, for the history of the process.\<close>

definition process_guard :: "string \<Rightarrow> trace \<Rightarrow> event \<Rightarrow> bool" where
  "process_guard shoot pre ev = clean_guard shoot (since_listing pre) ev"

definition one_cleaning :: "trace \<Rightarrow> bool" where
  "one_cleaning es \<longleftrightarrow> (\<exists>r rest. es = KListServices r # rest \<and> list_all neutral rest)"

context pip_utils_contract
begin

lemma clean_one: "yields e (clean u shoot) (\<lambda>_ es. one_cleaning es)"
proof -
  have known: "yields e getKnownK8sIps (\<lambda>_ es. \<exists>r. es = [KListServices r])"
    unfolding getKnownK8sIps_def list_services_def by (auto intro!: yields_intros split: sum.split)
  have look: "stays neutral (GetAll u)"
    by (rule stays_mono [OF all_reads]) (auto elim: lookup_event.elims)
  have lb: "stays neutral (RemoveFromLoadBalancer u ids)" for ids
    by (rule stays_mono [OF remove_only]) (auto elim: lb_event.elims)
  have del: "stays neutral (DeletePip u n)" for n
    by (rule stays_mono [OF delete_only]) (auto elim: pip_delete_event.elims)
  have ids: "stays neutral (collect_ids ips)" for ips
    by (induction ips) (auto intro!: trace_rules)
  have rest: "stays neutral (remove_orphans u ips)" for ips
    unfolding remove_orphans_def delete_orphan_def
    by (auto intro!: trace_rules lb del ids split: option.split)
  have all: "stays neutral (seq (GetAll u) (\<lambda>r. case r of
        Inl err \<Rightarrow> ret (Some (Wrap ''could not get Azure public IPs'' err))
      | Inr azureIps \<Rightarrow> (case separateOrphanAndKnownIps ks azureIps shoot of
          None \<Rightarrow> panic ''nil pointer dereference''
        | Some (orphanIps, knownIps) \<Rightarrow> remove_orphans u orphanIps)))" for ks
    by (auto intro!: trace_rules look rest split: sum.split option.split)
  show ?thesis
    unfolding clean_def
  proof (rule yields_seq [OF known], goal_cases)
    case (1 r es)
    then show ?case
      using yields_mono [OF staysD [OF all]]
      by (cases r) (auto simp: one_cleaning_def intro!: yields_ret)
  qed (auto simp: one_cleaning_def)
qed

end

text \<open>A part of the history that keeps to the guard, whatever was done before it.\<close>

definition keeps_guard :: "string \<Rightarrow> trace \<Rightarrow> bool" where
  "keeps_guard shoot es \<longleftrightarrow> (\<forall>xs. guarded (\<lambda>pre. process_guard shoot (xs @ pre)) es)"

lemma keeps_Nil [simp]: "keeps_guard shoot []"
  by (simp add: keeps_guard_def)

lemma keeps_append:
  assumes "keeps_guard shoot es" "keeps_guard shoot es'"
  shows "keeps_guard shoot (es @ es')"
  unfolding keeps_guard_def
proof
  fix xs
  have "guarded (\<lambda>pre. process_guard shoot ((xs @ es) @ pre)) es'"
    using assms(2) unfolding keeps_guard_def by blast
  then show "guarded (\<lambda>pre. process_guard shoot (xs @ pre)) (es @ es')"
    using assms(1) unfolding keeps_guard_def by simp
qed

lemma keeps_sleep: "keeps_guard shoot [Sleep d]"
  by (simp add: keeps_guard_def process_guard_def)

lemma cleaning_keeps:
  assumes "guarded (clean_guard shoot) es" "one_cleaning es"
  shows "keeps_guard shoot es"
  unfolding keeps_guard_def
proof
  fix xs
  obtain r rest where es: "es = KListServices r # rest" "list_all neutral rest"
    using assms(2) unfolding one_cleaning_def by blast
  have "since_listing (xs @ take i es) = take i es" if "0 < i" for i
    using that es(2) since_listing_start [of "take (i - 1) rest" xs r]
    by (cases i) (auto simp: es(1) list_all_iff dest: in_set_takeD)
  moreover have "clean_guard shoot pre (es ! 0)" for pre by (simp add: es(1))
  ultimately show "guarded (\<lambda>pre. process_guard shoot (xs @ pre)) es"
    using assms(1) unfolding guarded_def process_guard_def by (metis neq0_conv)
qed

section \<open>The loop\<close>

lemma loop_keeps:
  "yields e (CleanPublicIps fuel (NewPublicIPAddressUtils rg) shoot retry) (\<lambda>_. keeps_guard shoot)"
proof (induction fuel arbitrary: retry)
  case (Suc fuel)
  have wait: "yields e (seq (emit (Sleep d)) (\<lambda>_. CleanPublicIps fuel (NewPublicIPAddressUtils rg) shoot k))
      (\<lambda>_. keeps_guard shoot)" for d k
    by (rule yields_seq_emit, rule yields_mono [OF Suc.IH]) (use keeps_append keeps_sleep in fastforce)
  have step: "yields e (clean (NewPublicIPAddressUtils rg) shoot) (\<lambda>_. keeps_guard shoot)"
    by (rule yields_mono [OF yields_conj [OF azure_pips.clean_spec azure_pips.clean_one]])
      (simp add: cleaning_keeps)
  show ?case
    unfolding CleanPublicIps.simps
  proof (rule yields_seq [OF step], goal_cases)
    case (1 r es)
    have more: "yields e m (\<lambda>_. keeps_guard shoot) \<Longrightarrow> yields e m (\<lambda>_ es'. keeps_guard shoot (es @ es'))"
      for m :: "unit io"
      by (erule yields_mono) (rule keeps_append [OF 1])
    show ?case
      by (intro more) (auto intro!: wait yields_ret yields_seq_ask_at split: option.split)
  qed auto
qed (simp add: yields_fuel)

section \<open>The process\<close>

lemma guarded_take: "guarded G es \<Longrightarrow> guarded G (take n es)"
  by (simp add: guarded_def)

lemma applier_loop:
  assumes "applier_run le kubeconfig path = Inr loop"
  obtains cred where "ReadConfig le path = Inr cred"
    "loop = (\<lambda>fuel. CleanPublicIps fuel (NewPublicIPAddressUtils (cr_resource_group cred)) (cr_resource_group cred) 0)"
  using assms by (auto simp: applier_run_def split: sum.splits)

lemma run_loop_guarded:
  "guarded (process_guard rg) (snd (CleanPublicIps fuel (NewPublicIPAddressUtils rg) rg retry e []))"
proof -
  obtain es where "snd (CleanPublicIps fuel (NewPublicIPAddressUtils rg) rg retry e []) = [] @ es"
      "keeps_guard rg es"
    by (rule yieldsE [OF loop_keeps])
  then show ?thesis unfolding keeps_guard_def by (auto dest: spec [of _ "[]"])
qed

text \<open>C18: Whatever the process of the stand-alone remedy has done when it ends, or while it still
  runs, and however it ends (by a signal in the middle of a cleaning, by a panic, or refused at
  its start): every address it has deleted was listed by Azure in the cleaning in progress,
  has a name that contains the resource group of the credentials file, and has no IP or one
  that no load balancer service listed in that cleaning uses; an accepted update of the load
  balancer took it off before in the same cleaning. A process that exits with code 1 has called nobody.\<close>

theorem applier_deletes_only_orphans:
  assumes "applier_process le args e es code"
  shows "(code = Some 1 \<longrightarrow> es = []) \<and> (es = [] \<or> (\<exists>vals cred.
     execute le GetRootCommand args = Inr (RunCommand (cmd_use GetRootCommand) vals) \<and>
     ReadConfig le (vals ''infrastructure-config'') = Inr cred \<and>
     guarded (process_guard (cr_resource_group cred)) es))"
  using assms
proof (cases rule: applier_process.cases)
  case (crashed use vals loop fuel msg)
  then show ?thesis
    using run_loop_guarded [of _ fuel 0 e] by (elim applier_loop) (metis One_nat_def Suc_inject numeral_2_eq_2 option.inject snd_conv zero_neq_one)
qed (auto elim!: applier_loop intro: guarded_take [OF run_loop_guarded])
text \<open>
  An instance: a command library that takes the flags from a list of arguments, in which both
  paths are given; the signal comes when the process has just asked Azure to delete the one orphan.
\<close>

definition example_args :: "string list" where
  "example_args = [''kubeconfig'', ''/kube'', ''infrastructure-config'', ''/azure'']"

fun example_given :: "string list \<Rightarrow> string \<Rightarrow> string option" where
  "example_given (k # v # args) n = (if k = n then Some v else example_given args n)"
| "example_given _ n = None"

definition example_value :: "cli_command \<Rightarrow> string list \<Rightarrow> string \<Rightarrow> string" where
  "example_value cmd args n =
     (case example_given args n of
        Some v \<Rightarrow> v
      | None \<Rightarrow> (case find (\<lambda>f. cf_name f = n) (cmd_flags cmd) of Some f \<Rightarrow> cf_default f | None \<Rightarrow> ''''))"

definition example_cli :: cli_env where
  "example_cli = setup_env.extend example_setup (cli_env.fields [] (\<lambda>_. []) (\<lambda>_. []) (\<lambda>_. [])
     (\<lambda>pref. map (\<lambda>f. f\<lparr>cf_name := pref @ cf_name f\<rparr>))
     (\<lambda>cmd args. if list_ex (\<lambda>f. cf_required f \<and> example_given args (cf_name f) = None) (cmd_flags cmd)
        then Inl (ExternalError ''required flag'') else Inr (RunCommand (cmd_use cmd) (example_value cmd args)))
     example_given)"

lemma example_cli_simps [simp]:
  "execute example_cli cmd args =
     (if list_ex (\<lambda>f. cf_required f \<and> example_given args (cf_name f) = None) (cmd_flags cmd)
        then Inl (ExternalError ''required flag'') else Inr (RunCommand (cmd_use cmd) (example_value cmd args)))"
  "flagGiven example_cli = example_given"
  "restFlags example_cli = []" "managerFlags example_cli mgr = []" "controllerFlags example_cli k = []"
  "switchFlags example_cli ns = []"
  "prefixOption example_cli pref fs = map (\<lambda>f. f\<lparr>cf_name := pref @ cf_name f\<rparr>) fs"
  "aggregateComplete example_cli errs =
     (if list_all (\<lambda>err. err = None) errs then None else Some (ExternalError ''options''))"
  by (simp_all add: example_cli_def example_setup_def setup_env.defs cli_env.defs)

lemma find_flag: "distinct (map cf_name fs) \<Longrightarrow> f \<in> set fs \<Longrightarrow> find (\<lambda>f'. cf_name f' = cf_name f) fs = Some f"
  by (induction fs) (auto simp: image_iff)

lemma example_cli_lawful: "lawful_cli example_cli"
  unfolding lawful_cli_def
  by (auto simp: example_value_def find_flag list_ex_iff split: if_splits option.split)

text \<open>The controller command without arguments ends with code 1, as \<open>no_config_file_exits\<close> says.\<close>

lemma bare_controller_exits: "controller_main example_cli [] ends = Some 1"
proof (rule no_config_file_exits [OF example_cli_lawful])
  show "execute example_cli (NewControllerManagerCommand example_cli) [] =
    Inr (RunCommand (cmd_use (NewControllerManagerCommand example_cli))
      (example_value (NewControllerManagerCommand example_cli) []))"
    by (simp add: NewControllerManagerCommand_def StringVar_def config_AddFlags_def reconciler_AddFlags_def
        manager_AddFlags_def)
  show "distinct (map cf_name (cmd_flags (NewControllerManagerCommand example_cli)))"
    by (simp add: NewControllerManagerCommand_def StringVar_def config_AddFlags_def reconciler_AddFlags_def
        manager_AddFlags_def NamespaceFlag_def InfraConfigPathFlag_def)
qed (simp_all split: if_splits)

definition applier_history :: "nat \<Rightarrow> trace" where
  "applier_history n =
     take n (snd (CleanPublicIps 1 (NewPublicIPAddressUtils ''shoot'') ''shoot'' 0 three_ips_env []))"

lemma example_root:
  "execute example_cli GetRootCommand example_args =
     Inr (RunCommand (cmd_use GetRootCommand) (example_value GetRootCommand example_args))"
  "example_value GetRootCommand example_args ''kubeconfig'' = ''/kube''"
  "example_value GetRootCommand example_args ''infrastructure-config'' = ''/azure''"
  by (simp_all add: GetRootCommand_def StringVar_def MarkFlagRequired_def example_args_def example_value_def)

lemma example_applier_stops: "applier_process example_cli example_args three_ips_env (applier_history n) (Some 0)"
  unfolding applier_history_def
  by (rule applier_process.stopped [OF example_root(1) refl,
        where loop = "\<lambda>fuel. CleanPublicIps fuel (NewPublicIPAddressUtils ''shoot'') ''shoot'' 0"])
    (simp add: example_root(2,3) example_cli_def example_setup_def setup_env.defs cli_env.defs
      applier_run_def GetClientSet_def ReadConfig_def NewClients_def service_principal_token_def
      federated_token_def non_nil_def example_credentials_def Let_def)

theorem applier_deletes_only_orphans_witness:
  "is_pip_delete (last (applier_history 13)) \<and> (\<exists>vals cred.
     execute example_cli GetRootCommand example_args = Inr (RunCommand (cmd_use GetRootCommand) vals) \<and>
     ReadConfig example_cli (vals ''infrastructure-config'') = Inr cred \<and>
     guarded (process_guard (cr_resource_group cred)) (applier_history 13))"
proof
  have "applier_history 13 \<noteq> []" by code_simp
  with applier_deletes_only_orphans [OF example_applier_stops [of 13]]
  show "\<exists>vals cred. execute example_cli GetRootCommand example_args = Inr (RunCommand (cmd_use GetRootCommand) vals) \<and>
      ReadConfig example_cli (vals ''infrastructure-config'') = Inr cred \<and>
      guarded (process_guard (cr_resource_group cred)) (applier_history 13)" by blast
qed code_simp

end
