(* ===== verification/Self_Healing.thy ===== *)
theory Self_Healing
  imports Change_Propagation Service_Properties Setup_Properties
begin

text \<open>
  Resources that are touched behind the controllers' back. The watches of the service controller in the
  control cluster, with the predicate for owned objects, the mapping to the owner and the
  reconciliation it asks for: a publicipaddress that is deleted although its service lives is
  made again, and one whose service is gone is deleted.
\<close>

section \<open>An API server that accepts\<close>

definition accepts_service_writes :: "env \<Rightarrow> bool" where
  "accepts_service_writes e \<longleftrightarrow>
     (\<forall>t p f. kCreateOrUpdatePip e t p f = (None, f p)) \<and> (\<forall>t ob. kDelete e t ob = None) \<and>
     ignoreNotFound e None = None \<and> (\<forall>t ns ls. \<exists>ps. kListPips e t ns ls = Inr ps)"

lemma accepts_create_lawful: "accepts_service_writes e \<Longrightarrow> create_lawful e"
  by (auto simp: accepts_service_writes_def create_lawful_def)

lemma for_each_succeeds:
  assumes "\<And>x. x \<in> set xs \<Longrightarrow> yields e (f x) (\<lambda>r es. r = Returned None \<and> D x es)"
    and keep: "\<And>x es us vs. D x es \<Longrightarrow> D x (us @ es @ vs)"
  shows "yields e (for_each xs f) (\<lambda>r es. r = Returned None \<and> (\<forall>x \<in> set xs. D x es))"
  using assms(1)
proof (induction xs)
  case (Cons x xs)
  have rest: "yields e (for_each xs f) (\<lambda>r es. r = Returned None \<and> (\<forall>x \<in> set xs. D x es))"
    using Cons by simp
  show ?case
    unfolding for_each.simps
  proof (rule yields_seq [OF Cons.prems [of x]], goal_cases)
    case (2 r es)
    have "D x (es @ es')" "D y es' \<Longrightarrow> D y (es @ es')" for es' y
      using 2 keep [of x es "[]" es'] keep [of y es' es "[]"] by simp_all
    with 2 show ?case by (auto intro!: yields_mono [OF rest])
  qed auto
qed (simp add: yields_ret)

lemma delete_object_accepted:
  assumes "accepts_service_writes e"
  shows "yields e (delete_object msg ob) (\<lambda>r es. r = Returned None \<and> KDelete ob None \<in> set es)"
  using assms unfolding delete_object_def client_Delete_def accepts_service_writes_def
  by (auto intro!: yields_intros)

lemma create_accepted:
  assumes "accepts_service_writes e"
  shows "yields e (create_for_ip a svc ip) (\<lambda>r es. r = Returned None \<and>
    KCreateOrUpdatePip (pubip_for a svc ip) None (mutate_pubip svc ip (pubip_for a svc ip)) \<in> set es)"
proof -
  let ?p = "pubip_for a svc ip"
  have "retry_conflicts n (CreateOrUpdatePip (mutate_pubip svc ip)) ?p e t =
      (Returned (None, mutate_pubip svc ip ?p), t @ [KCreateOrUpdatePip ?p None (mutate_pubip svc ip ?p)])" for n t
    using assms by (cases n) (simp_all add: accepts_service_writes_def CreateOrUpdatePip_def run_simps)
  then show ?thesis
    by (intro yieldsI) (simp add: create_for_ip_def RetryOnConflict_def run_simps seq_run_Returned)
qed

lemma svc_create_accepted:
  assumes acc: "accepts_service_writes e" and "\<not> shouldIgnoreService svc"
  shows "yields e (svc_CreateOrUpdate a svc) (\<lambda>r es. r = Returned (Inr (sa_sync_period a)) \<and>
    (\<forall>ip \<in> set (getServiceLoadBalancerIPs svc).
       KCreateOrUpdatePip (pubip_for a svc ip) None (mutate_pubip svc ip (pubip_for a svc ip)) \<in> set es))"
proof -
  have create: "yields e (for_each ips (create_for_ip a svc)) (\<lambda>r es. r = Returned None \<and> (\<forall>ip \<in> set ips.
      KCreateOrUpdatePip (pubip_for a svc ip) None (mutate_pubip svc ip (pubip_for a svc ip)) \<in> set es))" for ips
    by (rule for_each_succeeds) (auto intro: create_accepted [OF acc])
  have listed: "yields e (for_each ps (delete_listed svc)) (\<lambda>r es. r = Returned None \<and> (\<forall>p \<in> set ps. True))" for ps
    by (rule for_each_succeeds)
      (use assms in \<open>auto simp: delete_listed_def intro!: yields_ret yields_mono [OF delete_object_accepted [OF acc]]\<close>)
  have list: "\<exists>ps. kListPips e t ns ls = Inr ps" for t ns ls
    using acc by (simp add: accepts_service_writes_def)
  have tail: "yields e (seq (client_List ns ls) (\<lambda>listed. case listed of
        Inl err \<Rightarrow> ret (Inl (Wrap msg err))
      | Inr pubips \<Rightarrow> seq (for_each pubips (delete_listed svc)) (\<lambda>r. case r of
          Some err \<Rightarrow> ret (Inl err) | None \<Rightarrow> ret (Inr d)))) (\<lambda>r es. r = Returned (Inr d))" for ns ls msg d
    unfolding client_List_def
  proof (rule yields_seq_ecall, goal_cases)
    case (1 t)
    obtain ps where "kListPips e t ns ls = Inr ps" using list by blast
    then show ?case by (auto intro!: yields_seq [OF listed] yields_ret)
  qed
  show ?thesis
    unfolding svc_CreateOrUpdate_def
    using assms(2)
    by (auto intro!: yields_seq_ask_at yields_seq [OF create] yields_mono [OF tail])
qed
text \<open>The reconciliation of a service that is gone deletes every resource labelled for it.\<close>

lemma svc_delete_accepted:
  assumes acc: "accepts_service_writes e" and "getServiceLoadBalancerIPs svc = []"
    and listed: "kListPips e t (sa_namespace a) (pubip_labels svc) = Inr ps" "p \<in> set ps"
  shows "\<exists>es. svc_Delete a svc e t = (Returned (Inr 0), t @ es) \<and> KDelete (PublicIPAddress p) None \<in> set es"
proof -
  have stale: "yields e (for_each ps (delete_stale svc))
      (\<lambda>r es. r = Returned None \<and> (\<forall>p \<in> set ps. KDelete (PublicIPAddress p) None \<in> set es))" for ps
    by (rule for_each_succeeds)
      (auto simp: delete_stale_def assms(2) intro!: delete_object_accepted [OF acc])
  have ips: "range_keys (rangeOrder e t) (getServiceLoadBalancerIPs svc) = []" for t
    by (metis assms(2) length_range_keys length_0_conv)
  let ?t = "t @ [KListPips (sa_namespace a) (pubip_labels svc) (Inr ps)]"
  obtain es where "snd (for_each ps (delete_stale svc) e ?t) = ?t @ es"
    "fst (for_each ps (delete_stale svc) e ?t) = Returned None" and gone: "KDelete (PublicIPAddress p) None \<in> set es"
    by (rule yieldsE [OF stale [of ps], where t = ?t]) (use listed(2) in blast)
  then have "for_each ps (delete_stale svc) e ?t = (Returned None, ?t @ es)" by (simp add: prod_eq_iff)
  with listed(1) gone show ?thesis
    by (simp add: svc_Delete_def client_List_def run_simps ips seq_run_Returned)
qed

section \<open>The watches\<close>

lemma svc_watches:
  "svc_AddToManagerWithOptions se mgr options = Inr c \<Longrightarrow> w \<in> set (ad_watches c) \<Longrightarrow>
   ow_predicate w = svc_owned_predicate \<and>
   ow_map w = MapFuncFromMapper (labelMapper_Map service_ObjectLabeler ServiceLabel)"
  by (auto simp: svc_AddToManagerWithOptions_def Let_def dest!: add_controller_result)

lemma svc_owned_kind:
  "oo_owner_kind svc_owned_predicate = ServiceKind" "oo_finalizer svc_owned_predicate = svc_FinalizerName"
  by (simp_all add: svc_owned_predicate_def)

definition labelled_for :: "service \<Rightarrow> k8s_object \<Rightarrow> bool" where
  "labelled_for svc ob \<longleftrightarrow>
     map_get (meta_labels (obj_meta ob)) ServiceLabel = GetLabelValue service_ObjectLabeler (Service svc)"

lemma labelled_mutated:
  "ps_ip_address (pip_spec (mutate_pubip svc ip q)) = ip \<and> labelled_for svc (PublicIPAddress (mutate_pubip svc ip q))"
  by (simp add: mutate_pubip_def labelled_for_def pubip_labels_def map_get_def)

lemma labelled_owner:
  assumes "separable (CHR ''.'') (Service svc)" "labelled_for svc ob"
  shows "MapFuncFromMapper (labelMapper_Map service_ObjectLabeler ServiceLabel) ob = [obj_key (Service svc)]"
    and "oo_owner_mapper svc_owned_predicate ob = obj_key (Service svc)"
proof -
  have owned: "namespaced_labeler.owned_by (CHR ''.'') ServiceLabel ob (Service svc)"
    using assms(2)
    by (simp add: namespaced_labeler.owned_by_def labelled_for_def service_ObjectLabeler_def)
  show map: "MapFuncFromMapper (labelMapper_Map service_ObjectLabeler ServiceLabel) ob = [obj_key (Service svc)]"
    unfolding service_ObjectLabeler_def by (rule namespaced_labeler.map_to_owner [OF assms(1) owned])
  then show "oo_owner_mapper svc_owned_predicate ob = obj_key (Service svc)"
    by (simp add: svc_owned_predicate_def MapFuncFromMapper_def Let_def split: if_splits)
qed

text \<open>A service that is served as it is, under the controller's finalizer and not being deleted.\<close>

definition service_served :: "env \<Rightarrow> trace \<Rightarrow> service \<Rightarrow> bool" where
  "service_served e t svc \<longleftrightarrow>
     kGet e t ServiceKind (obj_key (Service svc)) = Inr (Service svc) \<and>
     meta_deletion_timestamp (svc_meta svc) = None \<and>
     containsFinalizer e (Service svc) svc_FinalizerName \<and>
     (\<forall>t. kAddFinalizer e t (Service svc) svc_FinalizerName = (None, Service svc))"

lemma service_reconcile_recreates:
  assumes "service_served e t svc" "accepts_service_writes e" "\<not> shouldIgnoreService svc"
    and "ip \<in> set (getServiceLoadBalancerIPs svc)"
  shows "\<exists>es. Reconcile (svc_reconciler ns cfg) (obj_key (Service svc)) e t =
      (Returned (Inr (requeue_result (pc_service_sync_period cfg))), t @ es) \<and>
    (\<exists>q. KCreateOrUpdatePip q None (mutate_pubip svc ip q) \<in> set es)"
proof -
  let ?a = "\<lparr>sa_namespace = ns, sa_sync_period = pc_service_sync_period cfg\<rparr>"
  have "length (getServiceLoadBalancerIPs svc) > 0" using assms(4) by auto
  then have run: "Reconcile (svc_reconciler ns cfg) (obj_key (Service svc)) e t =
      (case svc_CreateOrUpdate ?a svc e (t @ [KGet ServiceKind (obj_key (Service svc)) (Inr (Service svc)),
          KAddFinalizer (Service svc) svc_FinalizerName None]) of
        (Returned (Inr d), t') \<Rightarrow> (Returned (Inr (requeue_result d)), t')
      | (Returned (Inl err), t') \<Rightarrow>
          reconcileErr (Wrap ''could not reconcile object creation or update'' err) e t'
      | (Panicked msg, t') \<Rightarrow> (Panicked msg, t')
      | (OutOfFuel, t') \<Rightarrow> (OutOfFuel, t'))"
    using assms(1,3)
    by (simp add: service_served_def Reconcile_def client_Get_def createOrUpdate_def AddFinalizers_def
        actuator_CreateOrUpdate_def svc_reconciler_def svc_NewActuator_def svc_ShouldFinalize_def on_service_def
        Let_def run_simps seq_def split: outcome.split sum.split prod.split)
  let ?t = "t @ [KGet ServiceKind (obj_key (Service svc)) (Inr (Service svc)),
          KAddFinalizer (Service svc) svc_FinalizerName None]"
  from svc_create_accepted [OF assms(2,3), of ?a]
  obtain es where "snd (svc_CreateOrUpdate ?a svc e ?t) = ?t @ es"
    "fst (svc_CreateOrUpdate ?a svc e ?t) = Returned (Inr (sa_sync_period ?a))"
    and made: "\<forall>ip \<in> set (getServiceLoadBalancerIPs svc).
       KCreateOrUpdatePip (pubip_for ?a svc ip) None (mutate_pubip svc ip (pubip_for ?a svc ip)) \<in> set es"
    by (rule yieldsE [where t = ?t]) blast
  then have "svc_CreateOrUpdate ?a svc e ?t = (Returned (Inr (sa_sync_period ?a)), ?t @ es)"
    by (simp add: prod_eq_iff)
  with run made assms(4) show ?thesis by auto
qed

text \<open>When the service is gone, its reconciliation deletes every resource labelled for it.\<close>

definition service_gone :: "env \<Rightarrow> trace \<Rightarrow> object_key \<Rightarrow> bool" where
  "service_gone e t key \<longleftrightarrow> (\<exists>err. kGet e t ServiceKind key = Inl err \<and> isNotFound e err)"

lemma service_reconcile_cleans:
  assumes "service_gone e t key" "accepts_service_writes e"
    and listed: "\<And>ev. \<exists>ps. kListPips e (t @ [ev]) ns (service_labels key) = Inr ps \<and> p \<in> set ps"
  shows "\<exists>es. Reconcile (svc_reconciler ns cfg) key e t = (Returned (Inr empty_result), t @ es) \<and>
    KDelete (PublicIPAddress p) None \<in> set es"
proof -
  let ?a = "\<lparr>sa_namespace = ns, sa_sync_period = pc_service_sync_period cfg\<rparr>"
  let ?m = "empty_meta\<lparr>meta_name := key_name key, meta_namespace := key_namespace key\<rparr>"
  let ?svc = "\<lparr>svc_meta = ?m, svc_type = OtherServiceType '''', svc_ingress = []\<rparr>"
  obtain err where got: "kGet e t ServiceKind key = Inl err" "isNotFound e err"
    using assms(1) by (auto simp: service_gone_def)
  let ?t = "t @ [KGet ServiceKind key (Inl err)]"
  have "pubip_labels ?svc = service_labels key" by (simp add: pubip_labels_def service_labels_def)
  with listed obtain ps where "kListPips e ?t (sa_namespace ?a) (pubip_labels ?svc) = Inr ps" "p \<in> set ps" by fastforce
  from svc_delete_accepted [OF assms(2) zero_service_ips this]
  obtain es where "svc_Delete ?a ?svc e ?t = (Returned (Inr 0), ?t @ es)"
    and deleted: "KDelete (PublicIPAddress p) None \<in> set es" by blast
  then have "Reconcile (svc_reconciler ns cfg) key e t =
      (Returned (Inr empty_result), t @ KGet ServiceKind key (Inl err) # es)"
    using got by (simp add: Reconcile_def client_Get_def ensureDeleted_def svc_reconciler_def
        svc_NewActuator_def on_service_def Let_def run_simps seq_def)
  with deleted show ?thesis by auto
qed

section \<open>What the watches lead to\<close>

text \<open>C10: A publicipaddress that somebody deletes while its service lives is made again. The
  controller that \<open>AddToManagerWithOptions\<close> builds watches the control cluster for resources
  it owns: the deletion of one labelled for a service passes the predicate when the service
  exists under the controller's finalizer and is not being deleted, it is mapped to a request
  for exactly that service, and the reconciliation of this request, at any later time at which
  the service is served the same way and the API server accepts the writes, ends without error
  after it has created a resource for every IP of the service.\<close>

theorem deleted_resource_is_recreated:
  assumes "svc_AddToManagerWithOptions se mgr options = Inr c" "w \<in> set (ad_watches c)"
    and "separable (CHR ''.'') (Service svc)" "labelled_for svc (PublicIPAddress p)"
    and "service_served e t svc" "service_served e t' svc" "accepts_service_writes e"
    and "\<not> shouldIgnoreService svc" "ip \<in> set (getServiceLoadBalancerIPs svc)"
  shows "fst (owned_Delete (ow_predicate w) (Some (PublicIPAddress p)) e t) = Returned True \<and>
    ow_map w (PublicIPAddress p) = [obj_key (Service svc)] \<and>
    (\<exists>es. Reconcile (ad_reconciler c) (obj_key (Service svc)) e t' =
        (Returned (Inr (requeue_result (pc_service_sync_period (to_config options)))), t' @ es) \<and>
      (\<exists>q q'. KCreateOrUpdatePip q None q' \<in> set es \<and>
         ps_ip_address (pip_spec q') = ip \<and> labelled_for svc (PublicIPAddress q')))"
proof -
  note owner = labelled_owner [OF assms(3,4)]
  have watch: "ow_predicate w = svc_owned_predicate"
    "ow_map w = MapFuncFromMapper (labelMapper_Map service_ObjectLabeler ServiceLabel)"
    using svc_watches [OF assms(1,2)] by auto
  have name: "key_name (obj_key (Service svc)) \<noteq> ''''"
    using assms(3) by (simp add: separable_def obj_key_def)
  have "fst (owned_Delete svc_owned_predicate (Some (PublicIPAddress p)) e t) = Returned True"
    using assms(5) name owned_object_predicate_spec [of svc_owned_predicate _ "PublicIPAddress p" e t]
    by (simp add: owner(2) owner_of_def service_served_def svc_owned_kind)
  moreover have "ad_reconciler c = svc_reconciler (to_namespace options) (to_config options)"
    using svc_added [OF assms(1)] by simp
  ultimately show ?thesis
    using service_reconcile_recreates [OF assms(6-9)] watch owner(1) labelled_mutated by fastforce
qed

definition live_service :: service where
  "live_service = (watched_service ''a'' [''1.1.1.1''])
     \<lparr>svc_meta := empty_meta\<lparr>meta_name := ''svc'', meta_namespace := ''a'',
        meta_finalizers := [svc_FinalizerName]\<rparr>\<rparr>"

definition leftover :: public_ip_address where
  "leftover = mutate_pubip live_service ''1.1.1.1'' (new_pip ''shoot'' ''svc-1'')"

definition healing_env :: "service option \<Rightarrow> env" where
  "healing_env living = example_env\<lparr>
     kGet := (\<lambda>t k key. case living of
        Some svc \<Rightarrow> if key = obj_key (Service svc) then Inr (Service svc) else Inl (ApiError ''NotFound'')
      | None \<Rightarrow> Inl (ApiError ''NotFound'')),
     kListPips := (\<lambda>t ns ls. Inr [leftover])\<rparr>"

lemma live_service_facts:
  "\<not> shouldIgnoreService live_service" "''1.1.1.1'' \<in> set (getServiceLoadBalancerIPs live_service)"
  "separable (CHR ''.'') (Service live_service)"
  by code_simp+

lemma healing_env_accepts: "accepts_service_writes (healing_env living)"
  by (simp add: accepts_service_writes_def healing_env_def)

lemma live_service_served: "service_served (healing_env (Some live_service)) t live_service"
  by (simp add: service_served_def healing_env_def live_service_def empty_meta_def)

lemma leftover_labelled: "labelled_for live_service (PublicIPAddress leftover)"
  by (simp add: leftover_def labelled_mutated)

definition healing_options :: "pip_config target_add_options" where
  "healing_options = \<lparr>to_controller = '''', to_client = ControlCluster, to_namespace = ''shoot'',
     to_manager = ControlCluster, to_config = svc_default_config\<rparr>"

lemma healing_period: "pc_service_sync_period (to_config healing_options) = 4 * hour"
  by (simp add: healing_options_def svc_default_config_def)

lemma healing_controller:
  obtains c w where "svc_AddToManagerWithOptions example_setup TargetCluster healing_options = Inr c"
    "w \<in> set (ad_watches c)"
  by (simp add: svc_AddToManagerWithOptions_def add_controller_def example_setup_def Let_def)

theorem deleted_resource_is_recreated_witness:
  "\<exists>c w. svc_AddToManagerWithOptions example_setup TargetCluster healing_options = Inr c \<and>
    w \<in> set (ad_watches c) \<and>
    fst (owned_Delete (ow_predicate w) (Some (PublicIPAddress leftover)) (healing_env (Some live_service)) []) =
      Returned True \<and>
    (\<exists>es q q'. Reconcile (ad_reconciler c) (obj_key (Service live_service)) (healing_env (Some live_service)) [] =
        (Returned (Inr (requeue_result (4 * hour))), [] @ es) \<and>
      KCreateOrUpdatePip q None q' \<in> set es \<and> ps_ip_address (pip_spec q') = ''1.1.1.1'')"
proof -
  obtain c w where c: "svc_AddToManagerWithOptions example_setup TargetCluster healing_options = Inr c"
    "w \<in> set (ad_watches c)" by (rule healing_controller)
  from deleted_resource_is_recreated [OF c live_service_facts(3) leftover_labelled live_service_served
      [of "[]"] live_service_served [of "[]"] healing_env_accepts live_service_facts(1,2)] c
  show ?thesis unfolding healing_period by (intro exI [of _ c] exI [of _ w]) auto
qed

text \<open>C11: A publicipaddress whose service does not exist is deleted. When such a resource is
  created or changed, the event passes the predicate for owned resources, is mapped to a request
  for exactly the service it is labelled for, and the reconciliation of this request deletes
  it, although there is no service and so no finalizer left: at any later time at which the
  service is still gone, the resource is listed for it right after that and the API server accepts the deletions,
  it ends without error and without a requeue after the resource was deleted.\<close>

theorem ownerless_resource_is_deleted:
  assumes "svc_AddToManagerWithOptions se mgr options = Inr c" "w \<in> set (ad_watches c)"
    and "separable (CHR ''.'') (Service svc)" "labelled_for svc (PublicIPAddress p)"
    and "service_gone e t (obj_key (Service svc))" "service_gone e t' (obj_key (Service svc))"
    and "accepts_service_writes e"
    and "\<And>ev. \<exists>ps. kListPips e (t' @ [ev]) (to_namespace options) (pubip_labels svc) = Inr ps \<and> p \<in> set ps"
  shows "fst (owned_Create (ow_predicate w) (Some (PublicIPAddress p)) e t) = Returned True \<and>
    fst (owned_Update (ow_predicate w) old (Some (PublicIPAddress p)) e t) = Returned True \<and>
    ow_map w (PublicIPAddress p) = [obj_key (Service svc)] \<and>
    (\<exists>es. Reconcile (ad_reconciler c) (obj_key (Service svc)) e t' = (Returned (Inr empty_result), t' @ es) \<and>
      KDelete (PublicIPAddress p) None \<in> set es)"
proof -
  note owner = labelled_owner [OF assms(3,4)]
  have watch: "ow_predicate w = svc_owned_predicate"
    "ow_map w = MapFuncFromMapper (labelMapper_Map service_ObjectLabeler ServiceLabel)"
    using svc_watches [OF assms(1,2)] by auto
  have name: "key_name (obj_key (Service svc)) \<noteq> ''''"
    using assms(3) by (simp add: separable_def obj_key_def)
  have "fst (owned_Update svc_owned_predicate old (Some (PublicIPAddress p)) e t) = Returned True \<and>
      fst (owned_Create svc_owned_predicate (Some (PublicIPAddress p)) e t) = Returned True"
    using assms(5) name owned_object_predicate_spec [of svc_owned_predicate old "PublicIPAddress p" e t]
    by (auto simp: owner(2) owner_of_def service_gone_def svc_owned_kind)
  moreover have "ad_reconciler c = svc_reconciler (to_namespace options) (to_config options)"
    using svc_added [OF assms(1)] by simp
  moreover have "service_labels (obj_key (Service svc)) = pubip_labels svc"
    by (simp add: service_labels_def pubip_labels_def service_ObjectLabeler_def obj_key_def
        NewNamespacedObjectLabeler_def namespaced_GetLabelValue_def)
  ultimately show ?thesis
    using service_reconcile_cleans [OF assms(6,7)] assms(8) watch owner(1) by simp
qed

theorem ownerless_resource_is_deleted_witness:
  "\<exists>c w. svc_AddToManagerWithOptions example_setup TargetCluster healing_options = Inr c \<and>
    w \<in> set (ad_watches c) \<and>
    fst (owned_Create (ow_predicate w) (Some (PublicIPAddress leftover)) (healing_env None) []) = Returned True \<and>
    (\<exists>es. Reconcile (ad_reconciler c) (obj_key (Service live_service)) (healing_env None) [] =
        (Returned (Inr empty_result), [] @ es) \<and> KDelete (PublicIPAddress leftover) None \<in> set es)"
proof -
  obtain c w where c: "svc_AddToManagerWithOptions example_setup TargetCluster healing_options = Inr c"
    "w \<in> set (ad_watches c)" by (rule healing_controller)
  have gone: "service_gone (healing_env None) t key" for t key
    by (simp add: service_gone_def healing_env_def)
  have listed: "\<exists>ps. kListPips (healing_env None) t ns ls = Inr ps \<and> leftover \<in> set ps" for t ns ls
    by (simp add: healing_env_def)
  from ownerless_resource_is_deleted [where old = None, OF c live_service_facts(3) leftover_labelled gone [of "[]"]
      gone [of "[]"] healing_env_accepts listed] c
  show ?thesis by (intro exI [of _ c] exI [of _ w]) auto
qed

end
