(* ===== verification/Azure_State.thy ===== *)
theory Azure_State
  imports Pip_Cleaning Orphan_Properties
begin

text \<open>
  The public IP addresses and the load balancer of a resource group as a state that the accepted
  writes of a history change, and an Azure that answers from it. Against such an Azure the two
  ways to clean an address, by the publicipaddress controller and by the stand-alone remedy,
  refine one abstract operation on the state.
\<close>

section \<open>The state behind a history\<close>

record azure_state =
  azs_ips :: "az_public_ip list"
  azs_lb :: load_balancer

fun azure_step :: "string \<Rightarrow> azure_state \<Rightarrow> event \<Rightarrow> azure_state" where
  "azure_step rg s (AzPipDelete g n None) =
     (if g = rg then s\<lparr>azs_ips := filter (\<lambda>z. az_ip_name z \<noteq> Some n) (azs_ips s)\<rparr> else s)"
| "azure_step rg s (AzLbUpdate g n lb None) = (if g = rg \<and> n = rg then s\<lparr>azs_lb := lb\<rparr> else s)"
| "azure_step rg s _ = s"

definition azure_after :: "string \<Rightarrow> azure_state \<Rightarrow> trace \<Rightarrow> azure_state" where
  "azure_after rg s es = foldl (azure_step rg) s es"

lemma azure_after_simps [simp]:
  "azure_after rg s [] = s"
  "azure_after rg s (ev # es) = azure_after rg (azure_step rg s ev) es"
  "azure_after rg s (xs @ ys) = azure_after rg (azure_after rg s xs) ys"
  by (simp_all add: azure_after_def)

lemma azure_step_other: "\<not> write_request ev \<Longrightarrow> azure_step rg s ev = s"
  by (cases ev) auto

text \<open>A history without a write request to Azure leaves the state as it is.\<close>

lemma azure_after_reads: "list_all (\<lambda>ev. \<not> write_request ev) es \<Longrightarrow> azure_after rg s es = s"
  by (induction es) (auto simp: azure_step_other)

text \<open>Every state on the way.\<close>

fun azure_always :: "string \<Rightarrow> (azure_state \<Rightarrow> bool) \<Rightarrow> azure_state \<Rightarrow> trace \<Rightarrow> bool" where
  "azure_always rg P s [] = P s"
| "azure_always rg P s (ev # es) = (P s \<and> azure_always rg P (azure_step rg s ev) es)"

lemma all_nat_Suc: "(\<forall>k. Q k) \<longleftrightarrow> Q 0 \<and> (\<forall>k. Q (Suc k))"
  by (metis not0_implies_Suc)

lemma azure_always_iff: "azure_always rg P s es \<longleftrightarrow> (\<forall>k. P (azure_after rg s (take k es)))"
proof (induction es arbitrary: s)
  case (Cons ev es)
  have "(\<forall>k. P (azure_after rg s (take k (ev # es)))) \<longleftrightarrow>
      P s \<and> (\<forall>k. P (azure_after rg (azure_step rg s ev) (take k es)))"
    using all_nat_Suc [of "\<lambda>k. P (azure_after rg s (take k (ev # es)))"] by simp
  then show ?case using Cons by simp
qed simp

lemma azure_always_append [simp]:
  "azure_always rg P s (xs @ ys) \<longleftrightarrow> azure_always rg P s xs \<and> azure_always rg P (azure_after rg s xs) ys"
proof (induction xs arbitrary: s)
  case Nil
  show ?case by (cases ys) auto
qed simp

lemma azure_always_reads: "list_all (\<lambda>ev. \<not> write_request ev) es \<Longrightarrow> azure_always rg P s es \<longleftrightarrow> P s"
  by (induction es) (auto simp: azure_step_other)

section \<open>References\<close>

definition lb_frontends :: "load_balancer \<Rightarrow> frontend_ip_configuration list" where
  "lb_frontends lb = (case lb_frontend_ip_configurations lb of None \<Rightarrow> [] | Some fcs \<Rightarrow> fcs)"

definition lb_rule_list :: "load_balancer \<Rightarrow> load_balancing_rule list" where
  "lb_rule_list lb = (case lb_rules lb of None \<Rightarrow> [] | Some rules \<Rightarrow> rules)"

definition fc_ip_id :: "frontend_ip_configuration \<Rightarrow> string option" where
  "fc_ip_id fc = (case fc_public_ip fc of None \<Rightarrow> None | Some z \<Rightarrow> az_ip_id z)"

definition rule_fc_id :: "load_balancing_rule \<Rightarrow> string option" where
  "rule_fc_id r = (case lr_frontend r of None \<Rightarrow> None | Some sr \<Rightarrow> sr_id sr)"

text \<open>Azure's resources are named and identified; no two have the same name, id or address.\<close>

definition wf_ips :: "az_public_ip list \<Rightarrow> bool" where
  "wf_ips zs \<longleftrightarrow>
     (\<forall>z \<in> set zs. az_ip_name z \<noteq> None \<and> az_ip_id z \<noteq> None) \<and>
     (\<forall>z \<in> set zs. \<forall>z' \<in> set zs. az_ip_name z = az_ip_name z' \<or> az_ip_id z = az_ip_id z' \<or>
        (az_ip_address z = az_ip_address z' \<and> az_ip_address z \<noteq> None) \<longrightarrow> z = z')"

definition wf_azure :: "azure_state \<Rightarrow> bool" where
  "wf_azure s \<longleftrightarrow> wf_ips (azs_ips s) \<and>
     (\<forall>fc \<in> set (lb_frontends (azs_lb s)). fc_id fc \<noteq> None) \<and>
     (\<forall>r \<in> set (lb_rule_list (azs_lb s)). lr_id r \<noteq> None)"

lemma wf_identified: "wf_azure s \<Longrightarrow> z \<in> set (azs_ips s) \<Longrightarrow> az_ip_name z \<noteq> None \<and> az_ip_id z \<noteq> None"
  unfolding wf_azure_def wf_ips_def by blast

text \<open>Every address a frontend uses exists, and so does every frontend a rule uses.\<close>

definition references_intact :: "azure_state \<Rightarrow> bool" where
  "references_intact s \<longleftrightarrow>
     (\<forall>fc \<in> set (lb_frontends (azs_lb s)). \<forall>i. fc_ip_id fc = Some i \<longrightarrow> Some i \<in> az_ip_id ` set (azs_ips s)) \<and>
     (\<forall>r \<in> set (lb_rule_list (azs_lb s)). \<forall>i. rule_fc_id r = Some i \<longrightarrow> Some i \<in> fc_id ` set (lb_frontends (azs_lb s)))"

definition ip_in_use :: "azure_state \<Rightarrow> string \<Rightarrow> bool" where
  "ip_in_use s n \<longleftrightarrow> (\<exists>z \<in> set (azs_ips s). az_ip_name z = Some n \<and>
     (\<exists>fc \<in> set (lb_frontends (azs_lb s)). fc_ip_id fc \<noteq> None \<and> fc_ip_id fc = az_ip_id z))"

section \<open>The abstract operation\<close>

text \<open>Addresses are taken off the load balancer and deleted, nothing else happens to the addresses.\<close>

definition ip_ids :: "az_public_ip list \<Rightarrow> string list" where
  "ip_ids zs = map (\<lambda>z. the (az_ip_id z)) zs"

definition release_addresses :: "az_public_ip list \<Rightarrow> azure_state \<Rightarrow> azure_state" where
  "release_addresses zs s =
     s\<lparr>azs_ips := filter (\<lambda>z. z \<notin> set zs) (azs_ips s),
       azs_lb := detach_public_ips (azs_lb s) (ip_ids zs)\<rparr>"

lemma detached_frontends:
  "lb_frontends (detach_public_ips lb ids) = filter (\<lambda>fc. \<not> fc_uses ids fc) (lb_frontends lb)"
  by (simp add: lb_frontends_def detach_public_ips_eq split: option.split)

lemma detached_rules:
  "lb_rule_list (detach_public_ips lb ids) =
     filter (\<lambda>r. \<not> rule_uses (removed_fc_ids ids lb) r) (lb_rule_list lb)"
  by (simp add: lb_rule_list_def detach_public_ips_eq split: option.split)

lemma fc_uses_iff: "fc_id fc \<noteq> None \<Longrightarrow> fc_uses ids fc \<longleftrightarrow> (\<exists>i \<in> set ids. fc_ip_id fc = Some i)"
  by (auto simp: fc_uses_def fc_ip_id_def split: option.splits)

lemma rule_uses_iff: "lr_id r \<noteq> None \<Longrightarrow> rule_uses ids r \<longleftrightarrow> (\<exists>i \<in> set ids. rule_fc_id r = Some i)"
  by (auto simp: rule_uses_def rule_fc_id_def split: option.splits)

lemma removed_fc_iff:
  "i \<in> set (removed_fc_ids ids lb) \<longleftrightarrow> (\<exists>fc \<in> set (lb_frontends lb). fc_uses ids fc \<and> fc_id fc = Some i)"
  by (cases "lb_frontend_ip_configurations lb")
    (force simp: removed_fc_ids_def lb_frontends_def map_filter_def image_iff Bex_def)+

text \<open>Once the load balancer is detached from the ids, deleting any addresses with these ids keeps the references intact.\<close>

lemma intact_detached:
  assumes wf: "wf_azure s" and intact: "references_intact s"
    and kept: "\<And>z. z \<in> set (azs_ips s) \<Longrightarrow> z \<in> set zs \<or> (\<exists>i \<in> set ids. az_ip_id z = Some i)"
  shows "references_intact \<lparr>azs_ips = zs, azs_lb = detach_public_ips (azs_lb s) ids\<rparr>"
proof -
  have "Some i \<in> az_ip_id ` set zs"
    if fc: "fc \<in> set (lb_frontends (azs_lb s))" "\<not> fc_uses ids fc" "fc_ip_id fc = Some i" for fc i
  proof -
    obtain z where z: "z \<in> set (azs_ips s)" "az_ip_id z = Some i"
      using fc(1,3) intact unfolding references_intact_def by (metis (no_types, lifting) imageE)
    moreover have "i \<notin> set ids"
      using fc wf by (auto simp: wf_azure_def fc_uses_iff)
    ultimately show ?thesis using kept [OF z(1)] by force
  qed
  moreover have "Some i \<in> fc_id ` {fc \<in> set (lb_frontends (azs_lb s)). \<not> fc_uses ids fc}"
    if r: "r \<in> set (lb_rule_list (azs_lb s))" "\<not> rule_uses (removed_fc_ids ids (azs_lb s)) r" "rule_fc_id r = Some i" for r i
  proof -
    obtain fc where "fc \<in> set (lb_frontends (azs_lb s))" "fc_id fc = Some i"
      using r(1,3) intact unfolding references_intact_def by (metis (no_types, lifting) imageE)
    moreover have "i \<notin> set (removed_fc_ids ids (azs_lb s))"
      using r wf by (auto simp: wf_azure_def rule_uses_iff)
    ultimately show ?thesis by (auto simp: removed_fc_iff image_iff)
  qed
  ultimately show ?thesis
    unfolding references_intact_def azure_state.select_convs detached_frontends detached_rules set_filter
    by blast
qed

lemma wf_ips_subset: "wf_ips zs \<Longrightarrow> set zs' \<subseteq> set zs \<Longrightarrow> wf_ips zs'"
  unfolding wf_ips_def by blast

lemma wf_detached:
  "wf_azure s \<Longrightarrow> set zs \<subseteq> set (azs_ips s) \<Longrightarrow> wf_azure \<lparr>azs_ips = zs, azs_lb = detach_public_ips (azs_lb s) ids\<rparr>"
  by (auto simp: wf_azure_def detached_frontends detached_rules dest: wf_ips_subset)

lemma detached_not_in_use:
  assumes "wf_azure s" "az_ip_id z = Some i" "i \<in> set ids"
    and "\<And>z'. z' \<in> set zs \<Longrightarrow> az_ip_name z' = Some n \<Longrightarrow> z' = z"
  shows "\<not> ip_in_use \<lparr>azs_ips = zs, azs_lb = detach_public_ips (azs_lb s) ids\<rparr> n"
  using assms by (auto simp: ip_in_use_def detached_frontends wf_azure_def fc_uses_iff)

section \<open>An Azure that answers from the state\<close>

text \<open>
  Reads answer with the state behind the history, listings page by page. Writes of the load
  balancer are accepted; a deletion is refused while a frontend uses the address, and not found
  if there is no address of that name.
\<close>

definition named :: "string \<Rightarrow> az_public_ip \<Rightarrow> bool" where
  "named n z \<longleftrightarrow> az_ip_name z = Some n"

definition answers_from :: "env \<Rightarrow> string \<Rightarrow> azure_state \<Rightarrow> bool" where
  "answers_from e rg s0 \<longleftrightarrow>
     (\<forall>t. azLbGet e t rg rg = Inr (azs_lb (azure_after rg s0 t))) \<and>
     (\<forall>t n z. find (named n) (azs_ips (azure_after rg s0 t)) = Some z \<longrightarrow> azPipGet e t rg n = Inr z) \<and>
     (\<forall>t. \<exists>p ps. azPipList e t rg = Inr p \<and> page_chain e (p # ps) \<and> length ps < pageFuel e \<and>
        chain_values (p # ps) = azs_ips (azure_after rg s0 t)) \<and>
     (\<forall>t lb. azLbUpdate e t rg rg lb = None) \<and> (\<forall>t. azLbUpdateWait e t = None) \<and>
     (\<forall>t n err. azPipDelete e t rg n = Some err \<longrightarrow> ip_in_use (azure_after rg s0 t) n \<or>
        isAzureNotFoundError err \<and> find (named n) (azs_ips (azure_after rg s0 t)) = None) \<and>
     (\<forall>t. azPipDeleteWait e t = None)"

lemma RemoveFromLoadBalancer_answers:
  assumes "answers_from e rg s0"
  shows "\<exists>es. RemoveFromLoadBalancer_impl rg ids e t = (Returned None, t @ es) \<and>
    (let s = azure_after rg s0 t; s' = s\<lparr>azs_lb := detach_public_ips (azs_lb s) ids\<rparr> in
     azure_after rg s es = s' \<and> (\<forall>P. azure_always rg P s es \<longleftrightarrow> P s \<and> P s'))"
proof -
  let ?lb = "azs_lb (azure_after rg s0 t)"
  have "azLbGet e (t @ [CounterInc ReadRequests]) rg rg = Inr ?lb"
    using assms unfolding answers_from_def by simp
  with assms show ?thesis
    unfolding RemoveFromLoadBalancer_detach pip_client_defs
    by (intro exI [of _ "[CounterInc ReadRequests, AzLbGet rg rg (Inr ?lb), CounterInc WriteRequests,
        AzLbUpdate rg rg (detach_public_ips ?lb ids) None, CounterInc ReadRequests, AzLbUpdateWait None]"])
      (auto simp: answers_from_def run_simps Let_def)
qed

lemma Delete_answers:
  assumes "answers_from e rg s0" "\<not> ip_in_use (azure_after rg s0 t) n"
  shows "\<exists>es. Delete_impl rg n e t = (Returned None, t @ es) \<and>
    (let s = azure_after rg s0 t; s' = s\<lparr>azs_ips := filter (\<lambda>z. az_ip_name z \<noteq> Some n) (azs_ips s)\<rparr> in
     azure_after rg s es = s' \<and> (\<forall>P. azure_always rg P s es \<longleftrightarrow> P s \<and> P s'))"
proof (cases "azPipDelete e (t @ [CounterInc WriteRequests]) rg n")
  case None
  with assms(1) show ?thesis
    by (intro exI [of _ "[CounterInc WriteRequests, AzPipDelete rg n None, CounterInc ReadRequests, AzPipDeleteWait None]"])
      (auto simp: answers_from_def Delete_impl_def pip_client_defs run_simps Let_def)
next
  case (Some err)
  have "azure_after rg s0 (t @ [CounterInc WriteRequests]) = azure_after rg s0 t" by simp
  then have err: "isAzureNotFoundError err" "find (named n) (azs_ips (azure_after rg s0 t)) = None"
    using assms Some unfolding answers_from_def by metis+
  from err(2) have "filter (\<lambda>z. az_ip_name z \<noteq> Some n) (azs_ips (azure_after rg s0 t)) = azs_ips (azure_after rg s0 t)"
    by (auto simp: find_None_iff named_def filter_id_conv)
  with Some err(1) show ?thesis
    by (intro exI [of _ "[CounterInc WriteRequests, AzPipDelete rg n (Some err)]"])
      (auto simp: Delete_impl_def pip_client_defs run_simps Let_def)
qed

lemma GetAll_answers:
  assumes "answers_from e rg s0"
  shows "\<exists>es. GetAll_impl rg e t = (Returned (Inr (azs_ips (azure_after rg s0 t))), t @ es) \<and> list_all lookup_event es"
proof -
  let ?t = "t @ [CounterInc ReadRequests]"
  have "azure_after rg s0 ?t = azure_after rg s0 t" by simp
  then obtain p ps where p: "azPipList e ?t rg = Inr p" "page_chain e (p # ps)" "length ps < pageFuel e"
    "chain_values (p # ps) = azs_ips (azure_after rg s0 t)"
    using assms unfolding answers_from_def by metis
  from GetAll_pages_chain [OF p(2,3), of "[]" "?t @ [AzPipList rg (Inr p)]"] p(1,4)
  have "\<exists>es. GetAll_impl rg e t = (Returned (Inr (azs_ips (azure_after rg s0 t))), t @ es)"
    by (auto simp: GetAll_impl_def pip_client_defs run_simps)
  then show ?thesis
    using yields_run [OF staysD [OF stays_GetAll [of rg], of e]] by fastforce
qed

lemma GetByIP_answers:
  assumes "answers_from e rg s0"
  shows "\<exists>es. GetByIP_impl rg ip e t = (Returned (Inr (find (has_ip ip) (azs_ips (azure_after rg s0 t)))), t @ es) \<and>
    list_all lookup_event es"
proof -
  let ?t = "t @ [CounterInc ReadRequests]"
  have "azure_after rg s0 ?t = azure_after rg s0 t" by simp
  then obtain p ps where p: "azPipList e ?t rg = Inr p" "page_chain e (p # ps)" "length ps < pageFuel e"
    "chain_values (p # ps) = azs_ips (azure_after rg s0 t)"
    using assms unfolding answers_from_def by metis
  from GetByIP_pages_chain [OF p(2,3), of ip "?t @ [AzPipList rg (Inr p)]"] p(1,4)
  have "\<exists>es. GetByIP_impl rg ip e t = (Returned (Inr (find (has_ip ip) (azs_ips (azure_after rg s0 t)))), t @ es)"
    by (auto simp: GetByIP_impl_def pip_client_defs run_simps)
  then show ?thesis
    using yields_run [OF staysD [OF stays_GetByIP [of rg ip], of e]] by fastforce
qed

lemma lookups_write_nothing: "list_all lookup_event es \<Longrightarrow> list_all (\<lambda>ev. \<not> write_request ev) es"
proof (erule list.pred_mono_strong)
  show "lookup_event ev \<Longrightarrow> \<not> write_request ev" for ev by (cases ev) auto
qed

section \<open>On the way\<close>

text \<open>The load balancer is detached from the ids already, some of the addresses with these ids may be gone.\<close>

definition releasing :: "string list \<Rightarrow> azure_state \<Rightarrow> azure_state \<Rightarrow> bool" where
  "releasing ids s0 s \<longleftrightarrow> wf_azure s0 \<and> references_intact s0 \<and> azs_lb s = detach_public_ips (azs_lb s0) ids \<and>
     set (azs_ips s) \<subseteq> set (azs_ips s0) \<and>
     (\<forall>z \<in> set (azs_ips s0). z \<in> set (azs_ips s) \<or> (\<exists>i \<in> set ids. az_ip_id z = Some i))"

lemma releasing_start:
  "wf_azure s \<Longrightarrow> references_intact s \<Longrightarrow> releasing ids s (s\<lparr>azs_lb := detach_public_ips (azs_lb s) ids\<rparr>)"
  by (simp add: releasing_def)

lemma releasing_intact: "releasing ids s0 s \<Longrightarrow> references_intact s"
  using intact_detached [of s0 "azs_ips s" ids] by (cases s) (auto simp: releasing_def)

lemma releasing_wf: "releasing ids s0 s \<Longrightarrow> wf_azure s"
  using wf_detached [of s0 "azs_ips s" ids] by (cases s) (auto simp: releasing_def)

lemma releasing_delete:
  assumes "releasing ids s0 s" "z \<in> set (azs_ips s0)" "az_ip_name z = Some n" "az_ip_id z = Some i" "i \<in> set ids"
  shows "\<not> ip_in_use s n" "releasing ids s0 (s\<lparr>azs_ips := filter (\<lambda>z. az_ip_name z \<noteq> Some n) (azs_ips s)\<rparr>)"
proof -
  have unique: "z' = z" if "z' \<in> set (azs_ips s0)" "az_ip_name z' = Some n" for z'
    using that assms(1-3) unfolding releasing_def wf_azure_def wf_ips_def by metis
  then show "\<not> ip_in_use s n"
    using detached_not_in_use [of s0 z i ids "azs_ips s" n] assms(1,4,5)
    by (cases s) (auto simp: releasing_def)
  show "releasing ids s0 (s\<lparr>azs_ips := filter (\<lambda>z. az_ip_name z \<noteq> Some n) (azs_ips s)\<rparr>)"
    using assms(1,4,5) unique by (auto simp: releasing_def)
qed

text \<open>Deleting one address.\<close>

lemma Delete_releasing:
  assumes "answers_from e rg s0" "releasing ids s1 (azure_after rg s0 t)"
    and "z \<in> set (azs_ips s1)" "az_ip_name z = Some n" "az_ip_id z = Some i" "i \<in> set ids"
  shows "\<exists>es. Delete_impl rg n e t = (Returned None, t @ es) \<and>
    (let s = azure_after rg s0 t; s' = s\<lparr>azs_ips := filter (\<lambda>z. az_ip_name z \<noteq> Some n) (azs_ips s)\<rparr> in
     azure_after rg s es = s' \<and> releasing ids s1 s' \<and> azure_always rg references_intact s es)"
  using Delete_answers [OF assms(1) releasing_delete(1) [OF assms(2-6)]] releasing_delete(2) [OF assms(2-6)]
    releasing_intact assms(2) by (fastforce simp: Let_def)

text \<open>Deleting one after the other.\<close>

lemma delete_orphans_releasing:
  assumes "answers_from e rg s0" "releasing ids s1 (azure_after rg s0 t)"
    and "\<And>z. z \<in> set zs \<Longrightarrow> z \<in> set (azs_ips s1) \<and> (\<exists>i \<in> set ids. az_ip_id z = Some i)"
  shows "\<exists>es. for_each zs (delete_orphan (NewPublicIPAddressUtils rg)) e t = (Returned None, t @ es) \<and>
    (let s = azure_after rg s0 t in
     azure_after rg s es = s\<lparr>azs_ips := filter (\<lambda>z. z \<notin> set zs) (azs_ips s)\<rparr> \<and>
     azure_always rg references_intact s es)"
  using assms(2,3)
proof (induction zs arbitrary: t)
  case Nil
  then show ?case by (auto simp: run_ret releasing_intact)
next
  case (Cons z zs)
  have wf: "wf_azure s1" using Cons.prems(1) by (simp add: releasing_def)
  obtain i where z: "z \<in> set (azs_ips s1)" "az_ip_id z = Some i" "i \<in> set ids"
    using Cons.prems(2) [of z] by auto
  with wf_identified [OF wf] obtain n where n: "az_ip_name z = Some n" by auto
  let ?s = "azure_after rg s0 t"
  obtain es where es: "Delete_impl rg n e t = (Returned None, t @ es)"
    "azure_after rg ?s es = ?s\<lparr>azs_ips := filter (\<lambda>z. az_ip_name z \<noteq> Some n) (azs_ips ?s)\<rparr>"
    "releasing ids s1 (azure_after rg ?s es)" "azure_always rg references_intact ?s es"
    using Delete_releasing [OF assms(1) Cons.prems(1) z(1) n z(2,3)] by (auto simp: Let_def)
  have "releasing ids s1 (azure_after rg s0 (t @ es))" using es(3) by simp
  from Cons.IH [OF this] Cons.prems(2) obtain es' where
    es': "for_each zs (delete_orphan (NewPublicIPAddressUtils rg)) e (t @ es) = (Returned None, (t @ es) @ es')"
    "azure_after rg (azure_after rg ?s es) es' = (azure_after rg ?s es)\<lparr>azs_ips :=
       filter (\<lambda>z. z \<notin> set zs) (azs_ips (azure_after rg ?s es))\<rparr>"
    "azure_always rg references_intact (azure_after rg ?s es) es'"
    by (auto simp: Let_def)
  have "az_ip_name z' \<noteq> Some n \<longleftrightarrow> z' \<noteq> z" if "z' \<in> set (azs_ips ?s)" for z'
  proof -
    have "z' \<in> set (azs_ips s1)" using that Cons.prems(1) by (auto simp: releasing_def)
    then show ?thesis using z(1) n wf unfolding wf_azure_def wf_ips_def by metis
  qed
  then have "filter (\<lambda>z. z \<notin> set zs) (filter (\<lambda>z. az_ip_name z \<noteq> Some n) (azs_ips ?s)) =
      filter (\<lambda>z'. z' \<notin> set (z # zs)) (azs_ips ?s)"
    unfolding filter_filter by (intro filter_cong) auto
  moreover have "delete_orphan (NewPublicIPAddressUtils rg) z e t = (Returned None, t @ es)"
    using es(1) n by (simp add: delete_orphan_def seq_run_Returned run_ret)
  ultimately show ?case
    using es(2,4) es'
    by (intro exI [of _ "es @ es'"]) (simp add: seq_run_Returned Let_def)
qed

section \<open>The stand-alone remedy\<close>

definition azure_orphans :: "string \<Rightarrow> service list \<Rightarrow> azure_state \<Rightarrow> az_public_ip list" where
  "azure_orphans shoot svcs s =
     filter (\<lambda>z. belongs_to shoot z \<and> orphan (concat (map service_ips svcs)) z) (azs_ips s)"

lemma released_orphans:
  "azs_ips (release_addresses (azure_orphans shoot svcs s) s) =
     filter (\<lambda>z. \<not> (belongs_to shoot z \<and> orphan (concat (map service_ips svcs)) z)) (azs_ips s)"
  by (auto simp: release_addresses_def azure_orphans_def intro!: filter_cong)

lemma remove_orphans_releases:
  assumes answers: "answers_from e rg s0" and s: "wf_azure (azure_after rg s0 t)" "references_intact (azure_after rg s0 t)"
    and zs: "set zs \<subseteq> set (azs_ips (azure_after rg s0 t))"
  shows "\<exists>es. remove_orphans (NewPublicIPAddressUtils rg) zs e t = (Returned None, t @ es) \<and>
    (let s = azure_after rg s0 t in
     azure_after rg s es = release_addresses zs s \<and> azure_always rg references_intact s es)"
proof -
  let ?s = "azure_after rg s0 t" and ?ids = "ip_ids zs"
  have named: "list_all (\<lambda>z. az_ip_id z \<noteq> None) zs"
    using zs wf_identified [OF s(1)] by (auto simp: list_all_iff)
  let ?s' = "?s\<lparr>azs_lb := detach_public_ips (azs_lb ?s) ?ids\<rparr>"
  obtain es where es: "RemoveFromLoadBalancer_impl rg ?ids e t = (Returned None, t @ es)"
    "azure_after rg ?s es = ?s'" "\<And>P. azure_always rg P ?s es \<longleftrightarrow> P ?s \<and> P ?s'"
    using RemoveFromLoadBalancer_answers [OF answers, of ?ids t] unfolding Let_def by auto
  have start: "releasing ?ids ?s ?s'" by (rule releasing_start [OF s])
  have at: "azure_after rg s0 (t @ es) = ?s'" using es(2) by simp
  with start have "releasing ?ids ?s (azure_after rg s0 (t @ es))" by simp
  moreover have "z \<in> set (azs_ips ?s) \<and> (\<exists>i \<in> set ?ids. az_ip_id z = Some i)" if "z \<in> set zs" for z
    using that named zs by (auto simp: ip_ids_def list_all_iff)
  ultimately obtain es' where
    es': "for_each zs (delete_orphan (NewPublicIPAddressUtils rg)) e (t @ es) = (Returned None, (t @ es) @ es')"
    "azure_after rg ?s' es' = ?s'\<lparr>azs_ips := filter (\<lambda>z. z \<notin> set zs) (azs_ips ?s')\<rparr>"
    "azure_always rg references_intact ?s' es'"
    using delete_orphans_releasing [OF answers, of ?ids ?s "t @ es" zs] unfolding at Let_def by auto
  have "collect_ids zs = ret ?ids" using named by (simp only: collect_ids_run if_True ip_ids_def)
  then have "remove_orphans (NewPublicIPAddressUtils rg) zs e t = (Returned None, t @ es @ es')"
    using es(1) es'(1) by (simp add: remove_orphans_def seq_run_Returned)
  then show ?thesis
    using es(2,3) es'(2,3) s(2) releasing_intact [OF start]
    by (intro exI [of _ "es @ es'"]) (simp add: Let_def release_addresses_def)
qed

lemma clean_releases:
  assumes "answers_from e rg s0" "wf_azure (azure_after rg s0 t)" "references_intact (azure_after rg s0 t)"
    and svcs: "kListServices e t = Inr svcs"
  shows "\<exists>es. clean (NewPublicIPAddressUtils rg) shoot e t = (Returned None, t @ es) \<and>
    (let s = azure_after rg s0 t in
     azure_after rg s es = release_addresses (azure_orphans shoot svcs s) s \<and>
     azure_always rg references_intact s es)"
proof -
  let ?s = "azure_after rg s0 t" and ?t = "t @ [KListServices (Inr svcs)]"
  let ?zs = "azure_orphans shoot svcs ?s"
  have same: "azure_after rg s0 ?t = ?s" by simp
  with GetAll_answers [OF assms(1), of ?t] obtain es where
    es: "GetAll_impl rg e ?t = (Returned (Inr (azs_ips ?s)), ?t @ es)" "list_all lookup_event es" by metis
  note quiet = azure_after_reads [OF lookups_write_nothing [OF es(2)]]
    azure_always_reads [OF lookups_write_nothing [OF es(2)]]
  have at: "azure_after rg s0 (?t @ es) = ?s" by (simp add: quiet)
  have "set ?zs \<subseteq> set (azs_ips ?s)" by (auto simp: azure_orphans_def)
  with remove_orphans_releases [OF assms(1), of "?t @ es" ?zs] assms(2,3) obtain es' where
    es': "remove_orphans (NewPublicIPAddressUtils rg) ?zs e (?t @ es) = (Returned None, (?t @ es) @ es')"
    "azure_after rg ?s es' = release_addresses ?zs ?s" "azure_always rg references_intact ?s es'"
    unfolding at Let_def by auto
  have "list_all (\<lambda>z. az_ip_name z \<noteq> None) (azs_ips ?s)"
    using wf_identified [OF assms(2)] by (simp add: list_all_iff)
  then have "\<exists>kn. separateOrphanAndKnownIps (concat (map service_ips svcs)) (azs_ips ?s) shoot = Some (?zs, kn)"
    by (simp only: separate_eq if_True azure_orphans_def) simp
  then have "clean (NewPublicIPAddressUtils rg) shoot e t = (Returned None, t @ KListServices (Inr svcs) # es @ es')"
    using svcs es(1) es'(1) by (auto simp: clean_run)
  then show ?thesis
    using es'(2,3) assms(3) quiet
    by (intro exI [of _ "KListServices (Inr svcs) # es @ es'"]) (simp add: Let_def)
qed

section \<open>The publicipaddress controller\<close>

text \<open>The address a resource stands for: the one with its IP, under the recorded name or tagged for its service.\<close>

definition stands_for :: "env \<Rightarrow> azure_state \<Rightarrow> public_ip_address \<Rightarrow> az_public_ip \<Rightarrow> bool" where
  "stands_for e s p z \<longleftrightarrow> z \<in> set (azs_ips s) \<and> has_ip (ps_ip_address (pip_spec p)) z \<and>
     (case ps_name (pip_status p) of
        Some n \<Rightarrow> az_ip_name z = Some n
      | None \<Rightarrow> tagged_for (namespacedNameString e (GetNamespacedName service_ObjectLabeler
          (map_get (meta_labels (pip_meta p)) ServiceLabel))) z)"

lemma find_unique:
  assumes "z \<in> set zs" "P z" "\<And>z'. z' \<in> set zs \<Longrightarrow> P z' \<Longrightarrow> z' = z"
  shows "find P zs = Some z"
proof (cases "find P zs")
  case None
  then show ?thesis using assms(1,2) by (auto simp: find_None_iff)
next
  case (Some z')
  then have "z' \<in> set zs" "P z'" by (auto simp: find_Some_iff)
  with assms(3) Some show ?thesis by simp
qed

lemma find_named:
  "wf_azure s \<Longrightarrow> z \<in> set (azs_ips s) \<Longrightarrow> az_ip_name z = Some n \<Longrightarrow> find (named n) (azs_ips s) = Some z"
  by (rule find_unique) (auto simp: named_def wf_azure_def wf_ips_def)

lemma find_address:
  "wf_azure s \<Longrightarrow> z \<in> set (azs_ips s) \<Longrightarrow> has_ip ip z \<Longrightarrow> find (has_ip ip) (azs_ips s) = Some z"
  by (rule find_unique) (auto simp: has_ip_def wf_azure_def wf_ips_def)

lemma getAzure_answers:
  assumes "answers_from e rg s0" "wf_azure (azure_after rg s0 t)" "stands_for e (azure_after rg s0 t) p z"
  shows "\<exists>es. getAzurePublicIPAddress (azure_pip_actuator rg cfg) p e t = (Returned (Inr (Some z)), t @ es) \<and>
    list_all lookup_event es"
proof (cases "ps_name (pip_status p)")
  case None
  have "find (has_ip (ps_ip_address (pip_spec p))) (azs_ips (azure_after rg s0 t)) = Some z"
    using assms(2,3) by (intro find_address) (auto simp: stands_for_def)
  with GetByIP_answers [OF assms(1), of "ps_ip_address (pip_spec p)" t] None assms(3) show ?thesis
    by (auto simp: getAzurePublicIPAddress_def getByIPAndTag_def seq_run_Returned run_simps stands_for_def)
next
  case (Some n)
  have at: "azure_after rg s0 (t @ [CounterInc ReadRequests]) = azure_after rg s0 t" by simp
  have "find (named n) (azs_ips (azure_after rg s0 t)) = Some z"
    using assms(2,3) Some by (intro find_named) (auto simp: stands_for_def)
  with assms(1) at have "azPipGet e (t @ [CounterInc ReadRequests]) rg n = Inr z"
    unfolding answers_from_def by metis
  with Some assms(3) show ?thesis
    by (simp add: getAzurePublicIPAddress_def GetByName_impl_def pip_client_defs run_simps
        stands_for_def has_ip_def)
qed

lemma clean_address_releases:
  assumes answers: "answers_from e rg s0" and s: "wf_azure (azure_after rg s0 t)" "references_intact (azure_after rg s0 t)"
    and z: "z \<in> set (azs_ips (azure_after rg s0 t))"
    and status: "ps_id (pip_status p) = az_ip_id z" "ps_name (pip_status p) = az_ip_name z"
  shows "\<exists>es. cleanAzurePublicIPAddress (azure_pip_actuator rg cfg) p e t = (Returned None, t @ es) \<and>
    (let s = azure_after rg s0 t in
     azure_after rg s es = release_addresses [z] s \<and> azure_always rg references_intact s es)"
proof -
  let ?s = "azure_after rg s0 t"
  obtain i n where z': "az_ip_id z = Some i" "az_ip_name z = Some n"
    using wf_identified [OF s(1) z] by auto
  let ?s' = "?s\<lparr>azs_lb := detach_public_ips (azs_lb ?s) [i]\<rparr>"
  obtain es where es: "RemoveFromLoadBalancer_impl rg [i] e t = (Returned None, t @ es)"
    "azure_after rg ?s es = ?s'" "\<And>P. azure_always rg P ?s es \<longleftrightarrow> P ?s \<and> P ?s'"
    using RemoveFromLoadBalancer_answers [OF answers, of "[i]" t] unfolding Let_def by auto
  have start: "releasing [i] ?s ?s'" by (rule releasing_start [OF s])
  have at: "azure_after rg s0 (t @ es) = ?s'" using es(2) by simp
  obtain es' where es': "Delete_impl rg n e (t @ es) = (Returned None, (t @ es) @ es')"
    "azure_after rg ?s' es' = ?s'\<lparr>azs_ips := filter (\<lambda>z. az_ip_name z \<noteq> Some n) (azs_ips ?s')\<rparr>"
    "azure_always rg references_intact ?s' es'"
    using Delete_releasing [OF answers, of "[i]" ?s "t @ es" z n i] start z z' unfolding at Let_def by auto
  have "filter (\<lambda>z. az_ip_name z \<noteq> Some n) (azs_ips ?s) = filter (\<lambda>z'. z' \<notin> set [z]) (azs_ips ?s)"
  proof (intro filter_cong refl)
    fix z' assume "z' \<in> set (azs_ips ?s)"
    then show "(az_ip_name z' \<noteq> Some n) = (z' \<notin> set [z])"
      using s(1) z z' unfolding wf_azure_def wf_ips_def by (metis empty_set list.set_intros(1) set_ConsD empty_iff)
  qed
  with es es' z' status s(2) releasing_intact [OF start] show ?thesis
    by (intro exI [of _ "es @ es'"])
      (simp add: cleanAzurePublicIPAddress_def seq_run_Returned run_ret Let_def release_addresses_def ip_ids_def)
qed

lemma pip_clean_releases:
  assumes "answers_from e rg s0" "accepts_patches e"
    and "wf_azure (azure_after rg s0 t)" "references_intact (azure_after rg s0 t)" "z \<in> set (azs_ips (azure_after rg s0 t))"
    and "ps_id (pip_status p) = az_ip_id z" "ps_name (pip_status p) = az_ip_name z"
  shows "\<exists>p' es. pip_clean (azure_pip_actuator rg cfg) p azip ops e t = (Returned (Inr 0, p'), t @ es) \<and>
    (let s = azure_after rg s0 t in
     azure_after rg s es = release_addresses [z] s \<and> azure_always rg references_intact s es) \<and>
    \<not> ps_exists (pip_status p')"
proof -
  let ?s = "azure_after rg s0 t"
  obtain es where es: "cleanAzurePublicIPAddress (azure_pip_actuator rg cfg) p e t = (Returned None, t @ es)"
    "azure_after rg ?s es = release_addresses [z] ?s" "azure_always rg references_intact ?s es"
    using clean_address_releases [OF assms(1,3-7)] unfolding Let_def by auto
  have "azure_always rg references_intact ?s (es @ [CounterInc CleanedIPs, KPatchPip q None q'])" for q q'
    using es(3) by (simp only: azure_always_append azure_always_iff [where es = es]) (auto dest: spec [of _ "length es"])
  with es assms(2) show ?thesis
    by (simp add: pip_clean_def seq_run_Returned Let_def run_simps run_update_status_ok not_exists_built)
qed

lemma pip_Delete_releases:
  assumes "answers_from e rg s0" "accepts_patches e"
    and s: "wf_azure (azure_after rg s0 t)" "references_intact (azure_after rg s0 t)" "stands_for e (azure_after rg s0 t) p z"
    and p: "\<not> shouldNotClean p" "grace_elapsed e cfg p"
  shows "\<exists>p' es. pip_Delete (azure_pip_actuator rg cfg) p e t = (Returned (Inr 0, p'), t @ es) \<and>
    (let s = azure_after rg s0 t in
     azure_after rg s es = release_addresses [z] s \<and> azure_always rg references_intact s es) \<and>
    \<not> ps_exists (pip_status p')"
proof -
  let ?a = "azure_pip_actuator rg cfg" and ?s = "azure_after rg s0 t"
  let ?ops = "DeleteFailedOperation (getFailedOperations p) OperationTypeGetPublicIPAddress"
  let ?p = "p\<lparr>pip_status := build_status (Some z) ?ops\<rparr>"
  obtain look where look: "getAzurePublicIPAddress ?a p e t = (Returned (Inr (Some z)), t @ look)" "list_all lookup_event look"
    using getAzure_answers [OF assms(1) s(1,3)] by blast
  let ?t = "t @ look @ [KPatchPip p None ?p]"
  have "grace_elapsed e cfg ?p" "\<not> shouldNotClean ?p"
    using p by (simp_all add: grace_elapsed_def shouldNotClean_def)
  obtain g where g: "within_grace ?a ?p e ?t = (Returned False, ?t @ g)" "list_all (\<lambda>ev. \<not> write_request ev) g"
  proof (cases "meta_deletion_timestamp (pip_meta p)")
    case None
    then show thesis by (intro that [of "[]"]) (simp_all add: within_grace_def run_ret)
  next
    case (Some dt)
    with p(2) show thesis
      by (intro that [of "[ClockNow (clockNow e ?t)]"]) (auto simp: within_grace_def now_def run_simps grace_elapsed_def)
  qed
  let ?es = "look @ KPatchPip p None ?p # g"
  have quiet: "list_all (\<lambda>ev. \<not> write_request ev) ?es"
    using g(2) lookups_write_nothing [OF look(2)] by simp
  note same = azure_after_reads [OF quiet] azure_always_reads [OF quiet]
  have at: "azure_after rg s0 (t @ ?es) = ?s" using same(1) by (simp only: azure_after_simps)
  have z: "z \<in> set (azs_ips ?s)" using s(3) by (simp add: stands_for_def)
  obtain p' es where run: "pip_clean ?a ?p (Some z) ?ops e (t @ ?es) = (Returned (Inr 0, p'), (t @ ?es) @ es)"
    "azure_after rg ?s es = release_addresses [z] ?s" "azure_always rg references_intact ?s es" "\<not> ps_exists (pip_status p')"
    using pip_clean_releases [OF assms(1,2), of "t @ ?es" z ?p cfg "Some z" ?ops] s(1,2) z
    unfolding at Let_def by auto
  have "pip_Delete ?a p e t = (Returned (Inr 0, p'), t @ ?es @ es)"
    using look(1) g(1) run(1) \<open>\<not> shouldNotClean ?p\<close>
    by (simp add: pip_Delete_def Let_def seq_run_Returned run_update_status_ok [OF assms(2)])
  moreover have "azure_after rg ?s (?es @ es) = release_addresses [z] ?s"
    "azure_always rg references_intact ?s (?es @ es)"
    using run(2,3) same s(2) by (simp_all only: azure_after_simps azure_always_append)
  ultimately show ?thesis using run(4) unfolding Let_def by blast
qed

lemma Reconcile_releases:
  assumes fetched: "kGet e t PublicIPAddressKind key = Inr (PublicIPAddress p)"
    and deleting: "meta_deletion_timestamp (pip_meta p) \<noteq> None" "grace_elapsed e cfg p" "\<not> shouldNotClean p"
    and finalizer: "containsFinalizer e (PublicIPAddress p) pip_FinalizerName" "releases_finalizers e"
    and env: "answers_from e rg s0" "accepts_patches e"
    and s: "wf_azure (azure_after rg s0 t)" "references_intact (azure_after rg s0 t)" "stands_for e (azure_after rg s0 t) p z"
  shows "\<exists>p' es. Reconcile (pip_reconciler (NewPublicIPAddressUtils rg) cfg) key e t =
      (Returned (Inr empty_result), t @ es @ [KRemoveFinalizer (PublicIPAddress p') pip_FinalizerName None]) \<and>
    (let s = azure_after rg s0 t in
     azure_after rg s es = release_addresses [z] s \<and> azure_always rg references_intact s es)"
proof -
  let ?rc = "pip_reconciler (NewPublicIPAddressUtils rg) cfg" and ?s = "azure_after rg s0 t"
  let ?got = "KGet PublicIPAddressKind key (Inr (PublicIPAddress p))"
  let ?t = "t @ [?got]"
  have at: "azure_after rg s0 ?t = ?s" by simp
  obtain p' es where run: "pip_Delete (azure_pip_actuator rg cfg) p e ?t = (Returned (Inr 0, p'), ?t @ es)"
    "azure_after rg ?s es = release_addresses [z] ?s" "azure_always rg references_intact ?s es"
    using pip_Delete_releases [OF env, of ?t p z cfg] s deleting(2,3) unfolding at Let_def by auto
  have act: "Delete (rc_actuator ?rc) (PublicIPAddress p) e ?t = (Returned (Inr 0, PublicIPAddress p'), ?t @ es)"
    using run(1) by (simp add: pip_reconciler_def pip_NewActuator_def on_pip_def Let_def seq_run_Returned run_ret)
  have "ignoreNotFound e None = None" using env(2) by (simp add: accepts_patches_def)
  with delete_actuator_ok [OF _ act] finalizer
  have "delete ?rc (PublicIPAddress p) e ?t = (Returned (Inr empty_result),
      ?t @ es @ [KRemoveFinalizer (PublicIPAddress p') pip_FinalizerName None])"
    by (simp add: pip_reconciler_def Let_def releases_finalizers_def requeue_result_def)
  moreover have "Reconcile ?rc key e t = delete ?rc (PublicIPAddress p) e ?t"
    using fetched deleting(1) by (simp add: Reconcile_def client_Get_def run_simps pip_reconciler_def)
  ultimately show ?thesis
    using run(2,3) s(2) by (intro exI [of _ p'] exI [of _ "?got # es"]) (simp add: Let_def)
qed

section \<open>An Azure to compute with\<close>

text \<open>Everything on one page, and a deletion that is refused, not found or accepted.\<close>

definition answering_env :: "env \<Rightarrow> string \<Rightarrow> azure_state \<Rightarrow> env" where
  "answering_env e rg s0 = e\<lparr>pageFuel := 2,
     azPipGet := (\<lambda>t g n. case find (named n) (azs_ips (azure_after rg s0 t)) of
        Some z \<Rightarrow> Inr z | None \<Rightarrow> Inl (DetailedError (Some 404) ''not found'')),
     azPipList := (\<lambda>t g. Inr \<lparr>page_not_done = True, page_values = azs_ips (azure_after rg s0 t)\<rparr>),
     azPipNext := (\<lambda>t p. Inr \<lparr>page_not_done = False, page_values = []\<rparr>),
     azPipDelete := (\<lambda>t g n. if ip_in_use (azure_after rg s0 t) n then Some (DetailedError (Some 400) ''in use'')
        else case find (named n) (azs_ips (azure_after rg s0 t)) of
          Some z \<Rightarrow> None | None \<Rightarrow> Some (DetailedError (Some 404) ''not found'')),
     azPipDeleteWait := (\<lambda>t. None),
     azLbGet := (\<lambda>t g n. Inr (azs_lb (azure_after rg s0 t))),
     azLbUpdate := (\<lambda>t g n lb. None), azLbUpdateWait := (\<lambda>t. None)\<rparr>"

lemma answering_env_answers: "answers_from (answering_env e rg s0) rg s0"
proof -
  have "\<exists>p ps. azPipList (answering_env e rg s0) t rg = Inr p \<and> page_chain (answering_env e rg s0) (p # ps) \<and>
      length ps < pageFuel (answering_env e rg s0) \<and> chain_values (p # ps) = azs_ips (azure_after rg s0 t)" for t
    by (intro exI [of _ "\<lparr>page_not_done = True, page_values = azs_ips (azure_after rg s0 t)\<rparr>"]
        exI [of _ "[\<lparr>page_not_done = False, page_values = []\<rparr>]"])
      (simp add: answering_env_def chain_values_def)
  then show ?thesis
    unfolding answers_from_def by (simp add: answering_env_def split: option.split)
qed

section \<open>Day after day\<close>

text \<open>What taking nothing off the load balancer does to it: a probe is repeated as often as it has rules.\<close>

definition rule_count :: "probe \<Rightarrow> nat" where
  "rule_count p = (case pr_rules p of None \<Rightarrow> 0 | Some srs \<Rightarrow> length srs)"

definition repeat_probes :: "nat \<Rightarrow> load_balancer \<Rightarrow> load_balancer" where
  "repeat_probes n lb =
     lb\<lparr>lb_probes := map_option (\<lambda>ps. concat (map (\<lambda>p. replicate (rule_count p ^ n) p) ps)) (lb_probes lb)\<rparr>"

lemma nothing_removed:
  "removed_fc_ids [] lb = []" "removed_rule_ids [] lb = []" "\<not> fc_uses [] fc" "\<not> rule_uses [] r"
  by (auto simp: removed_fc_ids_def removed_rule_ids_def fc_uses_def rule_uses_def map_filter_def split: option.split)

lemma filter_all_option: "map_option (filter (\<lambda>_. True)) x = x"
  by (cases x) simp_all

lemma detach_nothing: "detach_public_ips lb [] = repeat_probes 1 lb"
proof -
  have "surviving_rules [] p = rule_count p" for p
    by (simp add: surviving_rules_def rule_count_def rule_stays_def split: option.split)
  then show ?thesis
    by (cases lb) (simp add: detach_public_ips_eq nothing_removed repeat_probes_def filter_all_option)
qed

lemma repeat_replicate: "concat (replicate m (replicate k p)) = replicate (m * k) p"
  by (induction m) (simp_all add: replicate_add)

lemma repeat_again: "repeat_probes 1 (repeat_probes n lb) = repeat_probes (Suc n) lb"
proof -
  have "concat (map (\<lambda>p. replicate (rule_count p) p) (concat (map (\<lambda>p. replicate (rule_count p ^ n) p) ps))) =
      concat (map (\<lambda>p. replicate (rule_count p ^ Suc n) p) ps)" for ps
    by (induction ps) (simp_all add: repeat_replicate mult.commute)
  then show ?thesis by (simp add: repeat_probes_def option.map_comp comp_def)
qed

lemma repeat_later: "repeat_probes n (repeat_probes 1 lb) = repeat_probes (Suc n) lb"
proof (induction n)
  case 0
  show ?case by (simp add: repeat_probes_def option.map_comp comp_def map_option.identity)
next
  case (Suc n)
  then show ?case by (metis repeat_again)
qed

lemma idle_release: "release_addresses [] s = s\<lparr>azs_lb := repeat_probes 1 (azs_lb s)\<rparr>"
  by (simp add: release_addresses_def ip_ids_def detach_nothing)

lemma idle_days:
  assumes "answers_from e rg s0" "\<And>t. kListServices e t = Inr svcs" "\<And>t. \<not> ctxDone e t"
    and "wf_azure (azure_after rg s0 t)" "references_intact (azure_after rg s0 t)"
    and "azure_orphans shoot svcs (azure_after rg s0 t) = []"
  shows "\<exists>es. CleanPublicIps n (NewPublicIPAddressUtils rg) shoot retry e t = (OutOfFuel, t @ es) \<and>
    (let s = azure_after rg s0 t in azure_after rg s es = s\<lparr>azs_lb := repeat_probes n (azs_lb s)\<rparr>)"
  using assms(4-6)
proof (induction n arbitrary: t retry)
  case 0
  have "repeat_probes 0 lb = lb" for lb
    by (cases lb) (simp add: repeat_probes_def map_option.identity)
  then show ?case by (simp add: run_simps Let_def)
next
  case (Suc n)
  let ?s = "azure_after rg s0 t" and ?u = "NewPublicIPAddressUtils rg"
  obtain es where es: "clean ?u shoot e t = (Returned None, t @ es)"
    "azure_after rg ?s es = ?s\<lparr>azs_lb := repeat_probes 1 (azs_lb ?s)\<rparr>" "azure_always rg references_intact ?s es"
    using clean_releases [OF assms(1) Suc.prems(1,2) assms(2), where shoot = shoot] Suc.prems(3)
    by (auto simp: Let_def idle_release)
  let ?t = "(t @ es) @ [Sleep (24 * hour)]"
  have at: "azure_after rg s0 ?t = ?s\<lparr>azs_lb := repeat_probes 1 (azs_lb ?s)\<rparr>" using es(2) by simp
  have "wf_azure (azure_after rg s0 ?t)"
    using wf_detached [OF Suc.prems(1) subset_refl, of "[]"] unfolding at detach_nothing
    by (simp add: wf_azure_def)
  moreover have "references_intact (azure_after rg s0 ?t)"
    using es(3) unfolding at azure_always_iff by (metis es(2) take_all order_refl)
  moreover have "azure_orphans shoot svcs (azure_after rg s0 ?t) = []"
    using Suc.prems(3) unfolding at by (simp add: azure_orphans_def)
  ultimately obtain es' where es': "CleanPublicIps n ?u shoot 0 e ?t = (OutOfFuel, ?t @ es')"
    "azure_after rg (azure_after rg s0 ?t) es' = (azure_after rg s0 ?t)\<lparr>azs_lb :=
       repeat_probes n (azs_lb (azure_after rg s0 ?t))\<rparr>"
    using Suc.IH [of ?t 0] unfolding Let_def by blast
  have "CleanPublicIps (Suc n) ?u shoot retry e t = (OutOfFuel, t @ es @ Sleep (24 * hour) # es')"
    using es(1) es'(1) assms(3) by (simp add: seq_run_Returned run_simps)
  moreover have "azure_after rg ?s (es @ Sleep (24 * hour) # es') = ?s\<lparr>azs_lb := repeat_probes (Suc n) (azs_lb ?s)\<rparr>"
    using es(2) es'(2) unfolding at by (simp add: repeat_later [unfolded One_nat_def])
  ultimately show ?case unfolding Let_def by blast
qed

end
