(* ===== verification/Azure_Refinement.thy ===== *)
theory Azure_Refinement
  imports Azure_State Pip_Properties Utils_Properties
begin

text \<open>
  The two ways to clean addresses refine the release of addresses from the state of Azure, keep
  its references intact at every moment, and what the daily cleaning does to a group in which
  there is nothing to clean.
\<close>

section \<open>A resource group to compute with\<close>

definition second_ip :: az_public_ip where
  "second_ip = orphan_ip\<lparr>az_ip_id := Some ''/ip-2'', az_ip_name := Some ''ip-2'', az_ip_address := Some ''5.6.7.8''\<rparr>"

definition two_ips :: azure_state where
  "two_ips = \<lparr>azs_ips = [orphan_ip, second_ip], azs_lb = example_lb\<rparr>"

definition two_ips_env :: env where
  "two_ips_env = answering_env (expired_env\<lparr>kListServices := (\<lambda>t. Inr [\<lparr>svc_meta = empty_meta,
     svc_type = ServiceTypeLoadBalancer, svc_ingress = [\<lparr>ingress_ip = ''5.6.7.8''\<rparr>]\<rparr>])\<rparr>) ''shoot'' two_ips"

lemma two_ips_lb:
  "lb_frontends (azs_lb two_ips) = [example_fc ''fc-1'' ''/ip-1'', example_fc ''fc-2'' ''/ip-2'']"
  "lb_rule_list (azs_lb two_ips) = [example_rule ''r-1'' ''fc-1'', example_rule ''r-2'' ''fc-2'', example_rule ''r-3'' ''fc-2'']"
  by (simp_all add: two_ips_def example_lb_def lb_frontends_def lb_rule_list_def)

lemma two_ips_facts: "wf_azure two_ips" "references_intact two_ips"
proof -
  have "wf_ips (azs_ips two_ips)"
    by (auto simp: wf_ips_def two_ips_def orphan_ip_def second_ip_def)
  then show "wf_azure two_ips"
    by (simp add: wf_azure_def two_ips_lb example_fc_def example_rule_def)
  show "references_intact two_ips"
    by (simp add: references_intact_def two_ips_lb fc_ip_id_def rule_fc_id_def example_fc_def example_rule_def)
      (simp add: two_ips_def orphan_ip_def second_ip_def)
qed

lemma two_ips_answers: "answers_from two_ips_env ''shoot'' two_ips"
  unfolding two_ips_env_def by (rule answering_env_answers)

lemma two_ips_env_simps:
  "kListServices two_ips_env t = Inr [\<lparr>svc_meta = empty_meta, svc_type = ServiceTypeLoadBalancer,
     svc_ingress = [\<lparr>ingress_ip = ''5.6.7.8''\<rparr>]\<rparr>]"
  "kGet two_ips_env t k key = Inr (PublicIPAddress deleted_pip)" "\<not> ctxDone two_ips_env t"
  by (simp_all add: two_ips_env_def answering_env_def expired_env_def orphan_env_def)

lemma two_ips_env_facts:
  "accepts_patches two_ips_env" "releases_finalizers two_ips_env"
  "grace_elapsed two_ips_env pip_default_config deleted_pip"
  "containsFinalizer two_ips_env (PublicIPAddress deleted_pip) pip_FinalizerName"
  "stands_for two_ips_env two_ips deleted_pip orphan_ip"
proof -
  have same: "accepts_patches two_ips_env = accepts_patches expired_env"
    "releases_finalizers two_ips_env = releases_finalizers expired_env"
    "grace_elapsed two_ips_env = grace_elapsed expired_env"
    "containsFinalizer two_ips_env = containsFinalizer expired_env"
    "namespacedNameString two_ips_env = namespacedNameString expired_env"
    by (auto simp: two_ips_env_def answering_env_def accepts_patches_def releases_finalizers_def
        grace_elapsed_def fun_eq_iff)
  show "accepts_patches two_ips_env" "releases_finalizers two_ips_env"
    "grace_elapsed two_ips_env pip_default_config deleted_pip"
    "containsFinalizer two_ips_env (PublicIPAddress deleted_pip) pip_FinalizerName"
    unfolding same by (rule expired_env_facts deleted_pip_facts)+
  have "tagged_for (namespacedNameString expired_env (GetNamespacedName service_ObjectLabeler
      (map_get (meta_labels (pip_meta deleted_pip)) ServiceLabel))) orphan_ip" by code_simp
  then show "stands_for two_ips_env two_ips deleted_pip orphan_ip"
    unfolding stands_for_def same
    by (simp add: deleted_pip_def new_pip_def empty_pip_status_def has_ip_def two_ips_def, simp add: orphan_ip_def)
qed

section \<open>Refinement\<close>

text \<open>C4: Cleaning an address through its resource refines the release of the address. When
  Azure answers from a state (reads see all accepted writes, a deletion is refused while a
  frontend uses the address), in which the resource stands for the address \<open>z\<close>, by recorded
  name or by IP and tag, and its deletion is past the grace period and not exempt, one
  reconciliation ends without error and without a requeue after removing the finalizer, and
  leaves the state with \<open>z\<close> released: \<open>z\<close> is gone and off the load balancer, every other
  address is still there. The deletion is never refused.\<close>

theorem expired_ip_is_released:
  assumes "kGet e t PublicIPAddressKind key = Inr (PublicIPAddress p)"
    and "meta_deletion_timestamp (pip_meta p) \<noteq> None" "grace_elapsed e cfg p" "\<not> shouldNotClean p"
    and "containsFinalizer e (PublicIPAddress p) pip_FinalizerName"
    and "releases_finalizers e" "accepts_patches e" "answers_from e rg s0"
    and "azure_after rg s0 t = s" "wf_azure s" "references_intact s" "stands_for e s p z"
  shows "\<exists>p' es. Reconcile (pip_reconciler (NewPublicIPAddressUtils rg) cfg) key e t =
      (Returned (Inr empty_result), t @ es @ [KRemoveFinalizer (PublicIPAddress p') pip_FinalizerName None]) \<and>
    azure_after rg s es = release_addresses [z] s"
  using Reconcile_releases [OF assms(1-6,8,7), where z = z] assms(9-12) by (auto simp: Let_def)

theorem expired_ip_is_released_witness:
  "azs_ips (release_addresses [orphan_ip] two_ips) = [second_ip] \<and>
   map fc_id (lb_frontends (azs_lb (release_addresses [orphan_ip] two_ips))) = [Some ''fc-2''] \<and>
   (\<exists>p' es. Reconcile (pip_reconciler (NewPublicIPAddressUtils ''shoot'') pip_default_config)
        \<lparr>key_namespace = ''ns'', key_name = ''ip-1''\<rparr> two_ips_env [] =
      (Returned (Inr empty_result), [] @ es @ [KRemoveFinalizer (PublicIPAddress p') pip_FinalizerName None]) \<and>
    azure_after ''shoot'' two_ips es = release_addresses [orphan_ip] two_ips)"
proof (intro conjI)
  show "azs_ips (release_addresses [orphan_ip] two_ips) = [second_ip]"
    by (simp add: release_addresses_def two_ips_def, simp add: orphan_ip_def second_ip_def)
  have "map fc_id (lb_frontends (detach_public_ips example_lb [''/ip-1''])) = [Some ''fc-2'']" by code_simp
  then show "map fc_id (lb_frontends (azs_lb (release_addresses [orphan_ip] two_ips))) = [Some ''fc-2'']"
    by (simp add: release_addresses_def ip_ids_def two_ips_def orphan_ip_def)
qed (rule expired_ip_is_released [OF two_ips_env_simps(2) deleted_pip_facts(1) two_ips_env_facts(3)
      deleted_pip_facts(2) two_ips_env_facts(4,2,1) two_ips_answers _ two_ips_facts two_ips_env_facts(5)], simp)

text \<open>C6: One cleaning of the stand-alone remedy refines the release of all orphans at once:
  when the services can be listed and Azure answers from a state, it succeeds, and leaves the
  state with exactly the addresses released that belong to the shoot and whose IP no load
  balancer service has, in which there is no orphan any more. No deletion is refused, whatever
  the order of the addresses.\<close>

theorem cleaning_releases_orphans:
  assumes "answers_from e rg s0" "azure_after rg s0 t = s" "wf_azure s" "references_intact s"
    and "kListServices e t = Inr svcs"
  shows "\<exists>es. clean (NewPublicIPAddressUtils rg) shoot e t = (Returned None, t @ es) \<and>
    azure_after rg s es = release_addresses (azure_orphans shoot svcs s) s \<and>
    azure_orphans shoot svcs (azure_after rg s es) = []"
proof -
  have "azure_orphans shoot svcs (release_addresses (azure_orphans shoot svcs s) s) = []"
    by (simp add: azure_orphans_def [of _ _ "release_addresses _ _"] released_orphans filter_empty_conv)
  then show ?thesis
    using clean_releases [OF assms(1) _ _ assms(5), where shoot = shoot] assms(2-4) by (auto simp: Let_def)
qed

theorem cleaning_releases_orphans_witness:
  "\<exists>es. clean (NewPublicIPAddressUtils ''shoot'') ''ip'' two_ips_env [] = (Returned None, [] @ es) \<and>
    azs_ips (azure_after ''shoot'' two_ips es) = [second_ip]"
proof -
  let ?svcs = "[\<lparr>svc_meta = empty_meta, svc_type = ServiceTypeLoadBalancer, svc_ingress = [\<lparr>ingress_ip = ''5.6.7.8''\<rparr>]\<rparr>]"
  have "belongs_to ''ip'' orphan_ip" "orphan (concat (map service_ips ?svcs)) orphan_ip"
    "\<not> orphan (concat (map service_ips ?svcs)) second_ip" by code_simp+
  then have "azs_ips (release_addresses (azure_orphans ''ip'' ?svcs two_ips) two_ips) = [second_ip]"
    by (simp add: released_orphans two_ips_def)
  then show ?thesis
    using cleaning_releases_orphans [OF two_ips_answers azure_after_simps(1) two_ips_facts two_ips_env_simps(1), of "''ip''"]
    by auto
qed

section \<open>References\<close>

lemma always_moments:
  "azure_after rg s0 t = s \<Longrightarrow> azure_always rg P s es \<Longrightarrow> P (azure_after rg s0 (t @ take k es))"
  by (simp add: azure_always_iff)

lemma always_last:
  assumes "azure_always rg P s es" "\<not> write_request ev"
  shows "azure_always rg P s (es @ [ev])"
proof -
  have "P (azure_after rg s es)" using assms(1) unfolding azure_always_iff by (metis take_all order_refl)
  with assms show ?thesis by (simp add: azure_step_other)
qed

text \<open>C7: Cleaning never leaves a dangling reference, not even for a moment: when every address
  a frontend uses exists and every frontend a load balancing rule uses exists, this holds after
  every single event of a cleaning of the stand-alone remedy, with any number of orphans, and
  of the reconciliation that cleans an expired resource.\<close>

theorem references_never_dangle:
  assumes "answers_from e rg s0" "azure_after rg s0 t = s" "wf_azure s" "references_intact s"
    and "kListServices e t = Inr svcs"
    and "kGet e t PublicIPAddressKind key = Inr (PublicIPAddress p)"
    and "meta_deletion_timestamp (pip_meta p) \<noteq> None" "grace_elapsed e cfg p" "\<not> shouldNotClean p"
    and "containsFinalizer e (PublicIPAddress p) pip_FinalizerName"
    and "releases_finalizers e" "accepts_patches e" "stands_for e s p z"
  shows "(\<exists>es. clean (NewPublicIPAddressUtils rg) shoot e t = (Returned None, t @ es) \<and>
      (\<forall>k. references_intact (azure_after rg s0 (t @ take k es)))) \<and>
    (\<exists>es. Reconcile (pip_reconciler (NewPublicIPAddressUtils rg) cfg) key e t =
        (Returned (Inr empty_result), t @ es) \<and>
      (\<forall>k. references_intact (azure_after rg s0 (t @ take k es))))"
proof -
  obtain es where es: "clean (NewPublicIPAddressUtils rg) shoot e t = (Returned None, t @ es)"
    "azure_always rg references_intact s es"
    using clean_releases [OF assms(1) _ _ assms(5), where shoot = shoot] assms(2-4) by (auto simp: Let_def)
  obtain es' p' where es': "Reconcile (pip_reconciler (NewPublicIPAddressUtils rg) cfg) key e t =
      (Returned (Inr empty_result), t @ es' @ [KRemoveFinalizer (PublicIPAddress p') pip_FinalizerName None])"
    "azure_always rg references_intact s es'"
    using Reconcile_releases [OF assms(6-11,1,12), where z = z] assms(2-4,13) by (auto simp: Let_def)
  have "azure_always rg references_intact s (es' @ [KRemoveFinalizer (PublicIPAddress p') pip_FinalizerName None])"
    by (rule always_last [OF es'(2)]) simp
  with es es'(1) always_moments [OF assms(2)] show ?thesis by blast
qed

theorem references_never_dangle_witness:
  "(\<exists>es. clean (NewPublicIPAddressUtils ''shoot'') ''ip'' two_ips_env [] = (Returned None, [] @ es) \<and>
      (\<forall>k. references_intact (azure_after ''shoot'' two_ips ([] @ take k es)))) \<and>
   (\<exists>es. Reconcile (pip_reconciler (NewPublicIPAddressUtils ''shoot'') pip_default_config)
        \<lparr>key_namespace = ''ns'', key_name = ''ip-1''\<rparr> two_ips_env [] =
        (Returned (Inr empty_result), [] @ es) \<and>
      (\<forall>k. references_intact (azure_after ''shoot'' two_ips ([] @ take k es))))"
  by (rule references_never_dangle [OF two_ips_answers azure_after_simps(1) two_ips_facts two_ips_env_simps(1,2)
      deleted_pip_facts(1) two_ips_env_facts(3) deleted_pip_facts(2) two_ips_env_facts(4,2,1,5)])

section \<open>A backlog of resources\<close>

text \<open>A worker of the controller reconciles one request after the other.\<close>

fun reconcile_each :: "reconciler \<Rightarrow> object_key list \<Rightarrow> (goerr + result) list io" where
  "reconcile_each r [] = ret []"
| "reconcile_each r (key # keys) =
     seq (Reconcile r key) (\<lambda>res. seq (reconcile_each r keys) (\<lambda>results. ret (res # results)))"

text \<open>A resource that is to be cleaned, as the API server serves it, and its address.\<close>

definition to_be_cleaned :: "env \<Rightarrow> pip_config \<Rightarrow> azure_state \<Rightarrow> object_key \<Rightarrow> az_public_ip \<Rightarrow> bool" where
  "to_be_cleaned e cfg s key z \<longleftrightarrow> (\<exists>p.
     (\<forall>t. kGet e t PublicIPAddressKind key = Inr (PublicIPAddress p)) \<and>
     meta_deletion_timestamp (pip_meta p) \<noteq> None \<and> grace_elapsed e cfg p \<and> \<not> shouldNotClean p \<and>
     containsFinalizer e (PublicIPAddress p) pip_FinalizerName \<and> stands_for e s p z)"

text \<open>The addresses and frontends of a state from which the addresses \<open>zs\<close> are gone.\<close>

definition rid_of :: "az_public_ip list \<Rightarrow> azure_state \<Rightarrow> azure_state \<Rightarrow> bool" where
  "rid_of zs s s' \<longleftrightarrow> azs_ips s' = filter (\<lambda>z. z \<notin> set zs) (azs_ips s) \<and>
     lb_frontends (azs_lb s') = filter (\<lambda>fc. \<not> fc_uses (ip_ids zs) fc) (lb_frontends (azs_lb s))"

lemma ip_ids_Cons: "fc_uses (ip_ids (z # zs)) fc \<longleftrightarrow> fc_uses (ip_ids [z]) fc \<or> fc_uses (ip_ids zs) fc"
  by (auto simp: ip_ids_def fc_uses_def split: option.splits)

lemma rid_of_release: "rid_of zs (release_addresses [z] s) s' \<Longrightarrow> rid_of (z # zs) s s'"
  by (auto simp: rid_of_def release_addresses_def detached_frontends ip_ids_Cons [of z zs] intro!: filter_cong)

lemma release_wf: "wf_azure s \<Longrightarrow> wf_azure (release_addresses zs s)"
  using wf_detached [of s "filter (\<lambda>z. z \<notin> set zs) (azs_ips s)" "ip_ids zs"]
  by (cases s) (simp add: release_addresses_def)

lemma release_keeps:
  "to_be_cleaned e cfg s key z' \<Longrightarrow> z' \<noteq> z \<Longrightarrow> to_be_cleaned e cfg (release_addresses [z] s) key z'"
  unfolding to_be_cleaned_def stands_for_def release_addresses_def by auto

lemma backlog_drained:
  assumes env: "answers_from e rg s0" "accepts_patches e" "releases_finalizers e"
    and "wf_azure (azure_after rg s0 t)" "references_intact (azure_after rg s0 t)" "distinct zs"
    and "list_all2 (to_be_cleaned e cfg (azure_after rg s0 t)) keys zs"
  shows "\<exists>es. reconcile_each (pip_reconciler (NewPublicIPAddressUtils rg) cfg) keys e t =
      (Returned (map (\<lambda>_. Inr empty_result) keys), t @ es) \<and>
    (let s = azure_after rg s0 t in rid_of zs s (azure_after rg s es) \<and> references_intact (azure_after rg s es))"
  using assms(4-7)
proof (induction keys arbitrary: t zs)
  case Nil
  then show ?case
    by (auto simp: run_ret rid_of_def ip_ids_def fc_uses_def filter_empty_conv split: option.splits intro!: filter_True [symmetric])
next
  case (Cons key keys)
  let ?s = "azure_after rg s0 t" and ?r = "pip_reconciler (NewPublicIPAddressUtils rg) cfg"
  obtain z zs' where zs: "zs = z # zs'" "z \<notin> set zs'" "distinct zs'" "to_be_cleaned e cfg ?s key z"
    "list_all2 (to_be_cleaned e cfg ?s) keys zs'"
    using Cons.prems(3,4) by (cases zs) auto
  then obtain p where p: "kGet e t PublicIPAddressKind key = Inr (PublicIPAddress p)"
    "meta_deletion_timestamp (pip_meta p) \<noteq> None" "grace_elapsed e cfg p" "\<not> shouldNotClean p"
    "containsFinalizer e (PublicIPAddress p) pip_FinalizerName" "stands_for e ?s p z"
    unfolding to_be_cleaned_def by blast
  obtain p' es where run: "Reconcile ?r key e t =
      (Returned (Inr empty_result), t @ es @ [KRemoveFinalizer (PublicIPAddress p') pip_FinalizerName None])"
    "azure_after rg ?s es = release_addresses [z] ?s" "azure_always rg references_intact ?s es"
    using Reconcile_releases [OF p(1-5) env(3,1,2) Cons.prems(1,2) p(6)] unfolding Let_def by blast
  let ?es = "es @ [KRemoveFinalizer (PublicIPAddress p') pip_FinalizerName None]"
  have at: "azure_after rg s0 (t @ ?es) = release_addresses [z] ?s" using run(2) by simp
  have "references_intact (release_addresses [z] ?s)"
    using run(3) unfolding azure_always_iff by (metis run(2) take_all order_refl)
  moreover have "list_all2 (to_be_cleaned e cfg (release_addresses [z] ?s)) keys zs'"
    using zs(2,5) by (auto simp: list_all2_conv_all_nth intro!: release_keeps)
  ultimately obtain es' where es': "reconcile_each ?r keys e (t @ ?es) =
      (Returned (map (\<lambda>_. Inr empty_result) keys), (t @ ?es) @ es')"
    "rid_of zs' (release_addresses [z] ?s) (azure_after rg (release_addresses [z] ?s) es')"
    "references_intact (azure_after rg (release_addresses [z] ?s) es')"
    using Cons.IH [of "t @ ?es" zs'] zs(3) release_wf [OF Cons.prems(1)] unfolding at Let_def by auto
  with run(1,2) rid_of_release zs(1) show ?case
    by (intro exI [of _ "?es @ es'"]) (simp add: seq_run_Returned run_ret Let_def)
qed

text \<open>C5: A backlog of resources is drained. When a worker reconciles any number of resources that are
  to be cleaned, each standing for a different address, one after the other, against an Azure
  that answers from a state, every reconciliation ends without error and without a requeue, and
  in the end exactly the addresses of these resources are gone, exactly the frontends that used
  them are off the load balancer, and all references are intact.\<close>

theorem backlog_is_drained:
  assumes "answers_from e rg s0" "accepts_patches e" "releases_finalizers e"
    and "azure_after rg s0 t = s" "wf_azure s" "references_intact s"
    and "distinct zs" "list_all2 (to_be_cleaned e cfg s) keys zs"
  shows "\<exists>es. reconcile_each (pip_reconciler (NewPublicIPAddressUtils rg) cfg) keys e t =
      (Returned (map (\<lambda>_. Inr empty_result) keys), t @ es) \<and>
    azs_ips (azure_after rg s es) = filter (\<lambda>z. z \<notin> set zs) (azs_ips s) \<and>
    lb_frontends (azs_lb (azure_after rg s es)) =
      filter (\<lambda>fc. \<not> fc_uses (ip_ids zs) fc) (lb_frontends (azs_lb s)) \<and>
    references_intact (azure_after rg s es)"
  using backlog_drained [OF assms(1-3), of t zs cfg keys] assms(4-8) by (auto simp: Let_def rid_of_def)

theorem backlog_is_drained_witness:
  "\<exists>es. reconcile_each (pip_reconciler (NewPublicIPAddressUtils ''shoot'') pip_default_config)
      [\<lparr>key_namespace = ''ns'', key_name = ''ip-1''\<rparr>] two_ips_env [] = (Returned [Inr empty_result], [] @ es) \<and>
    azs_ips (azure_after ''shoot'' two_ips es) = [second_ip]"
proof -
  have "to_be_cleaned two_ips_env pip_default_config two_ips key orphan_ip" for key
    unfolding to_be_cleaned_def using two_ips_env_simps(2) two_ips_env_facts(3-5) deleted_pip_facts(1,2) by blast
  then have cleaned: "list_all2 (to_be_cleaned two_ips_env pip_default_config two_ips)
      [\<lparr>key_namespace = ''ns'', key_name = ''ip-1''\<rparr>] [orphan_ip]" by simp
  have "filter (\<lambda>z. z \<notin> set [orphan_ip]) (azs_ips two_ips) = [second_ip]"
    by (simp add: two_ips_def, simp add: orphan_ip_def second_ip_def)
  with backlog_is_drained [OF two_ips_answers two_ips_env_facts(1,2) azure_after_simps(1) two_ips_facts _ cleaned]
  show ?thesis by auto
qed

section \<open>Nothing to clean\<close>

text \<open>C15: The daily cleaning is not idempotent. When no address of the shoot is an orphan, no
  listing and no write fails and the process is not stopped, the loop of the stand-alone remedy
  changes nothing but the probes, and these more and more: after \<open>n\<close> days the load balancer has
  \<open>k ^ n\<close> copies of every probe with \<open>k\<close> rules, so probes without rules are gone after the
  first day, probes of one rule stay, and a probe two rules share is doubled every day.\<close>

theorem shared_probes_double_daily:
  assumes "answers_from e rg s0" "azure_after rg s0 t = s" "wf_azure s" "references_intact s"
    and "\<And>t. kListServices e t = Inr svcs" "\<And>t. \<not> ctxDone e t" "azure_orphans shoot svcs s = []"
  shows "\<exists>es. CleanPublicIps n (NewPublicIPAddressUtils rg) shoot retry e t = (OutOfFuel, t @ es) \<and>
    azure_after rg s es = s\<lparr>azs_lb := (azs_lb s)\<lparr>lb_probes := map_option
      (\<lambda>ps. concat (map (\<lambda>p. replicate (rule_count p ^ n) p) ps)) (lb_probes (azs_lb s))\<rparr>\<rparr>"
  using idle_days [OF assms(1,5,6), of t shoot n retry] assms(2-4,7)
  by (auto simp: Let_def repeat_probes_def)

text \<open>A month with the load balancer of two probes, one of them with two rules.\<close>

theorem shared_probes_double_daily_witness:
  "\<exists>es ps. snd (CleanPublicIps 30 (NewPublicIPAddressUtils ''shoot'') ''other'' 0 two_ips_env []) = [] @ es \<and>
    lb_probes (azs_lb (azure_after ''shoot'' two_ips es)) = Some ps \<and> length ps = 1 + 2 ^ 30"
proof -
  let ?svcs = "[\<lparr>svc_meta = empty_meta, svc_type = ServiceTypeLoadBalancer, svc_ingress = [\<lparr>ingress_ip = ''5.6.7.8''\<rparr>]\<rparr>]"
  have "\<not> belongs_to ''other'' orphan_ip" "\<not> belongs_to ''other'' second_ip" by code_simp+
  then have "azure_orphans ''other'' ?svcs two_ips = []" by (simp add: azure_orphans_def two_ips_def)
  from shared_probes_double_daily [OF two_ips_answers azure_after_simps(1) two_ips_facts two_ips_env_simps(1,3) this,
      of 30 0]
  obtain es where es: "CleanPublicIps 30 (NewPublicIPAddressUtils ''shoot'') ''other'' 0 two_ips_env [] = (OutOfFuel, [] @ es)"
    "lb_probes (azs_lb (azure_after ''shoot'' two_ips es)) = map_option
      (\<lambda>ps. concat (map (\<lambda>p. replicate (rule_count p ^ 30) p) ps)) (lb_probes example_lb)"
    by (auto simp: two_ips_def)
  obtain ps where ps: "lb_probes example_lb = Some ps" "map rule_count ps = [1, 2]"
    by (simp add: example_lb_def rule_count_def)
  have "length (concat (map (\<lambda>p. replicate (rule_count p ^ n) p) ps)) = (\<Sum>k \<leftarrow> map rule_count ps. k ^ n)" for n
    by (simp add: length_concat comp_def)
  then have "length (concat (map (\<lambda>p. replicate (rule_count p ^ 30) p) ps)) = 1 + 2 ^ 30"
    unfolding ps(2) by simp
  moreover have "lb_probes (azs_lb (azure_after ''shoot'' two_ips es)) =
      Some (concat (map (\<lambda>p. replicate (rule_count p ^ 30) p) ps))"
    unfolding es(2) ps(1) option.map by (rule refl)
  moreover have "snd (CleanPublicIps 30 (NewPublicIPAddressUtils ''shoot'') ''other'' 0 two_ips_env []) = [] @ es"
    unfolding es(1) by (rule snd_conv)
  ultimately show ?thesis by blast
qed

end
