(* ===== verification/Configuration_Codec.thy ===== *)
theory Configuration_Codec
  imports Scheme_Properties
begin

text \<open>
  The codec of the configuration loader (\<open>pkg/apis/config/helper/helper.go\<close>): the \<open>init\<close> function
  that builds it, and why \<open>Load\<close> of \<open>Configuration\<close> converts the way it does.
\<close>

section \<open>Building the codec\<close>

text \<open>A codec knows the scheme it was built for, the version it encodes into and the one it decodes into.\<close>

record codec =
  codec_scheme :: "scheme_call list"
  codec_encode_version :: group_version
  codec_decode_version :: string

text \<open>\<open>utilruntime.Must\<close> panics for an error, which is \<open>None\<close> here: the process does not start.\<close>

definition helper_init :: "scheme_builder \<Rightarrow> (scheme_call \<Rightarrow> goerr option) \<Rightarrow> codec option" where
  "helper_init AddToScheme refuse =
     (case config_install AddToScheme refuse of
        (calls, Some err) \<Rightarrow> None
      | (calls, None) \<Rightarrow>
          Some \<lparr>codec_scheme = calls,
            codec_encode_version = \<lparr>gv_group = '''', gv_version = ''v1alpha1''\<rparr>,
            codec_decode_version = ''__internal''\<rparr>)"

section \<open>Loading with it\<close>

text \<open>
  \<open>codec.Decode\<close> of the library, with the default kind and the object to decode into, is a parameter. Its
  documentation: it deserializes the text and, if that gives a value of another version than the
  object to decode into, converts it into this object.
\<close>

type_synonym decoder = "codec \<Rightarrow> string \<Rightarrow> group_version \<times> string \<Rightarrow> api_value \<Rightarrow> goerr + api_value"

definition lawful_decoder :: "(scheme_call list \<Rightarrow> conversion) \<Rightarrow> (string \<Rightarrow> goerr + api_value) \<Rightarrow> decoder \<Rightarrow> bool" where
  "lawful_decoder Convert deserialize Decode \<longleftrightarrow>
     (\<forall>c text gvk into.
        (\<forall>err. deserialize text = Inl err \<longrightarrow> Decode c text gvk into = Inl err) \<and>
        (\<forall>a b. deserialize text = Inr a \<and> Convert (codec_scheme c) a into = Some b \<longrightarrow>
           Decode c text gvk into = Inr b))"

definition Load_with :: "decoder \<Rightarrow> codec \<Rightarrow> string \<Rightarrow> (goerr + controller_configuration) option" where
  "Load_with Decode c text =
     (if text = [] then Some (Inr empty_configuration)
      else (case Decode c text (\<lparr>gv_group = '''', gv_version = ''v1alpha1''\<rparr>, ''Config'')
             (IntControllerConfigurationValue empty_configuration) of
          Inl err \<Rightarrow> Some (Inl err)
        | Inr (IntControllerConfigurationValue cfg) \<Rightarrow> Some (Inr cfg)
        | Inr _ \<Rightarrow> None))"

lemma init_installs:
  "lawful_builder AddToScheme \<Longrightarrow> (\<And>c. refuse c = None) \<Longrightarrow>
   map_option codec_scheme (helper_init AddToScheme refuse) = Some config_calls"
  by (simp add: helper_init_def config_install_accepted)

text \<open>
  The codec that \<open>init\<close> builds makes \<open>Load\<close> of every text that deserializes to a configuration of
  version v1alpha1, or to an error, what it is in \<open>Configuration\<close>.
\<close>

lemma Load_converts_by_the_scheme:
  assumes "lawful_builder AddToScheme" "\<And>c. refuse c = None" "helper_init AddToScheme refuse = Some c"
    and "lawful_convert Convert" "lawful_decoder Convert deserialize Decode"
    and same: "deserialize text = (case decodeConfig fe text of
        Inl err \<Rightarrow> Inl err
      | Inr (DecodedConfiguration v) \<Rightarrow> Inr (V1ControllerConfigurationValue v)
      | Inr DecodedOther \<Rightarrow> other)" "decodeConfig fe text \<noteq> Inr DecodedOther"
  shows "Load_with Decode c text = Load fe text"
proof -
  have "codec_scheme c = config_calls"
    using init_installs [OF assms(1), of refuse] assms(2,3) by simp
  moreover have "registered_conversion config_calls (V1alpha1, ControllerConfigurationStruct)
      (InternalVersion, ControllerConfigurationStruct) =
      Some (asserting (V1alpha1, ControllerConfigurationStruct) (InternalVersion, ControllerConfigurationStruct))"
    by (rule config_registered) (simp_all add: config_structs_def)
  ultimately have "Convert (codec_scheme c) (V1ControllerConfigurationValue v) (IntControllerConfigurationValue x) =
      Some (IntControllerConfigurationValue (Convert_v1_configuration v x))" for v x
    using assms(4) by (simp add: lawful_convert_def asserting_def)
  then have conv: "deserialize text = Inr (V1ControllerConfigurationValue v) \<Longrightarrow>
      Decode c text gvk (IntControllerConfigurationValue x) =
      Inr (IntControllerConfigurationValue (Convert_v1_configuration v x))" for v x gvk
    using assms(5) unfolding lawful_decoder_def by blast
  have err: "deserialize text = Inl err \<Longrightarrow> Decode c text gvk into = Inl err" for err gvk into
    using assms(5) unfolding lawful_decoder_def by blast
  show ?thesis
    using same conv err
    by (cases "decodeConfig fe text") (auto simp: Load_with_def Load_def split: decoded.splits)
qed

end
