(* ===== verification/Spec2Isabelle.thy ===== *)
theory Spec2Isabelle
  imports Pip_Properties Vm_Properties Service_Properties Predicate_Properties Orphan_Properties
    Utils_Properties Setup_Properties Lifecycle Status_Types Duties Running_System
    Simulator_Properties Deep_Copy_Properties Scheme_Properties Change_Propagation
    Outages Node_Lifecycle Applier_Process Self_Healing
    Azure_Refinement Configuration_Codec
begin

text \<open>
  The remedy controller for Azure: the controllers that watch the services and nodes of a target
  cluster, track their load balancer IPs and machines as publicipaddress and virtualmachine
  resources in a control cluster, remove orphaned public IP addresses from Azure and reapply
  failed virtual machines; and the stand-alone remedy that cleans orphaned addresses once a day.

  \<^bold>\<open>Parts and how they interact.\<close> A watch delivers events, a predicate drops the irrelevant ones, the
  generic reconciler fetches the object and calls one of four actuators under a finalizer. The
  service and node actuators write the custom resources; the publicipaddress and virtualmachine
  actuators look at Azure through the Azure utilities and write what they find, and the failed
  operations with their attempts, into the status. Labels lead from a resource back to its owner.

  \<^bold>\<open>How it is modelled.\<close> An operation of the program is a function from an environment and a history to
  an outcome and a longer history (\<open>Effects\<close>). The environment answers every call to Azure,
  Kubernetes, the clock and the libraries; it may answer differently every time, from the whole
  history. An event of the history is a call with its answer. Errors are values (\<open>Inl\<close>, or
  \<open>Some\<close> where Go returns only an error), a nil dereference is the outcome \<open>Panicked\<close>. Pointers
  to resources that the Go code mutates are passed along and returned. \<open>yields\<close> states what an
  operation returns and appends, for every history and every answer.

  \<^bold>\<open>Theories.\<close>
  \<^item> \<open>Remedy_Prelude\<close>: 64-bit integers and durations with their wrap-around, the functions of Go's
    \<open>strings\<close> package, maps with a nil value.
  \<^item> \<open>Api_Types\<close>: errors, custom resources (\<open>pkg/apis/azure/v1alpha1\<close>), configuration of the remedies,
    the fields of Kubernetes and Azure objects the code uses. \<open>Api_Conversions\<close>: the internal resource
    types and their conversions (\<open>pkg/apis/azure\<close>), with the type information of objects, which
    the other theories leave out because nothing there reads or writes it.
  \<^item> \<open>Effects\<close>: environment, events, histories, sequencing, retry on conflict, the rules of \<open>yields\<close>.
    \<open>Retries\<close>: a locale for operations that are called again after a failure, with the doubling of the
    interval and the limit. \<open>Example_Env\<close>: an environment for concrete runs.
  \<^item> \<open>Failed_Operations\<close>: \<open>types_common.go\<close>, the list of failed operations as a counter per type.
  \<^item> \<open>Load_Balancer\<close>, \<open>Azure_Pip_Utils\<close>, \<open>Azure_Vm_Utils\<close>: \<open>pkg/utils/azure\<close>. The interfaces are records
    of operations, their contracts the locales \<open>pip_utils_contract\<close> and \<open>vm_utils_contract\<close>,
    interpreted on the implementations (\<open>azure_pips\<close>, \<open>azure_vms\<close>); what is proved of the actuators and of
    the stand-alone remedy is proved from the contracts.
  \<^item> \<open>Object_Labeler\<close>: \<open>pkg/controller/utils.go\<close>, with a locale for sound labelers and its two instances.
  \<^item> \<open>Reconciler\<close>: \<open>pkg/controller/reconciler.go\<close>. The locale \<open>actuator_contract\<close> says what an actuator may
    do and which objects it wants finalized; the exact place of the finalizer calls in every
    reconciliation (\<open>disciplined\<close>) follows for all four (\<open>pip_act\<close>, \<open>vm_act\<close>, \<open>svc_act\<close>, \<open>node_act\<close>).
  \<^item> \<open>Pip_Actuator\<close>, \<open>Pip_Guarantees\<close>, \<open>Pip_Controller\<close>, \<open>Pip_Properties\<close>:
    \<open>pkg/controller/azure/publicipaddress\<close>; operations, what they write and when, retries, properties.
  \<^item> \<open>Vm_Actuator\<close>, \<open>Vm_Controller\<close>, \<open>Vm_Properties\<close>: \<open>pkg/controller/azure/virtualmachine\<close>.
  \<^item> \<open>Service_Actuator\<close>, \<open>Node_Actuator\<close>, \<open>Service_Controller\<close>, \<open>Service_Properties\<close>:
    \<open>pkg/controller/azure/service\<close> and \<open>node\<close>. A retried call works on a variable of its caller;
    \<open>tried\<close> follows that variable through the tries, so \<open>published\<close> and \<open>released\<close> speak of the one
    resource of an IP and of each single listed resource.
  \<^item> \<open>Predicates\<close>, \<open>Predicate_Properties\<close>: the event filters over streams of events with an expiring
    cache; the locale \<open>change_filter\<close> has the service and the node predicate as instances.
    \<open>Change_Propagation\<close>: the service filter and the service actuator together.
  \<^item> \<open>Orphan_Cleaner\<close>, \<open>Orphan_Properties\<close>: \<open>pkg/remedies/azure/pubip.go\<close>.
  \<^item> \<open>Configuration\<close>, \<open>Clients\<close>, \<open>Setup\<close>, \<open>Setup_Properties\<close>: configuration, creating the clients, adding
    the controllers to the managers, and the two commands (\<open>pkg/apis/config\<close>, \<open>pkg/cmd\<close>, \<open>pkg/client\<close>,
    \<open>cmd/remedy-controller-azure\<close>, \<open>cmd/remedy-applier-azure\<close>).
    \<open>Command_Line\<close>: the flags both commands define, the values they hand to the commands of \<open>Setup\<close>,
    metrics and exit codes (both \<open>main.go\<close>, \<open>commands\<close>, \<open>AddFlags\<close> of \<open>pkg/cmd\<close>, \<open>pkg/version\<close>).
    \<open>Applier_Process\<close>: the process of the stand-alone remedy until a signal or a panic ends it.
  \<^item> \<open>Utils_Properties\<close>: the properties of the utilities, labels and failed operations.
  \<^item> \<open>Pip_Cleaning\<close>, \<open>Lifecycle\<close>: what the publicipaddress controller achieves when Azure and the API
    server answer, and the way of an address through the two controllers that share its resource.
    \<open>Outages\<close>: a resource that is reconciled again and again while Azure is out of reach.
  \<^item> \<open>Azure_State\<close>, \<open>Azure_Refinement\<close>: the addresses and the load balancer of a resource group as a state
    that the accepted writes of a history change, an Azure that answers from it, and the two ways to
    clean an address as refinements of one abstract operation, \<open>release_addresses\<close>.
  \<^item> \<open>Node_Lifecycle\<close>: from a node to its repaired machine, through the node and the virtualmachine
    controller. \<open>Self_Healing\<close>: the watches of the service controller and the reconciliations they ask for,
    when somebody deletes a resource whose service lives, or a resource is left without its service.
  \<^item> \<open>Status_Types\<close>: the type of the statuses, beyond the Go types, that the controllers keep.
  \<^item> \<open>Duties\<close>: the vocabulary of calls of each of the four controllers.
  \<^item> \<open>Running_System\<close>: the started command as a step relation, any number of reconciliations with
    their calls interleaved; the locale \<open>local_guard\<close> carries a guard of single reconciliations over to
    the system (\<open>command_guard\<close>).
  \<^item> \<open>Simulators\<close>, \<open>Simulator_Properties\<close>: \<open>cmd/failedvm-simulator-azure\<close> and
    \<open>cmd/disknotfound-simulator-azure\<close>, with an environment and events of their own.
  \<^item> \<open>Go_Memory\<close>: memory with pointers and slices, the locale \<open>deep_copy\<close> and how deep copies of fields,
    pointers and slices combine. \<open>Deep_Copies\<close> (\<open>pkg/apis/azure/v1alpha1\<close>, \<open>pkg/apis/config\<close>),
    \<open>Deep_Copies_Internal\<close> (\<open>pkg/apis/azure\<close>, \<open>pkg/apis/config/v1alpha1\<close>), \<open>Deep_Copy_Properties\<close>: the
    generated deep copies, related to the values used everywhere else.
  \<^item> \<open>Scheme_Registration\<close>, \<open>Scheme_Properties\<close>: \<open>register.go\<close>, \<open>install.go\<close> and \<open>RegisterConversions\<close> of both
    packages, over a scheme that may refuse calls. \<open>Configuration_Codec\<close>: the codec of the configuration
    loader (\<open>init\<close> of \<open>pkg/apis/config/helper\<close>), and that loading with it converts as \<open>Load\<close> does.

  \<^bold>\<open>What the lemmas show.\<close> Safety: which writes may be sent to Azure and to the API server, and what
  must have happened before (\<open>guarded\<close> with \<open>delete_guard\<close>, \<open>reapply_guard\<close>, \<open>release_guard\<close>, \<open>clean_guard\<close>).
  Completeness: what a successful operation has achieved. Refinement: what a run makes of the
  state of Azure, and that every state on the way is one without dangling references. Retries: how often, after which
  intervals, and what giving up means. Filters: a dropped update changes nothing the actuator
  would act on; of a service without load balancer IPs that excepts its deletion timestamp and its
  ignore flag. Some
  properties state what the code does where that is surprising: giving up on a deletion leaks the
  address, omitted settings are zero, timestamps are compared as pointers, backoffs wrap, two
  cleanings at the same time undo each other, a regained address is still cleaned.

  \<^bold>\<open>Bounds and fuel.\<close> Listings are followed for at most \<open>pageFuel\<close> pages; a listing of fewer pages is
  followed to its end (\<open>get_by_ip_complete\<close>), and the safety properties hold for every bound.
  The loop of the stand-alone remedy takes a bound on its iterations; that it does not return is
  proved for every bound. The polling loop of the simulator takes the number of polls that fit into
  its timeout. \<open>retrySteps\<close> is the number of retries of the client library's backoff, which
  is a parameter. All other recursion is structural. Attempts are 64-bit integers; the
  theorems about retries bound them by \<open>2 ^ 62\<close> where a counter must not wrap.

  \<^bold>\<open>Not modelled.\<close> An Azure answer without the embedded properties of its object, on which the code
  would panic: a load balancer, an address and a machine are flat records, so the model takes it
  that Azure's answers carry them; absent fields within the properties are modelled. Log messages; what happens inside the managers of controller-runtime after they are
  started, except for the interleaving of reconciliations: leader election, caches and work
  queues are the library's; how the command library parses flags and dispatches to subcommands,
  which is a parameter; the seconds a stopped applier waits, of which only is modelled that the
  loop may get on or not; the mocks.
\<close>

section \<open>From the command line to the safety of a reconciliation\<close>

lemma reconciler_kinds:
  "rc_kind (pip_reconciler u cfg) = PublicIPAddressKind" "rc_kind (vm_reconciler w cfg') = VirtualMachineKind"
  by (simp_all add: pip_reconciler_def vm_reconciler_def)

text \<open>Whatever command line and files the controller is started with: every reconciliation
  of every controller it adds to the control cluster's manager is guarded. A publicipaddress
  reconciliation sends at most two Azure writes and deletes an address only past the grace
  period of the effective configuration (the file's section, or the default), a virtualmachine
  reconciliation sends at most one write, a reapply of a machine it has seen failed.\<close>

lemma started_reconciliations_guarded:
  assumes "switches_sound se" "run se fl = Running control target" "c \<in> set control"
  shows "\<exists>cfg. buildConfig se (fl_config_file fl) = Some (Inr cfg) \<and>
    (\<forall>e key.
      (rc_kind (ad_reconciler c) = PublicIPAddressKind \<and>
       yields e (Reconcile (ad_reconciler c) key)
         (\<lambda>_ es. guarded_writes (ApplyAzureOrphanedPublicIPRemedy cfg pip_default_config) es)) \<or>
      (rc_kind (ad_reconciler c) = VirtualMachineKind \<and>
       yields e (Reconcile (ad_reconciler c) key) (\<lambda>_ es. guarded_reapply es)))"
proof -
  obtain cfg where cfg: "buildConfig se (fl_config_file fl) = Some (Inr cfg)" and
    c: "\<exists>rg. ad_reconciler c = pip_reconciler (NewPublicIPAddressUtils rg)
          (ApplyAzureOrphanedPublicIPRemedy cfg pip_default_config) \<or>
        ad_reconciler c = vm_reconciler (NewVirtualMachineUtils rg)
          (ApplyAzureFailedVMRemedy cfg vm_default_config)"
    by (rule control_added [OF assms(1,2)], rule that, assumption) (use assms(3) in blast)
  from c obtain rg where "ad_reconciler c = pip_reconciler (NewPublicIPAddressUtils rg)
          (ApplyAzureOrphanedPublicIPRemedy cfg pip_default_config) \<or>
        ad_reconciler c = vm_reconciler (NewVirtualMachineUtils rg)
          (ApplyAzureFailedVMRemedy cfg vm_default_config)" ..
  then show ?thesis
    using cfg azure_pips.Reconcile_guarded_writes azure_vms.Reconcile_guarded_reapply
      reconciler_kinds by auto
qed

text \<open>C30: A section of the configuration file replaces all defaults of its remedy: a setting it
  omits is 0, not the default. With \<open>maxGetAttempts\<close> omitted, the first failed lookup on a
  deletion is already the last one: the reconciler removes the finalizer, and the public IP
  address is neither deleted nor looked at again.\<close>

theorem omitted_attempts_give_up_at_once:
  assumes "LoadFromFile se path = Some (Inr cfg)" "readFile se (filepath_Clean path) = Inr text"
    and "text \<noteq> []" "decodeConfig se text = Inr (DecodedConfiguration v)" "v1_cc_azure v = Some az"
    and "v1_ac_orphaned_public_ip_remedy az = Some s" "v1_pc_max_get_attempts s = 0"
    and "pip_lookups_fail e rg" "accepts_patches e" "get_attempts p = of_nat 0"
    and "containsFinalizer e (PublicIPAddress p) pip_FinalizerName"
  shows "\<exists>es p' err res. delete (pip_reconciler (NewPublicIPAddressUtils rg)
        (ApplyAzureOrphanedPublicIPRemedy cfg pip_default_config)) (PublicIPAddress p) e t =
      (Returned res, t @ es @ [KRemoveFinalizer (PublicIPAddress p') pip_FinalizerName err]) \<and>
    list_all quiet_event es"
proof -
  have "pc_max_get_attempts (ApplyAzureOrphanedPublicIPRemedy cfg pip_default_config) = 0"
    using assms(6,7) by (simp add: apply_section [OF assms(1-5)] Convert_v1_pip_config_def)
  then have "\<not> go_less (of_nat (Suc 0))
      (pc_max_get_attempts (ApplyAzureOrphanedPublicIPRemedy cfg pip_default_config))"
    by (simp add: go_less_def)
  from delete_gives_up_run [OF assms(8-10) _ this assms(11)] show ?thesis by fastforce
qed

definition finalized_pip :: public_ip_address where
  "finalized_pip = (new_pip ''ns'' ''ip-1'')
     \<lparr>pip_meta := empty_meta\<lparr>meta_name := ''ip-1'', meta_finalizers := [pip_FinalizerName]\<rparr>\<rparr>"

theorem omitted_attempts_give_up_at_once_witness:
  "\<exists>cfg es p' err res. LoadFromFile example_setup ''/etc/config'' = Some (Inr cfg) \<and>
     delete (pip_reconciler (NewPublicIPAddressUtils ''shoot'')
        (ApplyAzureOrphanedPublicIPRemedy cfg pip_default_config)) (PublicIPAddress finalized_pip) unreadable_env [] =
      (Returned res, [] @ es @ [KRemoveFinalizer (PublicIPAddress p') pip_FinalizerName err]) \<and>
     list_all quiet_event es"
proof -
  let ?file = "''contents of '' @ filepath_Clean ''/etc/config''"
  have read: "readFile example_setup (filepath_Clean ''/etc/config'') = Inr ?file"
    and decode: "decodeConfig example_setup ?file = Inr (DecodedConfiguration example_file)"
    by (simp_all add: example_setup_def)
  obtain az where az: "v1_cc_azure example_file = Some az"
      "v1_ac_orphaned_public_ip_remedy az = Some example_section" "v1_pc_max_get_attempts example_section = 0"
    by (simp add: example_file_def example_section_def)
  obtain cfg where load: "LoadFromFile example_setup ''/etc/config'' = Some (Inr cfg)"
    using read decode by (simp add: LoadFromFile_def Load_def)
  have "get_attempts finalized_pip = of_nat 0"
      "containsFinalizer unreadable_env (PublicIPAddress finalized_pip) pip_FinalizerName"
    by (simp_all add: finalized_pip_def new_pip_def empty_pip_status_def get_attempts_def
        getFailedOperations_def attempts_of_def unreadable_env_def)
  from omitted_attempts_give_up_at_once [OF load read _ decode az unreadable_env_facts this] load
  show ?thesis by blast
qed

end
